(* ===== verification/Prelude.thy ===== *)
theory Prelude
  imports Main "HOL-Library.AList" "HOL-Library.Word"
begin

text \<open>
  What the components share: effectful code as functions over the history of its external
  calls, a weakest-precondition calculus and a confinement calculus for such code, and the
  generic facts on histories, association lists and option results.

  A Go function that talks to the outside (the API server, a remote host, the clock) is modelled
  as a value of \<open>('e, 'a) io\<close>: from the history of the calls made so far (most recent first)
  it computes
    \<^item> \<open>Some (Ret x h)\<close>: it returned \<open>x\<close>, and the history is now \<open>h\<close>;
    \<^item> \<open>Some (Crash msg h)\<close>: a Go panic that nobody has recovered yet;
    \<^item> \<open>None\<close>: it does not return.
  The answer of an external call is a function of the history up to and including the call
  (\<open>ask\<close>), so a theorem for every such function covers every behaviour of the outside,
  answers that change between two identical calls included.
\<close>

named_theorems wp_rules \<open>weakest preconditions of effectful code\<close>
named_theorems confined_rules \<open>which calls effectful code can make\<close>
named_theorems run_simps \<open>how a run that returned went\<close>
named_theorems total_rules \<open>effectful code that always returns\<close>

section \<open>Effectful code\<close>

datatype ('e, 'a) outcome = Ret 'a "'e list" | Crash string "'e list"

type_synonym ('e, 'a) io = "'e list \<Rightarrow> ('e, 'a) outcome option"

definition ret :: "'a \<Rightarrow> ('e, 'a) io" where
  "ret x = (\<lambda>h. Some (Ret x h))"

definition crash :: "string \<Rightarrow> ('e, 'a) io" where
  "crash msg = (\<lambda>h. Some (Crash msg h))"

definition ask :: "'e \<Rightarrow> ('e list \<Rightarrow> 'a) \<Rightarrow> ('e, 'a) io" where
  "ask e resp = (\<lambda>h. Some (Ret (resp (e # h)) (e # h)))"

definition tell :: "'e \<Rightarrow> ('e, unit) io" where
  "tell e = ask e (\<lambda>_. ())"

definition bindM :: "('e, 'a) io \<Rightarrow> ('a \<Rightarrow> ('e, 'b) io) \<Rightarrow> ('e, 'b) io" where
  "bindM m k = (\<lambda>h. case m h of
      None \<Rightarrow> None
    | Some (Ret x h') \<Rightarrow> k x h'
    | Some (Crash msg h') \<Rightarrow> Some (Crash msg h'))"

definition thenM :: "('e, 'a) io \<Rightarrow> ('e, 'b) io \<Rightarrow> ('e, 'b) io" where
  "thenM m n = bindM m (\<lambda>_. n)"

text \<open>\<^verbatim>\<open>defer e()\<close> for a call \<open>e\<close> whose result is dropped: it runs on return and on panic.\<close>

definition deferM :: "'e \<Rightarrow> ('e, 'a) io \<Rightarrow> ('e, 'a) io" where
  "deferM e m = (\<lambda>h. case m h of
      None \<Rightarrow> None
    | Some (Ret x h') \<Rightarrow> Some (Ret x (e # h'))
    | Some (Crash msg h') \<Rightarrow> Some (Crash msg (e # h')))"

text \<open>
  \<^verbatim>\<open>defer func() { if err := recover(); err != nil { ... } }()\<close>: a panic ends here and the
  function returns the zero values of its results.
\<close>

definition recoverM :: "'a \<Rightarrow> ('e, 'a) io \<Rightarrow> ('e, 'a) io" where
  "recoverM zero m = (\<lambda>h. case m h of
      None \<Rightarrow> None
    | Some (Ret x h') \<Rightarrow> Some (Ret x h')
    | Some (Crash msg h') \<Rightarrow> Some (Ret zero h'))"

lemmas io_defs = ret_def crash_def ask_def tell_def bindM_def thenM_def deferM_def recoverM_def

lemma bindM_ret [simp]: "bindM (ret x) k = k x"
  by (simp add: io_defs)

lemma bindM_crash [simp]: "bindM (crash msg) k = crash msg"
  by (simp add: io_defs)

lemma bindM_ret_right [simp]: "bindM m ret = m"
  by (rule ext) (simp add: io_defs split: option.splits outcome.splits)

lemma bindM_assoc: "bindM (bindM m k) l = bindM m (\<lambda>x. bindM (k x) l)"
  by (rule ext) (simp add: io_defs split: option.splits outcome.splits)

lemma bindM_ask: "bindM (ask e f) k h = k (f (e # h)) (e # h)"
  by (simp add: io_defs)

lemma bindM_run: "m h = Some (Ret x h1) \<Longrightarrow> bindM m k h = k x h1"
  by (simp add: bindM_def)

lemma recoverM_crash [simp]: "recoverM z (crash msg) = ret z"
  by (simp add: io_defs)

lemma recoverM_ret [simp]: "recoverM z (ret x) = ret x"
  by (simp add: io_defs)

section \<open>Weakest preconditions\<close>

text \<open>
  \<open>wp m Q R h\<close>: run from \<open>h\<close>, a return of \<open>m\<close> satisfies \<open>Q\<close> and a panic satisfies \<open>R\<close>.
  It says nothing when \<open>m\<close> does not return; \<open>returns m h\<close> says that it does.
\<close>

definition wp :: "('e, 'a) io \<Rightarrow> ('a \<Rightarrow> 'e list \<Rightarrow> bool) \<Rightarrow> (string \<Rightarrow> 'e list \<Rightarrow> bool) \<Rightarrow> 'e list \<Rightarrow> bool" where
  "wp m Q R h = (case m h of
      None \<Rightarrow> True
    | Some (Ret x h') \<Rightarrow> Q x h'
    | Some (Crash msg h') \<Rightarrow> R msg h')"

definition returns :: "('e, 'a) io \<Rightarrow> 'e list \<Rightarrow> bool" where
  "returns m h \<longleftrightarrow> (\<exists>x h'. m h = Some (Ret x h'))"

lemma wp_ret [wp_rules]: "wp (ret x) Q R h = Q x h"
  by (simp add: wp_def io_defs)

lemma wp_crash [wp_rules]: "wp (crash msg) Q R h = R msg h"
  by (simp add: wp_def io_defs)

lemma wp_ask [wp_rules]: "wp (ask e f) Q R h = Q (f (e # h)) (e # h)"
  by (simp add: wp_def io_defs)

lemma wp_tell [wp_rules]: "wp (tell e) Q R h = Q () (e # h)"
  by (simp add: wp_def io_defs)

lemma wp_bindM [wp_rules]: "wp (bindM m k) Q R h = wp m (\<lambda>x. wp (k x) Q R) R h"
  by (simp add: wp_def io_defs split: option.splits outcome.splits)

lemma wp_thenM [wp_rules]: "wp (thenM m n) Q R h = wp m (\<lambda>_. wp n Q R) R h"
  by (simp add: thenM_def wp_bindM)

lemma wp_deferM [wp_rules]:
  "wp (deferM e m) Q R h = wp m (\<lambda>x h'. Q x (e # h')) (\<lambda>msg h'. R msg (e # h')) h"
  by (simp add: wp_def io_defs split: option.splits outcome.splits)

lemma wp_recoverM [wp_rules]:
  "wp (recoverM z m) Q R h = wp m Q (\<lambda>_. Q z) h"
  by (simp add: wp_def io_defs split: option.splits outcome.splits)

lemma wp_if [wp_rules]: "wp (if b then m else n) Q R h = (if b then wp m Q R h else wp n Q R h)"
  by simp

lemma wp_mono:
  assumes "wp m Q R h"
    and "\<And>x h'. Q x h' \<Longrightarrow> Q' x h'"
    and "\<And>msg h'. R msg h' \<Longrightarrow> R' msg h'"
  shows "wp m Q' R' h"
  using assms by (auto simp: wp_def split: option.splits outcome.splits)

lemma wp_conj: "wp m (\<lambda>x h'. Q x h' \<and> Q' x h') (\<lambda>x h'. R x h' \<and> R' x h') h
    \<longleftrightarrow> wp m Q R h \<and> wp m Q' R' h"
  by (auto simp: wp_def split: option.splits outcome.splits)

lemma wp_RetD: "wp m Q R h \<Longrightarrow> m h = Some (Ret x h') \<Longrightarrow> Q x h'"
  by (simp add: wp_def)

lemma wp_CrashD: "wp m Q R h \<Longrightarrow> m h = Some (Crash msg h') \<Longrightarrow> R msg h'"
  by (simp add: wp_def)

lemma returns_ret [total_rules]: "returns (ret x) h"
  by (simp add: returns_def io_defs)

lemma returns_ask [total_rules]: "returns (ask e f) h"
  by (simp add: returns_def io_defs)

lemma returns_tell [total_rules]: "returns (tell e) h"
  by (simp add: returns_def io_defs)

lemma returns_bindM [total_rules]:
  "returns m h \<Longrightarrow> (\<And>x h'. m h = Some (Ret x h') \<Longrightarrow> returns (k x) h') \<Longrightarrow> returns (bindM m k) h"
  by (auto simp: returns_def io_defs)

lemma returns_deferM [total_rules]: "returns m h \<Longrightarrow> returns (deferM e m) h"
  by (auto simp: returns_def io_defs)

text \<open>A run that returned, taken apart.\<close>

lemma run_ret [run_simps]: "ret x h = Some (Ret y h') \<longleftrightarrow> y = x \<and> h' = h"
  by (auto simp: io_defs)

lemma run_crash [run_simps]: "\<not> (crash msg h = Some (Ret y h'))"
  by (simp add: io_defs)

lemma run_ask [run_simps]: "ask e f h = Some (Ret y h') \<longleftrightarrow> y = f (e # h) \<and> h' = e # h"
  by (auto simp: io_defs)

lemma run_tell [run_simps]: "tell e h = Some (Ret y h') \<longleftrightarrow> h' = e # h"
  by (auto simp: io_defs)

lemma run_bindM [run_simps]:
  "bindM m k h = Some (Ret y h') \<longleftrightarrow> (\<exists>x h1. m h = Some (Ret x h1) \<and> k x h1 = Some (Ret y h'))"
  by (auto simp: bindM_def split: option.splits outcome.splits)

lemma run_thenM [run_simps]:
  "thenM m n h = Some (Ret y h') \<longleftrightarrow> (\<exists>x h1. m h = Some (Ret x h1) \<and> n h1 = Some (Ret y h'))"
  by (simp add: thenM_def run_bindM)

lemma run_deferM [run_simps]:
  "deferM e m h = Some (Ret y h') \<longleftrightarrow> (\<exists>h1. m h = Some (Ret y h1) \<and> h' = e # h1)"
  by (auto simp: io_defs split: option.splits outcome.splits)

lemma run_if [run_simps]:
  "(if b then m else n) h = Some (Ret y h') \<longleftrightarrow>
     b \<and> m h = Some (Ret y h') \<or> \<not> b \<and> n h = Some (Ret y h')"
  by simp

lemma run_option [run_simps]:
  "(case v of None \<Rightarrow> m | Some x \<Rightarrow> k x) h = Some (Ret y h') \<longleftrightarrow>
     v = None \<and> m h = Some (Ret y h') \<or> (\<exists>x. v = Some x \<and> k x h = Some (Ret y h'))"
  by (cases v) auto

lemma run_sum [run_simps]:
  "(case v of Inl e \<Rightarrow> m e | Inr x \<Rightarrow> k x) h = Some (Ret y h') \<longleftrightarrow>
     (\<exists>e. v = Inl e \<and> m e h = Some (Ret y h')) \<or> (\<exists>x. v = Inr x \<and> k x h = Some (Ret y h'))"
  by (cases v) auto

lemma run_prod [run_simps]:
  "(case v of (a, b) \<Rightarrow> k a b) h = Some (Ret y h') \<longleftrightarrow>
     (\<exists>a b. v = (a, b) \<and> k a b h = Some (Ret y h'))"
  by (cases v) auto

lemma run_list [run_simps]:
  "(case v of [] \<Rightarrow> m | x # xs \<Rightarrow> k x xs) h = Some (Ret y h') \<longleftrightarrow>
     v = [] \<and> m h = Some (Ret y h') \<or> (\<exists>x xs. v = x # xs \<and> k x xs h = Some (Ret y h'))"
  by (cases v) auto

section \<open>Histories and confinement\<close>

definition grows :: "('e \<Rightarrow> bool) \<Rightarrow> 'e list \<Rightarrow> 'e list \<Rightarrow> bool" where
  "grows P h h' \<longleftrightarrow> (\<exists>new. h' = new @ h \<and> (\<forall>e \<in> set new. P e))"

lemma grows_refl [simp, intro]: "grows P h h"
  by (simp add: grows_def)

lemma grows_step: "P e \<Longrightarrow> grows P h h' \<Longrightarrow> grows P h (e # h')"
  by (auto simp: grows_def intro: exI [of _ "e # new" for new])

lemma grows_trans: "grows P h h' \<Longrightarrow> grows P h' h'' \<Longrightarrow> grows P h h''"
  unfolding grows_def by (metis Un_iff append.assoc set_append)

lemma grows_mono: "grows P h h' \<Longrightarrow> (\<And>e. P e \<Longrightarrow> P' e) \<Longrightarrow> grows P' h h'"
  unfolding grows_def by blast

text \<open>\<open>confined P m\<close>: whatever the outside answers, \<open>m\<close> only makes calls that satisfy \<open>P\<close>.\<close>

definition confined :: "('e \<Rightarrow> bool) \<Rightarrow> ('e, 'a) io \<Rightarrow> bool" where
  "confined P m \<longleftrightarrow> (\<forall>h. wp m (\<lambda>_. grows P h) (\<lambda>_. grows P h) h)"

lemma confined_ret [confined_rules]: "confined P (ret x)"
  by (simp add: confined_def wp_rules)

lemma confined_crash [confined_rules]: "confined P (crash msg)"
  by (simp add: confined_def wp_rules)

lemma confined_ask [confined_rules]: "P e \<Longrightarrow> confined P (ask e f)"
  by (simp add: confined_def wp_rules grows_step)

lemma confined_tell [confined_rules]: "P e \<Longrightarrow> confined P (tell e)"
  by (simp add: confined_def wp_rules grows_step)

lemma confined_bindM [confined_rules]:
  assumes "confined P m" and "\<And>x. confined P (k x)"
  shows "confined P (bindM m k)"
  unfolding confined_def wp_bindM
proof
  fix h
  from assms(1) have "wp m (\<lambda>_. grows P h) (\<lambda>_. grows P h) h"
    by (simp add: confined_def)
  then show "wp m (\<lambda>x. wp (k x) (\<lambda>_. grows P h) (\<lambda>_. grows P h)) (\<lambda>_. grows P h) h"
  proof (rule wp_mono)
    fix x h'
    assume "grows P h h'"
    moreover from assms(2) have "wp (k x) (\<lambda>_. grows P h') (\<lambda>_. grows P h') h'"
      by (simp add: confined_def)
    ultimately show "wp (k x) (\<lambda>_. grows P h) (\<lambda>_. grows P h) h'"
      by (auto elim!: wp_mono intro: grows_trans)
  qed simp
qed

lemma confined_thenM [confined_rules]: "confined P m \<Longrightarrow> confined P n \<Longrightarrow> confined P (thenM m n)"
  by (simp add: thenM_def confined_bindM)

lemma confined_deferM [confined_rules]: "P e \<Longrightarrow> confined P m \<Longrightarrow> confined P (deferM e m)"
  unfolding confined_def wp_deferM by (blast intro: wp_mono grows_step)

lemma confined_recoverM [confined_rules]: "confined P m \<Longrightarrow> confined P (recoverM z m)"
  by (auto simp: confined_def wp_recoverM)

lemma confined_if [confined_rules]:
  "(b \<Longrightarrow> confined P m) \<Longrightarrow> (\<not> b \<Longrightarrow> confined P n) \<Longrightarrow> confined P (if b then m else n)"
  by simp

lemma confined_option [confined_rules]:
  "(x = None \<Longrightarrow> confined P m) \<Longrightarrow> (\<And>y. x = Some y \<Longrightarrow> confined P (k y)) \<Longrightarrow>
   confined P (case x of None \<Rightarrow> m | Some y \<Rightarrow> k y)"
  by (simp split: option.split)

lemma confined_sum [confined_rules]:
  "(\<And>e. x = Inl e \<Longrightarrow> confined P (m e)) \<Longrightarrow> (\<And>y. x = Inr y \<Longrightarrow> confined P (k y)) \<Longrightarrow>
   confined P (case x of Inl e \<Rightarrow> m e | Inr y \<Rightarrow> k y)"
  by (simp split: sum.split)

lemma confined_prod [confined_rules]:
  "(\<And>a b. x = (a, b) \<Longrightarrow> confined P (k a b)) \<Longrightarrow> confined P (case x of (a, b) \<Rightarrow> k a b)"
  by (simp split: prod.split)

lemma confined_list [confined_rules]:
  "(v = [] \<Longrightarrow> confined P m) \<Longrightarrow> (\<And>x xs. v = x # xs \<Longrightarrow> confined P (k x xs)) \<Longrightarrow>
   confined P (case v of [] \<Rightarrow> m | x # xs \<Rightarrow> k x xs)"
  by (simp split: list.split)

lemma confined_mono: "confined P m \<Longrightarrow> (\<And>e. P e \<Longrightarrow> P' e) \<Longrightarrow> confined P' m"
  unfolding confined_def by (blast intro: wp_mono grows_mono)

lemma confined_grows: "confined P m \<Longrightarrow> m h = Some (Ret x h') \<Longrightarrow> grows P h h'"
  unfolding confined_def by (blast dest: wp_RetD)

section \<open>Projections of a history\<close>

text \<open>\<open>proj f h\<close>: what \<open>f\<close> keeps of the calls of \<open>h\<close>, in the order they were made.\<close>

definition proj :: "('e \<Rightarrow> 'b option) \<Rightarrow> 'e list \<Rightarrow> 'b list" where
  "proj f h = List.map_filter f (rev h)"

lemma proj_Nil [simp]: "proj f [] = []"
  by (simp add: proj_def List.map_filter_def)

lemma proj_append: "proj f (new @ h) = proj f h @ proj f new"
  by (simp add: proj_def List.map_filter_def)

lemma proj_Cons [simp]: "proj f (e # h) = proj f h @ (case f e of None \<Rightarrow> [] | Some x \<Rightarrow> [x])"
  by (simp add: proj_def List.map_filter_def split: option.split)

lemma proj_empty: "(\<forall>e \<in> set h. f e = None) \<Longrightarrow> proj f h = []"
  by (induction h) auto

lemma set_proj: "set (proj f h) = {x. \<exists>e \<in> set h. f e = Some x}"
  by (induction h) (auto split: option.splits)

lemma grows_proj: "grows P h h' \<Longrightarrow> (\<And>e. P e \<Longrightarrow> f e = None) \<Longrightarrow> proj f h' = proj f h"
  unfolding grows_def by (auto simp: proj_append intro!: proj_empty)

lemma confined_wp_proj:
  assumes "confined P m" and "\<And>e. P e \<Longrightarrow> f e = None"
  shows "wp m (\<lambda>_ h'. proj f h' = proj f h) (\<lambda>_ h'. proj f h' = proj f h) h"
  using assms unfolding confined_def by (blast intro: wp_mono grows_proj)

section \<open>Association lists\<close>

lemma map_of_update: "map_of (AList.update k v xs) = (map_of xs)(k \<mapsto> v)"
  by (rule update_conv')

lemma map_of_fold_update:
  "map_of (fold (\<lambda>(k, v). AList.update k v) new xs) = map_of xs ++ map_of (rev new)"
proof (induction new arbitrary: xs)
  case (Cons e new)
  then show ?case by (cases e) (auto simp: map_of_update map_add_def fun_eq_iff split: option.splits)
qed simp

lemma map_of_rev_distinct: "distinct (map fst xs) \<Longrightarrow> map_of (rev xs) = map_of xs"
  by (metis map_of_inject_set distinct_rev rev_map set_rev)

end
