(* ===== verification/GoStrings.thy ===== *)
theory GoStrings
  imports Prelude "HOL-Library.Sublist"
begin

text \<open>
  The part of Go's standard library on strings that the program uses: \<^verbatim>\<open>strings\<close>, the verbs of
  \<^verbatim>\<open>fmt\<close>, \<^verbatim>\<open>hex\<close>, the string encoding of \<^verbatim>\<open>encoding/json\<close> and \<^verbatim>\<open>net.ParseIP\<close>. A Go string is
  a list of bytes, here a HOL \<open>string\<close> (a \<open>char\<close> is a byte).
\<close>

section \<open>Bytes and numbers\<close>

definition byte :: "char \<Rightarrow> nat" where
  "byte c = of_char c"

definition mk :: "nat list \<Rightarrow> string" where
  "mk bs = map char_of bs"

lemma byte_less [simp]: "byte c < 256"
  by (simp add: byte_def)

lemma byte_char_of [simp]: "n < 256 \<Longrightarrow> byte (char_of n) = n"
  by (simp add: byte_def)

lemma byte_eq_iff: "byte c = byte d \<longleftrightarrow> c = d"
  by (simp add: byte_def)

text \<open>\<^verbatim>\<open>%d\<close> and \<^verbatim>\<open>%o\<close>: digits in a base of at most ten, most significant first.\<close>

fun radix :: "nat \<Rightarrow> nat \<Rightarrow> string" where
  "radix b n = (if b < 2 \<or> n < b then [char_of (48 + n)]
     else radix b (n div b) @ [char_of (48 + n mod b)])"

declare radix.simps [simp del]

definition fmt_nat :: "nat \<Rightarrow> string" where
  "fmt_nat n = radix 10 n"

definition fmt_int :: "int \<Rightarrow> string" where
  "fmt_int i = (if i < 0 then ''-'' @ fmt_nat (nat (- i)) else fmt_nat (nat i))"

definition fmt_octal :: "nat \<Rightarrow> string" where
  "fmt_octal n = radix 8 n"

definition digit_val :: "char \<Rightarrow> nat" where
  "digit_val c = byte c - 48"

definition radix_val :: "nat \<Rightarrow> string \<Rightarrow> nat" where
  "radix_val b s = foldl (\<lambda>acc c. acc * b + digit_val c) 0 s"

lemma digit_val_char_of [simp]: "d < 10 \<Longrightarrow> digit_val (char_of (48 + d)) = d"
  by (simp add: digit_val_def)

lemma radix_val_radix:
  assumes "2 \<le> b" "b \<le> 10"
  shows "radix_val b (radix b n) = n"
  using assms
proof (induction b n rule: radix.induct)
  case (1 b n)
  show ?case
  proof (cases "n < b")
    case True
    with 1 show ?thesis by (simp add: radix.simps [of b n] radix_val_def)
  next
    case False
    from 1 have "n mod b < 10"
      by (intro less_le_trans [OF mod_less_divisor]) auto
    with 1 False show ?thesis by (simp add: radix.simps [of b n] radix_val_def)
  qed
qed

lemma radix_digits:
  assumes "2 \<le> b" "b \<le> 10"
  shows "\<forall>c \<in> set (radix b n). 48 \<le> byte c \<and> byte c < 58"
  using assms
proof (induction b n rule: radix.induct)
  case (1 b n)
  from 1 have "n mod b < 10"
    by (intro less_le_trans [OF mod_less_divisor]) auto
  with 1 show ?case by (auto simp: radix.simps [of b n])
qed

lemma radix_nonempty [simp]: "radix b n \<noteq> []"
  by (simp add: radix.simps [of b n])

lemma fmt_nat_inject [simp]: "fmt_nat m = fmt_nat n \<longleftrightarrow> m = n"
proof
  assume "fmt_nat m = fmt_nat n"
  then have "radix_val 10 (radix 10 m) = radix_val 10 (radix 10 n)"
    by (simp add: fmt_nat_def)
  then show "m = n" by (simp add: radix_val_radix)
qed simp

lemma fmt_nat_digits: "c \<in> set (fmt_nat n) \<Longrightarrow> 48 \<le> byte c \<and> byte c < 58"
  unfolding fmt_nat_def using radix_digits [of 10 n] by simp

lemma fmt_int_inject [simp]: "fmt_int i = fmt_int j \<longleftrightarrow> i = j"
proof
  assume eq: "fmt_int i = fmt_int j"
  have sep: "''-'' @ fmt_nat m \<noteq> fmt_nat n" for m n
  proof
    assume "''-'' @ fmt_nat m = fmt_nat n"
    then have "CHR ''-'' \<in> set (fmt_nat n)" by (metis append_Cons list.set_intros(1))
    from fmt_nat_digits [OF this] show False by (simp add: byte_def)
  qed
  from eq sep sep [symmetric] show "i = j"
    by (auto simp: fmt_int_def split: if_splits)
qed simp

section \<open>strings\<close>

definition strings_HasPrefix :: "string \<Rightarrow> string \<Rightarrow> bool" where
  "strings_HasPrefix s p \<longleftrightarrow> prefix p s"

fun strings_Contains :: "string \<Rightarrow> string \<Rightarrow> bool" where
  "strings_Contains [] sub = (sub = [])"
| "strings_Contains (c # cs) sub = (prefix sub (c # cs) \<or> strings_Contains cs sub)"

lemma strings_Contains_sublist: "strings_Contains s sub \<longleftrightarrow> sublist sub s"
  by (induction s) (auto simp: sublist_Cons_right)

text \<open>\<^verbatim>\<open>strings.ToLower\<close> on ASCII input; the program applies it to ASCII constants and hex digits.\<close>

definition lower_byte :: "char \<Rightarrow> char" where
  "lower_byte c = (if 65 \<le> byte c \<and> byte c \<le> 90 then char_of (byte c + 32) else c)"

definition strings_ToLower :: "string \<Rightarrow> string" where
  "strings_ToLower s = map lower_byte s"

text \<open>\<^verbatim>\<open>strings.Split(s, sep)\<close> for a separator of one byte: at least one piece.\<close>

fun strings_Split1 :: "char \<Rightarrow> string \<Rightarrow> string list" where
  "strings_Split1 sep [] = [[]]"
| "strings_Split1 sep (c # cs) =
     (if c = sep then [] # strings_Split1 sep cs
      else (case strings_Split1 sep cs of
              [] \<Rightarrow> [[c]]
            | piece # rest \<Rightarrow> (c # piece) # rest))"

lemma strings_Split1_nonempty [simp]: "strings_Split1 sep s \<noteq> []"
  by (induction s) (auto split: list.split)

fun strings_Join :: "string \<Rightarrow> string list \<Rightarrow> string" where
  "strings_Join sep [] = []"
| "strings_Join sep [s] = s"
| "strings_Join sep (s # t # ts) = s @ sep @ strings_Join sep (t # ts)"

lemma strings_Join_Split1: "strings_Join [sep] (strings_Split1 sep s) = s"
proof (induction s)
  case (Cons c cs)
  then show ?case
    by (cases "strings_Split1 sep cs"; cases "tl (strings_Split1 sep cs)") auto
qed simp

text \<open>\<^verbatim>\<open>strings.Replace(s, old, new, -1)\<close> for a non-empty \<open>old\<close>.\<close>

function strings_ReplaceAll :: "string \<Rightarrow> string \<Rightarrow> string \<Rightarrow> string" where
  "strings_ReplaceAll s old new =
     (if old = [] \<or> s = [] then s
      else if prefix old s then new @ strings_ReplaceAll (drop (length old) s) old new
      else hd s # strings_ReplaceAll (tl s) old new)"
  by pat_completeness auto
termination
  by (relation "measure (\<lambda>(s, old, new). length s)") (auto simp: prefix_length_le)

declare strings_ReplaceAll.simps [simp del]

text \<open>
  \<^verbatim>\<open>strings.TrimSpace\<close>: the ASCII white space and the UTF-8 encodings of the other code points
  that \<^verbatim>\<open>unicode.IsSpace\<close> accepts.
\<close>

definition go_spaces :: "string list" where
  "go_spaces = map mk
     ([[9], [10], [11], [12], [13], [32], [194, 133], [194, 160], [225, 154, 128]]
      @ map (\<lambda>n. [226, 128, 128 + n]) [0..<11]
      @ [[226, 128, 168], [226, 128, 169], [226, 128, 175], [226, 129, 159], [227, 128, 128]])"

function trim_with :: "string list \<Rightarrow> string \<Rightarrow> string" where
  "trim_with ws s = (case find (\<lambda>w. w \<noteq> [] \<and> prefix w s) ws of
      None \<Rightarrow> s
    | Some w \<Rightarrow> trim_with ws (drop (length w) s))"
  by pat_completeness auto
termination
  by (relation "measure (\<lambda>(ws, s). length s)")
    (auto simp: find_Some_iff length_greater_0_conv [symmetric] simp del: length_greater_0_conv
      dest!: prefix_length_le)

declare trim_with.simps [simp del]

definition strings_TrimSpace :: "string \<Rightarrow> string" where
  "strings_TrimSpace s = rev (trim_with (map rev go_spaces) (rev (trim_with go_spaces s)))"

lemma go_spaces_edges:
  "\<forall>w \<in> set go_spaces. w \<noteq> [] \<and> \<not> (32 < byte (hd w) \<and> byte (hd w) < 128)
     \<and> \<not> (32 < byte (last w) \<and> byte (last w) < 128)"
  by (simp add: go_spaces_def mk_def byte_def upt_rec)

lemma trim_with_plain: "\<forall>w \<in> set ws. w \<noteq> [] \<longrightarrow> \<not> prefix w s \<Longrightarrow> trim_with ws s = s"
  by (subst trim_with.simps) (auto simp: find_None_iff split: option.split dest: find_Some_iff [THEN iffD1])

lemma strings_TrimSpace_Nil [simp]: "strings_TrimSpace [] = []"
  by (simp add: strings_TrimSpace_def trim_with_plain)

text \<open>A text that starts and ends with a printable ASCII character is left as it is.\<close>

lemma strings_TrimSpace_plain:
  assumes "s \<noteq> []" "32 < byte (hd s)" "byte (hd s) < 128" "32 < byte (last s)" "byte (last s) < 128"
  shows "strings_TrimSpace s = s"
proof -
  have "\<not> prefix w s" if "w \<in> set go_spaces" for w
    using go_spaces_edges that assms by (auto simp: prefix_def hd_append)
  then have front: "trim_with go_spaces s = s" by (simp add: trim_with_plain)
  have "\<not> prefix (rev w) (rev s)" if "w \<in> set go_spaces" for w
    using go_spaces_edges that assms by (auto simp: prefix_def rev_eq_append_conv last_append)
  then have "trim_with (map rev go_spaces) (rev s) = rev s" by (auto intro!: trim_with_plain)
  with front show ?thesis by (simp add: strings_TrimSpace_def)
qed

section \<open>hex and quoting\<close>

definition hex_digit :: "nat \<Rightarrow> char" where
  "hex_digit n = ''0123456789abcdef'' ! (n mod 16)"

definition hex_byte :: "nat \<Rightarrow> string" where
  "hex_byte n = [hex_digit (n div 16), hex_digit n]"

definition hex_EncodeToString :: "nat list \<Rightarrow> string" where
  "hex_EncodeToString bs = concat (map hex_byte bs)"

lemma length_hex_EncodeToString: "length (hex_EncodeToString bs) = 2 * length bs"
  by (induction bs) (auto simp: hex_EncodeToString_def hex_byte_def)

text \<open>\<^verbatim>\<open>%q\<close> on ASCII input.\<close>

definition quote_byte :: "char \<Rightarrow> string" where
  "quote_byte c =
     (let b = byte c in
      if b = 34 \<or> b = 92 then [char_of (92::nat), c]
      else if b = 7 then mk [92] @ ''a'' else if b = 8 then mk [92] @ ''b''
      else if b = 9 then mk [92] @ ''t'' else if b = 10 then mk [92] @ ''n''
      else if b = 11 then mk [92] @ ''v'' else if b = 12 then mk [92] @ ''f''
      else if b = 13 then mk [92] @ ''r''
      else if b < 32 \<or> 127 \<le> b then mk [92] @ ''x'' @ hex_byte b
      else [c])"

definition fmt_q :: "string \<Rightarrow> string" where
  "fmt_q s = mk [34] @ concat (map quote_byte s) @ mk [34]"

text \<open>
  \<^verbatim>\<open>fmt.Sprintf(s)\<close> with \<open>s\<close> as the format and no operands (what \<^verbatim>\<open>Wrapf(err, s)\<close> does): a verb
  finds no operand and is printed as an error; flags, width and precision are skipped.
\<close>

definition fmt_flag :: "char \<Rightarrow> bool" where
  "fmt_flag c \<longleftrightarrow> c \<in> set ''#+- .0123456789''"

fun sprintf_noargs :: "string \<Rightarrow> string" and sprintf_verb :: "string \<Rightarrow> string" where
  "sprintf_noargs [] = []"
| "sprintf_noargs (c # cs) = (if c = CHR ''%'' then sprintf_verb cs else c # sprintf_noargs cs)"
| "sprintf_verb [] = ''%!(NOVERB)''"
| "sprintf_verb (c # cs) =
     (if fmt_flag c then sprintf_verb cs
      else if c = CHR ''%'' then CHR ''%'' # sprintf_noargs cs
      else ''%!'' @ [c] @ ''(MISSING)'' @ sprintf_noargs cs)"

lemma sprintf_noargs_plain: "CHR ''%'' \<notin> set s \<Longrightarrow> sprintf_noargs s = s"
  by (induction s) auto

end
