(* ===== verification/GoTime.thy ===== *)
theory GoTime
  imports GoStrings
begin

text \<open>
  Instants, durations and their text form, as the program uses Go's \<^verbatim>\<open>time\<close>: an instant is its
  distance from the Unix epoch in nanoseconds, a duration is a number of nanoseconds in the
  range of a signed 64-bit integer.
\<close>

type_synonym instant = int
type_synonym duration = int

definition Second :: duration where "Second = 1000000000"
definition Minute :: duration where "Minute = 60 * Second"
definition Hour :: duration where "Hour = 60 * Minute"

definition time_Add :: "instant \<Rightarrow> duration \<Rightarrow> instant" where
  "time_Add t d = t + d"

definition time_After :: "instant \<Rightarrow> instant \<Rightarrow> bool" where
  "time_After t u \<longleftrightarrow> u < t"

text \<open>\<^verbatim>\<open>Sub\<close> saturates at the bounds of a duration.\<close>

definition time_Sub :: "instant \<Rightarrow> instant \<Rightarrow> duration" where
  "time_Sub t u = max (- (2 ^ 63)) (min (2 ^ 63 - 1) (t - u))"

lemma time_Sub_neg: "t < u \<Longrightarrow> time_Sub t u < 0"
  by (simp add: time_Sub_def)

section \<open>Calendar dates\<close>

text \<open>Proleptic Gregorian date of a day number (day 0 is 1970-01-01), by the 400-year era.\<close>

definition civil_from_days :: "int \<Rightarrow> int \<times> int \<times> int" where
  "civil_from_days n =
     (let z = n + 719468; era = z div 146097; doe = z mod 146097;
          yoe = (doe - doe div 1460 + doe div 36524 - doe div 146096) div 365;
          doy = doe - (365 * yoe + yoe div 4 - yoe div 100);
          mp = (5 * doy + 2) div 153;
          d = doy - (153 * mp + 2) div 5 + 1;
          m = (if mp < 10 then mp + 3 else mp - 9)
      in ((if m \<le> 2 then yoe + era * 400 + 1 else yoe + era * 400), m, d))"

definition pad :: "nat \<Rightarrow> int \<Rightarrow> string" where
  "pad w i = (let s = fmt_int \<bar>i\<bar> in
     (if i < 0 then ''-'' else []) @ replicate (w - length s) (CHR ''0'') @ s)"

text \<open>\<^verbatim>\<open>t.UTC().Format(time.RFC3339)\<close>: the fraction of a second is dropped.\<close>

definition format_RFC3339 :: "instant \<Rightarrow> string" where
  "format_RFC3339 t =
     (let secs = t div Second; sod = secs mod 86400 in
      case civil_from_days (secs div 86400) of (y, m, d) \<Rightarrow>
        pad 4 y @ ''-'' @ pad 2 m @ ''-'' @ pad 2 d @ ''T'' @
        pad 2 (sod div 3600) @ '':'' @ pad 2 (sod div 60 mod 60) @ '':'' @ pad 2 (sod mod 60) @ ''Z'')"

end
