(* ===== verification/Api.thy ===== *)
theory Api
  imports GoTime
begin

text \<open>
  The data of the program: the custom resource NodeDeploy (\<^verbatim>\<open>api/v1/nodedeploy_types.go\<close>) and
  NodeInfo (\<^verbatim>\<open>pkg/types\<close>). Go string types keep their strings, so a status that is none of the
  named constants is possible in the model as it is in the program. A Go map is the list of its
  entries in the order in which a \<^verbatim>\<open>range\<close> loop happens to visit them.
\<close>

section \<open>Node type and node status\<close>

type_synonym nodeType = string

definition NodeWork :: nodeType where "NodeWork = ''work''"
definition NodeKubeedge :: nodeType where "NodeKubeedge = ''kubeedge''"

definition NodeType_String :: "nodeType \<Rightarrow> string" where
  "NodeType_String s = s"

type_synonym nodeStatus = string

definition NodeInit :: nodeStatus where "NodeInit = ''init''"
definition NodeInactive :: nodeStatus where "NodeInactive = ''inactive''"
definition NodeActive :: nodeStatus where "NodeActive = ''active''"
definition NodeLaunching :: nodeStatus where "NodeLaunching = ''launching''"
definition NodeLaunchFail :: nodeStatus where "NodeLaunchFail = ''launchFail''"
definition NodeDeprecating :: nodeStatus where "NodeDeprecating = ''deprecating''"
definition NodeDeprecateFail :: nodeStatus where "NodeDeprecateFail = ''deprecateFail''"
definition NodeUnknown :: nodeStatus where "NodeUnknown = ''''"

lemmas node_type_defs = NodeWork_def NodeKubeedge_def NodeType_String_def

lemmas node_status_defs = NodeInit_def NodeInactive_def NodeActive_def NodeLaunching_def
  NodeLaunchFail_def NodeDeprecating_def NodeDeprecateFail_def NodeUnknown_def

lemma node_types_differ [simp]: "NodeWork \<noteq> NodeKubeedge" "NodeKubeedge \<noteq> NodeWork"
  by (simp_all add: node_type_defs)

lemma NodeType_String_id [simp]: "NodeType_String s = s"
  by (simp add: NodeType_String_def)

lemma node_statuses_differ [simp]:
  "NodeInit \<noteq> NodeInactive" "NodeInit \<noteq> NodeActive" "NodeInit \<noteq> NodeLaunching" "NodeInit \<noteq> NodeLaunchFail" "NodeInit \<noteq> NodeDeprecating" "NodeInit \<noteq> NodeDeprecateFail" "NodeInit \<noteq> NodeUnknown"
  "NodeInactive \<noteq> NodeInit" "NodeInactive \<noteq> NodeActive" "NodeInactive \<noteq> NodeLaunching" "NodeInactive \<noteq> NodeLaunchFail" "NodeInactive \<noteq> NodeDeprecating" "NodeInactive \<noteq> NodeDeprecateFail" "NodeInactive \<noteq> NodeUnknown"
  "NodeActive \<noteq> NodeInit" "NodeActive \<noteq> NodeInactive" "NodeActive \<noteq> NodeLaunching" "NodeActive \<noteq> NodeLaunchFail" "NodeActive \<noteq> NodeDeprecating" "NodeActive \<noteq> NodeDeprecateFail" "NodeActive \<noteq> NodeUnknown"
  "NodeLaunching \<noteq> NodeInit" "NodeLaunching \<noteq> NodeInactive" "NodeLaunching \<noteq> NodeActive" "NodeLaunching \<noteq> NodeLaunchFail" "NodeLaunching \<noteq> NodeDeprecating" "NodeLaunching \<noteq> NodeDeprecateFail" "NodeLaunching \<noteq> NodeUnknown"
  "NodeLaunchFail \<noteq> NodeInit" "NodeLaunchFail \<noteq> NodeInactive" "NodeLaunchFail \<noteq> NodeActive" "NodeLaunchFail \<noteq> NodeLaunching" "NodeLaunchFail \<noteq> NodeDeprecating" "NodeLaunchFail \<noteq> NodeDeprecateFail" "NodeLaunchFail \<noteq> NodeUnknown"
  "NodeDeprecating \<noteq> NodeInit" "NodeDeprecating \<noteq> NodeInactive" "NodeDeprecating \<noteq> NodeActive" "NodeDeprecating \<noteq> NodeLaunching" "NodeDeprecating \<noteq> NodeLaunchFail" "NodeDeprecating \<noteq> NodeDeprecateFail" "NodeDeprecating \<noteq> NodeUnknown"
  "NodeDeprecateFail \<noteq> NodeInit" "NodeDeprecateFail \<noteq> NodeInactive" "NodeDeprecateFail \<noteq> NodeActive" "NodeDeprecateFail \<noteq> NodeLaunching" "NodeDeprecateFail \<noteq> NodeLaunchFail" "NodeDeprecateFail \<noteq> NodeDeprecating" "NodeDeprecateFail \<noteq> NodeUnknown"
  "NodeUnknown \<noteq> NodeInit" "NodeUnknown \<noteq> NodeInactive" "NodeUnknown \<noteq> NodeActive" "NodeUnknown \<noteq> NodeLaunching" "NodeUnknown \<noteq> NodeLaunchFail" "NodeUnknown \<noteq> NodeDeprecating" "NodeUnknown \<noteq> NodeDeprecateFail"
  by (simp_all add: node_status_defs)

definition NodeStatus_String :: "nodeStatus \<Rightarrow> string" where
  "NodeStatus_String s = (if s = NodeUnknown then ''unknown'' else s)"

section \<open>NodeDeploy\<close>

record taint =
  taint_Key :: string
  taint_Value :: string
  taint_Effect :: string
  taint_TimeAdded :: "instant option"

record nodeDeploySpec =
  spec_NodeName :: string
  spec_NodeIP :: string
  spec_NodeType :: nodeType
  spec_NodePort :: string
  spec_NodeUser :: string
  spec_NodePwd :: string
  spec_HarborEndpoint :: string
  spec_HarborUser :: string
  spec_HarborPwd :: string
  spec_Labels :: "(string \<times> string) list"
  spec_Annotations :: "(string \<times> string) list"
  spec_Taints :: "taint list"
  spec_NodeVersion :: string
  spec_IsEvicted :: bool
  spec_NodeStatus :: nodeStatus
  spec_MaxRetry :: "32 word"

record nodeDeployStatus =
  st_NodeStatus :: nodeStatus
  st_Deadline :: "instant option"

record nodeDeploy =
  nd_Name :: string
  nd_Namespace :: string
  nd_ResourceVersion :: string
  nd_Spec :: nodeDeploySpec
  nd_Status :: nodeDeployStatus

abbreviation specStatus :: "nodeDeploy \<Rightarrow> nodeStatus" where
  "specStatus nd \<equiv> spec_NodeStatus (nd_Spec nd)"

abbreviation curStatus :: "nodeDeploy \<Rightarrow> nodeStatus" where
  "curStatus nd \<equiv> st_NodeStatus (nd_Status nd)"

abbreviation deadlineOf :: "nodeDeploy \<Rightarrow> instant option" where
  "deadlineOf nd \<equiv> st_Deadline (nd_Status nd)"

text \<open>The assignments \<^verbatim>\<open>nodeDeploy.Status.NodeStatus = s\<close> and \<^verbatim>\<open>nodeDeploy.Status.Deadline = d\<close>.\<close>

definition setStatus :: "nodeStatus \<Rightarrow> nodeDeploy \<Rightarrow> nodeDeploy" where
  "setStatus s nd = nd\<lparr>nd_Status := (nd_Status nd)\<lparr>st_NodeStatus := s\<rparr>\<rparr>"

definition setDeadline :: "instant option \<Rightarrow> nodeDeploy \<Rightarrow> nodeDeploy" where
  "setDeadline d nd = nd\<lparr>nd_Status := (nd_Status nd)\<lparr>st_Deadline := d\<rparr>\<rparr>"

lemma set_fields [simp]:
  "curStatus (setStatus s nd) = s" "deadlineOf (setStatus s nd) = deadlineOf nd"
  "nd_Spec (setStatus s nd) = nd_Spec nd" "nd_Name (setStatus s nd) = nd_Name nd"
  "nd_Namespace (setStatus s nd) = nd_Namespace nd"
  "curStatus (setDeadline d nd) = curStatus nd" "deadlineOf (setDeadline d nd) = d"
  "nd_Spec (setDeadline d nd) = nd_Spec nd" "nd_Name (setDeadline d nd) = nd_Name nd"
  "nd_Namespace (setDeadline d nd) = nd_Namespace nd"
  by (simp_all add: setStatus_def setDeadline_def)

section \<open>NodeInfo and event reasons\<close>

record nodeInfo =
  info_NodeName :: string
  info_NodeIP :: string
  info_NodeType :: string
  info_NodePort :: string
  info_NodeUser :: string
  info_NodePwd :: string
  info_HarborEndpoint :: string
  info_HarborUser :: string
  info_HarborPwd :: string

definition EventStatusMessage :: string where "EventStatusMessage = ''StatusMessage''"
definition EventChangeStatus :: string where "EventChangeStatus = ''ChangeStatus''"
definition EventInvalidStatus :: string where "EventInvalidStatus = ''InvalidStatus''"
definition EventPreflight :: string where "EventPreflight = ''Preflight''"
definition EventLaunchNode :: string where "EventLaunchNode = ''LaunchNode''"
definition EventDeprecateNode :: string where "EventDeprecateNode = ''DeprecateNode''"

end
