(* ===== verification/World.thy ===== *)
theory World
  imports Api
begin

text \<open>
  The outside of the program: the calls it makes (\<open>action\<close>), the values that come back, and the
  libraries it uses, as records of parameters. No library is given a definition here; what a
  theorem needs of one is a named predicate over its parameter, stated from its documentation.
\<close>

section \<open>Errors\<close>

text \<open>
  A Go \<^verbatim>\<open>error\<close>: one that a library returned (\<open>ExtErr\<close>, only its text is known), one made from a
  text (\<^verbatim>\<open>errors.New\<close>, \<^verbatim>\<open>errors.Errorf\<close>, \<^verbatim>\<open>fmt.Errorf\<close> without \<^verbatim>\<open>%w\<close>), or one that wraps another
  (\<^verbatim>\<open>errors.Wrap\<close>, \<^verbatim>\<open>%w\<close>), with its full text and its cause.
\<close>

datatype goerr = ExtErr string | NewErr string | WrapErr string goerr

fun err_text :: "goerr \<Rightarrow> string" where
  "err_text (ExtErr s) = s"
| "err_text (NewErr s) = s"
| "err_text (WrapErr s _) = s"

definition errors_Wrap :: "goerr \<Rightarrow> string \<Rightarrow> goerr" where
  "errors_Wrap e msg = WrapErr (msg @ '': '' @ err_text e) e"

section \<open>Cluster objects\<close>

record condition =
  cond_Type :: string
  cond_Status :: string

text \<open>\<open>node_Annotations = None\<close> is a nil map: reading it is fine, writing to it panics.\<close>

record node =
  node_Name :: string
  node_Labels :: "(string \<times> string) list"
  node_Annotations :: "(string \<times> string) list option"
  node_Taints :: "taint list"
  node_Conditions :: "condition list"

record secret =
  secret_Name :: string
  secret_Namespace :: string
  secret_Type :: string
  secret_Data :: "(string \<times> string) list"

record cluster =
  cluster_Server :: string
  cluster_CertificateAuthorityData :: "string option"
  cluster_CertificateAuthority :: string

record kubeContext =
  context_Cluster :: string

text \<open>\<^verbatim>\<open>clientcmdapi.Config\<close>: three maps to pointers, each map and each pointer possibly nil.\<close>

record kubeConfig =
  cfg_AuthInfos :: "(string \<times> string option) list option"
  cfg_Clusters :: "(string \<times> cluster option) list option"
  cfg_Contexts :: "(string \<times> kubeContext option) list option"
  cfg_CurrentContext :: string

text \<open>The fields of CloudCoreConfig the program reads after decoding (\<^verbatim>\<open>token.go\<close>).\<close>

record cloudCoreConfig =
  cc_AdvertiseAddress :: "string list"
  cc_WebsocketAddress :: string
  cc_WebsocketEnable :: bool
  cc_WebsocketPort :: string

section \<open>Calls\<close>

datatype objref = CR string string | NodeObj string

datatype eventType = EventTypeNormal | EventTypeWarning

datatype action =
    Event objref eventType string string
  | GetCR string string
  | StatusUpdate nodeDeploy
  | GetNode string
  | UpdateNode node
  | DeleteNode string
  | Cordon string
  | GetPodsForDeletion string
  | DeleteOrEvictPods "string list"
  | TimeNow
  | NewRetryWatcher
  | NewTimer duration
  | WatchSelect
  | WatcherStop
  | InClusterConfig
  | NewForConfig
  | GetConfigMap string string
  | GetSecret string string
  | CreateSecret secret
  | UpdateSecret secret
  | GenerateBootstrapToken
  | CertsFromFile string
  | SSHDial string string "string option"
  | NewSession string
  | StdinPipe
  | StdoutPipe
  | StderrPipe
  | SetPipe
  | Run string string
  | RunPipe string
  | SessionClose
  | SftpNewClient
  | SftpClose
  | Stat string
  | SftpCreate string
  | DestClose
  | OpenSrc string
  | SrcClose
  | Copy string string

type_synonym hist = "action list"

type_synonym 'a prog = "(action, 'a) io"

text \<open>
  What a \<^verbatim>\<open>select\<close> on a running remote command, a running copy and a watch can give: the
  command's or the copy's result, or the cancellation of the context with its error.
\<close>

datatype runResult = RunDone string string "goerr option" | RunCancelled goerr
datatype copyResult = CopyDone "goerr option" | CopyCancelled goerr
datatype watchType = Added | Modified | Deleted | Bookmark | WatchError
datatype watchResult =
    CtxDone
  | TimerFired
  | ChanClosed
  | WatchEvent watchType "node option"

section \<open>Libraries\<close>

record sshLib =
  ssh_Dial :: "hist \<Rightarrow> goerr option"
  ssh_NewSession :: "hist \<Rightarrow> goerr option"
  ssh_StdinPipe :: "hist \<Rightarrow> goerr option"
  ssh_StdoutPipe :: "hist \<Rightarrow> goerr option"
  ssh_StderrPipe :: "hist \<Rightarrow> goerr option"
  ssh_Run :: "hist \<Rightarrow> runResult"
  ssh_RunPipe :: "hist \<Rightarrow> goerr option"
  sftp_NewClient :: "hist \<Rightarrow> goerr option"
  sftp_Create :: "hist \<Rightarrow> goerr option"
  os_Stat :: "hist \<Rightarrow> goerr + 32 word"
  os_Open :: "hist \<Rightarrow> goerr option"
  io_Copy :: "hist \<Rightarrow> copyResult"

record tokenLib =
  rest_InClusterConfig :: "hist \<Rightarrow> goerr option"
  kubernetes_NewForConfig :: "hist \<Rightarrow> goerr option"
  core_GetConfigMap :: "hist \<Rightarrow> goerr + (string \<times> string) list"
  core_GetSecret :: "hist \<Rightarrow> goerr + secret"
  core_CreateSecret :: "hist \<Rightarrow> goerr option"
  core_UpdateSecret :: "hist \<Rightarrow> goerr option"
  bootstrap_GenerateToken :: "hist \<Rightarrow> goerr + string"
  bootstrap_SecretName :: "string \<Rightarrow> string"
  bootstrap_FindStringSubmatch :: "string \<Rightarrow> string list"
  bootstrap_TokenPattern :: string
  bootstrap_TokenIDKey :: string
  bootstrap_TokenSecretKey :: string
  bootstrap_DescriptionKey :: string
  bootstrap_ExpirationKey :: string
  bootstrap_UsagePrefix :: string
  bootstrap_ExtraGroupsKey :: string
  bootstrap_SecretType :: string
  meta_NamespaceSystem :: string
  cert_ParseCertsPEM :: "string \<Rightarrow> goerr + string list"
  cert_CertsFromFile :: "hist \<Rightarrow> goerr + string list"
  clientcmd_Load :: "string \<Rightarrow> goerr + kubeConfig"
  yaml_Unmarshal :: "string \<Rightarrow> goerr + cloudCoreConfig"
  api_IsAlreadyExists :: "goerr \<Rightarrow> bool"

type_synonym retryVars = "nodeDeploy \<times> bool \<times> nodeStatus"

type_synonym 'v attempt = "'v \<Rightarrow> (goerr option \<times> 'v) prog"

record kubeLib =
  client_GetCR :: "hist \<Rightarrow> goerr + nodeDeploy"
  client_StatusUpdate :: "hist \<Rightarrow> goerr + nodeDeploy"
  client_GetNode :: "hist \<Rightarrow> goerr + node"
  client_UpdateNode :: "hist \<Rightarrow> goerr option"
  client_DeleteNode :: "hist \<Rightarrow> goerr option"
  client_GetSecret :: "hist \<Rightarrow> goerr + secret"
  client_IgnoreNotFound :: "goerr \<Rightarrow> goerr option"
  api_IsNotFound :: "goerr \<Rightarrow> bool"
  drain_PatchOrReplace :: "hist \<Rightarrow> goerr option \<times> goerr option"
  drain_GetPods :: "hist \<Rightarrow> string list \<times> goerr list option"
  drain_DeleteOrEvict :: "hist \<Rightarrow> goerr option"
  errors_NewAggregate :: "goerr list \<Rightarrow> goerr option"
  watch_NewRetryWatcher :: "hist \<Rightarrow> goerr option"
  watch_Select :: "hist \<Rightarrow> watchResult"
  core_MatchTaint :: "taint \<Rightarrow> taint \<Rightarrow> bool"
  core_NodeReady :: string
  labels_Merge :: "(string \<times> string) list \<Rightarrow> (string \<times> string) list \<Rightarrow> (string \<times> string) list"
  labels_AsValidatedSelector :: "(string \<times> string) list \<Rightarrow> goerr option"
  semver_NewVersion :: "string \<Rightarrow> goerr + (int \<times> int)"
  json_Unmarshal :: "string \<Rightarrow> goerr + nodeInfo"
  retry_Do :: "64 word \<Rightarrow> retryVars attempt \<Rightarrow> retryVars attempt"
  retry_OnConflict :: "node attempt \<Rightarrow> node attempt"

record env =
  e_now :: "hist \<Rightarrow> instant"
  e_ssh :: sshLib
  e_tok :: tokenLib
  e_kube :: kubeLib

end
