(* ===== verification/Retry.thy ===== *)
theory Retry
  imports World
begin

text \<open>
  The documented behaviour of the two retry libraries the reconciler uses, as predicates over
  their parameters, and loops that have this behaviour, so that the predicates are satisfiable.
  The predicates say nothing of how long the libraries wait.
\<close>

section \<open>retry-go\<close>

text \<open>
  \<open>retried n f v h r\<close>: running \<open>f\<close> from the variables \<open>v\<close> and the history \<open>h\<close> until it reports no
  error, at most \<open>n\<close> times, with \<open>n = 0\<close> for no limit, can end with \<open>r\<close>. A panic of \<open>f\<close> passes
  through. The error given back after the last attempt is the library's own.
\<close>

inductive retried :: "nat \<Rightarrow> 'v attempt \<Rightarrow> 'v \<Rightarrow> hist \<Rightarrow> (action, goerr option \<times> 'v) outcome \<Rightarrow> bool" where
  success: "f v h = Some (Ret (None, v') h') \<Longrightarrow> retried n f v h (Ret (None, v') h')"
| panic: "f v h = Some (Crash msg h') \<Longrightarrow> retried n f v h (Crash msg h')"
| last: "f v h = Some (Ret (Some e, v') h') \<Longrightarrow> retried 1 f v h (Ret (Some e', v') h')"
| again: "f v h = Some (Ret (Some e, v') h') \<Longrightarrow> n \<noteq> 1 \<Longrightarrow> retried (n - 1) f v' h' r \<Longrightarrow> retried n f v h r"

inductive_cases retried_unlimitedE: "retried 0 f v h r"

definition retry_documented :: "(64 word \<Rightarrow> 'v attempt \<Rightarrow> 'v attempt) \<Rightarrow> bool" where
  "retry_documented Do \<longleftrightarrow>
     (\<forall>n f v h. (\<forall>r. Do n f v h = Some r \<longrightarrow> retried (unat n) f v h r)
        \<and> ((\<exists>r. retried (unat n) f v h r) \<longrightarrow> Do n f v h \<noteq> None))"

lemma retry_documentedD:
  "retry_documented Do \<Longrightarrow> Do n f v h = Some r \<Longrightarrow> retried (unat n) f v h r"
  by (simp add: retry_documented_def)

text \<open>A first attempt that reports no error is the only one.\<close>

lemma retry_first:
  assumes "retry_documented Do" "f v h = Some (Ret (None, v') h')"
  shows "Do n f v h = Some (Ret (None, v') h')"
proof -
  from assms(2) have "retried (unat n) f v h (Ret (None, v') h')" by (rule retried.success)
  with assms(1) obtain r where Do: "Do n f v h = Some r" unfolding retry_documented_def by blast
  from retry_documentedD [OF assms(1) Do] assms(2) have "r = Ret (None, v') h'"
    by (cases rule: retried.cases) auto
  with Do show ?thesis by simp
qed

text \<open>An invariant of the attempts holds when the retry loop ends.\<close>

lemma retried_invariant:
  assumes "retried n f v h r" and "I v h"
    and "\<And>v h e v' h'. I v h \<Longrightarrow> f v h = Some (Ret (e, v') h') \<Longrightarrow> I v' h'"
    and "\<And>v h msg h'. I v h \<Longrightarrow> f v h = Some (Crash msg h') \<Longrightarrow> J h'"
  shows "case r of Ret (e, v') h' \<Rightarrow> I v' h' | Crash msg h' \<Rightarrow> J h'"
  using assms by (induction rule: retried.induct) (auto split: outcome.splits prod.splits)

text \<open>Without a limit the loop can only end without an error.\<close>

lemma retried_unlimited: "retried 0 f v h r \<Longrightarrow> case r of Ret (e, _) _ \<Rightarrow> e = None | Crash _ _ \<Rightarrow> True"
  by (induction "0::nat" f v h r rule: retried.induct) auto

text \<open>
  The attempts counted: from \<open>I 0\<close>, an attempt that fails keeps \<open>I\<close> with the counter one up and may
  be the last one; one that succeeds gives \<open>Q\<close>; one that panics gives \<open>J\<close>. At least one attempt is
  made, and no more than the limit, if there is one.
\<close>

lemma retried_counted:
  assumes "retried n f v h r" and "I j v h"
    and step: "\<And>k v h. I k v h \<Longrightarrow>
      wp (f v) (\<lambda>x h'. if fst x = None then Q (Suc k) None (snd x) h'
          else I (Suc k) (snd x) h' \<and> (\<forall>e. Q (Suc k) (Some e) (snd x) h'))
        (\<lambda>_ h'. J (Suc k) h') h"
  shows "\<exists>k. j < k \<and> (n = 0 \<or> k \<le> j + n)
    \<and> (case r of Ret (e, v') h' \<Rightarrow> Q k e v' h' | Crash _ h' \<Rightarrow> J k h')"
  using assms
proof (induction arbitrary: j rule: retried.induct)
  case (success f v h v' h' n)
  from wp_RetD [OF success.prems(2) [OF success.prems(1)] success.hyps] show ?case
    by (intro exI [of _ "Suc j"]) auto
next
  case (panic f v h msg h' n)
  from wp_CrashD [OF panic.prems(2) [OF panic.prems(1)] panic.hyps] show ?case
    by (intro exI [of _ "Suc j"]) auto
next
  case (last f v h e v' h' e')
  from wp_RetD [OF last.prems(2) [OF last.prems(1)] last.hyps] show ?case
    by (intro exI [of _ "Suc j"]) auto
next
  case (again f v h e v' h' n r)
  from wp_RetD [OF again.prems(2) [OF again.prems(1)] again.hyps(1)] have I: "I (Suc j) v' h'" by simp
  from again.IH [OF I] again.prems(2) obtain k where
    k: "Suc j < k" "n - 1 = 0 \<or> k \<le> Suc j + (n - 1)" "case r of Ret (e, v') h' \<Rightarrow> Q k e v' h' | Crash _ h' \<Rightarrow> J k h'"
    by blast
  with again.hyps(2) show ?case by (intro exI [of _ k]) auto
qed

lemma retry_wp:
  assumes doc: "retry_documented Do" and "I 0 v h"
    and step: "\<And>k v h. I k v h \<Longrightarrow>
      wp (f v) (\<lambda>x h'. if fst x = None then Q (Suc k) None (snd x) h'
          else I (Suc k) (snd x) h' \<and> (\<forall>e. Q (Suc k) (Some e) (snd x) h'))
        (\<lambda>_ h'. J (Suc k) h') h"
  shows "wp (Do n f v)
    (\<lambda>x h'. \<exists>k. 0 < k \<and> (n = 0 \<or> k \<le> unat n) \<and> (n = 0 \<longrightarrow> fst x = None) \<and> Q k (fst x) (snd x) h')
    (\<lambda>_ h'. \<exists>k. 0 < k \<and> (n = 0 \<or> k \<le> unat n) \<and> J k h') h"
proof (cases "Do n f v h")
  case (Some r)
  from retry_documentedD [OF doc Some] have run: "retried (unat n) f v h r" .
  from retried_counted [where I = I and Q = Q and J = J, OF run assms(2) step] obtain k where
    k: "0 < k" "unat n = 0 \<or> k \<le> unat n" "case r of Ret (e, v') h' \<Rightarrow> Q k e v' h' | Crash _ h' \<Rightarrow> J k h'" by auto
  have zero: "unat n = 0 \<longleftrightarrow> n = 0" by (simp add: unat_eq_0)
  show ?thesis
  proof (cases r)
    case (Ret x h')
    with retried_unlimited [of f v h r] run k zero Some show ?thesis
      by (cases x) (auto simp: wp_def)
  next
    case (Crash msg h')
    with k zero Some show ?thesis by (auto simp: wp_def)
  qed
qed (simp add: wp_def)

lemma confined_retry:
  assumes doc: "retry_documented Do" and f: "\<And>v. confined P (f v)"
  shows "confined P (Do n f v)"
  unfolding confined_def
proof
  fix h
  show "wp (Do n f v) (\<lambda>_. grows P h) (\<lambda>_. grows P h) h"
  proof (rule wp_mono [OF retry_wp [where I = "\<lambda>_ _. grows P h" and Q = "\<lambda>_ _ _. grows P h" and J = "\<lambda>_. grows P h",
        OF doc]])
    fix k v' h'
    assume "grows P h h'"
    with f [of v'] show "wp (f v') (\<lambda>x h''. if fst x = None then grows P h h'' else grows P h h'' \<and> (\<forall>e::goerr. grows P h h''))
        (\<lambda>_. grows P h) h'"
      unfolding confined_def by (auto elim!: allE [of _ h'] wp_mono intro: grows_trans)
  qed auto
qed

partial_function (option) retry_loop ::
  "nat \<Rightarrow> 'v attempt \<Rightarrow> 'v \<Rightarrow> hist \<Rightarrow> (action, goerr option \<times> 'v) outcome option" where
  "retry_loop n f v h =
     (case f v h of
        None \<Rightarrow> None
      | Some (Crash msg h') \<Rightarrow> Some (Crash msg h')
      | Some (Ret r h') \<Rightarrow>
          (if fst r = None then Some (Ret r h')
           else if n = 1 then Some (Ret r h')
           else retry_loop (n - 1) f (snd r) h'))"

lemma retry_loop_sound:
  assumes ret: "retry_loop n f v h = Some r"
  shows "retried n f v h r"
proof (rule retry_loop.raw_induct [where P = "\<lambda>n f v h r. retried n f v h r", OF _ ret])
  fix loop n and f :: "'a attempt" and v h r
  assume IH: "\<And>n f v h r. loop n f v h = Some r \<Longrightarrow> retried n f v h r"
    and eq: "(case f v h of None \<Rightarrow> None | Some (Crash msg h') \<Rightarrow> Some (Crash msg h')
      | Some (Ret r h') \<Rightarrow> if fst r = None then Some (Ret r h') else if n = 1 then Some (Ret r h')
          else loop (n - 1) f (snd r) h') = Some r"
  show "retried n f v h r"
  proof (cases "f v h")
    case (Some out)
    show ?thesis
    proof (cases out)
      case (Ret x h')
      then obtain e v' where run: "f v h = Some (Ret (e, v') h')" using Some by (cases x) auto
      show ?thesis
      proof (cases e)
        case None
        with run eq show ?thesis by (auto intro: retried.success)
      next
        case e: (Some err)
        show ?thesis
        proof (cases "n = 1")
          case True
          with retried.last [where f = f and v = v and h = h and e = err and e' = err and v' = v' and h' = h'] run eq e
          show ?thesis by simp
        next
          case False
          with run eq e have "loop (n - 1) f v' h' = Some r" by simp
          then have "retried (n - 1) f v' h' r" by (rule IH)
          with run e False show ?thesis by (auto intro: retried.again)
        qed
      qed
    next
      case (Crash msg h')
      with Some eq show ?thesis by (auto intro: retried.intros)
    qed
  qed (use eq in simp)
qed

lemma retry_loop_complete: "retried n f v h r \<Longrightarrow> retry_loop n f v h \<noteq> None"
  by (induction rule: retried.induct) (auto simp: retry_loop.simps)

definition retry_Do_loop :: "64 word \<Rightarrow> 'v attempt \<Rightarrow> 'v attempt" where
  "retry_Do_loop n f v h = retry_loop (unat n) f v h"

lemma retry_Do_loop_documented: "retry_documented retry_Do_loop"
  unfolding retry_documented_def retry_Do_loop_def
  by (blast intro: retry_loop_sound dest: retry_loop_complete)

section \<open>RetryOnConflict\<close>

text \<open>
  \<open>conflict_retried f v h r\<close>: \<open>f\<close> is run, and run again after an error that the library takes for
  a conflict; the error of the last run (or the library's error when it gives up) is returned.
\<close>

inductive conflict_retried :: "'v attempt \<Rightarrow> 'v \<Rightarrow> hist \<Rightarrow> (action, goerr option \<times> 'v) outcome \<Rightarrow> bool" where
  success: "f v h = Some (Ret (None, v') h') \<Longrightarrow> conflict_retried f v h (Ret (None, v') h')"
| panic: "f v h = Some (Crash msg h') \<Longrightarrow> conflict_retried f v h (Crash msg h')"
| stop: "f v h = Some (Ret (Some e, v') h') \<Longrightarrow> conflict_retried f v h (Ret (Some e', v') h')"
| again: "f v h = Some (Ret (Some e, v') h') \<Longrightarrow> conflict_retried f v' h' r \<Longrightarrow> conflict_retried f v h r"

definition conflict_documented :: "('v attempt \<Rightarrow> 'v attempt) \<Rightarrow> bool" where
  "conflict_documented Do \<longleftrightarrow>
     (\<forall>f v h r. Do f v h = Some r \<longrightarrow> conflict_retried f v h r)
     \<and> (\<forall>f v h. (\<forall>v h. f v h \<noteq> None) \<longrightarrow> Do f v h \<noteq> None)"

lemma conflict_documentedD:
  "conflict_documented Do \<Longrightarrow> Do f v h = Some r \<Longrightarrow> conflict_retried f v h r"
  by (simp add: conflict_documented_def)

lemma conflict_retried_invariant:
  assumes "conflict_retried f v h r" and "I v h"
    and "\<And>v h e v' h'. I v h \<Longrightarrow> f v h = Some (Ret (e, v') h') \<Longrightarrow> I v' h'"
    and "\<And>v h msg h'. I v h \<Longrightarrow> f v h = Some (Crash msg h') \<Longrightarrow> J h'"
  shows "case r of Ret (e, v') h' \<Rightarrow> I v' h' | Crash msg h' \<Rightarrow> J h'"
  using assms by (induction rule: conflict_retried.induct) (auto split: outcome.splits prod.splits)

text \<open>A successful end comes from a run of \<open>f\<close> that succeeded.\<close>

lemma conflict_retried_success:
  "conflict_retried f v h r \<Longrightarrow> r = Ret (None, v') h' \<Longrightarrow> \<exists>v0 h0. f v0 h0 = Some (Ret (None, v') h')"
  by (induction rule: conflict_retried.induct) auto

lemma confined_conflict:
  assumes doc: "conflict_documented Do" and f: "\<And>v. confined P (f v)"
  shows "confined P (Do f v)"
  unfolding confined_def
proof
  fix h
  show "wp (Do f v) (\<lambda>_. grows P h) (\<lambda>_. grows P h) h"
  proof (cases "Do f v h")
    case (Some r)
    have step: "case f w g of None \<Rightarrow> True | Some (Ret _ h') \<Rightarrow> grows P g h' | Some (Crash _ h') \<Rightarrow> grows P g h'"
      for w g using f [of w] by (simp add: confined_def wp_def)
    have "case r of Ret (e, v') h' \<Rightarrow> grows P h h' | Crash msg h' \<Rightarrow> grows P h h'"
    proof (rule conflict_retried_invariant [OF conflict_documentedD [OF doc Some],
          where I = "\<lambda>_. grows P h" and J = "grows P h"])
      show "grows P h h" by simp
    next
      fix v0 h0 e v' h'
      assume "grows P h h0" "f v0 h0 = Some (Ret (e, v') h')"
      with step [where w = v0 and g = h0] show "grows P h h'" by (auto intro: grows_trans)
    next
      fix v0 h0 msg h'
      assume "grows P h h0" "f v0 h0 = Some (Crash msg h')"
      with step [where w = v0 and g = h0] show "grows P h h'" by (auto intro: grows_trans)
    qed
    with Some show ?thesis by (auto simp: wp_def split: outcome.splits prod.splits)
  qed (simp add: wp_def)
qed

text \<open>One run, without a retry: the shortest behaviour the documentation allows.\<close>

definition once :: "'v attempt \<Rightarrow> 'v attempt" where
  "once f = f"

lemma once_documented: "conflict_documented once"
  unfolding conflict_documented_def once_def
proof (intro conjI allI impI)
  fix f :: "'a attempt" and v h r
  assume "f v h = Some r"
  then show "conflict_retried f v h r"
    by (cases r; cases "case r of Ret x _ \<Rightarrow> fst x | _ \<Rightarrow> None") (auto intro: conflict_retried.intros)
qed blast

end
