(* ===== verification/Examples.thy ===== *)
theory Examples
  imports Retry
begin

text \<open>
  One concrete behaviour of the outside, in which every call succeeds: a node of the architecture
  x86_64 with the answers of a healthy cluster. The witnesses start from it and change what they
  are about.
\<close>

definition ex_ssh :: sshLib where
  "ex_ssh =
     \<lparr>ssh_Dial = (\<lambda>_. None), ssh_NewSession = (\<lambda>_. None), ssh_StdinPipe = (\<lambda>_. None),
      ssh_StdoutPipe = (\<lambda>_. None), ssh_StderrPipe = (\<lambda>_. None),
      ssh_Run = (\<lambda>_. RunDone ''x86_64'' [] None), ssh_RunPipe = (\<lambda>_. None),
      sftp_NewClient = (\<lambda>_. None), sftp_Create = (\<lambda>_. None), os_Stat = (\<lambda>_. Inr 420),
      os_Open = (\<lambda>_. None), io_Copy = (\<lambda>_. CopyDone None)\<rparr>"

definition ex_cluster :: cluster where
  "ex_cluster =
     \<lparr>cluster_Server = ''https://10.0.0.1:6443'', cluster_CertificateAuthorityData = Some ''pem'',
      cluster_CertificateAuthority = []\<rparr>"

definition ex_kubeConfig :: kubeConfig where
  "ex_kubeConfig =
     \<lparr>cfg_AuthInfos = None, cfg_Clusters = Some [([], Some ex_cluster)], cfg_Contexts = None,
      cfg_CurrentContext = []\<rparr>"

definition ex_tok :: tokenLib where
  "ex_tok =
     \<lparr>rest_InClusterConfig = (\<lambda>_. None), kubernetes_NewForConfig = (\<lambda>_. None),
      core_GetConfigMap = (\<lambda>_. Inr []), core_GetSecret = (\<lambda>_. Inl (ExtErr ''not found'')),
      core_CreateSecret = (\<lambda>_. None), core_UpdateSecret = (\<lambda>_. None),
      bootstrap_GenerateToken = (\<lambda>_. Inr ''abcdef.0123456789abcdef''),
      bootstrap_SecretName = (\<lambda>i. ''bootstrap-token-'' @ i),
      bootstrap_FindStringSubmatch = (\<lambda>s. [s, take 6 s, drop 7 s]),
      bootstrap_TokenPattern = [],
      bootstrap_TokenIDKey = ''token-id'', bootstrap_TokenSecretKey = ''token-secret'',
      bootstrap_DescriptionKey = ''description'', bootstrap_ExpirationKey = ''expiration'',
      bootstrap_UsagePrefix = ''usage-bootstrap-'', bootstrap_ExtraGroupsKey = ''auth-extra-groups'',
      bootstrap_SecretType = ''bootstrap.kubernetes.io/token'',
      meta_NamespaceSystem = ''kube-system'',
      cert_ParseCertsPEM = (\<lambda>_. Inr [''spki'']), cert_CertsFromFile = (\<lambda>_. Inr [''spki'']),
      clientcmd_Load = (\<lambda>_. Inr ex_kubeConfig),
      yaml_Unmarshal = (\<lambda>_. Inr \<lparr>cc_AdvertiseAddress = [''10.0.0.2''], cc_WebsocketAddress = [],
        cc_WebsocketEnable = True, cc_WebsocketPort = ''10000''\<rparr>),
      api_IsAlreadyExists = (\<lambda>_. False)\<rparr>"

definition ex_node :: node where
  "ex_node =
     \<lparr>node_Name = ''n1'', node_Labels = [], node_Annotations = Some [], node_Taints = [],
      node_Conditions = [\<lparr>cond_Type = ''Ready'', cond_Status = ''True''\<rparr>]\<rparr>"

definition ex_taint :: taint where
  "ex_taint = \<lparr>taint_Key = ''k'', taint_Value = ''v'', taint_Effect = ''NoSchedule'', taint_TimeAdded = None\<rparr>"

definition ex_spec :: nodeDeploySpec where
  "ex_spec =
     \<lparr>spec_NodeName = ''n1'', spec_NodeIP = ''10.0.0.9'', spec_NodeType = NodeWork,
      spec_NodePort = ''22'', spec_NodeUser = ''root'', spec_NodePwd = ''pw'',
      spec_HarborEndpoint = [], spec_HarborUser = [], spec_HarborPwd = [],
      spec_Labels = [(''a'', ''b'')], spec_Annotations = [(''c'', ''d'')], spec_Taints = [ex_taint],
      spec_NodeVersion = ''1.21.14'', spec_IsEvicted = True, spec_NodeStatus = NodeActive,
      spec_MaxRetry = 3\<rparr>"

definition ex_deploy :: nodeDeploy where
  "ex_deploy =
     \<lparr>nd_Name = ''d1'', nd_Namespace = ''ns'', nd_ResourceVersion = ''1'', nd_Spec = ex_spec,
      nd_Status = \<lparr>st_NodeStatus = NodeInit, st_Deadline = None\<rparr>\<rparr>"

text \<open>The API server that stores what it is given: the answer to a status update is its object.\<close>

definition echo :: "hist \<Rightarrow> goerr + nodeDeploy" where
  "echo h = (case h of StatusUpdate nd # _ \<Rightarrow> Inr nd | _ \<Rightarrow> Inl (ExtErr ''unexpected''))"

definition ex_kube :: kubeLib where
  "ex_kube =
     \<lparr>client_GetCR = (\<lambda>_. Inr ex_deploy), client_StatusUpdate = echo,
      client_GetNode = (\<lambda>_. Inr ex_node), client_UpdateNode = (\<lambda>_. None),
      client_DeleteNode = (\<lambda>_. None), client_GetSecret = (\<lambda>_. Inl (ExtErr ''not found'')),
      client_IgnoreNotFound = (\<lambda>e. if e = ExtErr ''not found'' then None else Some e),
      api_IsNotFound = (\<lambda>e. e = ExtErr ''not found''),
      drain_PatchOrReplace = (\<lambda>_. (None, None)), drain_GetPods = (\<lambda>_. ([''p1''], None)),
      drain_DeleteOrEvict = (\<lambda>_. None),
      errors_NewAggregate = (\<lambda>es. case es of [] \<Rightarrow> None | e # _ \<Rightarrow> Some e),
      watch_NewRetryWatcher = (\<lambda>_. None), watch_Select = (\<lambda>_. TimerFired),
      core_MatchTaint = (\<lambda>a b. taint_Key a = taint_Key b \<and> taint_Effect a = taint_Effect b),
      core_NodeReady = ''Ready'',
      labels_Merge = (\<lambda>a b. fold (\<lambda>(k, v). AList.update k v) b a),
      labels_AsValidatedSelector = (\<lambda>_. None),
      semver_NewVersion = (\<lambda>_. Inr (1, 21)),
      json_Unmarshal = (\<lambda>_. Inl (ExtErr ''bad json'')),
      retry_Do = retry_Do_loop,
      retry_OnConflict = once\<rparr>"

definition ex_env :: env where
  "ex_env = \<lparr>e_now = (\<lambda>_. 0), e_ssh = ex_ssh, e_tok = ex_tok, e_kube = ex_kube\<rparr>"

lemmas ex_defs = ex_ssh_def ex_cluster_def ex_kubeConfig_def ex_tok_def ex_node_def ex_taint_def
  ex_spec_def ex_deploy_def echo_def ex_kube_def ex_env_def

lemma ex_ssh_simps [simp]:
  "ssh_Dial ex_ssh = (\<lambda>_. None)"
  "ssh_NewSession ex_ssh = (\<lambda>_. None)"
  "ssh_StdinPipe ex_ssh = (\<lambda>_. None)"
  "ssh_StdoutPipe ex_ssh = (\<lambda>_. None)"
  "ssh_StderrPipe ex_ssh = (\<lambda>_. None)"
  "ssh_Run ex_ssh = (\<lambda>_. RunDone ''x86_64'' [] None)"
  "ssh_RunPipe ex_ssh = (\<lambda>_. None)"
  "sftp_NewClient ex_ssh = (\<lambda>_. None)"
  "sftp_Create ex_ssh = (\<lambda>_. None)"
  "os_Stat ex_ssh = (\<lambda>_. Inr 420)"
  "os_Open ex_ssh = (\<lambda>_. None)"
  "io_Copy ex_ssh = (\<lambda>_. CopyDone None)"
  by (simp_all add: ex_ssh_def)

lemma ex_tok_simps [simp]:
  "rest_InClusterConfig ex_tok = (\<lambda>_. None)"
  "kubernetes_NewForConfig ex_tok = (\<lambda>_. None)"
  "core_GetConfigMap ex_tok = (\<lambda>_. Inr [])"
  "core_GetSecret ex_tok = (\<lambda>_. Inl (ExtErr ''not found''))"
  "core_CreateSecret ex_tok = (\<lambda>_. None)"
  "core_UpdateSecret ex_tok = (\<lambda>_. None)"
  "bootstrap_GenerateToken ex_tok = (\<lambda>_. Inr ''abcdef.0123456789abcdef'')"
  "bootstrap_SecretName ex_tok = (\<lambda>i. ''bootstrap-token-'' @ i)"
  "bootstrap_FindStringSubmatch ex_tok = (\<lambda>s. [s, take 6 s, drop 7 s])"
  "bootstrap_TokenPattern ex_tok = []"
  "bootstrap_TokenIDKey ex_tok = ''token-id''"
  "bootstrap_TokenSecretKey ex_tok = ''token-secret''"
  "bootstrap_DescriptionKey ex_tok = ''description''"
  "bootstrap_ExpirationKey ex_tok = ''expiration''"
  "bootstrap_UsagePrefix ex_tok = ''usage-bootstrap-''"
  "bootstrap_ExtraGroupsKey ex_tok = ''auth-extra-groups''"
  "bootstrap_SecretType ex_tok = ''bootstrap.kubernetes.io/token''"
  "meta_NamespaceSystem ex_tok = ''kube-system''"
  "cert_ParseCertsPEM ex_tok = (\<lambda>_. Inr [''spki''])"
  "cert_CertsFromFile ex_tok = (\<lambda>_. Inr [''spki''])"
  "clientcmd_Load ex_tok = (\<lambda>_. Inr ex_kubeConfig)"
  "yaml_Unmarshal ex_tok = (\<lambda>_. Inr \<lparr>cc_AdvertiseAddress = [''10.0.0.2''], cc_WebsocketAddress = [], cc_WebsocketEnable = True, cc_WebsocketPort = ''10000''\<rparr>)"
  "api_IsAlreadyExists ex_tok = (\<lambda>_. False)"
  by (simp_all add: ex_tok_def)

lemma ex_kube_simps [simp]:
  "client_GetCR ex_kube = (\<lambda>_. Inr ex_deploy)"
  "client_StatusUpdate ex_kube = echo"
  "client_GetNode ex_kube = (\<lambda>_. Inr ex_node)"
  "client_UpdateNode ex_kube = (\<lambda>_. None)"
  "client_DeleteNode ex_kube = (\<lambda>_. None)"
  "client_GetSecret ex_kube = (\<lambda>_. Inl (ExtErr ''not found''))"
  "client_IgnoreNotFound ex_kube = (\<lambda>e. if e = ExtErr ''not found'' then None else Some e)"
  "api_IsNotFound ex_kube = (\<lambda>e. e = ExtErr ''not found'')"
  "drain_PatchOrReplace ex_kube = (\<lambda>_. (None, None))"
  "drain_GetPods ex_kube = (\<lambda>_. ([''p1''], None))"
  "drain_DeleteOrEvict ex_kube = (\<lambda>_. None)"
  "errors_NewAggregate ex_kube = (\<lambda>es. case es of [] \<Rightarrow> None | e # _ \<Rightarrow> Some e)"
  "watch_NewRetryWatcher ex_kube = (\<lambda>_. None)"
  "watch_Select ex_kube = (\<lambda>_. TimerFired)"
  "core_MatchTaint ex_kube = (\<lambda>a b. taint_Key a = taint_Key b \<and> taint_Effect a = taint_Effect b)"
  "core_NodeReady ex_kube = ''Ready''"
  "labels_Merge ex_kube = (\<lambda>a b. fold (\<lambda>(k, v). AList.update k v) b a)"
  "labels_AsValidatedSelector ex_kube = (\<lambda>_. None)"
  "semver_NewVersion ex_kube = (\<lambda>_. Inr (1, 21))"
  "json_Unmarshal ex_kube = (\<lambda>_. Inl (ExtErr ''bad json''))"
  "retry_Do ex_kube = retry_Do_loop"
  "retry_OnConflict ex_kube = once"
  by (simp_all add: ex_kube_def)

lemma ex_deploy_simps [simp]:
  "nd_Spec ex_deploy = ex_spec" "specStatus ex_deploy = NodeActive" "curStatus ex_deploy = NodeInit"
  "spec_MaxRetry ex_spec = 3" "spec_NodeStatus ex_spec = NodeActive" "spec_NodeName ex_spec = ''n1''"
  "spec_NodeType ex_spec = NodeWork"
  by (simp_all add: ex_deploy_def ex_spec_def)

definition ex_info :: "nodeType \<Rightarrow> nodeInfo" where
  "ex_info t =
     \<lparr>info_NodeName = ''n1'', info_NodeIP = ''10.0.0.9'', info_NodeType = t, info_NodePort = ''22'',
      info_NodeUser = ''root'', info_NodePwd = ''pw'', info_HarborEndpoint = [], info_HarborUser = [],
      info_HarborPwd = []\<rparr>"

lemma ex_env_simps [simp]:
  "e_now ex_env = (\<lambda>_. 0)" "e_ssh ex_env = ex_ssh" "e_tok ex_env = ex_tok" "e_kube ex_env = ex_kube"
  by (simp_all add: ex_env_def)

end
