(* ===== verification/Ssh.thy ===== *)
theory Ssh
  imports Examples
begin

text \<open>
  The SSH client of \<^verbatim>\<open>utils/ssh/ssh.go\<close>: dialling, running a command, streaming a command and
  uploading a file. A client value stands for a dialled connection; \<open>None\<close> is the nil pointer
  \<^verbatim>\<open>NewClient\<close> returns with an error. The goroutine that writes the password to the command's
  standard input is part of \<open>Run\<close>, and the \<^verbatim>\<open>select\<close> between the command and the cancelled
  context is the answer to it. Writes to the log are left out.
\<close>

record client =
  c_server :: string
  c_passwd :: string

definition nil_deref :: string where
  "nil_deref = ''invalid memory address or nil pointer dereference''"

definition NewClient :: "sshLib \<Rightarrow> string \<Rightarrow> string \<Rightarrow> string \<Rightarrow> string \<Rightarrow> (goerr + client) prog" where
  "NewClient lib host port user password =
     (let auth = (if password \<noteq> [] then Some password else None);
          server = host @ '':'' @ port
      in bindM (ask (SSHDial server user auth) (ssh_Dial lib)) (\<lambda>err. case err of
           Some e \<Rightarrow> ret (Inl e)
         | None \<Rightarrow> ret (Inr \<lparr>c_server = server, c_passwd = password\<rparr>)))"

definition sudo :: "string \<Rightarrow> string" where
  "sudo cmd = ''sudo -S '' @ cmd"

definition Exec :: "sshLib \<Rightarrow> client option \<Rightarrow> string \<Rightarrow> (goerr + string) prog" where
  "Exec lib c cmd = recoverM (Inr [])
     (case c of
        None \<Rightarrow> crash nil_deref
      | Some cl \<Rightarrow>
          bindM (ask (NewSession (c_server cl)) (ssh_NewSession lib)) (\<lambda>err. case err of
            Some e \<Rightarrow> ret (Inl e)
          | None \<Rightarrow> deferM SessionClose
             (bindM (ask StdinPipe (ssh_StdinPipe lib)) (\<lambda>err. case err of
                Some e \<Rightarrow> ret (Inl e)
              | None \<Rightarrow>
                  bindM (ask (Run (sudo cmd) (c_passwd cl @ mk [10])) (ssh_Run lib))
                    (\<lambda>r. case r of
                       RunDone out errOut (Some e) \<Rightarrow>
                         ret (Inl (errors_Wrap e (sprintf_noargs (out @ errOut))))
                     | RunDone out errOut None \<Rightarrow> ret (Inr (strings_TrimSpace (out @ errOut)))
                     | RunCancelled e \<Rightarrow> ret (Inl e))))))"

text \<open>\<open>setPipe\<close> is the caller's callback; it may do anything, so it is a program of its own.\<close>

definition ExecPipe :: "sshLib \<Rightarrow> client option \<Rightarrow> string \<Rightarrow> unit prog \<Rightarrow> goerr option prog" where
  "ExecPipe lib c cmdStr setPipe = recoverM None
     (case c of
        None \<Rightarrow> crash nil_deref
      | Some cl \<Rightarrow>
          bindM (ask (NewSession (c_server cl)) (ssh_NewSession lib)) (\<lambda>err. case err of
            Some e \<Rightarrow> ret (Some (errors_Wrap e (sprintf_noargs (c_server cl))))
          | None \<Rightarrow> deferM SessionClose
             (bindM (ask StderrPipe (ssh_StderrPipe lib)) (\<lambda>err. case err of
                Some e \<Rightarrow> ret (Some e)
              | None \<Rightarrow>
                  bindM (ask StdoutPipe (ssh_StdoutPipe lib)) (\<lambda>err. case err of
                    Some e \<Rightarrow> ret (Some e)
                  | None \<Rightarrow> thenM setPipe (ask (RunPipe cmdStr) (ssh_RunPipe lib)))))))"

definition chmod_cmd :: "32 word \<Rightarrow> string \<Rightarrow> string" where
  "chmod_cmd mode dest = ''chmod '' @ fmt_octal (unat mode) @ '' '' @ dest"

definition Upload :: "sshLib \<Rightarrow> client option \<Rightarrow> string \<Rightarrow> string \<Rightarrow> goerr option prog" where
  "Upload lib c src dest =
     (case c of
        None \<Rightarrow> crash nil_deref
      | Some cl \<Rightarrow>
          bindM (ask SftpNewClient (sftp_NewClient lib)) (\<lambda>err. case err of
            Some e \<Rightarrow> ret (Some e)
          | None \<Rightarrow> deferM SftpClose
             (bindM (ask (Stat src) (os_Stat lib)) (\<lambda>st. case st of
                Inl e \<Rightarrow> ret (Some (errors_Wrap e (''stat file:'' @ src)))
              | Inr mode \<Rightarrow>
                  bindM (ask (SftpCreate dest) (sftp_Create lib)) (\<lambda>err. case err of
                    Some e \<Rightarrow> ret (Some (errors_Wrap e (''create dest file:'' @ dest)))
                  | None \<Rightarrow> deferM DestClose
                     (bindM (ask (OpenSrc src) (os_Open lib)) (\<lambda>err. case err of
                        Some e \<Rightarrow> ret (Some (errors_Wrap e (''open src file:'' @ src)))
                      | None \<Rightarrow> deferM SrcClose
                         (bindM (ask (Copy src dest) (io_Copy lib)) (\<lambda>r. case r of
                            CopyDone (Some e) \<Rightarrow>
                              ret (Some (errors_Wrap e (''io copy src:'' @ src @ '', dest:'' @ dest)))
                          | CopyCancelled e \<Rightarrow> ret (Some e)
                          | CopyDone None \<Rightarrow>
                              (let cmd = chmod_cmd mode dest in
                               bindM (Exec lib c cmd) (\<lambda>r. case r of
                                 Inl e \<Rightarrow> ret (Some (errors_Wrap e (''cmd:'' @ cmd)))
                               | Inr _ \<Rightarrow> ret None)))))))))))"

section \<open>What a call leaves on the remote host and on this one\<close>

fun run_cmd :: "action \<Rightarrow> string option" where
  "run_cmd (Run cmd _) = Some cmd"
| "run_cmd _ = None"

text \<open>The commands a history ran on remote hosts, oldest first.\<close>

abbreviation remote_cmds :: "hist \<Rightarrow> string list" where
  "remote_cmds \<equiv> proj run_cmd"

fun is_ssh :: "action \<Rightarrow> bool" where
  "is_ssh (NewSession _) = True"
| "is_ssh StdinPipe = True"
| "is_ssh (Run _ _) = True"
| "is_ssh SessionClose = True"
| "is_ssh SftpNewClient = True"
| "is_ssh SftpClose = True"
| "is_ssh (Stat _) = True"
| "is_ssh (SftpCreate _) = True"
| "is_ssh DestClose = True"
| "is_ssh (OpenSrc _) = True"
| "is_ssh SrcClose = True"
| "is_ssh (Copy _ _) = True"
| "is_ssh _ = False"

text \<open>
  What can be open: a session, an SFTP client, the remote file that is written and the local file
  that is read. Every call that opens one with success counts up the handles of its kind, every
  close counts down those of the kind it closes.
\<close>

datatype handle = SessionHandle | SftpHandle | DestHandle | SrcHandle

fun opened :: "sshLib \<Rightarrow> action \<Rightarrow> hist \<Rightarrow> handle option" where
  "opened lib (NewSession srv) h = (if ssh_NewSession lib (NewSession srv # h) = None then Some SessionHandle else None)"
| "opened lib SftpNewClient h = (if sftp_NewClient lib (SftpNewClient # h) = None then Some SftpHandle else None)"
| "opened lib (SftpCreate f) h = (if sftp_Create lib (SftpCreate f # h) = None then Some DestHandle else None)"
| "opened lib (OpenSrc f) h = (if os_Open lib (OpenSrc f # h) = None then Some SrcHandle else None)"
| "opened lib _ h = None"

fun closed :: "action \<Rightarrow> handle option" where
  "closed SessionClose = Some SessionHandle"
| "closed SftpClose = Some SftpHandle"
| "closed DestClose = Some DestHandle"
| "closed SrcClose = Some SrcHandle"
| "closed _ = None"

fun open_handles :: "sshLib \<Rightarrow> handle \<Rightarrow> hist \<Rightarrow> int" where
  "open_handles lib k [] = 0"
| "open_handles lib k (a # h) = open_handles lib k h
     + (if opened lib a h = Some k then 1 else 0) - (if closed a = Some k then 1 else 0)"

lemma Exec_nil: "Exec lib None cmd = ret (Inr [])"
  by (simp add: Exec_def)

section \<open>Exec\<close>

lemma confined_runResult [confined_rules]:
  "(\<And>out eo e. confined P (m out eo e)) \<Longrightarrow> (\<And>e. confined P (k e)) \<Longrightarrow>
   confined P (case r of RunDone out eo e \<Rightarrow> m out eo e | RunCancelled e \<Rightarrow> k e)"
  by (cases r) auto

lemma confined_copyResult [confined_rules]:
  "(\<And>e. confined P (m e)) \<Longrightarrow> (\<And>e. confined P (k e)) \<Longrightarrow>
   confined P (case r of CopyDone e \<Rightarrow> m e | CopyCancelled e \<Rightarrow> k e)"
  by (cases r) auto

lemma run_runResult [run_simps]:
  "(case v of RunDone out eo e \<Rightarrow> m out eo e | RunCancelled e \<Rightarrow> k e) h = Some (Ret y h') \<longleftrightarrow>
     (\<exists>out eo e. v = RunDone out eo e \<and> m out eo e h = Some (Ret y h'))
     \<or> (\<exists>e. v = RunCancelled e \<and> k e h = Some (Ret y h'))"
  by (cases v) auto

lemma run_copyResult [run_simps]:
  "(case v of CopyDone e \<Rightarrow> m e | CopyCancelled e \<Rightarrow> k e) h = Some (Ret y h') \<longleftrightarrow>
     (\<exists>e. v = CopyDone e \<and> m e h = Some (Ret y h'))
     \<or> (\<exists>e. v = CopyCancelled e \<and> k e h = Some (Ret y h'))"
  by (cases v) auto

lemma Exec_confined: "confined is_ssh (Exec lib c cmd)"
  unfolding Exec_def by (intro confined_rules) (auto intro!: confined_rules)

text \<open>Every branch of \<^verbatim>\<open>Exec\<close> on a dialled connection, with what it adds to the history.\<close>

lemma Exec_branches:
  "Exec lib (Some cl) cmd h =
     (let h1 = NewSession (c_server cl) # h; h2 = StdinPipe # h1;
          h3 = Run (sudo cmd) (c_passwd cl @ mk [10]) # h2 in
      case ssh_NewSession lib h1 of
        Some e \<Rightarrow> Some (Ret (Inl e) h1)
      | None \<Rightarrow> (case ssh_StdinPipe lib h2 of
          Some e \<Rightarrow> Some (Ret (Inl e) (SessionClose # h2))
        | None \<Rightarrow> Some (Ret
            (case ssh_Run lib h3 of
               RunDone out eo (Some e) \<Rightarrow> Inl (errors_Wrap e (sprintf_noargs (out @ eo)))
             | RunDone out eo None \<Rightarrow> Inr (strings_TrimSpace (out @ eo))
             | RunCancelled e \<Rightarrow> Inl e) (SessionClose # h3))))"
  by (simp add: Exec_def io_defs Let_def split: option.split runResult.split)

lemma Exec_returns [total_rules]: "returns (Exec lib c cmd) h"
  by (cases c) (auto simp: returns_def Exec_branches Exec_nil ret_def Let_def split: option.split)

lemma Exec_ok_cmds:
  assumes "Exec lib (Some cl) cmd h = Some (Ret (Inr s) h')"
  shows "remote_cmds h' = remote_cmds h @ [sudo cmd]"
  using assms by (auto simp: Exec_branches Let_def split: option.splits)

lemma Exec_cmds:
  assumes "Exec lib c cmd h = Some (Ret r h')"
  shows "remote_cmds h' \<in> {remote_cmds h, remote_cmds h @ [sudo cmd]}"
  using assms by (cases c) (auto simp: Exec_branches Exec_nil ret_def Let_def split: option.splits)

lemma Exec_handles:
  assumes "Exec lib c cmd h = Some (Ret r h')"
  shows "open_handles lib k h' = open_handles lib k h"
  using assms by (cases c) (auto simp: Exec_branches Exec_nil ret_def Let_def split: option.splits)

section \<open>The interface of a remote shell\<close>

text \<open>
  What the code that drives a remote host relies on: running a command always returns, a command
  that is reported as successful on a live connection has been run with \<^verbatim>\<open>sudo\<close>, at most that one
  command is run, and on the nil connection nothing is run and success is reported.
\<close>

locale remote_shell =
  fixes exec :: "client option \<Rightarrow> string \<Rightarrow> (goerr + string) prog"
  assumes exec_returns: "returns (exec c cmd) h"
    and exec_confined: "confined is_ssh (exec c cmd)"
    and exec_ok: "exec (Some cl) cmd h = Some (Ret (Inr s) h') \<Longrightarrow>
        remote_cmds h' = remote_cmds h @ [sudo cmd]"
    and exec_cmds: "exec c cmd h = Some (Ret r h') \<Longrightarrow>
        remote_cmds h' = remote_cmds h \<or> remote_cmds h' = remote_cmds h @ [sudo cmd]"
    and exec_nil: "exec None cmd = ret (Inr [])"

text \<open>
  The shape of almost every step on a remote host: run a command, keep only its error and wrap
  it with a message.
\<close>

definition script_step ::
  "(client option \<Rightarrow> string \<Rightarrow> (goerr + string) prog) \<Rightarrow> client option \<Rightarrow> string \<Rightarrow> (goerr \<Rightarrow> goerr)
     \<Rightarrow> goerr option prog" where
  "script_step exec c cmd wrap = bindM (exec c cmd) (\<lambda>r. case r of
      Inl err \<Rightarrow> ret (Some (wrap err))
    | Inr _ \<Rightarrow> ret None)"

context remote_shell begin

lemma step_returns: "returns (script_step exec c cmd wrap) h"
  unfolding script_step_def
  by (intro returns_bindM exec_returns) (auto intro: returns_ret split: sum.split)

lemma step_confined: "confined is_ssh (script_step exec c cmd wrap)"
  unfolding script_step_def by (intro confined_rules exec_confined)

lemma step_cases:
  assumes "script_step exec (Some cl) cmd wrap h = Some (Ret r h')"
  shows "r = None \<and> remote_cmds h' = remote_cmds h @ [sudo cmd]
    \<or> (\<exists>e. r = Some (wrap e)) \<and> (remote_cmds h' = remote_cmds h
         \<or> remote_cmds h' = remote_cmds h @ [sudo cmd])"
  using assms exec_ok [of cl cmd h] exec_cmds [of "Some cl" cmd h]
  by (fastforce simp: script_step_def bindM_def ret_def split: option.splits outcome.splits sum.splits)

lemma step_ok:
  assumes "script_step exec (Some cl) cmd wrap h = Some (Ret None h')"
  shows "remote_cmds h' = remote_cmds h @ [sudo cmd]"
  using step_cases [OF assms] by simp

lemma step_nil: "script_step exec None cmd wrap = ret None"
  by (simp add: script_step_def exec_nil)

end

interpretation sh: remote_shell "Exec lib" for lib
  by unfold_locales
    (auto simp: Exec_nil intro: Exec_returns Exec_confined Exec_ok_cmds dest: Exec_cmds)

lemma confined_script_step [confined_rules]: "confined is_ssh (script_step (Exec lib) c cmd wrap)"
  by (rule sh.step_confined)

section \<open>Upload\<close>

lemma Upload_confined: "confined is_ssh (Upload lib c src dest)"
  unfolding Upload_def by (intro confined_rules) (auto intro!: confined_rules Exec_confined simp: Let_def)

lemma Upload_nil: "Upload lib None src dest = crash nil_deref"
  by (simp add: Upload_def)

lemma Upload_returns: "returns (Upload lib (Some cl) src dest) h"
  unfolding Upload_def
  by (auto simp: Let_def intro!: total_rules split: option.split sum.split copyResult.split)

lemma wp_Exec_handles:
  "wp (Exec lib c cmd) (\<lambda>_ h'. open_handles lib k h' = open_handles lib k h) (\<lambda>_ _. False) h"
  using Exec_returns [of lib c cmd h] by (auto simp: wp_def returns_def dest: Exec_handles)

lemma wp_Upload_handles:
  "wp (Upload lib c src dest)
     (\<lambda>_ h'. open_handles lib k h' = open_handles lib k h)
     (\<lambda>_ h'. c = None \<and> h' = h) h"
proof (cases c)
  case (Some cl)
  then show ?thesis
    by (auto simp: Upload_def Let_def wp_rules split: option.split sum.split copyResult.split
        intro!: wp_mono [OF wp_Exec_handles [where k = k]])
qed (simp add: Upload_def wp_rules)

fun copied :: "action \<Rightarrow> (string \<times> string) option" where
  "copied (Copy src dest) = Some (src, dest)"
| "copied _ = None"

abbreviation uploads :: "hist \<Rightarrow> (string \<times> string) list" where
  "uploads \<equiv> proj copied"

lemma Exec_uploads: "Exec lib c cmd h = Some (Ret r h') \<Longrightarrow> uploads h' = uploads h"
  by (cases c) (auto simp: Exec_branches Exec_nil ret_def Let_def split: option.splits)

text \<open>What a successful upload did: the file was copied, then its mode was set.\<close>

lemma Upload_ok:
  assumes "Upload lib (Some cl) src dest h = Some (Ret None h')"
  shows "\<exists>mode. os_Stat lib (Stat src # SftpNewClient # h) = Inr mode \<and> uploads h' = uploads h @ [(src, dest)]
    \<and> remote_cmds h' = remote_cmds h @ [sudo (chmod_cmd mode dest)]"
proof -
  let ?h0 = "Copy src dest # OpenSrc src # SftpCreate dest # Stat src # SftpNewClient # h"
  from assms obtain mode s h1 where
    stat: "os_Stat lib (Stat src # SftpNewClient # h) = Inr mode"
    and exec: "Exec lib (Some cl) (chmod_cmd mode dest) ?h0 = Some (Ret (Inr s) h1)"
    and h': "h' = SftpClose # DestClose # SrcClose # h1"
    by (auto simp: Upload_def Let_def run_simps)
  from Exec_uploads [OF exec] Exec_ok_cmds [OF exec] h' stat show ?thesis
    by (intro exI [of _ mode]) simp
qed

section \<open>Properties\<close>

text \<open>C26: No function of the SSH client leaks a session, an SFTP client or a file, and none closes one
  twice: whatever the library answers, after \<^verbatim>\<open>Exec\<close> and after \<^verbatim>\<open>Upload\<close> (error returns and the
  panic on a nil client included) as many handles of each of the four kinds are open as before.\<close>

theorem ssh_handles_balanced:
  "wp (Exec lib c cmd) (\<lambda>_ h'. open_handles lib k h' = open_handles lib k h) (\<lambda>_ _. False) h \<and>
   wp (Upload lib c src dest) (\<lambda>_ h'. open_handles lib k h' = open_handles lib k h)
     (\<lambda>_ h'. open_handles lib k h' = open_handles lib k h) h"
  by (intro conjI wp_Exec_handles wp_mono [OF wp_Upload_handles]) auto

theorem ssh_handles_balanced_witness:
  "\<exists>h'. Upload (ex_ssh\<lparr>io_Copy := \<lambda>_. CopyCancelled (ExtErr ''context canceled'')\<rparr>)
      (Some \<lparr>c_server = ''h:22'', c_passwd = ''p''\<rparr>) ''/a'' ''/tmp/b'' []
      = Some (Ret (Some (ExtErr ''context canceled'')) h')
    \<and> open_handles (ex_ssh\<lparr>io_Copy := \<lambda>_. CopyCancelled (ExtErr ''context canceled'')\<rparr>) SrcHandle h' = 0"
proof -
  let ?lib = "ex_ssh\<lparr>io_Copy := \<lambda>_. CopyCancelled (ExtErr ''context canceled'')\<rparr>"
  obtain h' where run: "Upload ?lib (Some \<lparr>c_server = ''h:22'', c_passwd = ''p''\<rparr>) ''/a'' ''/tmp/b'' []
      = Some (Ret (Some (ExtErr ''context canceled'')) h')"
    by (simp add: Upload_def io_defs Let_def)
  from wp_RetD [OF ssh_handles_balanced [THEN conjunct2] run, of SrcHandle] run show ?thesis by simp
qed

text \<open>C27: An upload without an error made exactly these calls, in this order and each without an error:
  it opened an SFTP client, read the mode of the local file, created the remote file, opened the
  local one and copied it to the end; only then, as its only command, it gave the remote file the
  mode of the local one, in octal, and closed what it had opened.\<close>

theorem upload_copies_and_sets_mode:
  assumes "Upload lib (Some cl) src dest h = Some (Ret None h')"
  defines "h1 \<equiv> Stat src # SftpNewClient # h"
    and "h2 \<equiv> Copy src dest # OpenSrc src # SftpCreate dest # Stat src # SftpNewClient # h"
  shows "\<exists>mode h3 out eo. os_Stat lib h1 = Inr mode
    \<and> h3 = Run (''sudo -S chmod '' @ fmt_octal (unat mode) @ '' '' @ dest) (c_passwd cl @ mk [10])
        # StdinPipe # NewSession (c_server cl) # h2
    \<and> h' = SftpClose # DestClose # SrcClose # SessionClose # h3
    \<and> sftp_NewClient lib (tl h1) = None \<and> sftp_Create lib (SftpCreate dest # h1) = None \<and> os_Open lib (tl h2) = None
    \<and> io_Copy lib h2 = CopyDone None \<and> ssh_Run lib h3 = RunDone out eo None"
  using assms(1) unfolding h1_def h2_def
  by (auto simp: Upload_def Let_def run_simps Exec_branches chmod_cmd_def sudo_def
      split: option.splits runResult.splits)

theorem upload_copies_and_sets_mode_witness:
  "\<exists>h'. Upload ex_ssh (Some \<lparr>c_server = ''h:22'', c_passwd = ''p''\<rparr>) ''/a'' ''/tmp/b'' [] = Some (Ret None h')
    \<and> uploads h' = [(''/a'', ''/tmp/b'')] \<and> remote_cmds h' = [''sudo -S chmod '' @ fmt_octal 420 @ '' /tmp/b'']"
proof -
  obtain h' where run: "Upload ex_ssh (Some \<lparr>c_server = ''h:22'', c_passwd = ''p''\<rparr>) ''/a'' ''/tmp/b'' [] = Some (Ret None h')"
    by (simp add: Upload_def io_defs Exec_branches [unfolded io_defs] Let_def)
  from upload_copies_and_sets_mode [OF run] run show ?thesis by auto
qed

end
