(* ===== verification/GoSha256.thy ===== *)
theory GoSha256
  imports GoStrings
begin

unbundle bit_operations_syntax

text \<open>\<^verbatim>\<open>sha256.Sum256\<close> (FIPS 180-4) on a list of bytes, with 32-bit words that wrap around.\<close>

text \<open>
  The constants, as the standard derives them: the first 32 bits of the fractional parts of the
  cube roots of the first 64 primes, and of the square roots of the first eight. \<open>int_root k b x n\<close>
  adds to \<open>x\<close>, from bit \<open>b - 1\<close> down, every bit that keeps its \<open>k\<close>-th power at most \<open>n\<close>.
\<close>

fun int_root :: "nat \<Rightarrow> nat \<Rightarrow> nat \<Rightarrow> nat \<Rightarrow> nat" where
  "int_root k 0 x n = x"
| "int_root k (Suc b) x n = int_root k b (if (x + 2 ^ b) ^ k \<le> n then x + 2 ^ b else x) n"

definition root_fraction :: "nat \<Rightarrow> nat \<Rightarrow> 32 word" where
  "root_fraction k p = of_nat (int_root k 37 0 (p * 2 ^ (32 * k)))"

definition prime_numbers :: "nat list" where
  "prime_numbers = filter (\<lambda>p. list_all (\<lambda>d. p mod d \<noteq> 0) [2..<p]) [2..<312]"

definition sha_k :: "32 word list" where
  "sha_k = map (root_fraction 3) prime_numbers"

definition sha_init :: "32 word list" where
  "sha_init = map (root_fraction 2) [2, 3, 5, 7, 11, 13, 17, 19]"

definition big_endian :: "nat \<Rightarrow> nat \<Rightarrow> nat list" where
  "big_endian w n = map (\<lambda>i. n div 256 ^ (w - 1 - i) mod 256) [0..<w]"

definition sha_pad :: "nat list \<Rightarrow> nat list" where
  "sha_pad bs = (let l = length bs; zeros = (119 - l mod 64) mod 64 in
     bs @ [128] @ replicate zeros 0 @ big_endian 8 (8 * l))"

fun words32 :: "nat list \<Rightarrow> 32 word list" where
  "words32 (a # b # c # d # bs) = of_nat (((a * 256 + b) * 256 + c) * 256 + d) # words32 bs"
| "words32 _ = []"

definition sha_extend :: "32 word list \<Rightarrow> 32 word list" where
  "sha_extend ws =
     (let x = ws ! (length ws - 15); y = ws ! (length ws - 2);
          s0 = word_rotr 7 x XOR word_rotr 18 x XOR drop_bit 3 x;
          s1 = word_rotr 17 y XOR word_rotr 19 y XOR drop_bit 10 y
      in ws @ [ws ! (length ws - 16) + s0 + ws ! (length ws - 7) + s1])"

fun sha_round :: "32 word list \<Rightarrow> 32 word \<times> 32 word \<Rightarrow> 32 word list" where
  "sha_round [a, b, c, d, e, f, g, h] (k, w) =
     (let s1 = word_rotr 6 e XOR word_rotr 11 e XOR word_rotr 25 e;
          ch = (e AND f) XOR (NOT e AND g);
          t1 = h + s1 + ch + k + w;
          s0 = word_rotr 2 a XOR word_rotr 13 a XOR word_rotr 22 a;
          maj = (a AND b) XOR (a AND c) XOR (b AND c);
          t2 = s0 + maj
      in [t1 + t2, a, b, c, d + t1, e, f, g])"
| "sha_round st _ = st"

definition sha_block :: "32 word list \<Rightarrow> nat list \<Rightarrow> 32 word list" where
  "sha_block st block =
     (let ws = (sha_extend ^^ 48) (words32 block)
      in map2 (+) st (foldl sha_round st (zip sha_k ws)))"

fun sha_blocks :: "nat \<Rightarrow> 32 word list \<Rightarrow> nat list \<Rightarrow> 32 word list" where
  "sha_blocks 0 st bs = st"
| "sha_blocks (Suc n) st bs = sha_blocks n (sha_block st (take 64 bs)) (drop 64 bs)"

definition sha256_Sum256 :: "nat list \<Rightarrow> nat list" where
  "sha256_Sum256 bs = (let p = sha_pad bs in
     concat (map (\<lambda>w. big_endian 4 (unat w)) (sha_blocks (length p div 64) sha_init p)))"

lemma length_sha_round: "length st = 8 \<Longrightarrow> length (sha_round st kw) = 8"
  by (induction st kw rule: sha_round.induct) (auto simp: Let_def)

lemma length_sha_rounds: "length st = 8 \<Longrightarrow> length (foldl sha_round st kws) = 8"
  by (induction kws arbitrary: st) (auto simp: length_sha_round)

lemma length_sha_blocks: "length st = 8 \<Longrightarrow> length (sha_blocks n st bs) = 8"
  by (induction n arbitrary: st bs) (auto simp: sha_block_def Let_def length_sha_rounds)

lemma length_big_endian [simp]: "length (big_endian w n) = w"
  by (simp add: big_endian_def)

lemma length_sha256: "length (sha256_Sum256 bs) = 32"
proof -
  have "length (sha_blocks n sha_init p) = 8" for n p
    by (rule length_sha_blocks) (simp add: sha_init_def)
  then show ?thesis
    by (simp add: sha256_Sum256_def Let_def length_concat comp_def sum_list_triv)
qed

end
