(* ===== verification/Token.thy ===== *)
theory Token
  imports Examples GoSha256 "HOL-Library.Sublist"
begin

text \<open>
  The join information of \<^verbatim>\<open>pkg/nodemanager/token.go\<close>: what a worker or an edge node needs to
  join the cluster, read from the cluster's own config maps and secrets, and the bootstrap token
  that is created for a worker.
\<close>

section \<open>Bootstrap tokens\<close>

record bootstrapTokenString =
  bts_ID :: string
  bts_Secret :: string

record bootstrapToken =
  bt_Token :: bootstrapTokenString
  bt_Description :: string
  bt_TTL :: "duration option"
  bt_Expires :: "instant option"
  bt_Usages :: "string list"
  bt_Groups :: "string list"

definition encodeTokenSecretData :: "tokenLib \<Rightarrow> bootstrapToken \<Rightarrow> instant \<Rightarrow> (string \<times> string) list" where
  "encodeTokenSecretData lib token now =
     (let data = AList.update (bootstrap_TokenSecretKey lib) (bts_Secret (bt_Token token))
                   (AList.update (bootstrap_TokenIDKey lib) (bts_ID (bt_Token token)) []);
          data = (if length (bt_Description token) > 0
            then AList.update (bootstrap_DescriptionKey lib) (bt_Description token) data else data);
          data = (case bt_Expires token of
              Some expires \<Rightarrow> AList.update (bootstrap_ExpirationKey lib) (format_RFC3339 expires) data
            | None \<Rightarrow> (case bt_TTL token of
                Some ttl \<Rightarrow>
                  (if ttl > 0
                   then AList.update (bootstrap_ExpirationKey lib) (format_RFC3339 (time_Add now ttl)) data
                   else data)
              | None \<Rightarrow> data));
          data = fold (\<lambda>usage. AList.update (bootstrap_UsagePrefix lib @ usage) ''true'') (bt_Usages token) data
      in if length (bt_Groups token) > 0
         then AList.update (bootstrap_ExtraGroupsKey lib) (strings_Join '','' (bt_Groups token)) data
         else data)"

definition BootstrapTokenToSecret :: "env \<Rightarrow> bootstrapToken \<Rightarrow> secret prog" where
  "BootstrapTokenToSecret env bt =
     bindM (ask TimeNow (e_now env)) (\<lambda>now. ret
       \<lparr>secret_Name = bootstrap_SecretName (e_tok env) (bts_ID (bt_Token bt)),
        secret_Namespace = meta_NamespaceSystem (e_tok env),
        secret_Type = bootstrap_SecretType (e_tok env),
        secret_Data = encodeTokenSecretData (e_tok env) bt now\<rparr>)"

definition CreateOrUpdateSecret :: "tokenLib \<Rightarrow> secret \<Rightarrow> goerr option prog" where
  "CreateOrUpdateSecret lib s =
     bindM (ask (CreateSecret s) (core_CreateSecret lib)) (\<lambda>err. case err of
       None \<Rightarrow> ret None
     | Some e \<Rightarrow>
         (if \<not> api_IsAlreadyExists lib e then ret (Some (errors_Wrap e ''unable to create secret''))
          else bindM (ask (UpdateSecret s) (core_UpdateSecret lib)) (\<lambda>err. case err of
            None \<Rightarrow> ret None
          | Some e \<Rightarrow> ret (Some (errors_Wrap e ''unable to update secret'')))))"

definition NewBootstrapToken :: "tokenLib \<Rightarrow> string \<Rightarrow> goerr + bootstrapToken" where
  "NewBootstrapToken lib token =
     (case bootstrap_FindStringSubmatch lib token of
        [_, tokenID, tokenSecret] \<Rightarrow> Inr
          \<lparr>bt_Token = \<lparr>bts_ID = tokenID, bts_Secret = tokenSecret\<rparr>, bt_Description = [],
           bt_TTL = None, bt_Expires = None, bt_Usages = [], bt_Groups = []\<rparr>
      | _ \<Rightarrow> Inl (NewErr (''the bootstrap token '' @ fmt_q token @ '' was not of the form ''
               @ fmt_q (bootstrap_TokenPattern lib))))"

definition GetToken :: "env \<Rightarrow> (goerr + string) prog" where
  "GetToken env = (let lib = e_tok env in
     bindM (ask GenerateBootstrapToken (bootstrap_GenerateToken lib)) (\<lambda>tokenStr. case tokenStr of
       Inl err \<Rightarrow> ret (Inl (errors_Wrap err ''couldn't generate random token''))
     | Inr tokenStr \<Rightarrow> (case NewBootstrapToken lib tokenStr of
         Inl err \<Rightarrow> ret (Inl err)
       | Inr tokenBoot \<Rightarrow>
           (let secretName = bootstrap_SecretName lib (bts_ID (bt_Token tokenBoot)) in
            bindM (ask (GetSecret (meta_NamespaceSystem lib) secretName) (core_GetSecret lib)) (\<lambda>found.
              case found of
                Inr _ \<Rightarrow> ret (Inl (NewErr (''a token with id '' @ fmt_q (bts_ID (bt_Token tokenBoot))
                            @ '' already exists'')))
              | Inl _ \<Rightarrow>
                  (let tokenBoot = tokenBoot
                     \<lparr>bt_TTL := Some (24 * Hour),
                      bt_Usages := [''signing'', ''authentication''],
                      bt_Groups := [''system:bootstrappers:kubeadm:default-node-token'']\<rparr> in
                   bindM (BootstrapTokenToSecret env tokenBoot) (\<lambda>s.
                   bindM (CreateOrUpdateSecret lib s) (\<lambda>err. case err of
                     Some e \<Rightarrow> ret (Inl e)
                   | None \<Rightarrow> ret (Inr (bts_ID (bt_Token tokenBoot) @ ''.''
                        @ bts_Secret (bt_Token tokenBoot)))))))))))"

section \<open>Cluster and certificate\<close>

text \<open>\<^verbatim>\<open>m[k]\<close> on a map to strings (the zero value for a missing key) and on a map to pointers.\<close>

definition map_get :: "(string \<times> string) list \<Rightarrow> string \<Rightarrow> string" where
  "map_get m k = (case map_of m k of None \<Rightarrow> [] | Some v \<Rightarrow> v)"

definition ptr_get :: "(string \<times> 'a option) list option \<Rightarrow> string \<Rightarrow> 'a option" where
  "ptr_get m k = (case m of None \<Rightarrow> None
     | Some es \<Rightarrow> (case map_of es k of None \<Rightarrow> None | Some p \<Rightarrow> p))"

text \<open>\<^verbatim>\<open>for key, obj := range m { m[key] = obj }\<close>, and the replacement of a nil map by an empty one.\<close>

definition restore_entries :: "(string \<times> 'a) list option \<Rightarrow> (string \<times> 'a) list option" where
  "restore_entries m = (case m of None \<Rightarrow> None
     | Some es \<Rightarrow> Some (fold (\<lambda>(k, v). AList.update k v) es es))"

definition make_if_nil :: "(string \<times> 'a) list option \<Rightarrow> (string \<times> 'a) list option" where
  "make_if_nil m = (case m of None \<Rightarrow> Some [] | Some es \<Rightarrow> Some es)"

definition GetClusterFromInClusterConfig :: "tokenLib \<Rightarrow> string \<Rightarrow> goerr + kubeConfig" where
  "GetClusterFromInClusterConfig lib kubeconfigBytes =
     (case clientcmd_Load lib kubeconfigBytes of
        Inl err \<Rightarrow> Inl err
      | Inr config \<Rightarrow>
          (let config = config\<lparr>cfg_AuthInfos := restore_entries (cfg_AuthInfos config)\<rparr>;
               config = config\<lparr>cfg_Clusters := restore_entries (cfg_Clusters config)\<rparr>;
               config = config\<lparr>cfg_Contexts := restore_entries (cfg_Contexts config)\<rparr>;
               config = config\<lparr>cfg_AuthInfos := make_if_nil (cfg_AuthInfos config)\<rparr>;
               config = config\<lparr>cfg_Clusters := make_if_nil (cfg_Clusters config)\<rparr>;
               config = config\<lparr>cfg_Contexts := make_if_nil (cfg_Contexts config)\<rparr>
           in Inr config))"

definition GetClusterFromKubeConfig :: "kubeConfig \<Rightarrow> string \<times> cluster option" where
  "GetClusterFromKubeConfig config =
     (if ptr_get (cfg_Clusters config) [] \<noteq> None then ([], ptr_get (cfg_Clusters config) [])
      else (case ptr_get (cfg_Contexts config) (cfg_CurrentContext config) of
          Some currentContext \<Rightarrow>
            (context_Cluster currentContext, ptr_get (cfg_Clusters config) (context_Cluster currentContext))
        | None \<Rightarrow> ([], None)))"

text \<open>A certificate is its raw subject public key info.\<close>

definition Hash :: "string \<Rightarrow> string" where
  "Hash certificate =
     (let spkiHash = sha256_Sum256 (map byte certificate)
      in ''sha256'' @ '':'' @ strings_ToLower (hex_EncodeToString spkiHash))"

section \<open>Join information\<close>

definition index_panic :: string where
  "index_panic = ''index out of range''"

type_synonym joinInfo = "(string \<times> string \<times> string) \<times> goerr option"

definition no_join :: "goerr \<Rightarrow> joinInfo" where
  "no_join err = (([], [], []), Some err)"

text \<open>The end of \<^verbatim>\<open>GetWorkJoinInfo\<close>: hash the certificates, get a token, return the first pin.\<close>

definition pins_and_token :: "env \<Rightarrow> string \<Rightarrow> string list \<Rightarrow> joinInfo prog" where
  "pins_and_token env masterHostAndPort caCerts =
     (let publicKeyPins = map Hash caCerts in
      bindM (GetToken env) (\<lambda>token. case token of
        Inl err \<Rightarrow> ret (no_join (errors_Wrap err ''get Token failed''))
      | Inr token \<Rightarrow> (case publicKeyPins of
          [] \<Rightarrow> crash index_panic
        | pin # _ \<Rightarrow> ret ((masterHostAndPort, token, pin), None))))"

definition GetWorkJoinInfo :: "env \<Rightarrow> joinInfo prog" where
  "GetWorkJoinInfo env = (let lib = e_tok env in
     bindM (ask InClusterConfig (rest_InClusterConfig lib)) (\<lambda>err. case err of
       Some e \<Rightarrow> ret (no_join (NewErr (''Get InClusterConfig Failed,err:'' @ err_text e @ '' '')))
     | None \<Rightarrow>
     bindM (ask NewForConfig (kubernetes_NewForConfig lib)) (\<lambda>err. case err of
       Some e \<Rightarrow> ret (no_join (NewErr (''Create ClientSet  By InClusterConfig Failed,err:'' @ err_text e @ '' '')))
     | None \<Rightarrow>
     bindM (ask (GetConfigMap ''kube-public'' ''cluster-info'') (core_GetConfigMap lib)) (\<lambda>cm. case cm of
       Inl e \<Rightarrow> ret (no_join (NewErr (''Get K8sConfigMap Failed,err:'' @ err_text e @ '' '')))
     | Inr cmData \<Rightarrow>
     (case GetClusterFromInClusterConfig lib (map_get cmData ''kubeconfig'') of
       Inl e \<Rightarrow> ret (no_join (NewErr (''Get GetClusterFromInClusterConfig Failed,err:'' @ err_text e @ '' '')))
     | Inr config \<Rightarrow>
     (case snd (GetClusterFromKubeConfig config) of
       None \<Rightarrow> ret (no_join (NewErr ''failed to get default cluster config''))
     | Some clusterConfig \<Rightarrow>
     (let masterHostAndPort = strings_ReplaceAll (cluster_Server clusterConfig) ''https://'' [] in
      case cluster_CertificateAuthorityData clusterConfig of
        Some pem \<Rightarrow> (case cert_ParseCertsPEM lib pem of
            Inl e \<Rightarrow> ret (no_join (errors_Wrap e ''failed to parse CA certificate from kubeconfig''))
          | Inr caCerts \<Rightarrow> pins_and_token env masterHostAndPort caCerts)
      | None \<Rightarrow>
          (if cluster_CertificateAuthority clusterConfig \<noteq> [] then
             bindM (ask (CertsFromFile (cluster_CertificateAuthority clusterConfig)) (cert_CertsFromFile lib))
               (\<lambda>certs. case certs of
                 Inl e \<Rightarrow> ret (no_join (errors_Wrap e ''failed to load CA certificate referenced by kubeconfig''))
               | Inr caCerts \<Rightarrow> pins_and_token env masterHostAndPort caCerts)
           else ret (no_join (NewErr ''no CA certificates found in kubeconfig''))))))))))"

definition GetKubeEdgeJoinInfo :: "env \<Rightarrow> ((string list \<times> string \<times> string) \<times> goerr option) prog" where
  "GetKubeEdgeJoinInfo env = (let lib = e_tok env; failed = (\<lambda>e. ret (([], [], []), Some e)) in
     bindM (ask InClusterConfig (rest_InClusterConfig lib)) (\<lambda>err. case err of
       Some e \<Rightarrow> failed (NewErr (''Get InClusterConfig Failed,err:'' @ err_text e @ '' ''))
     | None \<Rightarrow>
     bindM (ask NewForConfig (kubernetes_NewForConfig lib)) (\<lambda>err. case err of
       Some e \<Rightarrow> failed (NewErr (''Create ClientSet  By InClusterConfig Failed,err:'' @ err_text e @ '' ''))
     | None \<Rightarrow>
     bindM (ask (GetConfigMap ''kubeedge'' ''cloudcore'') (core_GetConfigMap lib)) (\<lambda>cm. case cm of
       Inl e \<Rightarrow> failed e
     | Inr cmData \<Rightarrow>
     (case yaml_Unmarshal lib (map_get cmData ''cloudcore.yaml'') of
       Inl e \<Rightarrow> failed e
     | Inr cloudCfg \<Rightarrow>
     bindM (ask (GetSecret ''kubeedge'' ''tokensecret'') (core_GetSecret lib)) (\<lambda>s. case s of
       Inl e \<Rightarrow> failed e
     | Inr s \<Rightarrow> ret ((cc_AdvertiseAddress cloudCfg, cc_WebsocketPort cloudCfg,
          map_get (secret_Data s) ''tokendata''), None)))))))"

section \<open>What reading the join information can do\<close>

fun is_token :: "action \<Rightarrow> bool" where
  "is_token TimeNow = True"
| "is_token InClusterConfig = True"
| "is_token NewForConfig = True"
| "is_token (GetConfigMap _ _) = True"
| "is_token (GetSecret _ _) = True"
| "is_token (CreateSecret _) = True"
| "is_token (UpdateSecret _) = True"
| "is_token GenerateBootstrapToken = True"
| "is_token (CertsFromFile _) = True"
| "is_token _ = False"

lemma CreateOrUpdateSecret_confined [confined_rules]: "confined is_token (CreateOrUpdateSecret lib s)"
  unfolding CreateOrUpdateSecret_def by (intro confined_rules) simp_all

lemma BootstrapTokenToSecret_confined [confined_rules]: "confined is_token (BootstrapTokenToSecret env bt)"
  unfolding BootstrapTokenToSecret_def by (intro confined_rules) simp_all

lemma GetToken_confined [confined_rules]: "confined is_token (GetToken env)"
  unfolding GetToken_def Let_def by (intro confined_rules) simp_all

lemma pins_and_token_confined [confined_rules]: "confined is_token (pins_and_token env m cs)"
  unfolding pins_and_token_def Let_def
  by (intro confined_rules)

lemma GetWorkJoinInfo_confined [confined_rules]: "confined is_token (GetWorkJoinInfo env)"
  unfolding GetWorkJoinInfo_def Let_def by (intro confined_rules) simp_all

lemma GetKubeEdgeJoinInfo_confined [confined_rules]: "confined is_token (GetKubeEdgeJoinInfo env)"
  unfolding GetKubeEdgeJoinInfo_def Let_def by (intro confined_rules) simp_all

section \<open>The data of a token secret\<close>

text \<open>
  The keys of the token library are different constants, and no key starts like the keys of the
  usages.
\<close>

definition token_keys_ok :: "tokenLib \<Rightarrow> bool" where
  "token_keys_ok lib \<longleftrightarrow>
     (let keys = [bootstrap_TokenIDKey lib, bootstrap_TokenSecretKey lib, bootstrap_DescriptionKey lib,
        bootstrap_ExpirationKey lib, bootstrap_ExtraGroupsKey lib]
      in distinct keys \<and> (\<forall>k \<in> set keys. \<not> prefix (bootstrap_UsagePrefix lib) k))"

text \<open>When a token expires: an explicit time wins over a time to live, which must be positive.\<close>

definition token_expiry :: "bootstrapToken \<Rightarrow> instant \<Rightarrow> instant option" where
  "token_expiry bt now =
     (case bt_Expires bt of
        Some t \<Rightarrow> Some t
      | None \<Rightarrow> (case bt_TTL bt of
          Some ttl \<Rightarrow> if ttl > 0 then Some (time_Add now ttl) else None
        | None \<Rightarrow> None))"

lemma map_of_fold_usages:
  "map_of (fold (\<lambda>u. AList.update (p @ u) v) us m) k
     = (if \<exists>u \<in> set us. k = p @ u then Some v else map_of m k)"
proof (induction us arbitrary: m)
  case (Cons u us)
  then show ?case by (auto simp: map_of_update)
qed simp

lemma map_of_update_if:
  "map_of (if c then AList.update k v m else m) x = (if c \<and> x = k then Some v else map_of m x)"
  by (simp add: map_of_update)

lemma map_of_update_expiry:
  "map_of (case bt_Expires bt of
      Some t \<Rightarrow> AList.update k (f t) m
    | None \<Rightarrow> (case bt_TTL bt of
        Some ttl \<Rightarrow> (if ttl > 0 then AList.update k (f (time_Add now ttl)) m else m)
      | None \<Rightarrow> m)) x
   = (if token_expiry bt now \<noteq> None \<and> x = k then map_option f (token_expiry bt now) else map_of m x)"
  by (simp add: token_expiry_def map_of_update split: option.split)

lemma encodeTokenSecretData_map:
  "map_of (encodeTokenSecretData lib bt now) k =
     (if bt_Groups bt \<noteq> [] \<and> k = bootstrap_ExtraGroupsKey lib then Some (strings_Join '','' (bt_Groups bt))
      else if \<exists>u \<in> set (bt_Usages bt). k = bootstrap_UsagePrefix lib @ u then Some ''true''
      else if token_expiry bt now \<noteq> None \<and> k = bootstrap_ExpirationKey lib
        then map_option format_RFC3339 (token_expiry bt now)
      else if bt_Description bt \<noteq> [] \<and> k = bootstrap_DescriptionKey lib then Some (bt_Description bt)
      else if k = bootstrap_TokenSecretKey lib then Some (bts_Secret (bt_Token bt))
      else if k = bootstrap_TokenIDKey lib then Some (bts_ID (bt_Token bt)) else None)"
  unfolding encodeTokenSecretData_def Let_def length_greater_0_conv
    map_of_update_if map_of_fold_usages map_of_update_expiry map_of_update fun_upd_apply map_of.simps
  by (rule refl)

lemma keys_ok_usage:
  assumes "token_keys_ok lib" and "k \<in> {bootstrap_TokenIDKey lib, bootstrap_TokenSecretKey lib,
     bootstrap_DescriptionKey lib, bootstrap_ExpirationKey lib, bootstrap_ExtraGroupsKey lib}"
  shows "k \<noteq> bootstrap_UsagePrefix lib @ u"
proof
  assume "k = bootstrap_UsagePrefix lib @ u"
  then have "prefix (bootstrap_UsagePrefix lib) k" by (rule prefixI)
  with assms show False by (auto simp: token_keys_ok_def Let_def)
qed

lemma keys_ok_usages [simp]:
  assumes "token_keys_ok lib"
  shows "bootstrap_TokenIDKey lib \<noteq> bootstrap_UsagePrefix lib @ u"
    "bootstrap_TokenSecretKey lib \<noteq> bootstrap_UsagePrefix lib @ u"
    "bootstrap_DescriptionKey lib \<noteq> bootstrap_UsagePrefix lib @ u"
    "bootstrap_ExpirationKey lib \<noteq> bootstrap_UsagePrefix lib @ u"
    "bootstrap_ExtraGroupsKey lib \<noteq> bootstrap_UsagePrefix lib @ u"
  using keys_ok_usage [OF assms] by blast+

lemma keys_ok_distinct [simp]:
  assumes "token_keys_ok lib"
  shows "bootstrap_TokenIDKey lib \<noteq> bootstrap_TokenSecretKey lib"
    "bootstrap_TokenIDKey lib \<noteq> bootstrap_DescriptionKey lib"
    "bootstrap_TokenIDKey lib \<noteq> bootstrap_ExpirationKey lib"
    "bootstrap_TokenIDKey lib \<noteq> bootstrap_ExtraGroupsKey lib"
    "bootstrap_TokenSecretKey lib \<noteq> bootstrap_DescriptionKey lib"
    "bootstrap_TokenSecretKey lib \<noteq> bootstrap_ExpirationKey lib"
    "bootstrap_TokenSecretKey lib \<noteq> bootstrap_ExtraGroupsKey lib"
    "bootstrap_DescriptionKey lib \<noteq> bootstrap_ExpirationKey lib"
    "bootstrap_DescriptionKey lib \<noteq> bootstrap_ExtraGroupsKey lib"
    "bootstrap_ExpirationKey lib \<noteq> bootstrap_ExtraGroupsKey lib"
  using assms by (simp_all add: token_keys_ok_def Let_def)

section \<open>Tokens\<close>

fun secret_write :: "action \<Rightarrow> secret option" where
  "secret_write (CreateSecret s) = Some s"
| "secret_write (UpdateSecret s) = Some s"
| "secret_write _ = None"

abbreviation secret_writes :: "hist \<Rightarrow> secret list" where
  "secret_writes \<equiv> proj secret_write"

lemma CreateOrUpdateSecret_ok:
  assumes "CreateOrUpdateSecret lib s h = Some (Ret r h')"
  shows "secret_writes h' \<in> {secret_writes h @ [s], secret_writes h @ [s, s]}"
    and "r = None \<Longrightarrow> h' = CreateSecret s # h \<and> core_CreateSecret lib h' = None
      \<or> h' = UpdateSecret s # CreateSecret s # h \<and> core_UpdateSecret lib h' = None"
  using assms by (auto simp: CreateOrUpdateSecret_def run_simps)

text \<open>The token and its description as the code builds them from the generated string.\<close>

definition default_token :: "string \<Rightarrow> string \<Rightarrow> bootstrapToken" where
  "default_token i sec =
     \<lparr>bt_Token = \<lparr>bts_ID = i, bts_Secret = sec\<rparr>, bt_Description = [], bt_TTL = Some (24 * Hour),
      bt_Expires = None, bt_Usages = [''signing'', ''authentication''],
      bt_Groups = [''system:bootstrappers:kubeadm:default-node-token'']\<rparr>"

definition token_secret :: "tokenLib \<Rightarrow> string \<Rightarrow> string \<Rightarrow> instant \<Rightarrow> secret" where
  "token_secret lib i sec now =
     \<lparr>secret_Name = bootstrap_SecretName lib i, secret_Namespace = meta_NamespaceSystem lib,
      secret_Type = bootstrap_SecretType lib,
      secret_Data = encodeTokenSecretData lib (default_token i sec) now\<rparr>"

lemma NewBootstrapToken_ok:
  "NewBootstrapToken lib s = Inr bt \<longleftrightarrow> (\<exists>x i sec. bootstrap_FindStringSubmatch lib s = [x, i, sec] \<and>
     bt = \<lparr>bt_Token = \<lparr>bts_ID = i, bts_Secret = sec\<rparr>, bt_Description = [],
           bt_TTL = None, bt_Expires = None, bt_Usages = [], bt_Groups = []\<rparr>)"
  by (auto simp: NewBootstrapToken_def split: list.split)

lemma GetToken_ok:
  assumes "GetToken env h = Some (Ret (Inr tok) h')"
  defines "lib \<equiv> e_tok env"
  shows "\<exists>s x i sec e h1 h2. h1 = GenerateBootstrapToken # h \<and> bootstrap_GenerateToken lib h1 = Inr s
     \<and> bootstrap_FindStringSubmatch lib s = [x, i, sec] \<and> tok = i @ ''.'' @ sec
     \<and> h2 = GetSecret (meta_NamespaceSystem lib) (bootstrap_SecretName lib i) # h1
     \<and> core_GetSecret lib h2 = Inl e
     \<and> (let ts = token_secret lib i sec (e_now env (TimeNow # h2)) in
          h' = CreateSecret ts # TimeNow # h2 \<and> core_CreateSecret lib h' = None
          \<or> h' = UpdateSecret ts # CreateSecret ts # TimeNow # h2 \<and> core_UpdateSecret lib h' = None)"
  using assms(1)
  by (auto simp: GetToken_def BootstrapTokenToSecret_def Let_def run_simps NewBootstrapToken_ok lib_def
      token_secret_def default_token_def dest!: CreateOrUpdateSecret_ok(2))

section \<open>Join information\<close>

lemma GetToken_returns [total_rules]: "returns (GetToken env) h"
  unfolding GetToken_def BootstrapTokenToSecret_def CreateOrUpdateSecret_def Let_def
  by (intro returns_bindM returns_ask returns_ret)
    (auto intro!: total_rules split: sum.split option.split)

text \<open>What the certificate library documents: an answer without an error has a certificate.\<close>

definition certs_documented :: "tokenLib \<Rightarrow> bool" where
  "certs_documented lib \<longleftrightarrow>
     (\<forall>pem. cert_ParseCertsPEM lib pem \<noteq> Inr []) \<and> (\<forall>h. cert_CertsFromFile lib h \<noteq> Inr [])"

lemma pins_and_token_returns: "cs \<noteq> [] \<Longrightarrow> returns (pins_and_token env m cs) h"
  unfolding pins_and_token_def Let_def
  by (intro returns_bindM GetToken_returns) (auto intro!: total_rules split: sum.split list.split)

text \<open>The certificates a cluster entry leads to, and the history after reading them.\<close>

definition ca_certs :: "tokenLib \<Rightarrow> cluster \<Rightarrow> hist \<Rightarrow> string list \<Rightarrow> hist \<Rightarrow> bool" where
  "ca_certs lib cl h certs h' \<longleftrightarrow>
     (\<exists>pem. cluster_CertificateAuthorityData cl = Some pem
        \<and> cert_ParseCertsPEM lib pem = Inr certs \<and> h' = h)
     \<or> cluster_CertificateAuthorityData cl = None \<and> cluster_CertificateAuthority cl \<noteq> []
        \<and> h' = CertsFromFile (cluster_CertificateAuthority cl) # h \<and> cert_CertsFromFile lib h' = Inr certs"

text \<open>The cluster entry that the public configuration of the cluster leads to.\<close>

definition join_cluster :: "tokenLib \<Rightarrow> (string \<times> string) list \<Rightarrow> cluster option" where
  "join_cluster lib cmData =
     (case GetClusterFromInClusterConfig lib (map_get cmData ''kubeconfig'') of
        Inl _ \<Rightarrow> None
      | Inr config \<Rightarrow> snd (GetClusterFromKubeConfig config))"

lemma pins_and_token_cases:
  assumes "pins_and_token env m certs h = Some (Ret ((m', tok, pin), err) h')"
  shows "err \<noteq> None \<and> m' = [] \<and> tok = [] \<and> pin = []
    \<or> err = None \<and> m' = m \<and> certs \<noteq> [] \<and> pin = Hash (hd certs)
      \<and> GetToken env h = Some (Ret (Inr tok) h')"
  using assms by (auto simp: pins_and_token_def Let_def run_simps no_join_def)

text \<open>Either the run failed before a token was asked for, or it ended in \<open>pins_and_token\<close>.\<close>

lemma GetWorkJoinInfo_cases:
  assumes "GetWorkJoinInfo env h = Some (Ret ((m, tok, pin), err) h')"
  defines "lib \<equiv> e_tok env"
    and "h1 \<equiv> GetConfigMap ''kube-public'' ''cluster-info'' # NewForConfig # InClusterConfig # h"
  shows "err \<noteq> None \<and> m = [] \<and> tok = [] \<and> pin = [] \<and> secret_writes h' = secret_writes h
    \<or> (\<exists>cmData cl certs h2. core_GetConfigMap lib h1 = Inr cmData
        \<and> join_cluster lib cmData = Some cl \<and> ca_certs lib cl h1 certs h2
        \<and> pins_and_token env (strings_ReplaceAll (cluster_Server cl) ''https://'' []) certs h2
            = Some (Ret ((m, tok, pin), err) h'))"
  using assms(1)
  by (auto simp: GetWorkJoinInfo_def Let_def run_simps no_join_def lib_def h1_def join_cluster_def ca_certs_def)

lemma GetWorkJoinInfo_returns:
  assumes "certs_documented (e_tok env)"
  shows "returns (GetWorkJoinInfo env) h"
proof -
  have pins: "returns (pins_and_token env m cs) h"
    if "cert_ParseCertsPEM (e_tok env) pem = Inr cs \<or> cert_CertsFromFile (e_tok env) h' = Inr cs" for m cs h pem h'
    using assms that by (intro pins_and_token_returns) (auto simp: certs_documented_def)
  show ?thesis
    unfolding GetWorkJoinInfo_def Let_def
    by (intro returns_bindM returns_ask; (simp add: run_simps split: option.split sum.split)?;
        intro conjI allI impI returns_bindM returns_ask returns_ret pins;
        (auto simp: run_simps intro!: total_rules pins split: option.split sum.split)?)
qed

lemma GetKubeEdgeJoinInfo_cases:
  assumes "GetKubeEdgeJoinInfo env h = Some (Ret ((hosts, port, tok), err) h')"
  shows "err \<noteq> None \<and> hosts = [] \<and> port = [] \<and> tok = []
    \<or> err = None \<and> (\<exists>cm cc s. yaml_Unmarshal (e_tok env) (map_get cm ''cloudcore.yaml'') = Inr cc
        \<and> h' = GetSecret ''kubeedge'' ''tokensecret'' # GetConfigMap ''kubeedge'' ''cloudcore'' # NewForConfig # InClusterConfig # h
        \<and> core_GetConfigMap (e_tok env) (tl h') = Inr cm \<and> core_GetSecret (e_tok env) h' = Inr s
        \<and> hosts = cc_AdvertiseAddress cc \<and> port = cc_WebsocketPort cc \<and> tok = map_get (secret_Data s) ''tokendata'')"
  using assms by (auto simp: GetKubeEdgeJoinInfo_def Let_def run_simps)

lemma update_same: "map_of m k = Some v \<Longrightarrow> AList.update k v m = m"
  by (induction m) (auto split: if_splits)

lemma restore_entries_id:
  assumes "\<And>es. m = Some es \<Longrightarrow> distinct (map fst es)"
  shows "restore_entries m = m"
proof (cases m)
  case (Some es)
  have "fold (\<lambda>(k, v). AList.update k v) new es = es" if "set new \<subseteq> set es" for new
    using that assms [OF Some] by (induction new) (auto simp: update_same)
  with Some show ?thesis by (simp add: restore_entries_def)
qed (simp add: restore_entries_def)

lemma hex_digits: "set (hex_EncodeToString bs) \<subseteq> set ''0123456789abcdef''"
proof -
  let ?D = "set ''0123456789abcdef''"
  have "hex_digit n \<in> ?D" for n
    unfolding hex_digit_def by (rule nth_mem) simp
  then have "set (hex_byte n) \<subseteq> ?D" for n
    unfolding hex_byte_def list.set by blast
  then show ?thesis
    unfolding hex_EncodeToString_def set_concat set_map by blast
qed

lemma hex_ToLower: "set s \<subseteq> set ''0123456789abcdef'' \<Longrightarrow> strings_ToLower s = s"
proof -
  have *: "lower_byte c = c" if "c \<in> set ''0123456789abcdef''" for c
    using that by (auto simp: lower_byte_def byte_def)
  assume "set s \<subseteq> set ''0123456789abcdef''"
  with * show ?thesis by (auto simp: strings_ToLower_def intro!: map_idI)
qed

lemma encode_lookups:
  assumes "token_keys_ok lib"
  defines "m \<equiv> \<lambda>bt now. map_of (encodeTokenSecretData lib bt now)"
  shows "m bt now (bootstrap_TokenIDKey lib) = Some (bts_ID (bt_Token bt))"
    and "m bt now (bootstrap_TokenSecretKey lib) = Some (bts_Secret (bt_Token bt))"
    and "m bt now (bootstrap_DescriptionKey lib) = (if bt_Description bt = [] then None else Some (bt_Description bt))"
    and "m bt now (bootstrap_ExpirationKey lib) = map_option format_RFC3339 (token_expiry bt now)"
    and "m bt now (bootstrap_ExtraGroupsKey lib)
        = (if bt_Groups bt = [] then None else Some (strings_Join '','' (bt_Groups bt)))"
    and "m bt now (bootstrap_UsagePrefix lib @ u) = (if u \<in> set (bt_Usages bt) then Some ''true'' else None)"
  using assms(1) by (simp_all add: m_def encodeTokenSecretData_map keys_ok_usages [symmetric]
      keys_ok_distinct [symmetric])

definition stores_token :: "tokenLib \<Rightarrow> secret \<Rightarrow> string \<Rightarrow> string \<Rightarrow> instant \<Rightarrow> bool" where
  "stores_token lib s i sec expires \<longleftrightarrow>
     secret_Name s = bootstrap_SecretName lib i \<and> secret_Namespace s = meta_NamespaceSystem lib
     \<and> map_of (secret_Data s) (bootstrap_TokenIDKey lib) = Some i
     \<and> map_of (secret_Data s) (bootstrap_TokenSecretKey lib) = Some sec
     \<and> map_of (secret_Data s) (bootstrap_UsagePrefix lib @ ''signing'') = Some ''true''
     \<and> map_of (secret_Data s) (bootstrap_UsagePrefix lib @ ''authentication'') = Some ''true''
     \<and> map_of (secret_Data s) (bootstrap_ExpirationKey lib) = Some (format_RFC3339 expires)"

lemma token_secret_stores:
  assumes "token_keys_ok lib"
  shows "stores_token lib (token_secret lib i sec now) i sec (time_Add now (24 * Hour))"
proof -
  have "token_expiry (default_token i sec) now = Some (time_Add now (24 * Hour))"
    by (simp add: token_expiry_def default_token_def Hour_def Minute_def Second_def)
  then show ?thesis
    by (simp add: stores_token_def token_secret_def encode_lookups [OF assms]) (simp add: default_token_def)
qed

lemma ex_tok_keys_ok: "token_keys_ok ex_tok"
  by (simp add: token_keys_ok_def)

text \<open>Writing the entries of a map back to it changes nothing.\<close>

lemma GetClusterFromInClusterConfig_load:
  assumes "clientcmd_Load lib b = Inr c"
    and "\<And>es. cfg_AuthInfos c = Some es \<Longrightarrow> distinct (map fst es)"
    and "\<And>es. cfg_Clusters c = Some es \<Longrightarrow> distinct (map fst es)"
    and "\<And>es. cfg_Contexts c = Some es \<Longrightarrow> distinct (map fst es)"
  shows "GetClusterFromInClusterConfig lib b =
    Inr (c\<lparr>cfg_AuthInfos := make_if_nil (cfg_AuthInfos c), cfg_Clusters := make_if_nil (cfg_Clusters c),
        cfg_Contexts := make_if_nil (cfg_Contexts c)\<rparr>)"
  using assms(1) restore_entries_id [OF assms(2)] restore_entries_id [OF assms(3)]
    restore_entries_id [OF assms(4)]
  by (simp add: GetClusterFromInClusterConfig_def Let_def)

section \<open>Properties\<close>

text \<open>C23: The secret of a bootstrap token holds exactly what the token says: its id and its secret, the
  description when there is one, the expiration that the token's time or its positive time to live
  gives, one key per usage and the joined groups; no entry overwrites another.\<close>

theorem token_secret_data:
  assumes "token_keys_ok lib"
  shows "let m = map_of (encodeTokenSecretData lib bt now) in
      m (bootstrap_TokenIDKey lib) = Some (bts_ID (bt_Token bt))
    \<and> m (bootstrap_TokenSecretKey lib) = Some (bts_Secret (bt_Token bt))
    \<and> m (bootstrap_DescriptionKey lib) = (if bt_Description bt = [] then None else Some (bt_Description bt))
    \<and> m (bootstrap_ExpirationKey lib) = map_option format_RFC3339 (token_expiry bt now)
    \<and> m (bootstrap_ExtraGroupsKey lib)
        = (if bt_Groups bt = [] then None else Some (strings_Join '','' (bt_Groups bt)))
    \<and> (\<forall>u. m (bootstrap_UsagePrefix lib @ u) = (if u \<in> set (bt_Usages bt) then Some ''true'' else None))"
  unfolding Let_def using encode_lookups [OF assms] by blast

theorem token_secret_data_witness:
  "map_of (encodeTokenSecretData ex_tok (default_token ''abcdef'' ''0123456789abcdef'') 0) ''token-id'' = Some ''abcdef''"
  using token_secret_data [OF ex_tok_keys_ok, of "default_token ''abcdef'' ''0123456789abcdef''" 0]
  by (simp add: Let_def default_token_def)

text \<open>C22: A token that \<^verbatim>\<open>GetToken\<close> returns is a token of the cluster: it is \<open>id.secret\<close> for the two parts
  of the string that was generated, no secret of that id was found, the clock was read after that,
  and the last write of the run, without an error, stored under the name of the id a secret with
  both usages and an expiration 24 hours after that reading of the clock.\<close>

theorem GetToken_stored:
  assumes "GetToken env h = Some (Ret (Inr tok) h')" and "token_keys_ok (e_tok env)"
  defines "h1 \<equiv> GenerateBootstrapToken # h"
  shows "\<exists>gen x i sec e s h2. bootstrap_GenerateToken (e_tok env) h1 = Inr gen
    \<and> bootstrap_FindStringSubmatch (e_tok env) gen = [x, i, sec] \<and> tok = i @ ''.'' @ sec
    \<and> h2 = TimeNow # GetSecret (meta_NamespaceSystem (e_tok env)) (bootstrap_SecretName (e_tok env) i) # h1
    \<and> core_GetSecret (e_tok env) (tl h2) = Inl e
    \<and> (h' = CreateSecret s # h2 \<and> core_CreateSecret (e_tok env) h' = None
       \<or> h' = UpdateSecret s # CreateSecret s # h2 \<and> core_UpdateSecret (e_tok env) h' = None)
    \<and> stores_token (e_tok env) s i sec (time_Add (e_now env h2) (24 * Hour))"
proof -
  let ?lib = "e_tok env"
  from GetToken_ok [OF assms(1)] obtain gen x i sec e where
    g: "bootstrap_GenerateToken ?lib h1 = Inr gen" "bootstrap_FindStringSubmatch ?lib gen = [x, i, sec]" "tok = i @ ''.'' @ sec"
      "core_GetSecret ?lib (GetSecret (meta_NamespaceSystem ?lib) (bootstrap_SecretName ?lib i) # h1) = Inl e"
    and wr: "let h2 = TimeNow # GetSecret (meta_NamespaceSystem ?lib) (bootstrap_SecretName ?lib i) # h1;
          ts = token_secret ?lib i sec (e_now env h2) in
          h' = CreateSecret ts # h2 \<and> core_CreateSecret ?lib h' = None
          \<or> h' = UpdateSecret ts # CreateSecret ts # h2 \<and> core_UpdateSecret ?lib h' = None"
    unfolding h1_def by (auto simp: Let_def)
  let ?h2 = "TimeNow # GetSecret (meta_NamespaceSystem ?lib) (bootstrap_SecretName ?lib i) # h1"
  show ?thesis
    by (rule exI [of _ gen], rule exI [of _ x], rule exI [of _ i], rule exI [of _ sec], rule exI [of _ e],
        rule exI [of _ "token_secret ?lib i sec (e_now env ?h2)"], rule exI [of _ ?h2])
      (use g wr token_secret_stores [OF assms(2)] in \<open>simp add: Let_def\<close>)
qed

theorem GetToken_stored_witness:
  "\<exists>h' s. GetToken ex_env [] = Some (Ret (Inr ''abcdef.0123456789abcdef'') h') \<and> hd h' = CreateSecret s
     \<and> stores_token ex_tok s ''abcdef'' ''0123456789abcdef'' (time_Add 0 (24 * Hour))"
proof -
  let ?s = "token_secret ex_tok ''abcdef'' ''0123456789abcdef'' 0"
  have run: "GetToken ex_env [] = Some (Ret (Inr ''abcdef.0123456789abcdef'')
      (CreateSecret ?s # TimeNow # GetSecret ''kube-system'' ''bootstrap-token-abcdef'' # [GenerateBootstrapToken]))"
    by (simp add: GetToken_def Let_def io_defs ex_env_def ex_tok_def NewBootstrapToken_def
        BootstrapTokenToSecret_def CreateOrUpdateSecret_def token_secret_def default_token_def)
  have tok: "e_tok ex_env = ex_tok" "e_now ex_env h = 0" for h by (simp_all add: ex_env_def)
  from GetToken_stored [OF run, unfolded tok, OF ex_tok_keys_ok] obtain gen x i sec s where
    "bootstrap_GenerateToken ex_tok [GenerateBootstrapToken] = Inr gen" "bootstrap_FindStringSubmatch ex_tok gen = [x, i, sec]"
    "CreateSecret ?s = CreateSecret s" "stores_token ex_tok s i sec (time_Add 0 (24 * Hour))"
    by auto
  with run show ?thesis by (auto simp: ex_tok_def)
qed

text \<open>C21: \<^verbatim>\<open>GetWorkJoinInfo\<close> gives all of the join information or none of it. Without an error the
  endpoint is the server of the cluster entry without its scheme, the pin is the hash of the first
  CA certificate and the token comes from \<^verbatim>\<open>GetToken\<close>; with an error all three are empty, and a
  bootstrap token is only ever stored after the cluster entry and its certificates were read.\<close>

theorem work_join_info_all_or_nothing:
  assumes "GetWorkJoinInfo env h = Some (Ret ((m, tok, pin), err) h')"
  defines "h1 \<equiv> GetConfigMap ''kube-public'' ''cluster-info'' # NewForConfig # InClusterConfig # h"
  shows "(err \<noteq> None \<longrightarrow> m = [] \<and> tok = [] \<and> pin = [])
    \<and> (err = None \<or> secret_writes h' \<noteq> secret_writes h \<longrightarrow>
        (\<exists>cmData cl certs h2. core_GetConfigMap (e_tok env) h1 = Inr cmData
          \<and> join_cluster (e_tok env) cmData = Some cl \<and> ca_certs (e_tok env) cl h1 certs h2
          \<and> (err = None \<longrightarrow> m = strings_ReplaceAll (cluster_Server cl) ''https://'' []
              \<and> certs \<noteq> [] \<and> pin = Hash (hd certs) \<and> GetToken env h2 = Some (Ret (Inr tok) h'))))"
  using GetWorkJoinInfo_cases [OF assms(1)] unfolding h1_def
  by (blast dest: pins_and_token_cases)

theorem work_join_info_witness:
  "\<exists>h'. GetWorkJoinInfo ex_env [] = Some (Ret ((''10.0.0.1:6443'', ''abcdef.0123456789abcdef'', Hash ''spki''), None) h')
    \<and> core_GetConfigMap ex_tok (GetConfigMap ''kube-public'' ''cluster-info'' # NewForConfig # [InClusterConfig]) = Inr []"
proof -
  have "strings_ReplaceAll ''https://10.0.0.1:6443'' ''https://'' [] = ''10.0.0.1:6443''" by code_simp
  then obtain h' where run: "GetWorkJoinInfo ex_env [] =
      Some (Ret ((''10.0.0.1:6443'', ''abcdef.0123456789abcdef'', Hash ''spki''), None) h')"
    by (simp add: GetWorkJoinInfo_def pins_and_token_def GetToken_def Let_def io_defs ex_defs NewBootstrapToken_def
        BootstrapTokenToSecret_def CreateOrUpdateSecret_def GetClusterFromInClusterConfig_def
        GetClusterFromKubeConfig_def restore_entries_def make_if_nil_def ptr_get_def)
  from work_join_info_all_or_nothing [OF run] run show ?thesis by (auto simp: ex_env_def ex_tok_def)
qed

text \<open>\<^verbatim>\<open>GetWorkJoinInfo\<close> returns, whatever the cluster answers, as long as the certificate library
  keeps its promise that an answer without an error holds a certificate: the index into the list
  of pins is then in range.\<close>

theorem work_join_info_returns:
  assumes "certs_documented (e_tok env)"
  shows "\<exists>info h'. GetWorkJoinInfo env h = Some (Ret info h')"
  using GetWorkJoinInfo_returns [OF assms] by (simp add: returns_def)

theorem work_join_info_returns_witness: "\<exists>info h'. GetWorkJoinInfo ex_env [] = Some (Ret info h')"
  by (rule work_join_info_returns) (simp add: certs_documented_def ex_env_def ex_tok_def)

text \<open>The pin of a certificate is \<^verbatim>\<open>sha256:\<close> and the 64 lower-case hex digits of the SHA-256 digest of
  its public key info; lowering the case changes nothing.\<close>

theorem pin_format:
  "\<exists>d. Hash certificate = ''sha256:'' @ d \<and> d = hex_EncodeToString (sha256_Sum256 (map byte certificate))
     \<and> length d = 64 \<and> set d \<subseteq> set ''0123456789abcdef''"
proof -
  let ?d = "hex_EncodeToString (sha256_Sum256 (map byte certificate))"
  have "Hash certificate = ''sha256:'' @ ?d"
    by (simp add: Hash_def Let_def hex_ToLower [OF hex_digits])
  then show ?thesis
    using hex_digits length_sha256 by (simp add: length_hex_EncodeToString)
qed

text \<open>C37: \<^verbatim>\<open>GetClusterFromInClusterConfig\<close> is the library's \<^verbatim>\<open>Load\<close> with nil maps made empty: the three loops
  that write every entry of a map back to it change nothing, and its error is the library's.\<close>

theorem cluster_config_is_load:
  assumes "\<And>c es. clientcmd_Load lib b = Inr c \<Longrightarrow> cfg_AuthInfos c = Some es \<Longrightarrow> distinct (map fst es)"
    and "\<And>c es. clientcmd_Load lib b = Inr c \<Longrightarrow> cfg_Clusters c = Some es \<Longrightarrow> distinct (map fst es)"
    and "\<And>c es. clientcmd_Load lib b = Inr c \<Longrightarrow> cfg_Contexts c = Some es \<Longrightarrow> distinct (map fst es)"
  shows "GetClusterFromInClusterConfig lib b = (case clientcmd_Load lib b of
      Inl e \<Rightarrow> Inl e
    | Inr c \<Rightarrow> Inr (c\<lparr>cfg_AuthInfos := Some (case cfg_AuthInfos c of None \<Rightarrow> [] | Some es \<Rightarrow> es),
        cfg_Clusters := Some (case cfg_Clusters c of None \<Rightarrow> [] | Some es \<Rightarrow> es),
        cfg_Contexts := Some (case cfg_Contexts c of None \<Rightarrow> [] | Some es \<Rightarrow> es)\<rparr>))"
proof (cases "clientcmd_Load lib b")
  case (Inl e)
  then show ?thesis by (simp add: GetClusterFromInClusterConfig_def)
next
  case (Inr c)
  have make: "make_if_nil m = Some (case m of None \<Rightarrow> [] | Some es \<Rightarrow> es)" for m :: "(string \<times> 'a) list option"
    by (simp add: make_if_nil_def split: option.split)
  from GetClusterFromInClusterConfig_load [OF Inr assms(1) [OF Inr] assms(2) [OF Inr] assms(3) [OF Inr]] Inr
  show ?thesis by (simp add: make)
qed

theorem cluster_config_is_load_witness:
  "GetClusterFromInClusterConfig ex_tok [] = Inr (ex_kubeConfig\<lparr>cfg_AuthInfos := Some [],
     cfg_Clusters := Some [([], Some ex_cluster)], cfg_Contexts := Some []\<rparr>)"
proof -
  have "cfg_Clusters ex_kubeConfig = Some [([], Some ex_cluster)]" "cfg_AuthInfos ex_kubeConfig = None"
    "cfg_Contexts ex_kubeConfig = None" by (simp_all add: ex_kubeConfig_def)
  then show ?thesis
    by (subst cluster_config_is_load) auto
qed

end
