(* ===== verification/GoJson.thy ===== *)
theory GoJson
  imports GoStrings
begin

text \<open>
  The string encoding of Go's \<^verbatim>\<open>encoding/json\<close> (HTML-safe, as \<^verbatim>\<open>json.Marshal\<close> does it) and a
  decoder written from the JSON grammar, with the round trip between the two on valid UTF-8.
\<close>

section \<open>UTF-8\<close>

definition utf8_cont :: "nat \<Rightarrow> bool" where
  "utf8_cont b \<longleftrightarrow> 128 \<le> b \<and> b \<le> 191"

definition utf8_two :: "nat \<Rightarrow> nat \<Rightarrow> bool" where
  "utf8_two b0 b1 \<longleftrightarrow> 194 \<le> b0 \<and> b0 \<le> 223 \<and> utf8_cont b1"

definition utf8_three :: "nat \<Rightarrow> nat \<Rightarrow> nat \<Rightarrow> bool" where
  "utf8_three b0 b1 b2 \<longleftrightarrow> 224 \<le> b0 \<and> b0 \<le> 239 \<and> utf8_cont b1 \<and> utf8_cont b2
     \<and> (b0 = 224 \<longrightarrow> 160 \<le> b1) \<and> (b0 = 237 \<longrightarrow> b1 \<le> 159)"

definition utf8_four :: "nat \<Rightarrow> nat \<Rightarrow> nat \<Rightarrow> nat \<Rightarrow> bool" where
  "utf8_four b0 b1 b2 b3 \<longleftrightarrow> 240 \<le> b0 \<and> b0 \<le> 244 \<and> utf8_cont b1 \<and> utf8_cont b2 \<and> utf8_cont b3
     \<and> (b0 = 240 \<longrightarrow> 144 \<le> b1) \<and> (b0 = 244 \<longrightarrow> b1 \<le> 143)"

text \<open>The size of the rune that starts a byte list with a byte above 127, as \<^verbatim>\<open>utf8.DecodeRune\<close> finds it.\<close>

fun utf8_len :: "nat list \<Rightarrow> nat option" where
  "utf8_len (b0 # b1 # bs) =
     (if utf8_two b0 b1 then Some 2
      else (case bs of
          b2 # _ \<Rightarrow> if utf8_three b0 b1 b2 then Some 3
            else (case bs of
                _ # b3 # _ \<Rightarrow> if utf8_four b0 b1 b2 b3 then Some 4 else None
              | _ \<Rightarrow> None)
        | [] \<Rightarrow> None))"
| "utf8_len _ = None"

lemmas utf8_defs = utf8_cont_def utf8_two_def utf8_three_def utf8_four_def

lemma utf8_len_bounds: "utf8_len bs = Some n \<Longrightarrow> 2 \<le> n \<and> n \<le> length bs"
  by (induction bs rule: utf8_len.induct) (auto split: if_splits list.splits)

lemma utf8_len_high: "utf8_len bs = Some n \<Longrightarrow> \<forall>b \<in> set (take n bs). 128 \<le> b"
  by (induction bs rule: utf8_len.induct) (auto simp: utf8_defs split: if_splits list.splits)

fun valid_utf8 :: "string \<Rightarrow> bool" where
  "valid_utf8 [] = True"
| "valid_utf8 (c # cs) =
     (if byte c < 128 then valid_utf8 cs
      else (case utf8_len (map byte (c # cs)) of
          None \<Rightarrow> False
        | Some n \<Rightarrow> valid_utf8 (drop (n - 1) cs)))"

lemma valid_utf8_ascii: "\<forall>c \<in> set s. byte c < 128 \<Longrightarrow> valid_utf8 s"
  by (induction s) auto

section \<open>Encoding\<close>

definition json_ascii :: "char \<Rightarrow> string" where
  "json_ascii c =
     (let b = byte c in
      if b = 34 \<or> b = 92 then [char_of (92::nat), c]
      else if b = 10 then mk [92] @ ''n''
      else if b = 13 then mk [92] @ ''r''
      else if b = 9 then mk [92] @ ''t''
      else if b < 32 \<or> b = 60 \<or> b = 62 \<or> b = 38 then mk [92] @ ''u00'' @ hex_byte b
      else [c])"

fun json_body :: "string \<Rightarrow> string" where
  "json_body [] = []"
| "json_body (c # cs) =
     (if byte c < 128 then json_ascii c @ json_body cs
      else (case utf8_len (map byte (c # cs)) of
          None \<Rightarrow> mk [92] @ ''ufffd'' @ json_body cs
        | Some n \<Rightarrow>
            (if take 3 (map byte (c # cs)) = [226, 128, 168] then mk [92] @ ''u2028''
             else if take 3 (map byte (c # cs)) = [226, 128, 169] then mk [92] @ ''u2029''
             else c # take (n - 1) cs) @ json_body (drop (n - 1) cs)))"

definition json_string :: "string \<Rightarrow> string" where
  "json_string s = mk [34] @ json_body s @ mk [34]"

text \<open>A struct of string fields with \<^verbatim>\<open>omitempty\<close>: empty fields are left out.\<close>

definition json_field :: "string \<times> string \<Rightarrow> string" where
  "json_field kv = json_string (fst kv) @ '':'' @ json_string (snd kv)"

definition json_struct :: "(string \<times> string) list \<Rightarrow> string" where
  "json_struct fields =
     mk [123] @ strings_Join '','' (map json_field (filter (\<lambda>kv. snd kv \<noteq> []) fields)) @ mk [125]"

section \<open>Decoding\<close>

definition hex_val :: "char \<Rightarrow> nat" where
  "hex_val c = (if byte c < 58 then byte c - 48 else byte c - 87)"

definition hex_number :: "string \<Rightarrow> nat" where
  "hex_number s = foldl (\<lambda>acc c. acc * 16 + hex_val c) 0 s"

definition utf8_encode :: "nat \<Rightarrow> string" where
  "utf8_encode n = mk
     (if n < 128 then [n]
      else if n < 2048 then [192 + n div 64, 128 + n mod 64]
      else [224 + n div 4096, 128 + n div 64 mod 64, 128 + n mod 64])"

definition json_escape :: "char \<Rightarrow> string option" where
  "json_escape c =
     (if c = CHR ''n'' then Some (mk [10]) else if c = CHR ''r'' then Some (mk [13])
      else if c = CHR ''t'' then Some (mk [9])
      else if byte c = 34 \<or> byte c = 92 then Some [c] else None)"

definition prepend :: "string \<Rightarrow> (string \<times> string) option \<Rightarrow> (string \<times> string) option" where
  "prepend xs r = map_option (\<lambda>(s, rest). (xs @ s, rest)) r"

lemma prepend_simps [simp]:
  "prepend xs None = None"
  "prepend xs (Some (s, rest)) = Some (xs @ s, rest)"
  "prepend [] r = r"
  "prepend xs (prepend ys r) = prepend (xs @ ys) r"
  by (cases r; auto simp: prepend_def)+

text \<open>Reads up to the closing quote: the decoded string and what follows the quote.\<close>

fun json_read :: "string \<Rightarrow> (string \<times> string) option" where
  "json_read [] = None"
| "json_read (c # cs) =
     (if byte c = 34 then Some ([], cs)
      else if byte c = 92 then
        (case cs of
          [] \<Rightarrow> None
        | e # es \<Rightarrow>
            if e = CHR ''u'' then
              (if length es < 4 then None
               else prepend (utf8_encode (hex_number (take 4 es))) (json_read (drop 4 es)))
            else (case json_escape e of
                None \<Rightarrow> None
              | Some x \<Rightarrow> prepend x (json_read es)))
      else if byte c < 32 then None
      else prepend [c] (json_read cs))"

lemma upt_16: "[0..<16] = [0, 1, 2, 3, 4, 5, 6, 7, 8, 9, 10, 11, 12, 13, 14, 15::nat]"
  by code_simp

lemma hex_digits_list: "\<forall>k \<in> set [0..<16]. hex_val (hex_digit k) = k \<and> 48 \<le> byte (hex_digit k) \<and> byte (hex_digit k) < 128"
  unfolding upt_16 by (simp add: hex_digit_def hex_val_def byte_def)

lemma hex_digit_mod: "hex_digit n = hex_digit (n mod 16)"
  by (simp add: hex_digit_def)

lemma hex_val_digit: "hex_val (hex_digit n) = n mod 16"
  using hex_digits_list hex_digit_mod [of n] by simp

lemma hex_digit_plain: "48 \<le> byte (hex_digit n) \<and> byte (hex_digit n) < 128"
  using hex_digits_list hex_digit_mod [of n] by simp

lemma json_read_hex_byte:
  assumes "byte c < 128"
  shows "json_read (mk [92] @ ''u00'' @ hex_byte (byte c) @ s) = prepend [c] (json_read s)"
proof -
  have "byte c div 16 mod 16 * 16 + byte c mod 16 = byte c"
    using assms by (simp add: mod_less)
  moreover have "char_of (byte c) = c" by (simp add: byte_def)
  ultimately show ?thesis
    using assms
    by (simp add: mk_def hex_byte_def hex_number_def hex_val_digit utf8_encode_def)
      (simp add: hex_val_def byte_def)
qed

lemma json_read_escape:
  assumes "json_escape e = Some x"
  shows "json_read (mk [92, byte e] @ s) = prepend x (json_read s)"
proof -
  from assms have "e \<noteq> CHR ''u''" by (auto simp: json_escape_def byte_def split: if_splits)
  with assms show ?thesis by (simp add: mk_def byte_def)
qed

lemma json_read_ascii:
  assumes "byte c < 128"
  shows "json_read (json_ascii c @ s) = prepend [c] (json_read s)"
proof -
  have chr: "byte c = n \<Longrightarrow> c = char_of n" for n by (auto simp: byte_def)
  consider "byte c = 34 \<or> byte c = 92" | "byte c = 10" | "byte c = 13" | "byte c = 9"
    | "byte c < 32 \<or> byte c = 60 \<or> byte c = 62 \<or> byte c = 38"
      "byte c \<noteq> 34" "byte c \<noteq> 92" "byte c \<noteq> 10" "byte c \<noteq> 13" "byte c \<noteq> 9"
    | "32 \<le> byte c" "byte c \<notin> {34, 92, 60, 62, 38}"
    by fastforce
  then show ?thesis
  proof cases
    case 1
    then have "json_escape c = Some [c]" by (auto simp: json_escape_def byte_def)
    from json_read_escape [OF this, of s] 1 show ?thesis
      by (auto simp: json_ascii_def mk_def byte_def)
  next
    case 2
    with json_read_escape [of "CHR ''n''" "mk [10]" s] chr [OF 2] show ?thesis
      by (simp add: json_ascii_def json_escape_def mk_def byte_def)
  next
    case 3
    with json_read_escape [of "CHR ''r''" "mk [13]" s] chr [OF 3] show ?thesis
      by (simp add: json_ascii_def json_escape_def mk_def byte_def)
  next
    case 4
    with json_read_escape [of "CHR ''t''" "mk [9]" s] chr [OF 4] show ?thesis
      by (simp add: json_ascii_def json_escape_def mk_def byte_def)
  next
    case 5
    then show ?thesis using json_read_hex_byte [OF assms, of s] by (simp add: json_ascii_def)
  next
    case 6
    then show ?thesis by (simp add: json_ascii_def)
  qed
qed

lemma json_read_high:
  "\<forall>c \<in> set xs. 128 \<le> byte c \<Longrightarrow> json_read (xs @ s) = prepend xs (json_read s)"
  by (induction xs) auto

lemma json_read_u202:
  "json_read (mk [92] @ ''u2028'' @ s) = prepend (mk [226, 128, 168]) (json_read s)"
  "json_read (mk [92] @ ''u2029'' @ s) = prepend (mk [226, 128, 169]) (json_read s)"
  by (simp_all add: mk_def hex_number_def hex_val_def byte_def utf8_encode_def)

text \<open>One rune of two to four bytes: what the encoder writes for it decodes to its bytes.\<close>

lemma json_read_rune:
  assumes n: "utf8_len (map byte (c # cs)) = Some n" and high: "\<not> byte c < 128"
  shows "\<exists>e. json_body (c # cs) = e @ json_body (drop (n - 1) cs)
    \<and> (\<forall>r. json_read (e @ r) = prepend (c # take (n - 1) cs) (json_read r))"
proof (cases "take 3 (map byte (c # cs)) \<in> {[226, 128, 168], [226, 128, 169]}")
  case True
  have "utf8_len (map byte (c # cs)) = Some 3"
    using True by (cases cs; cases "tl cs") (auto simp: utf8_defs)
  with n have "n = 3" by simp
  moreover from True have "mk (take 3 (map byte (c # cs))) = c # take 2 cs"
    by (cases cs; cases "tl cs") (auto simp: mk_def byte_def)
  ultimately show ?thesis using True high n
    by (auto simp del: utf8_len.simps intro!: exI [of _ "mk [92] @ ''u2028''"]
        exI [of _ "mk [92] @ ''u2029''"] simp: json_read_u202 [simplified])
next
  case False
  from utf8_len_bounds [OF n] have "2 \<le> n" by simp
  then have "take n (c # cs) = c # take (n - 1) cs" by (cases n) auto
  then have "\<forall>d \<in> set (c # take (n - 1) cs). 128 \<le> byte d"
    using utf8_len_high [OF n] unfolding take_map by auto
  note read = json_read_high [OF this]
  from False high n have "json_body (c # cs) = (c # take (n - 1) cs) @ json_body (drop (n - 1) cs)"
    by (auto simp del: utf8_len.simps)
  with read show ?thesis by blast
qed

lemma json_read_body:
  "valid_utf8 s \<Longrightarrow> json_read (json_body s @ r) = prepend s (json_read r)"
proof (induction s rule: valid_utf8.induct)
  case (2 c cs)
  show ?case
  proof (cases "byte c < 128")
    case True
    with 2 show ?thesis by (simp add: json_read_ascii)
  next
    case False
    with 2(3) obtain n where n: "utf8_len (map byte (c # cs)) = Some n"
      and rest: "valid_utf8 (drop (n - 1) cs)"
      by (auto split: option.splits)
    from json_read_rune [OF n False] obtain e where
      "json_body (c # cs) = e @ json_body (drop (n - 1) cs)"
      "\<And>r. json_read (e @ r) = prepend (c # take (n - 1) cs) (json_read r)"
      by blast
    with 2(2) [OF False n rest] show ?thesis by simp
  qed
qed simp

lemma json_read_string:
  "valid_utf8 s \<Longrightarrow> json_read (tl (json_string s) @ r) = Some (s, r)"
  using json_read_body [of s "mk [34] @ r"] by (simp add: json_string_def mk_def)

text \<open>An object whose members are strings, as a list of its members.\<close>

fun json_members :: "nat \<Rightarrow> string \<Rightarrow> (string \<times> string) list option" where
  "json_members 0 s = None"
| "json_members (Suc n) s =
     (if s = [] \<or> byte (hd s) \<noteq> 34 then None
      else (case json_read (tl s) of
          Some (k, CHR '':'' # q # rest) \<Rightarrow>
            (if byte q \<noteq> 34 then None
             else (case json_read rest of
                 Some (v, c # rest') \<Rightarrow>
                   (if byte c = 125 \<and> rest' = [] then Some [(k, v)]
                    else if c = CHR '','' then map_option (Cons (k, v)) (json_members n rest')
                    else None)
               | _ \<Rightarrow> None))
        | _ \<Rightarrow> None))"

definition json_object :: "string \<Rightarrow> (string \<times> string) list option" where
  "json_object s =
     (if s = mk [123, 125] then Some []
      else if s \<noteq> [] \<and> byte (hd s) = 123 then json_members (length s) (tl s)
      else None)"

lemma json_members_step:
  assumes "valid_utf8 k" "valid_utf8 v"
  shows "json_members (Suc n) (json_field (k, v) @ c # rest) =
    (if byte c = 125 \<and> rest = [] then Some [(k, v)]
     else if c = CHR '','' then map_option (Cons (k, v)) (json_members n rest)
     else None)"
  using json_read_string [of k "CHR '':'' # json_string v @ c # rest"]
    json_read_string [of v "c # rest"] assms
  by (simp add: json_field_def json_string_def mk_def)

lemma json_members_join:
  assumes "fields \<noteq> []" "length fields \<le> n" "\<forall>(k, v) \<in> set fields. valid_utf8 k \<and> valid_utf8 v"
  shows "json_members n (strings_Join '','' (map json_field fields) @ mk [125]) = Some fields"
  using assms
proof (induction fields arbitrary: n rule: induct_list012)
  case (2 kv)
  then obtain k v m where "kv = (k, v)" "n = Suc m" by (cases kv; cases n) auto
  with 2 json_members_step [of k v m "char_of (125::nat)" "[]"] show ?case
    by (simp add: mk_def del: json_members.simps)
next
  case (3 kv kv2 rest)
  then obtain k v m where "kv = (k, v)" "n = Suc m" by (cases kv; cases n) auto
  with 3 show ?case
    by (simp add: json_members_step byte_def del: json_members.simps)
qed simp

lemma json_field_nonempty: "json_field kv \<noteq> []"
  by (simp add: json_field_def)

lemma json_struct_object:
  assumes "\<forall>(k, v) \<in> set fields. valid_utf8 k \<and> valid_utf8 v"
  shows "json_object (json_struct fields) = Some (filter (\<lambda>kv. snd kv \<noteq> []) fields)"
proof -
  define fs where "fs = filter (\<lambda>kv. snd kv \<noteq> []) fields"
  have valid: "\<forall>(k, v) \<in> set fs. valid_utf8 k \<and> valid_utf8 v"
    using assms by (auto simp: fs_def)
  have len: "length gs \<le> Suc (length (strings_Join '','' (map json_field gs)))" for gs
  proof (induction gs rule: induct_list012)
    case (3 kv kv2 rest)
    then show ?case using json_field_nonempty [of kv] by (cases "json_field kv") auto
  qed auto
  show ?thesis
  proof (cases "fs = []")
    case True
    then show ?thesis by (simp add: json_struct_def json_object_def mk_def flip: fs_def)
  next
    case False
    define body where "body = strings_Join '','' (map json_field fs)"
    from False have "body \<noteq> []"
      unfolding body_def by (cases fs; cases "tl fs") (auto simp: json_field_nonempty)
    have "json_members (length (mk [123] @ body @ mk [125])) (body @ mk [125]) = Some fs"
      unfolding body_def using False valid len [of fs] by (intro json_members_join) (auto simp: mk_def)
    with \<open>body \<noteq> []\<close> show ?thesis
      by (simp add: json_struct_def json_object_def mk_def flip: fs_def body_def)
  qed
qed

end
