(* ===== verification/GoNet.thy ===== *)
theory GoNet
  imports GoStrings
begin

text \<open>
  \<^verbatim>\<open>net.ParseIP\<close> of Go's standard library, as far as the program uses it: whether the result
  is \<^verbatim>\<open>nil\<close>. The two parsers are those of \<^verbatim>\<open>net/netip\<close> (a decimal octet has no leading zero, a
  zone is refused), with the byte values dropped.
\<close>

definition is_digit :: "char \<Rightarrow> bool" where
  "is_digit c \<longleftrightarrow> 48 \<le> byte c \<and> byte c \<le> 57"

definition is_hex :: "char \<Rightarrow> bool" where
  "is_hex c \<longleftrightarrow> is_digit c \<or> (97 \<le> byte c \<and> byte c \<le> 102) \<or> (65 \<le> byte c \<and> byte c \<le> 70)"

text \<open>
  The loop of \<^verbatim>\<open>parseIPv4\<close>: \<open>val\<close> and \<open>digLen\<close> describe the current octet, \<open>pos\<close> counts the
  finished ones and \<open>start\<close> says that no byte of the current octet has been read
  (\<^verbatim>\<open>i == 0 || s[i-1] == '.'\<close>).
\<close>

fun parse_v4 :: "string \<Rightarrow> nat \<Rightarrow> nat \<Rightarrow> nat \<Rightarrow> bool \<Rightarrow> bool" where
  "parse_v4 [] val digLen pos start = (3 \<le> pos)"
| "parse_v4 (c # cs) val digLen pos start =
     (if is_digit c then
        (if digLen = 1 \<and> val = 0 then False
         else if val * 10 + digit_val c > 255 then False
         else parse_v4 cs (val * 10 + digit_val c) (digLen + 1) pos False)
      else if c = CHR ''.'' then
        (if start \<or> cs = [] then False
         else if pos = 3 then False
         else parse_v4 cs 0 0 (pos + 1) True)
      else False)"

definition parseIPv4 :: "string \<Rightarrow> bool" where
  "parseIPv4 s = parse_v4 s 0 0 0 True"

text \<open>
  The loop of \<^verbatim>\<open>parseIPv6\<close>: \<open>k\<close> two-byte groups are still free (the code's \<open>i\<close> is \<open>16 - 2 * k\<close>)
  and \<open>ell\<close> says that \<^verbatim>\<open>::\<close> has been seen.
\<close>

fun parse_v6 :: "nat \<Rightarrow> bool \<Rightarrow> string \<Rightarrow> bool" where
  "parse_v6 0 ell s = (s = [] \<and> \<not> ell)"
| "parse_v6 (Suc k) ell s =
     (let group = takeWhile is_hex s; rest = dropWhile is_hex s in
      if 4 < length group then False
      else if group = [] then False
      else if rest \<noteq> [] \<and> hd rest = CHR ''.'' then
        (if \<not> ell \<and> Suc k \<noteq> 2 then False
         else if Suc k < 2 then False
         else parseIPv4 s \<and> (if k = 1 then \<not> ell else ell))
      else if rest = [] then (if k = 0 then \<not> ell else ell)
      else if hd rest \<noteq> CHR '':'' then False
      else if length rest = 1 then False
      else if hd (tl rest) = CHR '':'' then
        (if ell then False
         else if tl (tl rest) = [] then 0 < k
         else parse_v6 k True (tl (tl rest)))
      else parse_v6 k ell (tl rest))"

definition parseIPv6 :: "string \<Rightarrow> bool" where
  "parseIPv6 s =
     (if CHR ''%'' \<in> set s then False
      else if strings_HasPrefix s ''::'' then
        (drop 2 s = [] \<or> parse_v6 8 True (drop 2 s))
      else parse_v6 8 False s)"

text \<open>\<^verbatim>\<open>net.ParseIP(s) != nil\<close>: the first of the bytes \<open>.\<close>, \<open>:\<close> and \<open>%\<close> in \<open>s\<close> selects the parser.\<close>

definition net_ParseIP :: "string \<Rightarrow> bool" where
  "net_ParseIP s =
     (case find (\<lambda>c. c = CHR ''.'' \<or> c = CHR '':'' \<or> c = CHR ''%'') s of
        None \<Rightarrow> False
      | Some c \<Rightarrow> if c = CHR ''.'' then parseIPv4 s
          else if c = CHR '':'' then parseIPv6 s else False)"

end
