(* ===== verification/NodeUtils.thy ===== *)
theory NodeUtils
  imports Examples GoJson GoNet
begin

text \<open>
  The small helpers of \<^verbatim>\<open>pkg/nodemanager\<close>: the progress counter of the status messages
  (\<^verbatim>\<open>progress.go\<close>), the version string of a package and the architecture of a host
  (\<^verbatim>\<open>utils.go\<close>), and the status message with its JSON form (\<^verbatim>\<open>manager.go\<close>).
\<close>

section \<open>Progress\<close>

text \<open>Go's \<^verbatim>\<open>int\<close>, on a 64-bit machine.\<close>

record progress =
  p_i :: "64 word"
  p_sum :: "64 word"

definition NewProgress :: "64 word \<Rightarrow> progress" where
  "NewProgress n = \<lparr>p_i = 0, p_sum = n\<rparr>"

definition Progress_String :: "progress \<Rightarrow> string" where
  "Progress_String p = fmt_int (sint (p_i p)) @ ''/'' @ fmt_int (sint (p_sum p))"

text \<open>\<^verbatim>\<open>Add\<close> without its result: the counter it leaves behind.\<close>

definition Progress_step :: "progress \<Rightarrow> progress" where
  "Progress_step p =
     (let p1 = p\<lparr>p_i := p_i p + 1\<rparr>
      in if sint (p_i p1) > sint (p_sum p1) then p1\<lparr>p_i := p_sum p1\<rparr> else p1)"

definition Progress_Add :: "progress \<Rightarrow> string \<times> progress" where
  "Progress_Add p = (let p' = Progress_step p in (Progress_String p', p'))"

definition Progress_Reset :: "progress \<Rightarrow> progress" where
  "Progress_Reset p = p\<lparr>p_i := 0\<rparr>"

definition progress_inv :: "progress \<Rightarrow> bool" where
  "progress_inv p \<longleftrightarrow> 0 \<le> sint (p_i p) \<and> sint (p_i p) \<le> sint (p_sum p)"

lemma progress_inv_New: "0 \<le> sint n \<Longrightarrow> progress_inv (NewProgress n)"
  by (simp add: progress_inv_def NewProgress_def)

lemma p_sum_step [simp]: "p_sum (Progress_step p) = p_sum p"
  by (simp add: Progress_step_def Let_def)

lemma p_sum_steps [simp]: "p_sum ((Progress_step ^^ k) p) = p_sum p"
  by (induction k) simp_all

text \<open>An increment below the largest \<^verbatim>\<open>int\<close> does not wrap around.\<close>

lemma sint_increment: "sint w < 2 ^ 63 - 1 \<Longrightarrow> sint (w + 1) = sint (w :: 64 word) + 1"
  using sint_ge [of w] by (simp add: sint_word_ariths signed_take_bit_int_eq_self)

lemma Progress_step_sint:
  assumes "progress_inv p" "sint (p_i p) < 2 ^ 63 - 1"
  shows "sint (p_i (Progress_step p)) = min (sint (p_i p) + 1) (sint (p_sum p))" "progress_inv (Progress_step p)"
  using assms sint_increment [OF assms(2)] by (auto simp: Progress_step_def progress_inv_def Let_def)

lemma Progress_steps:
  assumes "0 \<le> sint n" "int k \<le> sint n \<or> sint n < 2 ^ 63 - 1"
  shows "progress_inv ((Progress_step ^^ k) (NewProgress n))
    \<and> sint (p_i ((Progress_step ^^ k) (NewProgress n))) = min (int k) (sint n)"
  using assms(2)
proof (induction k)
  case 0
  then show ?case using assms(1) progress_inv_New [OF assms(1)] by (simp add: NewProgress_def)
next
  case (Suc k)
  let ?p = "(Progress_step ^^ k) (NewProgress n)"
  from Suc have IH: "progress_inv ?p" "sint (p_i ?p) = min (int k) (sint n)" by auto
  have "sint (p_i ?p) < 2 ^ 63 - 1" using Suc.prems sint_lt [of n] IH(2) by auto
  from Progress_step_sint [OF IH(1) this] IH(2) show ?case by (auto simp: NewProgress_def min_def)
qed

definition defaultPort :: "string \<Rightarrow> string" where
  "defaultPort s = (if s = [] then ''22'' else s)"

section \<open>Version and architecture\<close>

definition getKubernetesVersionStr :: "kubeLib \<Rightarrow> string \<Rightarrow> goerr + string" where
  "getKubernetesVersionStr lib version =
     (case semver_NewVersion lib version of
        Inl err \<Rightarrow> Inl err
      | Inr (major, minor) \<Rightarrow> Inr (fmt_int major @ ''.'' @ fmt_int minor))"

text \<open>The message of \<^verbatim>\<open>ParseArch\<close>, a UTF-8 text of sixteen Chinese characters.\<close>

definition arch_error :: string where
  "arch_error = mk
     [231, 179, 187, 231, 187, 159, 230, 158, 182, 230, 158, 132, 229, 188, 130, 229, 184, 184,
      239, 188, 140, 232, 175, 183, 230, 163, 128, 230, 159, 165, 229, 189, 147, 229, 137, 141,
      231, 179, 187, 231, 187, 159, 230, 158, 182, 230, 158, 132]"

definition ParseArch :: "string \<Rightarrow> string \<times> goerr option" where
  "ParseArch systemArch =
     (if strings_Contains systemArch ''aarch64'' \<or> strings_Contains systemArch ''arm64''
      then (''arm64'', None)
      else if strings_Contains systemArch ''x86_64'' \<or> strings_Contains systemArch ''amd64''
      then (''amd64'', None)
      else (systemArch, Some (NewErr arch_error)))"

lemma ParseArch_ok: "ParseArch s = (a, None) \<Longrightarrow> a = ''arm64'' \<or> a = ''amd64''"
  by (auto simp: ParseArch_def split: if_splits)

lemma ParseArch_fail: "ParseArch s = (a, Some e) \<Longrightarrow> a = s"
  by (auto simp: ParseArch_def split: if_splits)

section \<open>StatusMessage\<close>

record statusMessage =
  msg_Phase :: string
  msg_Message :: string
  msg_Progress :: string

definition status_fields :: "statusMessage \<Rightarrow> (string \<times> string) list" where
  "status_fields m = [(''phase'', msg_Phase m), (''message'', msg_Message m), (''progress'', msg_Progress m)]"

text \<open>\<^verbatim>\<open>json.Marshal\<close> of a struct of strings does not fail, so the code's fallback is not reached.\<close>

definition StatusMessage_String :: "statusMessage \<Rightarrow> string" where
  "StatusMessage_String m = json_struct (status_fields m)"

section \<open>Properties\<close>

text \<open>C39: The \<open>k\<close>-th progress string of a counter made for \<open>n\<close> steps is \<open>min k n\<close> over \<open>n\<close>, for every number of calls
  when \<open>n\<close> is below the largest \<^verbatim>\<open>int\<close>, and up to \<open>n\<close> calls otherwise. At the largest \<^verbatim>\<open>int\<close> the next
  increment wraps around before the check, and the counter shows the smallest one.\<close>

theorem progress_counts:
  assumes "0 \<le> sint n" "int k \<le> sint n \<or> sint n < 2 ^ 63 - 1"
  shows "Progress_String ((Progress_step ^^ k) (NewProgress n)) = fmt_int (min (int k) (sint n)) @ ''/'' @ fmt_int (sint n)
    \<and> Progress_String (Progress_step \<lparr>p_i = 2 ^ 63 - 1, p_sum = 2 ^ 63 - 1\<rparr>)
      = fmt_int (- (2 ^ 63)) @ ''/'' @ fmt_int (2 ^ 63 - 1)"
  using Progress_steps [OF assms]
  by (simp add: Progress_String_def NewProgress_def) (simp add: Progress_step_def Progress_String_def)

theorem progress_counts_witness:
  "Progress_String ((Progress_step ^^ 12) (NewProgress 10)) = fmt_int 10 @ ''/'' @ fmt_int 10"
  using progress_counts [of 10 12] by simp

text \<open>Distinct releases get distinct package names: the version string of a package determines
  the major and the minor number the version was parsed to.\<close>

theorem version_string_inject:
  assumes "semver_NewVersion lib v = Inr (a, b)" "semver_NewVersion lib w = Inr (c, d)"
    and "getKubernetesVersionStr lib v = getKubernetesVersionStr lib w"
  shows "a = c \<and> b = d"
proof -
  have dot: "CHR ''.'' \<notin> set (fmt_int i)" for i
    using fmt_nat_digits [of "CHR ''.''"] by (auto simp: fmt_int_def byte_def)
  from assms have "fmt_int a @ CHR ''.'' # fmt_int b = fmt_int c @ CHR ''.'' # fmt_int d"
    by (simp add: getKubernetesVersionStr_def)
  then show ?thesis using dot by (simp add: append_Cons_eq_iff)
qed

theorem version_string_inject_witness:
  "semver_NewVersion ex_kube ''1.21.0'' = Inr (1, 21) \<and> (1::int) = 1 \<and> (21::int) = 21"
  using version_string_inject [of ex_kube "''1.21.0''" 1 21 "''1.21.14''" 1 21]
  by (simp add: ex_kube_def getKubernetesVersionStr_def)

text \<open>\<^verbatim>\<open>ParseArch\<close> decides by substring, ARM first: it answers \<^verbatim>\<open>arm64\<close> exactly for the outputs that
  contain \<^verbatim>\<open>aarch64\<close> or \<^verbatim>\<open>arm64\<close>, \<^verbatim>\<open>amd64\<close> exactly for the others that contain \<^verbatim>\<open>x86_64\<close> or \<^verbatim>\<open>amd64\<close>, and
  otherwise reports an error and gives its input back. Its answers are fixed points.\<close>

theorem ParseArch_spec:
  "(ParseArch s = (''arm64'', None) \<longleftrightarrow> sublist ''aarch64'' s \<or> sublist ''arm64'' s) \<and>
   (ParseArch s = (''amd64'', None) \<longleftrightarrow> \<not> (sublist ''aarch64'' s \<or> sublist ''arm64'' s)
      \<and> (sublist ''x86_64'' s \<or> sublist ''amd64'' s)) \<and>
   (snd (ParseArch s) \<noteq> None \<longleftrightarrow> \<not> (sublist ''aarch64'' s \<or> sublist ''arm64'' s)
      \<and> \<not> (sublist ''x86_64'' s \<or> sublist ''amd64'' s)) \<and>
   fst (ParseArch s) \<in> {''arm64'', ''amd64'', s} \<and>
   ParseArch ''arm64'' = (''arm64'', None) \<and> ParseArch ''amd64'' = (''amd64'', None)"
  unfolding ParseArch_def strings_Contains_sublist [symmetric] by simp

text \<open>C38: A status message in valid UTF-8 can be read back from its event: its JSON decodes to the members
  \<^verbatim>\<open>phase\<close>, \<^verbatim>\<open>message\<close> and \<^verbatim>\<open>progress\<close>, in this order and without the empty ones, with their exact
  contents; reading each of the three members, an absent one as empty, gives the message again.\<close>

theorem status_message_roundtrip:
  assumes "valid_utf8 (msg_Phase m)" "valid_utf8 (msg_Message m)" "valid_utf8 (msg_Progress m)"
  shows "\<exists>kvs. json_object (StatusMessage_String m) = Some kvs
    \<and> kvs = (if msg_Phase m = [] then [] else [(''phase'', msg_Phase m)])
        @ (if msg_Message m = [] then [] else [(''message'', msg_Message m)])
        @ (if msg_Progress m = [] then [] else [(''progress'', msg_Progress m)])
    \<and> (let field = (\<lambda>k. case map_of kvs k of None \<Rightarrow> [] | Some v \<Rightarrow> v) in
        m = \<lparr>msg_Phase = field ''phase'', msg_Message = field ''message'', msg_Progress = field ''progress''\<rparr>)"
proof -
  have "json_object (StatusMessage_String m) = Some (filter (\<lambda>kv. snd kv \<noteq> []) (status_fields m))"
    unfolding StatusMessage_String_def
    by (rule json_struct_object) (use assms in \<open>simp add: status_fields_def valid_utf8_ascii byte_def\<close>)
  then show ?thesis by (cases m) (simp add: status_fields_def)
qed

theorem status_message_roundtrip_witness:
  "json_object (StatusMessage_String \<lparr>msg_Phase = ''Docker Config'', msg_Message = ''a'' @ mk [10, 34], msg_Progress = ''6/10''\<rparr>)
    = Some [(''phase'', ''Docker Config''), (''message'', ''a'' @ mk [10, 34]), (''progress'', ''6/10'')]"
  using status_message_roundtrip
    [of "\<lparr>msg_Phase = ''Docker Config'', msg_Message = ''a'' @ mk [10, 34], msg_Progress = ''6/10''\<rparr>"]
  by (simp add: status_fields_def valid_utf8_ascii byte_def mk_def)

end
