(* ===== verification/Join.thy ===== *)
theory Join
  imports Ssh Token NodeUtils
begin

text \<open>
  How a host becomes a node and stops being one: the operations of \<^verbatim>\<open>WorkNode\<close> and \<^verbatim>\<open>KubEdgeNode\<close>
  in \<^verbatim>\<open>pkg/nodemanager/join.go\<close> and \<^verbatim>\<open>disjoin.go\<close>. Each step uploads the package or runs one
  script of it over SSH. The two Go interfaces \<^verbatim>\<open>NodeJoin\<close> and \<^verbatim>\<open>NodeDisJoin\<close> are records of
  operations.
\<close>

definition PkgPathPrefix :: string where "PkgPathPrefix = ''/pkg/nodedeploy''"
definition FilePathPrefix :: string where "FilePathPrefix = ''/path/to/nodedeploy''"
definition check_arch_cmd :: string where "check_arch_cmd = ''uname -m''"
definition mktemp_cmd :: string where "mktemp_cmd = ''mktemp -d''"

text \<open>\<^verbatim>\<open>fmt.Errorf("..., %w", err)\<close> and \<^verbatim>\<open>fmt.Errorf("...%s", err)\<close>.\<close>

definition errorf_w :: "string \<Rightarrow> goerr \<Rightarrow> goerr" where
  "errorf_w msg e = WrapErr (msg @ err_text e) e"

definition errorf_s :: "string \<Rightarrow> goerr \<Rightarrow> goerr" where
  "errorf_s msg e = NewErr (msg @ err_text e)"

text \<open>\<^verbatim>\<open>fmt.Sprintf("%s/%s", FilePathPrefix, strings.ToLower(t.String()))\<close> and a script in it.\<close>

definition node_dir :: "nodeType \<Rightarrow> string" where
  "node_dir t = FilePathPrefix @ ''/'' @ strings_ToLower (NodeType_String t)"

definition script :: "nodeType \<Rightarrow> string \<Rightarrow> string" where
  "script t name = ''bash '' @ node_dir t @ ''/'' @ name"

section \<open>Worker nodes\<close>

text \<open>
  \<^verbatim>\<open>CheckArch\<close> first makes a temporary directory; its name and a failure of that command are only
  logged (the name is the first piece of a \<^verbatim>\<open>Split\<close>, which is never empty).
\<close>

definition WorkNode_CheckArch :: "sshLib \<Rightarrow> client option \<Rightarrow> (goerr + string) prog" where
  "WorkNode_CheckArch lib sshclient =
     bindM (Exec lib sshclient mktemp_cmd) (\<lambda>temp_dir_str.
     bindM (Exec lib sshclient check_arch_cmd) (\<lambda>systemlArch. case systemlArch of
       Inl err \<Rightarrow> ret (Inl (errorf_w (arch_error @ '', '') err))
     | Inr systemlArch \<Rightarrow> (case ParseArch systemlArch of
         (_, Some err) \<Rightarrow> ret (Inl err)
       | (systemArch, None) \<Rightarrow> ret (Inr systemArch))))"

definition WorkNode_CheckNodeVersion :: "kubeLib \<Rightarrow> string \<Rightarrow> goerr + string" where
  "WorkNode_CheckNodeVersion lib version =
     (case getKubernetesVersionStr lib version of
        Inl err \<Rightarrow> Inl (errorf_s ''invalid kubernetes version, err: '' err)
      | Inr versionK8s \<Rightarrow> Inr versionK8s)"

definition WorkNode_PrepareSetupPkg :: "sshLib \<Rightarrow> client option \<Rightarrow> string \<Rightarrow> string \<Rightarrow> goerr option prog" where
  "WorkNode_PrepareSetupPkg lib sshclient systemArch version =
     (let src_setup_pkg = PkgPathPrefix @ ''/'' @ strings_ToLower (NodeType_String NodeWork)
            @ ''/'' @ systemArch @ ''-'' @ version @ ''.tar.gz'';
          dest_setup_pkg = ''/tmp/nodedeploy-'' @ systemArch @ ''-'' @ version @ ''.tar.gz'' in
      bindM (Upload lib sshclient src_setup_pkg dest_setup_pkg) (\<lambda>err. case err of
        Some e \<Rightarrow> ret (Some (errorf_s ''Upload failed, err: '' e))
      | None \<Rightarrow>
          bindM (Exec lib sshclient (''mkdir -p '' @ node_dir NodeWork)) (\<lambda>_.
          script_step (Exec lib) sshclient (''tar -xzvf '' @ dest_setup_pkg @ '' -C '' @ node_dir NodeWork)
            (errorf_s ''Failed to extract the zip file, err: ''))))"

definition WorkNode_StopFirewalld :: "sshLib \<Rightarrow> client option \<Rightarrow> goerr option prog" where
  "WorkNode_StopFirewalld lib sshclient =
     script_step (Exec lib) sshclient (script NodeWork ''01-stopwalld.sh'')
       (errorf_w ''Failed to turn off the system firewall setting, '')"

definition WorkNode_InstallDocker :: "sshLib \<Rightarrow> client option \<Rightarrow> string \<Rightarrow> goerr option prog" where
  "WorkNode_InstallDocker lib sshclient systemArch =
     script_step (Exec lib) sshclient (script NodeWork (''02-docker_install.sh '' @ systemArch @ '' ''))
       (errorf_w ''docker doesn't exist, '')"

definition WorkNode_SetDockerConf :: "sshLib \<Rightarrow> client option \<Rightarrow> string \<Rightarrow> string \<Rightarrow> string \<Rightarrow> goerr option prog" where
  "WorkNode_SetDockerConf lib sshclient harborUser harborPwd harborEndpoint =
     (if harborUser = [] \<or> harborPwd = [] \<or> harborEndpoint = [] then ret None
      else script_step (Exec lib) sshclient
        (script NodeWork (''03-docker_config.sh '' @ harborUser @ '' '' @ harborPwd @ '' '' @ harborEndpoint))
        (errorf_w ''docker config.json doesn't exist, ''))"

definition WorkNode_SetHostName :: "sshLib \<Rightarrow> client option \<Rightarrow> string \<Rightarrow> goerr option prog" where
  "WorkNode_SetHostName lib sshclient hostName =
     script_step (Exec lib) sshclient (script NodeWork (''04-homename_setup.sh '' @ hostName))
       (errorf_w ''The node has already been set up, '')"

definition WorkNode_LoadImage :: "sshLib \<Rightarrow> client option \<Rightarrow> goerr option prog" where
  "WorkNode_LoadImage lib sshclient =
     script_step (Exec lib) sshclient (script NodeWork (''05-load-image.sh '' @ ''images/work'' @ '' ''))
       (errorf_w ''the image file does not exist, '')"

definition WorkNode_SetNodeComponents :: "sshLib \<Rightarrow> client option \<Rightarrow> goerr option prog" where
  "WorkNode_SetNodeComponents lib sshclient =
     script_step (Exec lib) sshclient (script NodeWork ''06-k8s-setup.sh'')
       (errorf_w ''workerNode doesn't exist, '')"

text \<open>A failed \<^verbatim>\<open>GetWorkJoinInfo\<close> is only logged: the join script then gets empty arguments.\<close>

definition WorkNode_Join :: "env \<Rightarrow> client option \<Rightarrow> goerr option prog" where
  "WorkNode_Join env sshclient =
     bindM (GetWorkJoinInfo env) (\<lambda>info. case info of ((masterHostAndPort, token, hash), err) \<Rightarrow>
       script_step (Exec (e_ssh env)) sshclient
         (script NodeWork (''07-work-join.sh '' @ masterHostAndPort @ '' '' @ token @ '' '' @ hash))
         (errorf_s ''workerNode start failed,err:''))"

text \<open>\<^verbatim>\<open>disjoin.go\<close> does not lower the case of the type.\<close>

definition WorkNode_DisJoin :: "sshLib \<Rightarrow> client option \<Rightarrow> goerr option prog" where
  "WorkNode_DisJoin lib sshclient =
     script_step (Exec lib) sshclient
       (''bash '' @ FilePathPrefix @ ''/'' @ NodeType_String NodeWork @ ''/08-work-disjoin.sh '')
       (errorf_w ''fail to deprecate, err: '')"

section \<open>Edge nodes\<close>

definition KubEdgeNode_CheckArch :: "sshLib \<Rightarrow> client option \<Rightarrow> (goerr + string) prog" where
  "KubEdgeNode_CheckArch lib sshclient =
     bindM (Exec lib sshclient mktemp_cmd) (\<lambda>temp_dir_str.
     bindM (Exec lib sshclient check_arch_cmd) (\<lambda>systemlArch. case systemlArch of
       Inl err \<Rightarrow> ret (Inl (errorf_w (arch_error @ '', '') err))
     | Inr systemlArch \<Rightarrow> (case ParseArch systemlArch of
         (_, Some err) \<Rightarrow> ret (Inl err)
       | (systemArch, None) \<Rightarrow> ret (Inr systemArch))))"

definition KubEdgeNode_CheckNodeVersion :: "kubeLib \<Rightarrow> string \<Rightarrow> goerr + string" where
  "KubEdgeNode_CheckNodeVersion lib version =
     (case getKubernetesVersionStr lib version of
        Inl err \<Rightarrow> Inl (errorf_s ''invalid Kubeedge version, err: '' err)
      | Inr versionK8s \<Rightarrow> Inr versionK8s)"

definition KubEdgeNode_PrepareSetupPkg :: "sshLib \<Rightarrow> client option \<Rightarrow> string \<Rightarrow> string \<Rightarrow> goerr option prog" where
  "KubEdgeNode_PrepareSetupPkg lib sshclient systemArch version =
     (let src_setup_pkg = PkgPathPrefix @ ''/'' @ strings_ToLower (NodeType_String NodeKubeedge)
            @ ''/'' @ systemArch @ ''-'' @ version @ ''.tar.gz'';
          dest_setup_pkg = ''/tmp/nodedeploy-'' @ systemArch @ ''-'' @ version @ ''.tar.gz'' in
      bindM (Upload lib sshclient src_setup_pkg dest_setup_pkg) (\<lambda>err. case err of
        Some e \<Rightarrow> ret (Some (errorf_s ''Upload failed, err: '' e))
      | None \<Rightarrow>
          bindM (Exec lib sshclient (''mkdir -p '' @ node_dir NodeKubeedge)) (\<lambda>_.
          script_step (Exec lib) sshclient (''tar -xzvf '' @ dest_setup_pkg @ '' -C '' @ node_dir NodeKubeedge)
            (errorf_s ''Failed to extract the zip file, err: ''))))"

definition KubEdgeNode_StopFirewalld :: "sshLib \<Rightarrow> client option \<Rightarrow> goerr option prog" where
  "KubEdgeNode_StopFirewalld lib sshclient =
     script_step (Exec lib) sshclient (script NodeKubeedge ''01-stopwalld.sh'')
       (errorf_w ''Failed to turn off the system firewall setting, '')"

definition KubEdgeNode_InstallDocker :: "sshLib \<Rightarrow> client option \<Rightarrow> string \<Rightarrow> goerr option prog" where
  "KubEdgeNode_InstallDocker lib sshclient systemArch =
     script_step (Exec lib) sshclient (script NodeKubeedge (''02-docker_install.sh '' @ systemArch))
       (errorf_w ''docker doesn't exist, '')"

definition KubEdgeNode_SetDockerConf :: "sshLib \<Rightarrow> client option \<Rightarrow> string \<Rightarrow> string \<Rightarrow> string \<Rightarrow> goerr option prog" where
  "KubEdgeNode_SetDockerConf lib sshclient harborUser harborPwd harborEndpoint =
     (if harborUser = [] \<or> harborPwd = [] \<or> harborEndpoint = [] then ret None
      else script_step (Exec lib) sshclient
        (script NodeKubeedge (''03-docker_config.sh '' @ harborUser @ '' '' @ harborPwd @ '' '' @ harborEndpoint))
        (errorf_w ''docker config.json doesn't exist, ''))"

definition KubEdgeNode_SetHostName :: "sshLib \<Rightarrow> client option \<Rightarrow> string \<Rightarrow> goerr option prog" where
  "KubEdgeNode_SetHostName lib sshclient hostName =
     script_step (Exec lib) sshclient (script NodeKubeedge (''04-homename_setup.sh '' @ hostName))
       (errorf_w ''The node has already been set up, '')"

definition KubEdgeNode_LoadImage :: "sshLib \<Rightarrow> client option \<Rightarrow> goerr option prog" where
  "KubEdgeNode_LoadImage lib sshclient =
     script_step (Exec lib) sshclient (script NodeKubeedge (''05-load-image.sh '' @ ''images'' @ '' ''))
       (errorf_w ''the image file does not exist, '')"

definition KubEdgeNode_SetNodeComponents :: "sshLib \<Rightarrow> client option \<Rightarrow> goerr option prog" where
  "KubEdgeNode_SetNodeComponents lib sshclient =
     script_step (Exec lib) sshclient (script NodeKubeedge ''06-edgecore_setup.sh'')
       (errorf_s ''edgecore install failed, '')"

text \<open>
  A failed \<^verbatim>\<open>GetKubeEdgeJoinInfo\<close> is only logged, and \<^verbatim>\<open>cloudHosts[0]\<close> panics on an empty list.
\<close>

definition KubEdgeNode_Join :: "env \<Rightarrow> client option \<Rightarrow> goerr option prog" where
  "KubEdgeNode_Join env sshclient =
     bindM (GetKubeEdgeJoinInfo env) (\<lambda>info. case info of ((cloudHosts, port, token), err) \<Rightarrow>
       (case cloudHosts of
          [] \<Rightarrow> crash index_panic
        | cloudHost # _ \<Rightarrow>
            script_step (Exec (e_ssh env)) sshclient
              (script NodeKubeedge (''07-edgecore_join.sh '' @ cloudHost @ '' '' @ port @ '' '' @ token))
              (errorf_s ''EdgeNode start failed,err:'')))"

definition KubEdgeNode_DisJoin :: "sshLib \<Rightarrow> client option \<Rightarrow> goerr option prog" where
  "KubEdgeNode_DisJoin lib sshclient =
     script_step (Exec lib) sshclient
       (''bash '' @ FilePathPrefix @ ''/'' @ NodeType_String NodeKubeedge @ ''/08-edgecore_disjoin.sh '')
       (errorf_w ''fail to deprecate, err: '')"

section \<open>The Go interfaces\<close>

record nodeJoin =
  nj_CheckArch :: "client option \<Rightarrow> (goerr + string) prog"
  nj_CheckNodeVersion :: "string \<Rightarrow> goerr + string"
  nj_PrepareSetupPkg :: "client option \<Rightarrow> string \<Rightarrow> string \<Rightarrow> goerr option prog"
  nj_StopFirewalld :: "client option \<Rightarrow> goerr option prog"
  nj_InstallDocker :: "client option \<Rightarrow> string \<Rightarrow> goerr option prog"
  nj_SetDockerConf :: "client option \<Rightarrow> string \<Rightarrow> string \<Rightarrow> string \<Rightarrow> goerr option prog"
  nj_SetHostName :: "client option \<Rightarrow> string \<Rightarrow> goerr option prog"
  nj_LoadImage :: "client option \<Rightarrow> goerr option prog"
  nj_SetNodeComponents :: "client option \<Rightarrow> goerr option prog"
  nj_Join :: "client option \<Rightarrow> goerr option prog"

record nodeDisJoin =
  nd_DisJoin :: "client option \<Rightarrow> goerr option prog"

definition WorkNode_ops :: "env \<Rightarrow> nodeJoin" where
  "WorkNode_ops env =
     \<lparr>nj_CheckArch = WorkNode_CheckArch (e_ssh env),
      nj_CheckNodeVersion = WorkNode_CheckNodeVersion (e_kube env),
      nj_PrepareSetupPkg = WorkNode_PrepareSetupPkg (e_ssh env),
      nj_StopFirewalld = WorkNode_StopFirewalld (e_ssh env),
      nj_InstallDocker = WorkNode_InstallDocker (e_ssh env),
      nj_SetDockerConf = WorkNode_SetDockerConf (e_ssh env),
      nj_SetHostName = WorkNode_SetHostName (e_ssh env),
      nj_LoadImage = WorkNode_LoadImage (e_ssh env),
      nj_SetNodeComponents = WorkNode_SetNodeComponents (e_ssh env),
      nj_Join = WorkNode_Join env\<rparr>"

definition KubEdgeNode_ops :: "env \<Rightarrow> nodeJoin" where
  "KubEdgeNode_ops env =
     \<lparr>nj_CheckArch = KubEdgeNode_CheckArch (e_ssh env),
      nj_CheckNodeVersion = KubEdgeNode_CheckNodeVersion (e_kube env),
      nj_PrepareSetupPkg = KubEdgeNode_PrepareSetupPkg (e_ssh env),
      nj_StopFirewalld = KubEdgeNode_StopFirewalld (e_ssh env),
      nj_InstallDocker = KubEdgeNode_InstallDocker (e_ssh env),
      nj_SetDockerConf = KubEdgeNode_SetDockerConf (e_ssh env),
      nj_SetHostName = KubEdgeNode_SetHostName (e_ssh env),
      nj_LoadImage = KubEdgeNode_LoadImage (e_ssh env),
      nj_SetNodeComponents = KubEdgeNode_SetNodeComponents (e_ssh env),
      nj_Join = KubEdgeNode_Join env\<rparr>"

section \<open>What the operations run\<close>

definition is_host :: "action \<Rightarrow> bool" where
  "is_host e \<longleftrightarrow> is_ssh e \<or> is_token e"

text \<open>
  The commands of the steps that succeed. A failed \<^verbatim>\<open>mktemp\<close> or \<^verbatim>\<open>mkdir\<close> is not noticed, so these two
  may be missing from the transcript; every other command of a successful step has been run.
\<close>

definition arch_runs :: "string list set" where
  "arch_runs = {[sudo check_arch_cmd], [sudo mktemp_cmd, sudo check_arch_cmd]}"

text \<open>What \<^verbatim>\<open>uname -m\<close> prints for the two architectures; one of \<^verbatim>\<open>aarch64\<close> and \<^verbatim>\<open>arm64\<close> decides.\<close>

definition names_arch :: "string \<Rightarrow> string \<Rightarrow> bool" where
  "names_arch s a \<longleftrightarrow>
     (if sublist ''aarch64'' s \<or> sublist ''arm64'' s then a = ''arm64''
      else (sublist ''x86_64'' s \<or> sublist ''amd64'' s) \<and> a = ''amd64'')"

text \<open>The last command of \<open>h\<close> asked the host for its architecture, and the answer names \<open>a\<close>.\<close>

definition arch_read :: "sshLib \<Rightarrow> string \<Rightarrow> hist \<Rightarrow> bool" where
  "arch_read lib a h \<longleftrightarrow> (\<exists>pw h0 out eo. h = SessionClose # Run ''sudo -S uname -m'' pw # h0
     \<and> ssh_Run lib (tl h) = RunDone out eo None \<and> names_arch (strings_TrimSpace (out @ eo)) a)"

definition setup_pkg :: "nodeType \<Rightarrow> string \<Rightarrow> string \<Rightarrow> string \<times> string" where
  "setup_pkg t a v = (PkgPathPrefix @ ''/'' @ t @ ''/'' @ a @ ''-'' @ v @ ''.tar.gz'',
     ''/tmp/nodedeploy-'' @ a @ ''-'' @ v @ ''.tar.gz'')"

definition pkg_runs :: "nodeType \<Rightarrow> string \<Rightarrow> string \<Rightarrow> string list set" where
  "pkg_runs t a v = (let dest = snd (setup_pkg t a v) in
     {sudo (chmod_cmd mode dest) # dirs @ [sudo (''tar -xzvf '' @ dest @ '' -C '' @ node_dir t)] | mode dirs.
        dirs = [] \<or> dirs = [sudo (''mkdir -p '' @ node_dir t)]})"

definition docker_conf_runs :: "nodeType \<Rightarrow> string \<Rightarrow> string \<Rightarrow> string \<Rightarrow> string list" where
  "docker_conf_runs t u p e = (if u = [] \<or> p = [] \<or> e = [] then []
     else [sudo (script t (''03-docker_config.sh '' @ u @ '' '' @ p @ '' '' @ e))])"

definition extends :: "string list \<Rightarrow> hist \<Rightarrow> hist \<Rightarrow> bool" where
  "extends cs h h' \<longleftrightarrow> remote_cmds h' = remote_cmds h @ cs \<and> uploads h' = uploads h"

lemma extends_trans: "extends cs h h1 \<Longrightarrow> extends ds h1 h2 \<Longrightarrow> extends (cs @ ds) h h2"
  by (simp add: extends_def)

lemma extends_Exec:
  assumes "Exec lib (Some cl) cmd h = Some (Ret r h')"
  shows "(extends [] h h' \<and> (\<exists>e. r = Inl e)) \<or> extends [sudo cmd] h h'"
  using Exec_cmds [OF assms] Exec_uploads [OF assms] Exec_ok_cmds [of lib cl cmd h _ h'] assms
  by (cases r) (auto simp: extends_def)

lemma extends_step:
  assumes "script_step (Exec lib) (Some cl) cmd wrap h = Some (Ret None h')"
  shows "extends [sudo cmd] h h'"
  using assms by (auto simp: script_step_def run_simps extends_def Exec_ok_cmds Exec_uploads)

lemma extends_token:
  assumes "confined is_token m" "m h = Some (Ret r h')"
  shows "extends [] h h'"
proof -
  from confined_grows [OF assms] have g: "grows is_token h h'" .
  have "proj run_cmd h' = proj run_cmd h" "proj copied h' = proj copied h"
    by (rule grows_proj [OF g], case_tac e; simp)+
  then show ?thesis by (simp add: extends_def)
qed

section \<open>The interface of a node type\<close>

text \<open>
  What \<^verbatim>\<open>LaunchByCmd\<close> relies on: no operation reports events or touches the API objects of the
  cluster (\<open>..._host\<close>), and a success comes with its transcript on the host (\<open>..._runs\<close>): the
  architecture is the one the host \<open>lib\<close> answered with, and the join script has the arguments
  that \<open>join_script\<close> allows at that point of the run.
\<close>

locale node_join =
  fixes ops :: nodeJoin and t :: nodeType and docker images components :: string
    and lib :: sshLib and join_script :: "hist \<Rightarrow> string \<Rightarrow> bool"
  assumes arch_host: "confined is_host (nj_CheckArch ops c)"
    and pkg_host: "confined is_host (nj_PrepareSetupPkg ops c a v)"
    and firewall_host: "confined is_host (nj_StopFirewalld ops c)"
    and docker_host: "confined is_host (nj_InstallDocker ops c a)"
    and conf_host: "confined is_host (nj_SetDockerConf ops c u p e)"
    and name_host: "confined is_host (nj_SetHostName ops c hn)"
    and image_host: "confined is_host (nj_LoadImage ops c)"
    and setup_host: "confined is_host (nj_SetNodeComponents ops c)"
    and join_host: "confined is_host (nj_Join ops c)"
    and arch_runs: "nj_CheckArch ops (Some cl) h = Some (Ret (Inr a) h') \<Longrightarrow>
      arch_read lib a h' \<and> (\<exists>cs \<in> arch_runs. extends cs h h')"
    and pkg_runs: "nj_PrepareSetupPkg ops (Some cl) a v h = Some (Ret None h') \<Longrightarrow>
      uploads h' = uploads h @ [setup_pkg t a v]
      \<and> (\<exists>cs \<in> pkg_runs t a v. remote_cmds h' = remote_cmds h @ cs)"
    and firewall_runs: "nj_StopFirewalld ops (Some cl) h = Some (Ret None h') \<Longrightarrow>
      extends [sudo (script t ''01-stopwalld.sh'')] h h'"
    and docker_runs: "nj_InstallDocker ops (Some cl) a h = Some (Ret None h') \<Longrightarrow>
      extends [sudo (script t (''02-docker_install.sh '' @ a @ docker))] h h'"
    and conf_runs: "nj_SetDockerConf ops (Some cl) u p e h = Some (Ret None h') \<Longrightarrow>
      extends (docker_conf_runs t u p e) h h'"
    and name_runs: "nj_SetHostName ops (Some cl) hn h = Some (Ret None h') \<Longrightarrow>
      extends [sudo (script t (''04-homename_setup.sh '' @ hn))] h h'"
    and image_runs: "nj_LoadImage ops (Some cl) h = Some (Ret None h') \<Longrightarrow>
      extends [sudo (script t (''05-load-image.sh '' @ images @ '' ''))] h h'"
    and setup_runs: "nj_SetNodeComponents ops (Some cl) h = Some (Ret None h') \<Longrightarrow>
      extends [sudo (script t components)] h h'"
    and join_runs: "nj_Join ops (Some cl) h = Some (Ret None h') \<Longrightarrow>
      \<exists>j. join_script h j \<and> extends [sudo (script t j)] h h'"

lemma node_type_lower [simp]: "strings_ToLower NodeWork = NodeWork" "strings_ToLower NodeKubeedge = NodeKubeedge"
  by (code_simp)+

lemma host_step: "confined is_host (script_step (Exec lib) c cmd wrap)"
  by (rule confined_mono [OF sh.step_confined]) (simp add: is_host_def)

lemma host_Exec: "confined is_host (Exec lib c cmd)"
  by (rule confined_mono [OF Exec_confined]) (simp add: is_host_def)

lemma host_Upload: "confined is_host (Upload lib c src dest)"
  by (rule confined_mono [OF Upload_confined]) (simp add: is_host_def)

lemma host_token: "confined is_token m \<Longrightarrow> confined is_host m"
  by (erule confined_mono) (simp add: is_host_def)

lemmas host_rules = host_step host_Exec host_Upload
  host_token [OF GetWorkJoinInfo_confined] host_token [OF GetKubeEdgeJoinInfo_confined]

lemma check_arch_runs:
  assumes "Exec lib (Some cl) mktemp_cmd h = Some (Ret r h1)"
    and "Exec lib (Some cl) check_arch_cmd h1 = Some (Ret (Inr s) h')"
  shows "\<exists>cs \<in> arch_runs. extends cs h h'"
proof -
  from extends_Exec [OF assms(2)] have *: "extends [sudo check_arch_cmd] h1 h'" by auto
  from extends_Exec [OF assms(1)] show ?thesis
  proof (elim disjE conjE)
    assume "extends [] h h1"
    from extends_trans [OF this *] show ?thesis by (auto simp: arch_runs_def)
  next
    assume "extends [sudo mktemp_cmd] h h1"
    from extends_trans [OF this *] show ?thesis by (auto simp: arch_runs_def)
  qed
qed

lemma prepare_pkg_runs:
  assumes up: "Upload lib (Some cl) src (snd (setup_pkg t a v)) h = Some (Ret None h1)"
    and mk: "Exec lib (Some cl) (''mkdir -p '' @ node_dir t) h1 = Some (Ret r h2)"
    and tar: "script_step (Exec lib) (Some cl)
      (''tar -xzvf '' @ snd (setup_pkg t a v) @ '' -C '' @ node_dir t) wrap h2 = Some (Ret None h')"
  shows "uploads h' = uploads h @ [(src, snd (setup_pkg t a v))]
      \<and> (\<exists>cs \<in> pkg_runs t a v. remote_cmds h' = remote_cmds h @ cs)"
proof -
  from extends_Exec [OF mk] obtain dirs where
    dirs: "extends dirs h1 h2" "dirs = [] \<or> dirs = [sudo (''mkdir -p '' @ node_dir t)]" by blast
  let ?tar = "sudo (''tar -xzvf '' @ snd (setup_pkg t a v) @ '' -C '' @ node_dir t)"
  from Upload_ok [OF up] obtain mode where
    up': "uploads h1 = uploads h @ [(src, snd (setup_pkg t a v))]"
      "remote_cmds h1 = remote_cmds h @ [sudo (chmod_cmd mode (snd (setup_pkg t a v)))]" by blast
  from extends_trans [OF dirs(1) extends_step [OF tar]] up' have
    "uploads h' = uploads h @ [(src, snd (setup_pkg t a v))]"
    "remote_cmds h' = remote_cmds h @ sudo (chmod_cmd mode (snd (setup_pkg t a v))) # dirs @ [?tar]"
    by (simp_all add: extends_def)
  moreover from dirs(2) have
    "sudo (chmod_cmd mode (snd (setup_pkg t a v))) # dirs @ [?tar] \<in> pkg_runs t a v"
    unfolding pkg_runs_def Let_def by blast
  ultimately show ?thesis by blast
qed

text \<open>Both node types prepare the package in the same way.\<close>

definition prepare_with :: "sshLib \<Rightarrow> client option \<Rightarrow> nodeType \<Rightarrow> string \<Rightarrow> string \<Rightarrow> goerr option prog" where
  "prepare_with lib c t a v =
     bindM (Upload lib c (fst (setup_pkg t a v)) (snd (setup_pkg t a v))) (\<lambda>err. case err of
        Some e \<Rightarrow> ret (Some (errorf_s ''Upload failed, err: '' e))
      | None \<Rightarrow>
          bindM (Exec lib c (''mkdir -p '' @ node_dir t)) (\<lambda>_.
          script_step (Exec lib) c (''tar -xzvf '' @ snd (setup_pkg t a v) @ '' -C '' @ node_dir t)
            (errorf_s ''Failed to extract the zip file, err: '')))"

lemma prepare_with_runs:
  assumes "prepare_with lib (Some cl) t a v h = Some (Ret None h')"
  shows "uploads h' = uploads h @ [setup_pkg t a v]
      \<and> (\<exists>cs \<in> pkg_runs t a v. remote_cmds h' = remote_cmds h @ cs)"
  using assms unfolding prepare_with_def run_simps
  by (elim disjE exE conjE) (auto dest: prepare_pkg_runs)

section \<open>Both node types provide it\<close>

text \<open>The join scripts and where their arguments come from: the join information read just before.\<close>

definition work_join :: "env \<Rightarrow> hist \<Rightarrow> string \<Rightarrow> bool" where
  "work_join env h j \<longleftrightarrow> (\<exists>m tok pin err h1. GetWorkJoinInfo env h = Some (Ret ((m, tok, pin), err) h1)
     \<and> j = ''07-work-join.sh '' @ m @ '' '' @ tok @ '' '' @ pin)"

definition edge_join :: "env \<Rightarrow> hist \<Rightarrow> string \<Rightarrow> bool" where
  "edge_join env h j \<longleftrightarrow> (\<exists>cm cfg host hosts s.
     let h1 = GetConfigMap ''kubeedge'' ''cloudcore'' # NewForConfig # InClusterConfig # h in
     core_GetConfigMap (e_tok env) h1 = Inr cm \<and> yaml_Unmarshal (e_tok env) (map_get cm ''cloudcore.yaml'') = Inr cfg
     \<and> cc_AdvertiseAddress cfg = host # hosts
     \<and> core_GetSecret (e_tok env) (GetSecret ''kubeedge'' ''tokensecret'' # h1) = Inr s
     \<and> j = ''07-edgecore_join.sh '' @ host @ '' '' @ cc_WebsocketPort cfg @ '' '' @ map_get (secret_Data s) ''tokendata'')"

lemma WorkNode_Join_runs:
  assumes "WorkNode_Join env (Some cl) h = Some (Ret None h')"
  shows "\<exists>j. work_join env h j \<and> extends [sudo (script NodeWork j)] h h'"
proof -
  from assms obtain m tok hash err h1 where
    "GetWorkJoinInfo env h = Some (Ret ((m, tok, hash), err) h1)"
    and "script_step (Exec (e_ssh env)) (Some cl)
      (script NodeWork (''07-work-join.sh '' @ m @ '' '' @ tok @ '' '' @ hash))
      (errorf_s ''workerNode start failed,err:'') h1 = Some (Ret None h')"
    by (auto simp: WorkNode_Join_def run_simps)
  from extends_trans [OF extends_token [OF GetWorkJoinInfo_confined this(1)] extends_step [OF this(2)]] this(1)
  show ?thesis by (auto simp: work_join_def)
qed

lemma KubEdgeNode_Join_runs:
  assumes "KubEdgeNode_Join env (Some cl) h = Some (Ret None h')"
  shows "\<exists>j. edge_join env h j \<and> extends [sudo (script NodeKubeedge j)] h h'"
proof -
  from assms obtain host hosts port tok err h1 where
    info: "GetKubeEdgeJoinInfo env h = Some (Ret ((host # hosts, port, tok), err) h1)"
    and step: "script_step (Exec (e_ssh env)) (Some cl)
      (script NodeKubeedge (''07-edgecore_join.sh '' @ host @ '' '' @ port @ '' '' @ tok))
      (errorf_s ''EdgeNode start failed,err:'') h1 = Some (Ret None h')"
    by (auto simp: KubEdgeNode_Join_def run_simps)
  from info have "edge_join env h (''07-edgecore_join.sh '' @ host @ '' '' @ port @ '' '' @ tok)"
    by (auto simp: edge_join_def GetKubeEdgeJoinInfo_def Let_def run_simps dest!: sym [of "host # hosts"])
  with extends_trans [OF extends_token [OF GetKubeEdgeJoinInfo_confined info] extends_step [OF step]]
  show ?thesis by auto
qed

lemma ParseArch_names: "ParseArch s = (a, None) \<longleftrightarrow> names_arch s a"
  by (auto simp: ParseArch_def names_arch_def strings_Contains_sublist)

lemma Exec_arch:
  assumes "Exec lib (Some cl) check_arch_cmd h = Some (Ret (Inr s) h')" "ParseArch s = (a, None)"
  shows "arch_read lib a h'"
proof -
  have "sudo check_arch_cmd = ''sudo -S uname -m''" by (simp add: sudo_def check_arch_cmd_def)
  with assms show ?thesis
    by (auto simp: arch_read_def ParseArch_names Exec_branches Let_def split: option.splits runResult.splits)
qed

lemma WorkNode_CheckArch_runs:
  assumes "WorkNode_CheckArch lib (Some cl) h = Some (Ret (Inr a) h')"
  shows "arch_read lib a h' \<and> (\<exists>cs \<in> arch_runs. extends cs h h')"
  using assms by (auto simp: WorkNode_CheckArch_def run_simps dest: check_arch_runs Exec_arch)

lemma KubEdgeNode_CheckArch_runs:
  assumes "KubEdgeNode_CheckArch lib (Some cl) h = Some (Ret (Inr a) h')"
  shows "arch_read lib a h' \<and> (\<exists>cs \<in> arch_runs. extends cs h h')"
  using assms by (auto simp: KubEdgeNode_CheckArch_def run_simps dest: check_arch_runs Exec_arch)

lemma WorkNode_Prepare: "WorkNode_PrepareSetupPkg lib c a v = prepare_with lib c NodeWork a v"
  by (simp only: WorkNode_PrepareSetupPkg_def prepare_with_def setup_pkg_def Let_def fst_conv snd_conv
      NodeType_String_id node_type_lower)

lemma KubEdgeNode_Prepare: "KubEdgeNode_PrepareSetupPkg lib c a v = prepare_with lib c NodeKubeedge a v"
  by (simp only: KubEdgeNode_PrepareSetupPkg_def prepare_with_def setup_pkg_def Let_def fst_conv snd_conv
      NodeType_String_id node_type_lower)

lemma prepare_with_host: "confined is_host (prepare_with lib c t a v)"
  unfolding prepare_with_def by (intro confined_rules host_rules)

lemma docker_conf_extends:
  assumes "(if u = [] \<or> p = [] \<or> e = [] then ret None
      else script_step (Exec lib) (Some cl) (script t (''03-docker_config.sh '' @ u @ '' '' @ p @ '' '' @ e)) wrap) h
    = Some (Ret None h')"
  shows "extends (docker_conf_runs t u p e) h h'"
proof (cases "u = [] \<or> p = [] \<or> e = []")
  case True
  with assms show ?thesis by (auto simp: docker_conf_runs_def extends_def ret_def)
next
  case False
  with assms have "script_step (Exec lib) (Some cl)
    (script t (''03-docker_config.sh '' @ u @ '' '' @ p @ '' '' @ e)) wrap h = Some (Ret None h')" by simp
  from extends_step [OF this] False show ?thesis by (simp add: docker_conf_runs_def)
qed

lemmas work_ops = WorkNode_ops_def WorkNode_StopFirewalld_def WorkNode_InstallDocker_def
  WorkNode_SetDockerConf_def WorkNode_SetHostName_def WorkNode_LoadImage_def WorkNode_SetNodeComponents_def
  WorkNode_Prepare

lemmas edge_ops = KubEdgeNode_ops_def KubEdgeNode_StopFirewalld_def KubEdgeNode_InstallDocker_def
  KubEdgeNode_SetDockerConf_def KubEdgeNode_SetHostName_def KubEdgeNode_LoadImage_def
  KubEdgeNode_SetNodeComponents_def KubEdgeNode_Prepare

lemma arch_and_join_host:
  "confined is_host (WorkNode_CheckArch lib c)" "confined is_host (WorkNode_Join env c)"
  "confined is_host (KubEdgeNode_CheckArch lib c)" "confined is_host (KubEdgeNode_Join env c)"
  unfolding WorkNode_CheckArch_def WorkNode_Join_def KubEdgeNode_CheckArch_def KubEdgeNode_Join_def
  by (intro confined_rules host_rules)+

lemmas op_host_rules = arch_and_join_host prepare_with_host host_rules confined_rules

lemmas op_run_dests = WorkNode_CheckArch_runs KubEdgeNode_CheckArch_runs prepare_with_runs
  extends_step docker_conf_extends WorkNode_Join_runs KubEdgeNode_Join_runs

text \<open>
  All operations but the last always return on a live connection: none of them waits without
  end in the model of the SSH library, and none of them panics.
\<close>

locale returning_node_join = node_join +
  assumes arch_returns: "returns (nj_CheckArch ops (Some cl)) h"
    and pkg_returns: "returns (nj_PrepareSetupPkg ops (Some cl) a v) h"
    and firewall_returns: "returns (nj_StopFirewalld ops (Some cl)) h"
    and docker_returns: "returns (nj_InstallDocker ops (Some cl) a) h"
    and conf_returns: "returns (nj_SetDockerConf ops (Some cl) u p e) h"
    and name_returns: "returns (nj_SetHostName ops (Some cl) hn) h"
    and image_returns: "returns (nj_LoadImage ops (Some cl)) h"
    and setup_returns: "returns (nj_SetNodeComponents ops (Some cl)) h"

lemma CheckArch_returns:
  "returns (WorkNode_CheckArch lib c) h" "returns (KubEdgeNode_CheckArch lib c) h"
  unfolding WorkNode_CheckArch_def KubEdgeNode_CheckArch_def
  by (intro returns_bindM Exec_returns; simp add: returns_ret split: sum.split prod.split option.split)+

lemma prepare_with_returns: "returns (prepare_with lib (Some cl) t a v) h"
  unfolding prepare_with_def
  by (intro returns_bindM Upload_returns)
    (auto intro!: returns_ret returns_bindM Exec_returns sh.step_returns split: option.split)

lemma if_returns: "returns m h \<Longrightarrow> returns n h \<Longrightarrow> returns (if b then m else n) h"
  by simp

lemmas op_returns_rules = CheckArch_returns prepare_with_returns sh.step_returns if_returns returns_ret

interpretation work: returning_node_join "WorkNode_ops env" NodeWork "'' ''" "''images/work''" "''06-k8s-setup.sh''"
    "e_ssh env" "work_join env" for env
  by unfold_locales
    (auto simp only: work_ops nodeJoin.simps intro!: op_host_rules op_returns_rules dest: op_run_dests)

interpretation edge: returning_node_join "KubEdgeNode_ops env" NodeKubeedge "[]" "''images''" "''06-edgecore_setup.sh''"
    "e_ssh env" "edge_join env" for env
  by unfold_locales
    (auto simp only: edge_ops nodeJoin.simps append_Nil2 intro!: op_host_rules op_returns_rules dest: op_run_dests)

lemma WorkNode_Join_returns:
  assumes "certs_documented (e_tok env)"
  shows "returns (WorkNode_Join env c) h"
  unfolding WorkNode_Join_def
  by (intro returns_bindM GetWorkJoinInfo_returns [OF assms]) (auto intro: sh.step_returns split: prod.split)

section \<open>Properties\<close>

text \<open>C34: A failure to read the join information does not stop the join. The worker's join script is then
  run with three empty arguments, and only its own failure is reported; the edge node's join
  panics on the empty list of cloud hosts, before any command is run.\<close>

theorem join_ignores_info_error:
  "(\<forall>info err h1. GetWorkJoinInfo env h = Some (Ret (info, Some err) h1) \<longrightarrow>
      WorkNode_Join env c h = script_step (Exec (e_ssh env)) c (script NodeWork ''07-work-join.sh   '')
        (errorf_s ''workerNode start failed,err:'') h1)
    \<and> (\<forall>info err h1. GetKubeEdgeJoinInfo env h = Some (Ret (info, Some err) h1) \<longrightarrow>
      KubEdgeNode_Join env c h = Some (Crash index_panic h1) \<and> remote_cmds h1 = remote_cmds h)"
proof (intro conjI allI impI)
  fix info err h1
  assume run: "GetWorkJoinInfo env h = Some (Ret (info, Some err) h1)"
  obtain m tok pin where "info = (m, tok, pin)" by (cases info)
  with run GetWorkJoinInfo_cases [of env h m tok pin "Some err" h1] have info: "info = ([], [], [])"
    by (auto dest: pins_and_token_cases)
  from run show "WorkNode_Join env c h = script_step (Exec (e_ssh env)) c (script NodeWork ''07-work-join.sh   '')
        (errorf_s ''workerNode start failed,err:'') h1"
    by (simp add: WorkNode_Join_def bindM_def info)
next
  fix info err h1
  assume run: "GetKubeEdgeJoinInfo env h = Some (Ret (info, Some err) h1)"
  obtain hosts port tok where "info = (hosts, port, tok)" by (cases info)
  with run GetKubeEdgeJoinInfo_cases [of env h hosts port tok "Some err" h1] have info: "info = ([], [], [])"
    by auto
  from run show "KubEdgeNode_Join env c h = Some (Crash index_panic h1)"
    by (simp add: KubEdgeNode_Join_def bindM_def info crash_def)
  from extends_token [OF GetKubeEdgeJoinInfo_confined run] show "remote_cmds h1 = remote_cmds h"
    by (simp add: extends_def)
qed

text \<open>A cluster without the config maps of the join information.\<close>

definition ex_bare_env :: env where
  "ex_bare_env = ex_env\<lparr>e_tok := ex_tok\<lparr>core_GetConfigMap := \<lambda>_. Inl (ExtErr ''not found'')\<rparr>\<rparr>"

theorem join_ignores_info_error_witness:
  "\<exists>h1. WorkNode_Join ex_bare_env None [] =
      script_step (Exec ex_ssh) None (script NodeWork ''07-work-join.sh   '') (errorf_s ''workerNode start failed,err:'') h1
    \<and> KubEdgeNode_Join ex_bare_env None [] = Some (Crash index_panic [GetConfigMap ''kubeedge'' ''cloudcore'', NewForConfig, InClusterConfig])"
proof -
  have "\<exists>e h1. GetWorkJoinInfo ex_bare_env [] = Some (Ret (([], [], []), Some e) h1)"
    by (simp add: GetWorkJoinInfo_def Let_def io_defs ex_bare_env_def no_join_def)
  then obtain e h1 where work: "GetWorkJoinInfo ex_bare_env [] = Some (Ret (([], [], []), Some e) h1)" by blast
  have edge: "GetKubeEdgeJoinInfo ex_bare_env [] = Some (Ret (([], [], []), Some (ExtErr ''not found''))
      [GetConfigMap ''kubeedge'' ''cloudcore'', NewForConfig, InClusterConfig])"
    by (simp add: GetKubeEdgeJoinInfo_def Let_def io_defs ex_bare_env_def)
  have ssh: "e_ssh ex_bare_env = ex_ssh" by (simp add: ex_bare_env_def)
  from join_ignores_info_error [of ex_bare_env "[]" None] work edge show ?thesis
    unfolding ssh by blast
qed

end
