(* ===== verification/Healthy.thy ===== *)
theory Healthy
  imports Join
begin

text \<open>
  A healthy host and what the operations of the two node types do on it: whatever else the outside
  answers, they return without an error.
\<close>

definition gives :: "('e, 'a) io \<Rightarrow> ('a \<Rightarrow> bool) \<Rightarrow> bool" where
  "gives m P \<longleftrightarrow> (\<forall>h. \<exists>x h'. m h = Some (Ret x h') \<and> P x)"

named_theorems gives_rules \<open>code that returns a good result\<close>

lemma givesD: "gives m P \<Longrightarrow> \<exists>x h'. m h = Some (Ret x h') \<and> P x"
  by (simp add: gives_def)

lemma gives_exactly: "gives m (\<lambda>x. x = y) \<Longrightarrow> \<exists>h'. m h = Some (Ret y h')"
  by (auto simp: gives_def)

lemma gives_mono: "gives m P \<Longrightarrow> (\<And>x. P x \<Longrightarrow> Q x) \<Longrightarrow> gives m Q"
  unfolding gives_def by blast

lemma gives_ret [gives_rules]: "P x \<Longrightarrow> gives (ret x) P"
  by (simp add: gives_def io_defs)

lemma gives_ask [gives_rules]: "(\<And>h. P (f (e # h))) \<Longrightarrow> gives (ask e f) P"
  by (simp add: gives_def io_defs)

lemma gives_tell [gives_rules]: "P () \<Longrightarrow> gives (tell e) P"
  by (simp add: gives_def io_defs)

lemma gives_bindM:
  assumes "gives m P" and "\<And>x. P x \<Longrightarrow> gives (k x) Q"
  shows "gives (bindM m k) Q"
  unfolding gives_def
proof
  fix h
  from givesD [OF assms(1)] obtain x h1 where "m h = Some (Ret x h1)" "P x" by blast
  with givesD [OF assms(2)] show "\<exists>x h'. bindM m k h = Some (Ret x h') \<and> Q x" by (metis bindM_run)
qed

lemma gives_thenM: "gives m P \<Longrightarrow> gives n Q \<Longrightarrow> gives (thenM m n) Q"
  unfolding thenM_def by (rule gives_bindM)

lemma gives_told [gives_rules]: "gives n Q \<Longrightarrow> gives (thenM (tell e) n) Q"
  by (rule gives_thenM [OF gives_tell [where P = "\<lambda>_. True"]]) simp_all

text \<open>The answer to a call, where it is known.\<close>

lemma gives_asked [gives_rules]: "(\<And>h. gives (k (f (e # h))) Q) \<Longrightarrow> gives (bindM (ask e f) k) Q"
  unfolding gives_def bindM_ask by blast

lemma gives_deferM [gives_rules]: "gives m P \<Longrightarrow> gives (deferM e m) P"
  unfolding gives_def run_deferM by blast

lemma gives_returns: "(\<And>h. returns m h) \<Longrightarrow> gives m (\<lambda>_. True)"
  by (simp add: gives_def returns_def)

section \<open>A healthy host\<close>

text \<open>
  Every dial, session, copy and command succeeds, and the answer to \<^verbatim>\<open>uname\<close> names one of the two
  architectures.
\<close>

definition healthy_host :: "sshLib \<Rightarrow> bool" where
  "healthy_host lib \<longleftrightarrow> (\<forall>h. ssh_Dial lib h = None \<and> ssh_NewSession lib h = None \<and> ssh_StdinPipe lib h = None
     \<and> sftp_NewClient lib h = None \<and> sftp_Create lib h = None \<and> (\<exists>mode. os_Stat lib h = Inr mode)
     \<and> os_Open lib h = None \<and> io_Copy lib h = CopyDone None
     \<and> (\<exists>out errOut. ssh_Run lib h = RunDone out errOut None
          \<and> ((\<exists>pw. hd h = Run (sudo check_arch_cmd) pw) \<longrightarrow> snd (ParseArch (strings_TrimSpace (out @ errOut))) = None)))"

lemma gives_Exec:
  assumes "healthy_host lib"
  shows "gives (Exec lib (Some cl) cmd) (\<lambda>r. \<exists>s. r = Inr s \<and> (cmd = check_arch_cmd \<longrightarrow> snd (ParseArch s) = None))"
  unfolding gives_def
proof
  fix h
  let ?h = "Run (sudo cmd) (c_passwd cl @ mk [10]) # StdinPipe # NewSession (c_server cl) # h"
  from assms obtain out errOut where "ssh_Run lib ?h = RunDone out errOut None"
    "cmd = check_arch_cmd \<Longrightarrow> snd (ParseArch (strings_TrimSpace (out @ errOut))) = None"
    unfolding healthy_host_def by (metis list.sel(1))
  with assms show "\<exists>x h'. Exec lib (Some cl) cmd h = Some (Ret x h')
      \<and> (\<exists>s. x = Inr s \<and> (cmd = check_arch_cmd \<longrightarrow> snd (ParseArch s) = None))"
    by (simp add: Exec_branches Let_def healthy_host_def)
qed

lemma gives_step:
  assumes "healthy_host lib"
  shows "gives (script_step (Exec lib) (Some cl) cmd wrap) (\<lambda>r. r = None)"
  unfolding script_step_def
  by (rule gives_bindM [OF gives_Exec [OF assms]]) (auto intro: gives_ret)

lemma gives_Upload:
  assumes "healthy_host lib"
  shows "gives (Upload lib (Some cl) src dest) (\<lambda>r. r = None)"
proof -
  have ok: "(\<And>h. sftp_NewClient lib h = None)" "(\<And>h. sftp_Create lib h = None)" "(\<And>h. os_Open lib h = None)"
    "(\<And>h. io_Copy lib h = CopyDone None)" "(\<And>h. \<exists>mode. os_Stat lib h = Inr mode)"
    using assms by (simp_all add: healthy_host_def)
  have chmod: "gives (bindM (Exec lib (Some cl) cmd) (\<lambda>r. case r of
      Inl e \<Rightarrow> ret (Some (w e)) | Inr _ \<Rightarrow> ret None)) (\<lambda>r. r = None)" for cmd and w :: "goerr \<Rightarrow> goerr"
    by (rule gives_bindM [OF gives_Exec [OF assms]]) (auto intro: gives_ret)
  have stat: "gives (case os_Stat lib h of Inl e \<Rightarrow> f e | Inr mode \<Rightarrow> k mode) P" if "\<And>mode. gives (k mode) P"
    for h f k and P :: "goerr option \<Rightarrow> bool"
    using ok(5) [of h] that by auto
  show ?thesis
    unfolding Upload_def option.case Let_def
    by (rule gives_rules chmod stat | simp only: ok option.case copyResult.case)+
qed

section \<open>The operations of a node on a healthy host\<close>

abbreviation succeeds :: "goerr option prog \<Rightarrow> bool" where
  "succeeds m \<equiv> gives m (\<lambda>r. r = None)"

text \<open>All operations over a live connection succeed; the version is checked apart.\<close>

definition ready_ops :: "nodeJoin \<Rightarrow> bool" where
  "ready_ops ops \<longleftrightarrow> (\<forall>cl. gives (nj_CheckArch ops (Some cl)) (\<lambda>r. \<exists>a. r = Inr a)
     \<and> (\<forall>a v. succeeds (nj_PrepareSetupPkg ops (Some cl) a v)) \<and> succeeds (nj_StopFirewalld ops (Some cl))
     \<and> (\<forall>a. succeeds (nj_InstallDocker ops (Some cl) a)) \<and> (\<forall>u p e. succeeds (nj_SetDockerConf ops (Some cl) u p e))
     \<and> (\<forall>n. succeeds (nj_SetHostName ops (Some cl) n)) \<and> succeeds (nj_LoadImage ops (Some cl))
     \<and> succeeds (nj_SetNodeComponents ops (Some cl)) \<and> succeeds (nj_Join ops (Some cl)))"

lemma gives_arch:
  assumes "healthy_host lib"
  shows "gives (WorkNode_CheckArch lib (Some cl)) (\<lambda>r. \<exists>a. r = Inr a)"
    and "gives (KubEdgeNode_CheckArch lib (Some cl)) (\<lambda>r. \<exists>a. r = Inr a)"
  unfolding WorkNode_CheckArch_def KubEdgeNode_CheckArch_def
  by (rule gives_bindM [OF gives_returns [OF Exec_returns]], rule gives_bindM [OF gives_Exec [OF assms]],
      auto intro!: gives_ret split: prod.split option.split)+

lemma gives_prepare:
  assumes "healthy_host lib"
  shows "succeeds (prepare_with lib (Some cl) t a v)"
  unfolding prepare_with_def
  by (rule gives_bindM [OF gives_Upload [OF assms]])
    (simp, rule gives_bindM [OF gives_returns [OF Exec_returns]], rule gives_step [OF assms])

text \<open>
  The worker's join needs nothing of the cluster but an end of \<^verbatim>\<open>GetWorkJoinInfo\<close>; the edge node's
  needs the address of a cloud core.
\<close>

lemma gives_work_join:
  assumes "healthy_host (e_ssh env)" "certs_documented (e_tok env)"
  shows "succeeds (WorkNode_Join env (Some cl))"
  unfolding WorkNode_Join_def
  by (rule gives_bindM [OF gives_returns [OF GetWorkJoinInfo_returns [OF assms(2)]]])
    (auto split: prod.split intro: gives_step [OF assms(1)])

definition healthy_cloudcore :: "tokenLib \<Rightarrow> bool" where
  "healthy_cloudcore lib \<longleftrightarrow> (\<forall>h. rest_InClusterConfig lib h = None \<and> kubernetes_NewForConfig lib h = None
     \<and> (\<exists>cm cc. core_GetConfigMap lib h = Inr cm \<and> yaml_Unmarshal lib (map_get cm ''cloudcore.yaml'') = Inr cc
          \<and> cc_AdvertiseAddress cc \<noteq> [])
     \<and> (\<exists>s. core_GetSecret lib h = Inr s))"

lemma gives_cloudcore:
  assumes "healthy_cloudcore (e_tok env)"
  shows "gives (GetKubeEdgeJoinInfo env) (\<lambda>r. fst (fst r) \<noteq> [])"
  unfolding gives_def
proof
  fix h
  let ?h = "GetConfigMap ''kubeedge'' ''cloudcore'' # NewForConfig # InClusterConfig # h"
  from assms obtain cm cc where "core_GetConfigMap (e_tok env) ?h = Inr cm"
    "yaml_Unmarshal (e_tok env) (map_get cm ''cloudcore.yaml'') = Inr cc" "cc_AdvertiseAddress cc \<noteq> []"
    unfolding healthy_cloudcore_def by blast
  moreover from assms obtain s where "core_GetSecret (e_tok env) (GetSecret ''kubeedge'' ''tokensecret'' # ?h) = Inr s"
    unfolding healthy_cloudcore_def by blast
  ultimately show "\<exists>x h'. GetKubeEdgeJoinInfo env h = Some (Ret x h') \<and> fst (fst x) \<noteq> []"
    using assms by (simp add: GetKubeEdgeJoinInfo_def Let_def bindM_ask ret_def healthy_cloudcore_def)
qed

lemma gives_edge_join:
  assumes "healthy_host (e_ssh env)" "healthy_cloudcore (e_tok env)"
  shows "succeeds (KubEdgeNode_Join env (Some cl))"
  unfolding KubEdgeNode_Join_def
  by (rule gives_bindM [OF gives_cloudcore [OF assms(2)]])
    (auto split: prod.split list.split intro: gives_step [OF assms(1)])

lemma work_ready:
  assumes "healthy_host (e_ssh env)" "certs_documented (e_tok env)"
  shows "ready_ops (WorkNode_ops env)"
  unfolding ready_ops_def WorkNode_ops_def
  by (auto simp: gives_arch [OF assms(1)] gives_prepare [OF assms(1)] gives_work_join [OF assms] WorkNode_Prepare
      WorkNode_StopFirewalld_def WorkNode_InstallDocker_def WorkNode_SetDockerConf_def WorkNode_SetHostName_def
      WorkNode_LoadImage_def WorkNode_SetNodeComponents_def intro: gives_step [OF assms(1)] gives_ret)

lemma edge_ready:
  assumes "healthy_host (e_ssh env)" "healthy_cloudcore (e_tok env)"
  shows "ready_ops (KubEdgeNode_ops env)"
  unfolding ready_ops_def KubEdgeNode_ops_def
  by (auto simp: gives_arch [OF assms(1)] gives_prepare [OF assms(1)] gives_edge_join [OF assms] KubEdgeNode_Prepare
      KubEdgeNode_StopFirewalld_def KubEdgeNode_InstallDocker_def KubEdgeNode_SetDockerConf_def KubEdgeNode_SetHostName_def
      KubEdgeNode_LoadImage_def KubEdgeNode_SetNodeComponents_def intro: gives_step [OF assms(1)] gives_ret)

lemma gives_disjoin:
  assumes "healthy_host lib"
  shows "succeeds (WorkNode_DisJoin lib (Some cl))" "succeeds (KubEdgeNode_DisJoin lib (Some cl))"
  unfolding WorkNode_DisJoin_def KubEdgeNode_DisJoin_def by (rule gives_step [OF assms])+

section \<open>The example host is healthy\<close>

lemma healthy_ex_ssh: "healthy_host ex_ssh"
proof -
  have "strings_TrimSpace ''x86_64'' = ''x86_64''"
    by (rule strings_TrimSpace_plain) (simp_all add: byte_def)
  moreover have "ParseArch ''x86_64'' = (''amd64'', None)" by code_simp
  ultimately show ?thesis by (simp add: healthy_host_def)
qed

lemma certs_documented_ex: "certs_documented ex_tok"
  by (simp add: certs_documented_def)

end
