(* ===== verification/Manager.thy ===== *)
theory Manager
  imports Healthy
begin

text \<open>
  \<^verbatim>\<open>pkg/nodemanager/manager.go\<close>: the node manager brings a host into the cluster in ten steps
  (\<^verbatim>\<open>LaunchByCmd\<close>) or takes it out (\<^verbatim>\<open>Deprecate\<close>), and reports each step as an event with its
  progress.
\<close>

record nodeManager =
  nm_nodeDeploy :: nodeDeploy
  nm_nodeInfo :: nodeInfo

definition New :: "nodeDeploy \<Rightarrow> nodeInfo \<Rightarrow> nodeManager" where
  "New nodeDeploy nodeInfo = \<lparr>nm_nodeDeploy = nodeDeploy, nm_nodeInfo = nodeInfo\<rparr>"

definition crRef :: "nodeDeploy \<Rightarrow> objref" where
  "crRef nd = CR (nd_Namespace nd) (nd_Name nd)"

definition logMessage :: "nodeManager \<Rightarrow> string \<Rightarrow> string \<Rightarrow> string \<Rightarrow> unit prog" where
  "logMessage n phase message progress =
     tell (Event (crRef (nm_nodeDeploy n)) EventTypeNormal EventStatusMessage
       (StatusMessage_String \<lparr>msg_Phase = phase, msg_Message = message, msg_Progress = progress\<rparr>))"

text \<open>The \<^verbatim>\<open>switch\<close> on the node type: no case matches an unknown type, and the interface stays nil.\<close>

definition select_join :: "env \<Rightarrow> string \<Rightarrow> nodeJoin option" where
  "select_join env nodeType =
     (if nodeType = NodeType_String NodeWork then Some (WorkNode_ops env)
      else if nodeType = NodeType_String NodeKubeedge then Some (KubEdgeNode_ops env)
      else None)"

definition select_disjoin :: "env \<Rightarrow> string \<Rightarrow> nodeDisJoin option" where
  "select_disjoin env nodeType =
     (if nodeType = NodeType_String NodeWork then Some \<lparr>nd_DisJoin = WorkNode_DisJoin (e_ssh env)\<rparr>
      else if nodeType = NodeType_String NodeKubeedge then Some \<lparr>nd_DisJoin = KubEdgeNode_DisJoin (e_ssh env)\<rparr>
      else None)"

section \<open>Launch\<close>

text \<open>
  One step of \<^verbatim>\<open>LaunchByCmd\<close>: count it and log it, run it, and on an error log the failure with
  the same progress and return the error.
\<close>

definition launch_step ::
  "nodeManager \<Rightarrow> progress \<Rightarrow> string \<Rightarrow> string \<Rightarrow> (goerr + 'a) prog \<Rightarrow> string \<Rightarrow> (goerr \<Rightarrow> string)
     \<Rightarrow> ('a \<Rightarrow> progress \<Rightarrow> goerr option prog) \<Rightarrow> goerr option prog" where
  "launch_step n progress phase message run failPhase failMessage next =
     (case Progress_Add progress of (shown, progress') \<Rightarrow>
        thenM (logMessage n phase message shown)
          (bindM run (\<lambda>r. case r of
             Inl err \<Rightarrow> thenM (logMessage n failPhase (failMessage err) (Progress_String progress'))
               (ret (Some err))
           | Inr x \<Rightarrow> next x progress')))"

definition checked :: "goerr option prog \<Rightarrow> (goerr + unit) prog" where
  "checked m = bindM m (\<lambda>err. ret (case err of Some e \<Rightarrow> Inl e | None \<Rightarrow> Inr ()))"

text \<open>The ten steps, on the operations the \<^verbatim>\<open>switch\<close> selected and the dialled client.\<close>

definition launch_steps :: "nodeManager \<Rightarrow> nodeJoin \<Rightarrow> client \<Rightarrow> goerr option prog" where
  "launch_steps n nodeJoin sshclient = (let info = nm_nodeInfo n; c = Some sshclient in
     launch_step n (NewProgress 10) ''Check architecture'' ''Check architecture''
       (nj_CheckArch nodeJoin c)
       ''Check architecture'' (\<lambda>_. ''Check architecture'') (\<lambda>systemArch progress.
     launch_step n progress ''Check Kubernetes Version'' ''Check Kubernetes Version''
       (ret (nj_CheckNodeVersion nodeJoin (spec_NodeVersion (nd_Spec (nm_nodeDeploy n)))))
       ''Kubernetes Install'' (\<lambda>_. ''invalid kubernetes version'') (\<lambda>versionK8s progress.
     launch_step n progress ''Prepare Package'' ''Prepare the offline installation package''
       (checked (nj_PrepareSetupPkg nodeJoin c systemArch versionK8s))
       ''Prepare Package'' (\<lambda>_. ''Prepare the offline installation package failed'') (\<lambda>_ progress.
     launch_step n progress ''Stop Firewalld'' ''Turn off the system firewall settings''
       (checked (nj_StopFirewalld nodeJoin c))
       ''Stop Firewalld'' (\<lambda>err. ''Failed to turn off the system firewall setting, '' @ err_text err) (\<lambda>_ progress.
     launch_step n progress ''Docker Install'' ''Installing docker''
       (checked (nj_InstallDocker nodeJoin c systemArch))
       ''Docker Install'' (\<lambda>err. ''docker doesn't exist, '' @ err_text err) (\<lambda>_ progress.
     launch_step n progress ''Docker Config'' (''Configure the docker configuration file'' @ mk [10])
       (checked (nj_SetDockerConf nodeJoin c (info_HarborUser info) (info_HarborPwd info) (info_HarborEndpoint info)))
       ''Docker Config'' (\<lambda>err. ''docker config.json doesn't exist, '' @ err_text err) (\<lambda>_ progress.
     launch_step n progress ''SetUp Hostname'' ''Setup hostname''
       (checked (nj_SetHostName nodeJoin c (info_NodeName info)))
       ''SetUp Hostname '' (\<lambda>err. '' The node has already been set up, '' @ err_text err) (\<lambda>_ progress.
     launch_step n progress ''Load  Images'' ''Loading Images''
       (checked (nj_LoadImage nodeJoin c))
       ''Load  Images'' (\<lambda>err. '' the image file does not exist, '' @ err_text err) (\<lambda>_ progress.
     launch_step n progress '' Node Setup'' ''Setup workerNode''
       (checked (nj_SetNodeComponents nodeJoin c))
       ''Node Setup '' (\<lambda>err. ''workerNode doesn't exist, '' @ err_text err) (\<lambda>_ progress.
     launch_step n progress ''Node Join'' ''start workerNode''
       (checked (nj_Join nodeJoin c))
       ''Node start'' (\<lambda>_. ''workerNode Join failed'') (\<lambda>_ progress.
     thenM (logMessage n ''Launch Success'' ''Nodes are added to the cluster'' (Progress_String progress))
       (ret None))))))))))))"

definition LaunchByCmd :: "env \<Rightarrow> nodeManager \<Rightarrow> goerr option prog" where
  "LaunchByCmd env n = (let info = nm_nodeInfo n in
     bindM (NewClient (e_ssh env) (info_NodeIP info) (info_NodePort info) (info_NodeUser info) (info_NodePwd info))
       (\<lambda>client. case client of
          Inl _ \<Rightarrow> ret (Some (NewErr ''Create ssh client failed''))
        | Inr sshclient \<Rightarrow> (case select_join env (info_NodeType info) of
            None \<Rightarrow>
              thenM (logMessage n ''Check architecture'' ''Check architecture'' (fst (Progress_Add (NewProgress 10))))
                (crash nil_deref)
          | Some nodeJoin \<Rightarrow> launch_steps n nodeJoin sshclient)))"

section \<open>Deprecate\<close>

text \<open>A failed dial is only logged: the step then runs on the nil client.\<close>

definition Deprecate :: "env \<Rightarrow> nodeManager \<Rightarrow> goerr option prog" where
  "Deprecate env n = (let info = nm_nodeInfo n in
     bindM (NewClient (e_ssh env) (info_NodeIP info) (info_NodePort info) (info_NodeUser info) (info_NodePwd info))
       (\<lambda>client. let sshclient = (case client of Inl _ \<Rightarrow> None | Inr c \<Rightarrow> Some c) in
        case Progress_Add (NewProgress 1) of (shown, progress) \<Rightarrow>
        thenM (logMessage n ''Deprecate Node'' ''shutdown workerNode'' shown)
          (case select_disjoin env (info_NodeType info) of
             None \<Rightarrow> crash nil_deref
           | Some nodedisJoin \<Rightarrow>
               bindM (nd_DisJoin nodedisJoin sshclient) (\<lambda>err. case err of
                 Some e \<Rightarrow>
                   thenM (logMessage n ''Deprecate Node'' ''fail to deprecate'' (Progress_String progress))
                     (ret (Some e))
               | None \<Rightarrow>
                   thenM (tell (Event (crRef (nm_nodeDeploy n)) EventTypeNormal ''Deprecate'' ''deprecate success''))
                   (thenM (logMessage n ''Deprecate Node'' ''deprecate success'' (Progress_String progress))
                     (ret None))))))"

section \<open>The log of a launch\<close>

fun status_text :: "action \<Rightarrow> string option" where
  "status_text (Event _ _ reason text) = (if reason = EventStatusMessage then Some text else None)"
| "status_text _ = None"

text \<open>The status messages a history reported, oldest first.\<close>

abbreviation status_texts :: "hist \<Rightarrow> string list" where
  "status_texts \<equiv> proj status_text"

lemma host_no_text: "is_host e \<Longrightarrow> status_text e = None"
  by (cases e) (auto simp: is_host_def)

text \<open>The ten steps: what each reports when it starts and when it fails.\<close>

type_synonym logStep = "statusMessage \<times> (goerr \<Rightarrow> statusMessage)"

definition log_step :: "int \<Rightarrow> string \<Rightarrow> string \<Rightarrow> string \<Rightarrow> (goerr \<Rightarrow> string) \<Rightarrow> logStep" where
  "log_step i phase message failPhase failMessage =
     (let p = fmt_int i @ ''/'' @ fmt_int 10 in
      (\<lparr>msg_Phase = phase, msg_Message = message, msg_Progress = p\<rparr>,
       \<lambda>e. \<lparr>msg_Phase = failPhase, msg_Message = failMessage e, msg_Progress = p\<rparr>))"

definition launch_log :: "logStep list" where
  "launch_log =
    [log_step 1 ''Check architecture'' ''Check architecture'' ''Check architecture'' (\<lambda>_. ''Check architecture''),
     log_step 2 ''Check Kubernetes Version'' ''Check Kubernetes Version''
       ''Kubernetes Install'' (\<lambda>_. ''invalid kubernetes version''),
     log_step 3 ''Prepare Package'' ''Prepare the offline installation package''
       ''Prepare Package'' (\<lambda>_. ''Prepare the offline installation package failed''),
     log_step 4 ''Stop Firewalld'' ''Turn off the system firewall settings''
       ''Stop Firewalld'' (\<lambda>err. ''Failed to turn off the system firewall setting, '' @ err_text err),
     log_step 5 ''Docker Install'' ''Installing docker''
       ''Docker Install'' (\<lambda>err. ''docker doesn't exist, '' @ err_text err),
     log_step 6 ''Docker Config'' (''Configure the docker configuration file'' @ mk [10])
       ''Docker Config'' (\<lambda>err. ''docker config.json doesn't exist, '' @ err_text err),
     log_step 7 ''SetUp Hostname'' ''Setup hostname''
       ''SetUp Hostname '' (\<lambda>err. '' The node has already been set up, '' @ err_text err),
     log_step 8 ''Load  Images'' ''Loading Images''
       ''Load  Images'' (\<lambda>err. '' the image file does not exist, '' @ err_text err),
     log_step 9 '' Node Setup'' ''Setup workerNode''
       ''Node Setup '' (\<lambda>err. ''workerNode doesn't exist, '' @ err_text err),
     log_step 10 ''Node Join'' ''start workerNode'' ''Node start'' (\<lambda>_. ''workerNode Join failed'')]"

definition launch_final :: statusMessage where
  "launch_final = \<lparr>msg_Phase = ''Launch Success'', msg_Message = ''Nodes are added to the cluster'',
     msg_Progress = ''10/10''\<rparr>"

text \<open>
  \<open>follows steps r new\<close>: the messages \<open>new\<close> are those of a run through \<open>steps\<close> that ended with \<open>r\<close>:
  a prefix of the steps and the failure message of the last one, or all steps and the final message.
\<close>

fun follows :: "logStep list \<Rightarrow> goerr option \<Rightarrow> statusMessage list \<Rightarrow> bool" where
  "follows [] r new \<longleftrightarrow> r = None \<and> new = [launch_final]"
| "follows ((m, f) # steps) r new \<longleftrightarrow>
     (\<exists>rest. new = m # rest \<and> ((\<exists>e. r = Some e \<and> rest = [f e]) \<or> follows steps r rest))"

lemma follows_iff:
  "follows steps r new \<longleftrightarrow>
     (case r of None \<Rightarrow> new = map fst steps @ [launch_final]
      | Some e \<Rightarrow> \<exists>k < length steps. new = map fst (take (Suc k) steps) @ [snd (steps ! k) e])"
proof (induction steps arbitrary: r new)
  case (Cons s steps)
  have shift: "(\<exists>k < Suc n. P k) \<longleftrightarrow> P 0 \<or> (\<exists>k < n. P (Suc k))" for P :: "nat \<Rightarrow> bool" and n
    by (metis Suc_less_eq less_Suc_eq_0_disj)
  show ?case
    by (cases s; cases r) (auto simp: Cons.IH shift Cons_eq_append_conv)
qed (simp split: option.split)

definition logs :: "logStep list \<Rightarrow> hist \<Rightarrow> goerr option prog \<Rightarrow> bool" where
  "logs steps h m \<longleftrightarrow> wp m
     (\<lambda>r h'. \<exists>new. status_texts h' = status_texts h @ map StatusMessage_String new \<and> follows steps r new)
     (\<lambda>_ h'. \<exists>k \<le> length steps. status_texts h'
        = status_texts h @ map StatusMessage_String (map fst (take k steps))) h"


lemma status_logMessage:
  "status_text (Event (crRef (nm_nodeDeploy n)) EventTypeNormal EventStatusMessage t) = Some t"
  by simp

text \<open>One step of the launch, and all of them, from the operations' promise to stay silent.\<close>

lemma logs_launch_step:
  assumes run: "confined is_host run"
    and mess: "log_step i phase message failPhase failMessage = (m, f)"
    and shown: "Progress_Add p = (fmt_int i @ ''/'' @ fmt_int 10, p')"
    and nxt: "\<And>x h. logs steps h (next x p')"
  shows "logs ((m, f) # steps) h (launch_step n p phase message run failPhase failMessage next)"
proof -
  let ?t = "\<lambda>m. StatusMessage_String m"
  let ?e = "\<lambda>m. Event (crRef (nm_nodeDeploy n)) EventTypeNormal EventStatusMessage (?t m)"
  have p': "Progress_String p' = fmt_int i @ ''/'' @ fmt_int 10"
    using shown by (auto simp: Progress_Add_def Let_def)
  have mf: "m = \<lparr>msg_Phase = phase, msg_Message = message, msg_Progress = fmt_int i @ ''/'' @ fmt_int 10\<rparr>"
    "f = (\<lambda>e. \<lparr>msg_Phase = failPhase, msg_Message = failMessage e, msg_Progress = fmt_int i @ ''/'' @ fmt_int 10\<rparr>)"
    using mess by (auto simp: log_step_def Let_def)
  have quiet: "wp run (\<lambda>_ h'. status_texts h' = status_texts h @ [?t m])
      (\<lambda>_ h'. status_texts h' = status_texts h @ [?t m]) (?e m # h)"
    by (rule wp_mono [OF confined_wp_proj [OF run host_no_text]]) auto
  show ?thesis
    unfolding logs_def launch_step_def logMessage_def shown prod.case wp_rules p'
    unfolding mf [symmetric] fun_cong [OF mf(2), symmetric]
  proof (rule wp_mono [OF quiet])
    fix x h1
    assume h1: "status_texts h1 = status_texts h @ [?t m]"
    show "wp (case x of
          Inl err \<Rightarrow> thenM (tell (?e (f err))) (ret (Some err))
        | Inr x \<Rightarrow> next x p')
      (\<lambda>r h'. \<exists>new. status_texts h' = status_texts h @ map ?t new \<and> follows ((m, f) # steps) r new)
      (\<lambda>_ h'. \<exists>k \<le> length ((m, f) # steps). status_texts h' = status_texts h @ map ?t (map fst (take k ((m, f) # steps)))) h1"
    proof (cases x)
      case (Inl e)
      with h1 show ?thesis by (simp add: wp_rules) (rule exI [of _ "[m, f e]"], simp)
    next
      case (Inr y)
      show ?thesis
        unfolding Inr sum.case
      proof (rule wp_mono [OF nxt [of h1 y, unfolded logs_def]], goal_cases)
        case (1 r h')
        then obtain new where "status_texts h' = status_texts h1 @ map ?t new" "follows steps r new" by blast
        then show ?case by (intro exI [of _ "m # new"]) (simp add: h1)
      next
        case (2 msg h')
        then obtain k where "k \<le> length steps" "status_texts h' = status_texts h1 @ map ?t (map fst (take k steps))"
          by blast
        then show ?case by (intro exI [of _ "Suc k"]) (simp add: h1)
      qed
    qed
  next
    fix msg h1
    assume "status_texts h1 = status_texts h @ [?t m]"
    then show "\<exists>k \<le> length ((m, f) # steps). status_texts h1 = status_texts h @ map ?t (map fst (take k ((m, f) # steps)))"
      by (intro exI [of _ 1]) simp
  qed
qed

lemma launch_stepE:
  assumes "launch_step n p phase message run failPhase failMessage next h = Some (Ret None h')"
  obtains t x h1 p' where
    "run (Event (crRef (nm_nodeDeploy n)) EventTypeNormal EventStatusMessage t # h) = Some (Ret (Inr x) h1)"
    "next x p' h1 = Some (Ret None h')"
  using assms by (auto simp: launch_step_def logMessage_def run_simps)

lemma confined_suffix: "confined P m \<Longrightarrow> m h = Some (Ret x h') \<Longrightarrow> suffix h h'"
  using confined_grows [of P m h x h'] by (auto simp: grows_def suffix_def)

lemma checkedE:
  assumes "checked m h = Some (Ret (Inr u) h')"
  obtains "m h = Some (Ret None h')"
  using assms by (auto simp: checked_def run_simps split: option.splits)

lemma ret_runE:
  assumes "ret x h = Some (Ret y h')"
  obtains "h' = h" "y = x"
  using assms by (auto simp: ret_def)

lemma finalE:
  assumes "thenM (logMessage n phase message p) (ret None) h = Some (Ret r h')"
  obtains t where "h' = Event (crRef (nm_nodeDeploy n)) EventTypeNormal EventStatusMessage t # h"
  using assms by (auto simp: logMessage_def run_simps)

lemma Progress_Add_next:
  "i < 10 \<Longrightarrow> Progress_Add \<lparr>p_i = i, p_sum = 10\<rparr> = (fmt_int (uint i + 1) @ ''/'' @ fmt_int 10, \<lparr>p_i = i + 1, p_sum = 10\<rparr>)"
proof -
  assume i: "i < 10"
  then have "uint i < 10" by (simp add: word_less_def)
  moreover have "- (2 ^ 63) \<le> uint i" by (rule order.trans [OF _ unsigned_greater_eq]) simp
  ultimately have "sint i = uint i" unfolding sint_uint by (intro signed_take_bit_int_eq_self) simp_all
  with \<open>uint i < 10\<close> have "sint (i + 1) = uint i + 1" by (simp add: sint_increment)
  with \<open>uint i < 10\<close> show ?thesis
    by (simp add: Progress_Add_def Progress_step_def Progress_String_def Let_def)
qed

context node_join begin

lemma checked_host: "confined is_host m \<Longrightarrow> confined is_host (checked m)"
  unfolding checked_def by (intro confined_rules)

lemma launch_steps_logs: "logs launch_log h (launch_steps n ops cl)"
proof -
  have final: "logs [] h (thenM (logMessage n ''Launch Success'' ''Nodes are added to the cluster''
      (Progress_String \<lparr>p_i = 10, p_sum = 10\<rparr>)) (ret None))" for h
  proof -
    have "Progress_String \<lparr>p_i = 10, p_sum = 10\<rparr> = ''10/10''" by code_simp
    then show ?thesis
      by (simp add: logs_def logMessage_def wp_rules launch_final_def [symmetric])
  qed
  show ?thesis
    unfolding launch_steps_def launch_log_def log_step_def Let_def NewProgress_def
    by (rule logs_launch_step [OF _ _ Progress_Add_next];
        (simp add: log_step_def Let_def)?; (intro checked_host confined_ret arch_host pkg_host firewall_host docker_host
          conf_host name_host image_host setup_host join_host final)?)+
qed

text \<open>What a launch without an error ran on the host, in order.\<close>

lemma combine_runs:
  assumes a: "nj_CheckArch ops (Some cl) (Event r1 EventTypeNormal EventStatusMessage t1 # h) = Some (Ret (Inr a) h1)"
    and pkg: "nj_PrepareSetupPkg ops (Some cl) a v
      (Event r1 EventTypeNormal EventStatusMessage t3 # Event r1 EventTypeNormal EventStatusMessage t2 # h1) = Some (Ret None h3)"
    and fw: "nj_StopFirewalld ops (Some cl) (Event r1 EventTypeNormal EventStatusMessage t4 # h3) = Some (Ret None h4)"
    and do: "nj_InstallDocker ops (Some cl) a (Event r1 EventTypeNormal EventStatusMessage t5 # h4) = Some (Ret None h5)"
    and co: "nj_SetDockerConf ops (Some cl) u p e (Event r1 EventTypeNormal EventStatusMessage t6 # h5) = Some (Ret None h6)"
    and na: "nj_SetHostName ops (Some cl) hn (Event r1 EventTypeNormal EventStatusMessage t7 # h6) = Some (Ret None h7)"
    and im: "nj_LoadImage ops (Some cl) (Event r1 EventTypeNormal EventStatusMessage t8 # h7) = Some (Ret None h8)"
    and se: "nj_SetNodeComponents ops (Some cl) (Event r1 EventTypeNormal EventStatusMessage t9 # h8) = Some (Ret None h9)"
    and jo: "nj_Join ops (Some cl) (Event r1 EventTypeNormal EventStatusMessage t10 # h9) = Some (Ret None h10)"
  shows "\<exists>arch \<in> arch_runs. \<exists>pkg \<in> pkg_runs t a v. \<exists>j h0'. arch_read lib a h1 \<and> join_script h0' j
    \<and> suffix h h1 \<and> suffix h1 h0' \<and> suffix h0' h10 \<and> uploads h10 = uploads h @ [setup_pkg t a v]
    \<and> remote_cmds h1 = remote_cmds h @ arch
    \<and> remote_cmds h0' = remote_cmds h1 @ pkg @ [sudo (script t ''01-stopwalld.sh''),
            sudo (script t (''02-docker_install.sh '' @ a @ docker))]
          @ docker_conf_runs t u p e
          @ [sudo (script t (''04-homename_setup.sh '' @ hn)),
            sudo (script t (''05-load-image.sh '' @ images @ '' '')), sudo (script t components)]
    \<and> remote_cmds h10 = remote_cmds h0' @ [sudo (script t j)]"
proof -
  let ?h0 = "Event r1 EventTypeNormal EventStatusMessage t10 # h9"
  from arch_runs [OF a] obtain arch where arch: "arch_read lib a h1" "arch \<in> arch_runs"
    "remote_cmds h1 = remote_cmds h @ arch" "uploads h1 = uploads h" by (auto simp: extends_def)
  from pkg_runs [OF pkg] obtain pkg where p: "uploads h3 = uploads h1 @ [setup_pkg t a v]"
    "pkg \<in> pkg_runs t a v" "remote_cmds h3 = remote_cmds h1 @ pkg" by auto
  from join_runs [OF jo] obtain j where j: "join_script ?h0 j" "remote_cmds h10 = remote_cmds h9 @ [sudo (script t j)]"
    "uploads h10 = uploads h9" by (auto simp: extends_def)
  have "remote_cmds h9 = remote_cmds h3 @ [sudo (script t ''01-stopwalld.sh''),
            sudo (script t (''02-docker_install.sh '' @ a @ docker))] @ docker_conf_runs t u p e
          @ [sudo (script t (''04-homename_setup.sh '' @ hn)),
            sudo (script t (''05-load-image.sh '' @ images @ '' '')), sudo (script t components)]"
    "uploads h9 = uploads h3"
    using firewall_runs [OF fw] docker_runs [OF do] conf_runs [OF co] name_runs [OF na] image_runs [OF im]
      setup_runs [OF se] by (simp_all add: extends_def)
  with arch p j have "remote_cmds ?h0 = remote_cmds h1 @ pkg @ [sudo (script t ''01-stopwalld.sh''),
            sudo (script t (''02-docker_install.sh '' @ a @ docker))] @ docker_conf_runs t u p e
          @ [sudo (script t (''04-homename_setup.sh '' @ hn)),
            sudo (script t (''05-load-image.sh '' @ images @ '' '')), sudo (script t components)]"
    "remote_cmds h10 = remote_cmds ?h0 @ [sudo (script t j)]" "uploads h10 = uploads h @ [setup_pkg t a v]"
    by simp_all
  moreover have "suffix h h1" by (rule suffix_ConsD [OF confined_suffix [OF arch_host a]])
  moreover have "suffix h1 ?h0"
    by (rule suffix_order.trans [OF suffix_ConsD [OF suffix_ConsD [OF confined_suffix [OF pkg_host pkg]]]]
        suffix_order.trans [OF suffix_ConsD [OF confined_suffix [OF firewall_host fw]]]
        suffix_order.trans [OF suffix_ConsD [OF confined_suffix [OF docker_host do]]]
        suffix_order.trans [OF suffix_ConsD [OF confined_suffix [OF conf_host co]]]
        suffix_order.trans [OF suffix_ConsD [OF confined_suffix [OF name_host na]]]
        suffix_order.trans [OF suffix_ConsD [OF confined_suffix [OF image_host im]]]
        suffix_order.trans [OF suffix_ConsD [OF confined_suffix [OF setup_host se]]] suffix_ConsI suffix_order.refl)+
  moreover have "suffix ?h0 h10" by (rule confined_suffix [OF join_host jo])
  ultimately show ?thesis using arch(1-3) p(2) j(1) by blast
qed

text \<open>What a launch without an error did on the host \<open>cl\<close> and with which arguments.\<close>

lemma launch_steps_runs:
  assumes "launch_steps n ops cl h = Some (Ret None h')"
  shows "\<exists>a v. nj_CheckNodeVersion ops (spec_NodeVersion (nd_Spec (nm_nodeDeploy n))) = Inr v
    \<and> (\<exists>arch \<in> arch_runs. \<exists>pkg \<in> pkg_runs t a v. \<exists>j h1 h2. arch_read lib a h1 \<and> join_script h2 j
      \<and> suffix h h1 \<and> suffix h1 h2 \<and> suffix h2 h' \<and> uploads h' = uploads h @ [setup_pkg t a v]
      \<and> remote_cmds h1 = remote_cmds h @ arch
      \<and> remote_cmds h2 = remote_cmds h1 @ pkg @ [sudo (script t ''01-stopwalld.sh''),
            sudo (script t (''02-docker_install.sh '' @ a @ docker))]
          @ docker_conf_runs t (info_HarborUser (nm_nodeInfo n)) (info_HarborPwd (nm_nodeInfo n))
              (info_HarborEndpoint (nm_nodeInfo n))
          @ [sudo (script t (''04-homename_setup.sh '' @ info_NodeName (nm_nodeInfo n))),
            sudo (script t (''05-load-image.sh '' @ images @ '' '')), sudo (script t components)]
      \<and> remote_cmds h' = remote_cmds h2 @ [sudo (script t j)])"
  using assms unfolding launch_steps_def Let_def
  apply (elim launch_stepE checkedE finalE ret_runE)
  apply hypsubst
  apply (frule combine_runs, assumption+)
  apply (simp only: proj_Cons run_cmd.simps copied.simps option.case append_Nil2)
  apply (metis (no_types, lifting) suffix_ConsI)
  done

end

lemma returns_launch_step:
  assumes "\<And>h. returns run h" "\<And>x p h. returns (next x p) h"
  shows "returns (launch_step n p phase message run failPhase failMessage next) h"
  using assms unfolding launch_step_def logMessage_def thenM_def
  by (auto split: prod.split sum.split intro!: total_rules)

lemma returns_checked: "(\<And>h. returns m h) \<Longrightarrow> returns (checked m) h"
  unfolding checked_def by (intro returns_bindM returns_ret)

context returning_node_join begin

lemma launch_steps_returns:
  assumes "\<And>h. returns (nj_Join ops (Some cl)) h"
  shows "returns (launch_steps n ops cl) h"
  unfolding launch_steps_def Let_def
  by (intro returns_launch_step returns_checked returns_ret assms arch_returns pkg_returns firewall_returns
      docker_returns conf_returns name_returns image_returns setup_returns)
    (simp add: logMessage_def thenM_def total_rules)

end

section \<open>What the manager may call\<close>

fun is_report :: "action \<Rightarrow> bool" where
  "is_report (SSHDial _ _ _) = True"
| "is_report (Event _ _ _ _) = True"
| "is_report _ = False"

definition is_manager :: "action \<Rightarrow> bool" where
  "is_manager e \<longleftrightarrow> is_host e \<or> is_report e"

lemma manager_report: "is_report e \<Longrightarrow> is_manager e"
  by (simp add: is_manager_def)

lemma manager_host: "confined is_host m \<Longrightarrow> confined is_manager m"
  by (erule confined_mono) (simp add: is_manager_def)

lemma manager_logMessage: "confined is_manager (logMessage n phase message p)"
  unfolding logMessage_def by (rule confined_tell) (simp add: is_manager_def)

lemma manager_NewClient: "confined is_manager (NewClient lib host port user pw)"
  unfolding NewClient_def Let_def by (intro confined_rules) (simp add: is_manager_def)

lemma manager_launch_step:
  assumes "confined is_manager run" "\<And>x p. confined is_manager (next x p)"
  shows "confined is_manager (launch_step n p phase message run failPhase failMessage next)"
  unfolding launch_step_def by (intro confined_rules manager_logMessage assms)

context node_join begin

lemma launch_steps_confined: "confined is_manager (launch_steps n ops cl)"
  unfolding launch_steps_def Let_def
  by (intro manager_launch_step manager_host checked_host confined_ret arch_host pkg_host firewall_host docker_host
          conf_host name_host image_host setup_host join_host confined_thenM manager_logMessage)

end

lemma select_join_cases:
  "select_join env t = Some ops \<Longrightarrow> t = NodeWork \<and> ops = WorkNode_ops env \<or> t = NodeKubeedge \<and> ops = KubEdgeNode_ops env"
  by (auto simp: select_join_def split: if_splits)

lemma LaunchByCmd_confined: "confined is_manager (LaunchByCmd env n)"
  unfolding LaunchByCmd_def Let_def
  by (intro confined_rules manager_NewClient manager_logMessage)
    (auto dest!: select_join_cases intro: work.launch_steps_confined edge.launch_steps_confined)

lemma Deprecate_confined: "confined is_manager (Deprecate env n)"
  unfolding Deprecate_def Let_def WorkNode_DisJoin_def KubEdgeNode_DisJoin_def select_disjoin_def
  by (intro confined_rules manager_NewClient manager_logMessage)
    (auto split: if_splits intro!: confined_rules manager_host host_step manager_logMessage simp: is_manager_def)

section \<open>A launch and a deprecation as wholes\<close>

definition dial_of :: "nodeInfo \<Rightarrow> action" where
  "dial_of info = SSHDial (info_NodeIP info @ '':'' @ info_NodePort info) (info_NodeUser info)
     (if info_NodePwd info \<noteq> [] then Some (info_NodePwd info) else None)"

definition client_of :: "nodeInfo \<Rightarrow> client" where
  "client_of info = \<lparr>c_server = info_NodeIP info @ '':'' @ info_NodePort info, c_passwd = info_NodePwd info\<rparr>"

lemma NewClient_run:
  "NewClient lib (info_NodeIP info) (info_NodePort info) (info_NodeUser info) (info_NodePwd info) h =
     Some (Ret (case ssh_Dial lib (dial_of info # h) of Some e \<Rightarrow> Inl e | None \<Rightarrow> Inr (client_of info))
       (dial_of info # h))"
  by (simp add: NewClient_def Let_def dial_of_def client_of_def io_defs split: option.split)

lemma LaunchByCmd_run:
  "LaunchByCmd env n h = (let h1 = dial_of (nm_nodeInfo n) # h in
     case ssh_Dial (e_ssh env) h1 of
       Some _ \<Rightarrow> Some (Ret (Some (NewErr ''Create ssh client failed'')) h1)
     | None \<Rightarrow> (case select_join env (info_NodeType (nm_nodeInfo n)) of
         None \<Rightarrow> thenM (logMessage n ''Check architecture'' ''Check architecture'' (fst (Progress_Add (NewProgress 10))))
                (crash nil_deref) h1
       | Some ops \<Rightarrow> launch_steps n ops (client_of (nm_nodeInfo n)) h1))"
  by (simp add: LaunchByCmd_def Let_def bindM_def NewClient_run ret_def split: option.split)

lemma select_join_known [simp]:
  "select_join env NodeWork = Some (WorkNode_ops env)" "select_join env NodeKubeedge = Some (KubEdgeNode_ops env)"
  by (simp_all add: select_join_def)

lemma select_disjoin_known [simp]:
  "select_disjoin env NodeWork = Some \<lparr>nd_DisJoin = WorkNode_DisJoin (e_ssh env)\<rparr>"
  "select_disjoin env NodeKubeedge = Some \<lparr>nd_DisJoin = KubEdgeNode_DisJoin (e_ssh env)\<rparr>"
  by (simp_all add: select_disjoin_def)

lemma dial_silent [simp]: "run_cmd (dial_of info) = None" "copied (dial_of info) = None" "status_text (dial_of info) = None"
  by (simp_all add: dial_of_def)

lemma LaunchByCmd_ok:
  assumes "LaunchByCmd env n h = Some (Ret None h')"
  shows "\<exists>ops. select_join env (info_NodeType (nm_nodeInfo n)) = Some ops
    \<and> launch_steps n ops (client_of (nm_nodeInfo n)) (dial_of (nm_nodeInfo n) # h) = Some (Ret None h')"
  using assms by (auto simp: LaunchByCmd_run Let_def run_simps split: option.splits)

lemma logs_logMessage_crash:
  assumes "log_step i phase message fp fm = (m, f)" and "Progress_Add p = (fmt_int i @ ''/'' @ fmt_int 10, p')"
  shows "logs ((m, f) # steps) h (thenM (logMessage n phase message (fst (Progress_Add p))) (crash msg))"
proof -
  have "m = \<lparr>msg_Phase = phase, msg_Message = message, msg_Progress = fmt_int i @ ''/'' @ fmt_int 10\<rparr>"
    using assms(1) by (auto simp: log_step_def Let_def)
  then show ?thesis
    unfolding logs_def logMessage_def wp_rules assms(2) fst_conv
    by (intro exI [of _ 1]) simp
qed

text \<open>Every run of \<^verbatim>\<open>LaunchByCmd\<close> after a successful dial follows the log.\<close>

lemma LaunchByCmd_logs:
  assumes "ssh_Dial (e_ssh env) (dial_of (nm_nodeInfo n) # h) = None"
  shows "wp (LaunchByCmd env n)
     (\<lambda>r h'. \<exists>new. status_texts h' = status_texts h @ map StatusMessage_String new \<and> follows launch_log r new)
     (\<lambda>_ h'. \<exists>k \<le> length launch_log. status_texts h'
        = status_texts h @ map StatusMessage_String (map fst (take k launch_log))) h"
proof -
  let ?h = "dial_of (nm_nodeInfo n) # h"
  have texts: "status_texts ?h = status_texts h" by simp
  have run: "LaunchByCmd env n h = (case select_join env (info_NodeType (nm_nodeInfo n)) of
         None \<Rightarrow> thenM (logMessage n ''Check architecture'' ''Check architecture'' (fst (Progress_Add (NewProgress 10))))
                (crash nil_deref) ?h
       | Some ops \<Rightarrow> launch_steps n ops (client_of (nm_nodeInfo n)) ?h)"
    using assms by (simp add: LaunchByCmd_run Let_def)
  have unknown: "logs launch_log ?h (thenM (logMessage n ''Check architecture'' ''Check architecture''
      (fst (Progress_Add (NewProgress 10)))) (crash nil_deref))"
    unfolding launch_log_def log_step_def Let_def NewProgress_def
    by (rule logs_logMessage_crash [OF _ Progress_Add_next]) (simp_all add: log_step_def Let_def)
  have known: "logs launch_log ?h (launch_steps n ops (client_of (nm_nodeInfo n)))"
    if "select_join env (info_NodeType (nm_nodeInfo n)) = Some ops" for ops
    using select_join_cases [OF that] work.launch_steps_logs edge.launch_steps_logs by blast
  show ?thesis
    using unknown known unfolding logs_def wp_def run texts
    by (cases "select_join env (info_NodeType (nm_nodeInfo n))") simp_all
qed

lemma thenM_tell: "thenM (tell e) m h = m (e # h)"
  by (simp add: io_defs)

lemma bindM_NewClient:
  "bindM (NewClient lib (info_NodeIP info) (info_NodePort info) (info_NodeUser info) (info_NodePwd info)) k h =
     k (case ssh_Dial lib (dial_of info # h) of Some e \<Rightarrow> Inl e | None \<Rightarrow> Inr (client_of info)) (dial_of info # h)"
  by (simp add: bindM_def NewClient_run)

text \<open>The disjoin script of a node type.\<close>

definition disjoin_cmd :: "nodeType \<Rightarrow> string" where
  "disjoin_cmd t = ''bash '' @ FilePathPrefix @ ''/'' @ t @
     (if t = NodeWork then ''/08-work-disjoin.sh '' else ''/08-edgecore_disjoin.sh '')"

lemma select_disjoin_step:
  assumes "t \<in> {NodeWork, NodeKubeedge}"
  shows "\<exists>d wrap. select_disjoin env t = Some d
    \<and> (\<forall>c. nd_DisJoin d c = script_step (Exec (e_ssh env)) c (disjoin_cmd t) wrap)"
  using assms by (auto simp: disjoin_cmd_def WorkNode_DisJoin_def KubEdgeNode_DisJoin_def)

lemma select_disjoin_cases:
  "select_disjoin env t = None \<longleftrightarrow> t \<notin> {NodeWork, NodeKubeedge}"
  by (simp add: select_disjoin_def)

text \<open>The three events of \<^verbatim>\<open>Deprecate\<close>, and its two ends on a known node type.\<close>

definition deprecate_event :: "nodeManager \<Rightarrow> string \<Rightarrow> action" where
  "deprecate_event n message = Event (crRef (nm_nodeDeploy n)) EventTypeNormal EventStatusMessage
     (StatusMessage_String \<lparr>msg_Phase = ''Deprecate Node'', msg_Message = message, msg_Progress = ''1/1''\<rparr>)"

lemma logMessage_deprecate: "logMessage n ''Deprecate Node'' message ''1/1'' = tell (deprecate_event n message)"
  by (simp add: logMessage_def deprecate_event_def)

lemma deprecate_event_silent [simp]:
  "run_cmd (deprecate_event n m) = None" "copied (deprecate_event n m) = None"
  by (simp_all add: deprecate_event_def)

lemma Deprecate_run:
  assumes "info_NodeType (nm_nodeInfo n) \<in> {NodeWork, NodeKubeedge}" and h1_def: "h1 = dial_of (nm_nodeInfo n) # h"
  shows "\<exists>wrap. Deprecate env n h =
    bindM (script_step (Exec (e_ssh env)) (if ssh_Dial (e_ssh env) h1 = None then Some (client_of (nm_nodeInfo n)) else None)
        (disjoin_cmd (info_NodeType (nm_nodeInfo n))) wrap)
      (\<lambda>err. case err of
         Some e \<Rightarrow> thenM (tell (deprecate_event n ''fail to deprecate'')) (ret (Some e))
       | None \<Rightarrow> thenM (tell (Event (crRef (nm_nodeDeploy n)) EventTypeNormal ''Deprecate'' ''deprecate success''))
                   (thenM (tell (deprecate_event n ''deprecate success'')) (ret None)))
      (deprecate_event n ''shutdown workerNode'' # h1)"
proof -
  have p: "Progress_Add (NewProgress 1) = (''1/1'', \<lparr>p_i = 1, p_sum = 1\<rparr>)"
    "Progress_String \<lparr>p_i = 1, p_sum = 1\<rparr> = ''1/1''" by code_simp+
  from select_disjoin_step [OF assms(1)] obtain d wrap where
    d: "select_disjoin env (info_NodeType (nm_nodeInfo n)) = Some d"
      "\<And>c. nd_DisJoin d c = script_step (Exec (e_ssh env)) c (disjoin_cmd (info_NodeType (nm_nodeInfo n))) wrap"
    by blast
  show ?thesis
    by (rule exI [of _ wrap])
      (simp add: Deprecate_def Let_def bindM_NewClient p d h1_def logMessage_deprecate thenM_tell split: option.split)
qed

lemma Deprecate_nil:
  assumes "info_NodeType (nm_nodeInfo n) \<in> {NodeWork, NodeKubeedge}"
    and "ssh_Dial (e_ssh env) (dial_of (nm_nodeInfo n) # h) \<noteq> None"
  shows "Deprecate env n h = Some (Ret None
    (deprecate_event n ''deprecate success''
     # Event (crRef (nm_nodeDeploy n)) EventTypeNormal ''Deprecate'' ''deprecate success''
     # deprecate_event n ''shutdown workerNode'' # dial_of (nm_nodeInfo n) # h))"
  using Deprecate_run [OF assms(1) refl, of env h] assms(2) by (auto simp: sh.step_nil io_defs)

lemma Deprecate_ok:
  assumes "info_NodeType (nm_nodeInfo n) \<in> {NodeWork, NodeKubeedge}"
    and "ssh_Dial (e_ssh env) (dial_of (nm_nodeInfo n) # h) = None"
    and "Deprecate env n h = Some (Ret None h')"
  shows "remote_cmds h' = remote_cmds h @ [sudo (disjoin_cmd (info_NodeType (nm_nodeInfo n)))]"
proof -
  from Deprecate_run [OF assms(1) refl, of env h, unfolded if_P [OF assms(2)]] obtain wrap where run: "Deprecate env n h =
    bindM (script_step (Exec (e_ssh env)) (Some (client_of (nm_nodeInfo n)))
        (disjoin_cmd (info_NodeType (nm_nodeInfo n))) wrap)
      (\<lambda>err. case err of
         Some e \<Rightarrow> thenM (tell (deprecate_event n ''fail to deprecate'')) (ret (Some e))
       | None \<Rightarrow> thenM (tell (Event (crRef (nm_nodeDeploy n)) EventTypeNormal ''Deprecate'' ''deprecate success''))
                   (thenM (tell (deprecate_event n ''deprecate success'')) (ret None)))
      (deprecate_event n ''shutdown workerNode'' # dial_of (nm_nodeInfo n) # h)"
    by blast
  from assms(3) [unfolded run] obtain h1 where
    step: "script_step (Exec (e_ssh env)) (Some (client_of (nm_nodeInfo n)))
        (disjoin_cmd (info_NodeType (nm_nodeInfo n))) wrap
        (deprecate_event n ''shutdown workerNode'' # dial_of (nm_nodeInfo n) # h) = Some (Ret None h1)"
    and h': "remote_cmds h' = remote_cmds h1"
    by (auto simp: run_simps thenM_tell)
  from sh.step_ok [OF step] h' show ?thesis by simp
qed

section \<open>Launching and deprecating on a healthy host\<close>

lemma gives_launch_step:
  assumes "gives run (\<lambda>r. \<exists>x. r = Inr x \<and> P x)" and "\<And>x p. P x \<Longrightarrow> succeeds (next x p)"
  shows "succeeds (launch_step n p phase message run failPhase failMessage next)"
  unfolding launch_step_def logMessage_def Progress_Add_def Let_def prod.case
  by (rule gives_told, rule gives_bindM [OF assms(1)]) (auto intro: assms(2))

lemma gives_launch_step_any:
  assumes "gives run (\<lambda>r. \<exists>x. r = Inr x)" and "\<And>x p. succeeds (next x p)"
  shows "succeeds (launch_step n p phase message run failPhase failMessage next)"
  by (rule gives_launch_step [where P = "\<lambda>_. True"]) (simp_all add: assms)

lemma gives_checked: "succeeds m \<Longrightarrow> gives (checked m) (\<lambda>r. \<exists>x. r = Inr x)"
  unfolding checked_def by (erule gives_bindM) (auto intro: gives_ret)

lemma gives_launch_steps:
  assumes "ready_ops ops" and "nj_CheckNodeVersion ops (spec_NodeVersion (nd_Spec (nm_nodeDeploy n))) = Inr v"
  shows "succeeds (launch_steps n ops cl)"
proof -
  have "gives (nj_CheckArch ops (Some cl)) (\<lambda>r. \<exists>a. r = Inr a)" "succeeds (nj_PrepareSetupPkg ops (Some cl) a w)"
    "succeeds (nj_StopFirewalld ops (Some cl))" "succeeds (nj_InstallDocker ops (Some cl) a)"
    "succeeds (nj_SetDockerConf ops (Some cl) u pw e)" "succeeds (nj_SetHostName ops (Some cl) hn)"
    "succeeds (nj_LoadImage ops (Some cl))" "succeeds (nj_SetNodeComponents ops (Some cl))" "succeeds (nj_Join ops (Some cl))"
    for a w u pw e hn using assms(1) by (simp_all add: ready_ops_def)
  note ops = this(1) this(2-9) [THEN gives_checked]
  show ?thesis
    unfolding launch_steps_def Let_def assms(2)
    by (rule gives_launch_step_any gives_told gives_ret ops exI refl | simp only: logMessage_def)+
qed

lemma gives_LaunchByCmd:
  assumes "healthy_host (e_ssh env)" "select_join env (info_NodeType (nm_nodeInfo n)) = Some ops" "ready_ops ops"
    and "nj_CheckNodeVersion ops (spec_NodeVersion (nd_Spec (nm_nodeDeploy n))) = Inr v"
  shows "succeeds (LaunchByCmd env n)"
  using givesD [OF gives_launch_steps [OF assms(3,4)]] assms(1,2)
  by (simp add: gives_def LaunchByCmd_run Let_def healthy_host_def)

lemma gives_Deprecate:
  assumes "healthy_host (e_ssh env)" "info_NodeType (nm_nodeInfo n) \<in> {NodeWork, NodeKubeedge}"
  shows "succeeds (Deprecate env n)"
proof -
  have "ssh_Dial (e_ssh env) h = None" for h using assms(1) by (simp add: healthy_host_def)
  moreover have "select_disjoin env (info_NodeType (nm_nodeInfo n)) = Some ops \<Longrightarrow> succeeds (nd_DisJoin ops (Some cl))" for ops cl
    using gives_disjoin [OF assms(1)] by (auto simp: select_disjoin_def split: if_splits)
  moreover have "\<exists>ops. select_disjoin env (info_NodeType (nm_nodeInfo n)) = Some ops"
    using assms(2) by (auto simp: select_disjoin_def)
  ultimately show ?thesis
    unfolding Deprecate_def NewClient_def Let_def bindM_assoc
    by (auto simp: Progress_Add_def Let_def logMessage_def intro!: gives_rules gives_bindM [where P = "\<lambda>r. r = None"])
qed

text \<open>A worker and an edge node of the example environment.\<close>

definition ex_manager :: "nodeType \<Rightarrow> nodeManager" where
  "ex_manager t = New ex_deploy (ex_info t)"

lemma ex_manager_simps [simp]:
  "nm_nodeDeploy (ex_manager t) = ex_deploy" "info_NodeType (nm_nodeInfo (ex_manager t)) = t"
  by (simp_all add: ex_manager_def New_def ex_info_def)

lemma version_ex: "getKubernetesVersionStr ex_kube v = Inr ''1.21''"
proof -
  have "fmt_int 1 @ ''.'' @ fmt_int 21 = ''1.21''" by code_simp
  then show ?thesis by (simp add: getKubernetesVersionStr_def)
qed

lemma launch_ex: "\<exists>h'. LaunchByCmd ex_env (ex_manager NodeWork) h = Some (Ret None h')"
  using gives_exactly [OF gives_LaunchByCmd [of ex_env "ex_manager NodeWork" "WorkNode_ops ex_env" "''1.21''"]]
  by (simp add: healthy_ex_ssh certs_documented_ex work_ready) (simp add: WorkNode_ops_def WorkNode_CheckNodeVersion_def version_ex)

definition ex_edge_env :: env where
  "ex_edge_env = ex_env\<lparr>e_tok := ex_tok\<lparr>core_GetSecret := (\<lambda>_. Inr
     \<lparr>secret_Name = ''tokensecret'', secret_Namespace = ''kubeedge'', secret_Type = [],
      secret_Data = [(''tokendata'', ''tok'')]\<rparr>)\<rparr>\<rparr>"

lemma ex_edge_env_simps [simp]: "e_ssh ex_edge_env = ex_ssh" "e_kube ex_edge_env = ex_kube"
  by (simp_all add: ex_edge_env_def)

lemma healthy_cloudcore_ex: "healthy_cloudcore (e_tok ex_edge_env)"
  by (simp add: healthy_cloudcore_def ex_edge_env_def)

lemma launch_edge_ex: "\<exists>h'. LaunchByCmd ex_edge_env (ex_manager NodeKubeedge) h = Some (Ret None h')"
  using gives_exactly [OF gives_LaunchByCmd [of ex_edge_env "ex_manager NodeKubeedge" "KubEdgeNode_ops ex_edge_env" "''1.21''"]]
  by (simp add: healthy_ex_ssh healthy_cloudcore_ex edge_ready) (simp add: KubEdgeNode_ops_def KubEdgeNode_CheckNodeVersion_def version_ex)

section \<open>Properties\<close>

text \<open>C9: A worker launch that reports no error has done all of its work, in this order: it asked the host for
  its architecture, uploaded the package of the architecture that the host named and of the version
  of the NodeDeploy, gave it its mode and unpacked it, and ran the scripts 01, 02 and 04 to 07 as
  root with their arguments, and script 03 exactly when no registry credential is empty. The
  arguments of the join script are the endpoint, the token and the pin, in this order, that the
  join information held when it was read, after script 06.\<close>

theorem worker_launch_transcript:
  assumes "LaunchByCmd env n h = Some (Ret None h')" and "info_NodeType (nm_nodeInfo n) = NodeWork"
  shows "\<exists>a v arch pkg j h1 h2. suffix h h1 \<and> suffix h1 h2 \<and> suffix h2 h'
    \<and> arch_read (e_ssh env) a h1
    \<and> WorkNode_CheckNodeVersion (e_kube env) (spec_NodeVersion (nd_Spec (nm_nodeDeploy n))) = Inr v
    \<and> work_join env h2 j
    \<and> arch \<in> arch_runs \<and> pkg \<in> pkg_runs NodeWork a v \<and> uploads h' = uploads h @ [setup_pkg NodeWork a v]
    \<and> remote_cmds h1 = remote_cmds h @ arch
    \<and> remote_cmds h2 = remote_cmds h1 @ pkg
        @ [sudo (script NodeWork ''01-stopwalld.sh''), sudo (script NodeWork (''02-docker_install.sh '' @ a @ '' ''))]
        @ docker_conf_runs NodeWork (info_HarborUser (nm_nodeInfo n)) (info_HarborPwd (nm_nodeInfo n))
            (info_HarborEndpoint (nm_nodeInfo n))
        @ [sudo (script NodeWork (''04-homename_setup.sh '' @ info_NodeName (nm_nodeInfo n))),
           sudo (script NodeWork (''05-load-image.sh '' @ ''images/work'' @ '' '')),
           sudo (script NodeWork ''06-k8s-setup.sh'')]
    \<and> remote_cmds h' = remote_cmds h2 @ [sudo (script NodeWork j)]"
proof -
  from LaunchByCmd_ok [OF assms(1)] assms(2) have
    "launch_steps n (WorkNode_ops env) (client_of (nm_nodeInfo n)) (dial_of (nm_nodeInfo n) # h) = Some (Ret None h')"
    by simp
  from work.launch_steps_runs [OF this] show ?thesis
    by (elim exE conjE bexE) (intro exI conjI, erule suffix_ConsD, assumption+, simp_all add: WorkNode_ops_def)
qed

theorem worker_launch_transcript_witness:
  "\<exists>h' a. LaunchByCmd ex_env (ex_manager NodeWork) [] = Some (Ret None h')
    \<and> uploads h' = [setup_pkg NodeWork a ''1.21'']"
proof -
  from launch_ex obtain h' where
    run: "LaunchByCmd ex_env (ex_manager NodeWork) [] = Some (Ret None h')" by blast
  from worker_launch_transcript [OF run] run show ?thesis
    by (auto simp: ex_manager_def New_def ex_info_def WorkNode_CheckNodeVersion_def version_ex )
qed

text \<open>C10: An edge launch that reports no error has done all of its work in the same order, with the
  scripts of the edge package. Its join script got the first advertised address and the websocket
  port of the cloud core's configuration and the token of its secret, in this order, all three read
  after script 06 and without an error.\<close>

theorem edge_launch_transcript:
  assumes "LaunchByCmd env n h = Some (Ret None h')" and "info_NodeType (nm_nodeInfo n) = NodeKubeedge"
  shows "\<exists>a v arch pkg j h1 h2. suffix h h1 \<and> suffix h1 h2 \<and> suffix h2 h'
    \<and> arch_read (e_ssh env) a h1
    \<and> KubEdgeNode_CheckNodeVersion (e_kube env) (spec_NodeVersion (nd_Spec (nm_nodeDeploy n))) = Inr v
    \<and> edge_join env h2 j
    \<and> arch \<in> arch_runs \<and> pkg \<in> pkg_runs NodeKubeedge a v \<and> uploads h' = uploads h @ [setup_pkg NodeKubeedge a v]
    \<and> remote_cmds h1 = remote_cmds h @ arch
    \<and> remote_cmds h2 = remote_cmds h1 @ pkg
        @ [sudo (script NodeKubeedge ''01-stopwalld.sh''), sudo (script NodeKubeedge (''02-docker_install.sh '' @ a))]
        @ docker_conf_runs NodeKubeedge (info_HarborUser (nm_nodeInfo n)) (info_HarborPwd (nm_nodeInfo n))
            (info_HarborEndpoint (nm_nodeInfo n))
        @ [sudo (script NodeKubeedge (''04-homename_setup.sh '' @ info_NodeName (nm_nodeInfo n))),
           sudo (script NodeKubeedge (''05-load-image.sh '' @ ''images'' @ '' '')),
           sudo (script NodeKubeedge ''06-edgecore_setup.sh'')]
    \<and> remote_cmds h' = remote_cmds h2 @ [sudo (script NodeKubeedge j)]"
proof -
  from LaunchByCmd_ok [OF assms(1)] assms(2) have
    "launch_steps n (KubEdgeNode_ops env) (client_of (nm_nodeInfo n)) (dial_of (nm_nodeInfo n) # h) = Some (Ret None h')"
    by simp
  from edge.launch_steps_runs [OF this] show ?thesis
    by (elim exE conjE bexE) (intro exI conjI, erule suffix_ConsD, assumption+, simp_all add: KubEdgeNode_ops_def)
qed

theorem edge_launch_transcript_witness:
  "\<exists>h' a. LaunchByCmd ex_edge_env (ex_manager NodeKubeedge) [] = Some (Ret None h')
    \<and> uploads h' = [setup_pkg NodeKubeedge a ''1.21'']"
proof -
  from launch_edge_ex obtain h' where
    run: "LaunchByCmd ex_edge_env (ex_manager NodeKubeedge) [] = Some (Ret None h')" by blast
  from edge_launch_transcript [OF run] run show ?thesis
    by (auto simp: ex_manager_def New_def ex_info_def KubEdgeNode_CheckNodeVersion_def version_ex ex_edge_env_def)
qed

text \<open>C11: The status messages of a launch tell how far it got. After a successful dial a run reports the
  ten steps in order with progress 1/10 to 10/10 and a final success exactly when it returns no
  error; a run that fails at step k has reported the steps up to k and the failure message of step
  k, with the same progress; a run that panics has reported a prefix of the steps and nothing else.\<close>

theorem launch_progress_log:
  assumes "ssh_Dial (e_ssh env) (dial_of (nm_nodeInfo n) # h) = None"
  shows "wp (LaunchByCmd env n)
     (\<lambda>r h'. \<exists>new. status_texts h' = status_texts h @ map StatusMessage_String new
        \<and> (case r of None \<Rightarrow> new = map fst launch_log @ [launch_final]
           | Some e \<Rightarrow> \<exists>k < 10. new = map fst (take (Suc k) launch_log) @ [snd (launch_log ! k) e]))
     (\<lambda>_ h'. \<exists>k \<le> 10. status_texts h'
        = status_texts h @ map StatusMessage_String (map fst (take k launch_log))) h"
proof -
  have "length launch_log = 10" by (simp add: launch_log_def)
  with LaunchByCmd_logs [OF assms] show ?thesis by (simp only: follows_iff)
qed

theorem launch_progress_log_witness:
  "\<exists>h'. LaunchByCmd ex_env (ex_manager NodeWork) [] = Some (Ret None h')
    \<and> status_texts h' = map StatusMessage_String (map fst launch_log @ [launch_final])"
proof -
  from launch_ex obtain h' where run: "LaunchByCmd ex_env (ex_manager NodeWork) [] = Some (Ret None h')" by blast
  have "ssh_Dial (e_ssh ex_env) (dial_of (nm_nodeInfo (ex_manager NodeWork)) # []) = None" by simp
  from wp_RetD [OF launch_progress_log [OF this] run] run show ?thesis by auto
qed

text \<open>C16: The node manager drives one host and nothing else: whatever the host and the cluster answer, on
  return and on panic, a launch and a deprecation dial the host, use the SSH session, read the join
  information, store bootstrap tokens and report events. They never write the status of a
  NodeDeploy and never change, cordon or delete a node object.\<close>

theorem manager_confined:
  "wp (LaunchByCmd env n) (\<lambda>_ h'. \<exists>new. h' = new @ h \<and> (\<forall>e \<in> set new. is_manager e))
     (\<lambda>_ h'. \<exists>new. h' = new @ h \<and> (\<forall>e \<in> set new. is_manager e)) h \<and>
   wp (Deprecate env n) (\<lambda>_ h'. \<exists>new. h' = new @ h \<and> (\<forall>e \<in> set new. is_manager e))
     (\<lambda>_ h'. \<exists>new. h' = new @ h \<and> (\<forall>e \<in> set new. is_manager e)) h"
  using LaunchByCmd_confined [of env n] Deprecate_confined [of env n]
  unfolding confined_def grows_def by blast

theorem manager_confined_witness:
  "\<exists>h'. LaunchByCmd ex_env (ex_manager NodeWork) [] = Some (Ret None h') \<and> (\<forall>e \<in> set h'. is_manager e)"
proof -
  from launch_ex obtain h' where run: "LaunchByCmd ex_env (ex_manager NodeWork) [] = Some (Ret None h')" by blast
  from wp_RetD [OF manager_confined [THEN conjunct1] run] run show ?thesis by auto
qed

text \<open>C29: A deprecation without an error has run the disjoin script of the node type, as its only
  command, when the host could be dialled.\<close>

theorem deprecate_runs_disjoin:
  assumes "info_NodeType (nm_nodeInfo n) \<in> {NodeWork, NodeKubeedge}"
    and "ssh_Dial (e_ssh env) (dial_of (nm_nodeInfo n) # h) = None"
    and "Deprecate env n h = Some (Ret None h')"
  shows "remote_cmds h' = remote_cmds h @ [sudo (disjoin_cmd (info_NodeType (nm_nodeInfo n)))]"
  by (rule Deprecate_ok [OF assms])

theorem deprecate_runs_disjoin_witness:
  "\<exists>h'. Deprecate ex_env (ex_manager NodeWork) [] = Some (Ret None h')
    \<and> remote_cmds h' = [sudo ''bash /path/to/nodedeploy/work/08-work-disjoin.sh '']"
proof -
  have "\<exists>h'. Deprecate ex_env (ex_manager NodeWork) [] = Some (Ret None h')"
    using gives_exactly [OF gives_Deprecate [of ex_env "ex_manager NodeWork"]] by (simp add: healthy_ex_ssh)
  then obtain h' where run: "Deprecate ex_env (ex_manager NodeWork) [] = Some (Ret None h')" by blast
  have cmd: "disjoin_cmd NodeWork = ''bash /path/to/nodedeploy/work/08-work-disjoin.sh ''" by code_simp
  from deprecate_runs_disjoin [OF _ _ run] run cmd show ?thesis
    by (simp add: ex_manager_def New_def ex_info_def)
qed

text \<open>A deprecation also reports success when the host could not be dialled at all: the nil client is
  passed on, its panic is recovered in \<^verbatim>\<open>Exec\<close> and counts as a success, so that the event says
  \<^verbatim>\<open>deprecate success\<close> although no command has been run.\<close>

theorem deprecate_undialled_host:
  assumes "info_NodeType (nm_nodeInfo n) \<in> {NodeWork, NodeKubeedge}"
    and "ssh_Dial (e_ssh env) (dial_of (nm_nodeInfo n) # h) \<noteq> None"
  shows "\<exists>h'. Deprecate env n h = Some (Ret None h') \<and> remote_cmds h' = remote_cmds h
    \<and> hd h' = deprecate_event n ''deprecate success''"
  by (rule exI, rule conjI, rule Deprecate_nil [OF assms]) simp

definition ex_offline :: env where
  "ex_offline = ex_env\<lparr>e_ssh := ex_ssh\<lparr>ssh_Dial := \<lambda>_. Some (ExtErr ''no route to host'')\<rparr>\<rparr>"

theorem deprecate_undialled_host_witness:
  "\<exists>h'. Deprecate ex_offline (ex_manager NodeWork) [] = Some (Ret None h') \<and> remote_cmds h' = []"
  using deprecate_undialled_host [of "ex_manager NodeWork" ex_offline "[]"]
  by (auto simp: ex_manager_def New_def ex_info_def ex_offline_def)

text \<open>C17: A worker launch always comes back: with a certificate library that keeps its promise there is
  no answer of the host or of the cluster for which it panics or does not return.\<close>

theorem worker_launch_returns:
  assumes "info_NodeType (nm_nodeInfo n) = NodeWork" and "certs_documented (e_tok env)"
  shows "\<exists>r h'. LaunchByCmd env n h = Some (Ret r h')"
proof -
  have "returns (launch_steps n (WorkNode_ops env) cl) h" for cl h
    by (rule work.launch_steps_returns) (simp add: WorkNode_ops_def WorkNode_Join_returns [OF assms(2)])
  then show ?thesis
    using assms(1) by (auto simp: LaunchByCmd_run Let_def returns_def split: option.split)
qed

theorem worker_launch_returns_witness: "\<exists>r h'. LaunchByCmd ex_env (ex_manager NodeWork) [] = Some (Ret r h')"
  by (rule worker_launch_returns) (simp_all add: ex_manager_def New_def ex_info_def certs_documented_def)

text \<open>A node type that is neither of the two is not rejected but panics: the launch and the
  deprecation report their first step and then call a method of a nil interface.\<close>

theorem unknown_type_panics:
  assumes "info_NodeType (nm_nodeInfo n) \<notin> {NodeWork, NodeKubeedge}"
  shows "(ssh_Dial (e_ssh env) (dial_of (nm_nodeInfo n) # h) = None \<longrightarrow>
      (\<exists>h'. LaunchByCmd env n h = Some (Crash nil_deref h') \<and> remote_cmds h' = remote_cmds h))
    \<and> (\<exists>h'. Deprecate env n h = Some (Crash nil_deref h') \<and> remote_cmds h' = remote_cmds h)"
  using assms
  by (auto simp: LaunchByCmd_run Let_def select_join_def select_disjoin_def logMessage_def thenM_tell crash_def
      Deprecate_def bindM_NewClient split: option.split prod.split)

theorem unknown_type_panics_witness:
  "\<exists>h'. Deprecate ex_env (ex_manager ''master'') [] = Some (Crash nil_deref h')"
  using unknown_type_panics [of "ex_manager ''master''" ex_env "[]"]
  by (auto simp: ex_manager_def New_def ex_info_def node_type_defs)

end
