(* ===== verification/CtrlUtils.thy ===== *)
theory CtrlUtils
  imports World
begin

text \<open>\<^verbatim>\<open>controllers/utils.go\<close>: draining a node, its readiness, and the status helpers.\<close>

definition drainNode :: "kubeLib \<Rightarrow> node \<Rightarrow> goerr option prog" where
  "drainNode lib node =
     bindM (ask (Cordon (node_Name node)) (drain_PatchOrReplace lib)) (\<lambda>r. case r of (err, patchErr) \<Rightarrow>
       (case patchErr of
          Some e \<Rightarrow> ret (Some e)
        | None \<Rightarrow> (case err of
            Some e \<Rightarrow> ret (Some e)
          | None \<Rightarrow>
              bindM (ask (GetPodsForDeletion (node_Name node)) (drain_GetPods lib)) (\<lambda>r. case r of (pods, errs) \<Rightarrow>
                (case errs of
                   Some es \<Rightarrow> ret (errors_NewAggregate lib es)
                 | None \<Rightarrow> ask (DeleteOrEvictPods pods) (drain_DeleteOrEvict lib))))))"

fun any_ready :: "kubeLib \<Rightarrow> condition list \<Rightarrow> bool" where
  "any_ready lib [] = False"
| "any_ready lib (c # cs) = (if cond_Type c = core_NodeReady lib then True else any_ready lib cs)"

definition nodeIsReady :: "kubeLib \<Rightarrow> node \<Rightarrow> bool" where
  "nodeIsReady lib node = any_ready lib (node_Conditions node)"

definition getBeforeStatus :: "nodeStatus \<Rightarrow> nodeStatus" where
  "getBeforeStatus status =
     (if status = NodeLaunching then NodeInactive
      else if status = NodeDeprecating then NodeActive
      else NodeUnknown)"

definition getSecretName :: "nodeDeploy \<Rightarrow> string" where
  "getSecretName nd = ''nodedeploy-'' @ nd_Name nd"

lemma nodeIsReady_iff: "nodeIsReady lib node \<longleftrightarrow> (\<exists>c \<in> set (node_Conditions node). cond_Type c = core_NodeReady lib)"
proof -
  have "any_ready lib cs \<longleftrightarrow> (\<exists>c \<in> set cs. cond_Type c = core_NodeReady lib)" for cs
    by (induction cs) auto
  then show ?thesis by (simp add: nodeIsReady_def)
qed

lemma getBeforeStatus_simps [simp]:
  "getBeforeStatus NodeLaunching = NodeInactive"
  "getBeforeStatus NodeDeprecating = NodeActive"
  by (simp_all add: getBeforeStatus_def)

end
