(* ===== verification/Reconciler.thy ===== *)
theory Reconciler
  imports Manager CtrlUtils
begin

text \<open>
  \<^verbatim>\<open>controllers/nodedeploy_controller.go\<close>: one reconciliation of a NodeDeploy. The object behind
  the Go pointer \<^verbatim>\<open>nodeDeploy\<close> is passed along and returned updated; a successful status update
  replaces it by the server's answer, as the client does. Log lines are left out.
\<close>

definition DeadlineDuration :: duration where "DeadlineDuration = Minute * 30"

record result =
  res_RequeueAfter :: duration

definition no_result :: result where
  "no_result = \<lparr>res_RequeueAfter = 0\<rparr>"

definition crEvent :: "nodeDeploy \<Rightarrow> eventType \<Rightarrow> string \<Rightarrow> string \<Rightarrow> unit prog" where
  "crEvent nd etype reason message = tell (Event (crRef nd) etype reason message)"

definition statusChange :: "nodeStatus \<Rightarrow> nodeStatus \<Rightarrow> string" where
  "statusChange a b = NodeStatus_String a @ '' -> '' @ NodeStatus_String b"

text \<open>\<^verbatim>\<open>r.Status().Update(ctx, nodeDeploy)\<close>.\<close>

definition status_update :: "env \<Rightarrow> nodeDeploy \<Rightarrow> (goerr option \<times> nodeDeploy) prog" where
  "status_update env nd =
     bindM (ask (StatusUpdate nd) (client_StatusUpdate (e_kube env))) (\<lambda>r. case r of
       Inl e \<Rightarrow> ret (Some e, nd)
     | Inr nd' \<Rightarrow> ret (None, nd'))"

section \<open>Preflight, prepare, finalize\<close>

definition preflight_reason :: "kubeLib \<Rightarrow> nodeDeploy \<Rightarrow> nodeInfo \<Rightarrow> string option" where
  "preflight_reason lib nd nodeInfo = (let spec = nd_Spec nd in
     if spec_NodeName spec \<noteq> info_NodeName nodeInfo \<or> spec_NodeIP spec \<noteq> info_NodeIP nodeInfo
     then Some (''nodeName or nodeIP does not match the config in secret '' @ nd_Namespace nd @ ''/'' @ getSecretName nd)
     else (case labels_AsValidatedSelector lib (spec_Labels spec) of
         Some e \<Rightarrow> Some (''invalid nodeLabels, err: '' @ err_text e)
       | None \<Rightarrow>
           (if \<not> net_ParseIP (spec_NodeIP spec) then Some ''nodeIP is an invalid ip address''
            else (case semver_NewVersion lib (spec_NodeVersion spec) of
                Inl e \<Rightarrow> Some (''invalid NodeVersion, err: '' @ err_text e)
              | Inr _ \<Rightarrow> None))))"

definition preflight :: "env \<Rightarrow> nodeDeploy \<Rightarrow> nodeInfo \<Rightarrow> (bool \<times> goerr option) prog" where
  "preflight env nd nodeInfo =
     (case preflight_reason (e_kube env) nd nodeInfo of
        Some reason \<Rightarrow>
          thenM (crEvent nd EventTypeWarning EventStatusMessage (StatusMessage_String
              \<lparr>msg_Phase = ''Parameter validate'', msg_Message = reason, msg_Progress = ''1/1''\<rparr>))
            (ret (False, None))
      | None \<Rightarrow> ret (True, None))"

definition prepare :: "env \<Rightarrow> nodeDeploy \<Rightarrow> nodeStatus \<Rightarrow> (goerr option \<times> nodeDeploy) prog" where
  "prepare env nd status =
     bindM (ask TimeNow (e_now env)) (\<lambda>now.
       let nd = setDeadline (Some (time_Add now DeadlineDuration)) nd in
       thenM (crEvent nd EventTypeNormal EventChangeStatus (statusChange (curStatus nd) status))
         (status_update env (setStatus status nd)))"

definition finalize :: "env \<Rightarrow> nodeDeploy \<Rightarrow> nodeStatus \<Rightarrow> (goerr option \<times> nodeDeploy) prog" where
  "finalize env nd status =
     thenM (crEvent nd EventTypeNormal EventChangeStatus (statusChange (curStatus nd) status))
       (status_update env (setDeadline None (setStatus status nd)))"

section \<open>Watching and launching a node\<close>

text \<open>
  The \<^verbatim>\<open>for\<close>/\<^verbatim>\<open>select\<close> loop of \<^verbatim>\<open>watchNode\<close>: it ends when the context is done, the timer fires or
  a watched event shows the node in the wanted readiness, and may not end otherwise.
\<close>

partial_function (option) watch_loop ::
  "kubeLib \<Rightarrow> string \<Rightarrow> bool \<Rightarrow> hist \<Rightarrow> (action, bool \<times> goerr option) outcome option" where
  "watch_loop lib nodeName ready h =
     (case watch_Select lib (WatchSelect # h) of
        CtxDone \<Rightarrow> Some (Ret (False, None) (WatcherStop # WatchSelect # h))
      | TimerFired \<Rightarrow> Some (Ret (False, None) (WatcherStop # WatchSelect # h))
      | ChanClosed \<Rightarrow> watch_loop lib nodeName ready (WatchSelect # h)
      | WatchEvent etype obj \<Rightarrow>
          (if etype = Added \<or> etype = Modified then
             (case obj of
                None \<Rightarrow> watch_loop lib nodeName ready (WatchSelect # h)
              | Some node \<Rightarrow>
                  (if node_Name node \<noteq> nodeName then watch_loop lib nodeName ready (WatchSelect # h)
                   else if nodeIsReady lib node = ready then
                     Some (Ret (True, None) (Event (NodeObj (node_Name node)) EventTypeNormal EventLaunchNode
                        (''node '' @ nodeName @ '' ready: '' @ (if nodeIsReady lib node then ''true'' else ''false''))
                        # WatcherStop # WatchSelect # h))
                   else watch_loop lib nodeName ready (WatchSelect # h)))
           else watch_loop lib nodeName ready (WatchSelect # h)))"

definition start_watch :: "env \<Rightarrow> duration \<Rightarrow> string \<Rightarrow> bool \<Rightarrow> (bool \<times> goerr option) prog" where
  "start_watch env timeout nodeName ready =
     bindM (ask NewRetryWatcher (watch_NewRetryWatcher (e_kube env))) (\<lambda>err. case err of
       Some e \<Rightarrow> ret (False, Some e)
     | None \<Rightarrow> thenM (tell (NewTimer timeout)) (watch_loop (e_kube env) nodeName ready))"

definition watchNode :: "env \<Rightarrow> duration \<Rightarrow> string \<Rightarrow> bool \<Rightarrow> (bool \<times> goerr option) prog" where
  "watchNode env timeout nodeName ready = (let lib = e_kube env in
     bindM (ask (GetNode nodeName) (client_GetNode lib)) (\<lambda>r. case r of
       Inl err \<Rightarrow>
         (if \<not> api_IsNotFound lib err then ret (False, Some err)
          else start_watch env timeout nodeName ready)
     | Inr node \<Rightarrow>
         (if nodeIsReady lib node = ready then
            thenM (tell (Event (NodeObj (node_Name node)) EventTypeNormal EventLaunchNode
                (''node '' @ nodeName @ '' ready: '' @ (if nodeIsReady lib node then ''true'' else ''false''))))
              (ret (True, None))
          else start_watch env timeout nodeName ready)))"

text \<open>The two nested loops over the taints: a wanted taint is appended unless one matches it.\<close>

fun taint_existed :: "kubeLib \<Rightarrow> taint \<Rightarrow> taint list \<Rightarrow> bool" where
  "taint_existed lib t1 [] = False"
| "taint_existed lib t1 (t2 # ts) = (if core_MatchTaint lib t1 t2 then True else taint_existed lib t1 ts)"

fun add_taints :: "kubeLib \<Rightarrow> taint list \<Rightarrow> taint list \<Rightarrow> taint list" where
  "add_taints lib [] have = have"
| "add_taints lib (t1 # ts) have =
     add_taints lib ts (if taint_existed lib t1 have then have else have @ [t1])"

text \<open>\<^verbatim>\<open>for k, v := range ... { node.Annotations[k] = v }\<close>: the first write to a nil map panics (\<open>None\<close>).\<close>

definition set_annotations ::
  "(string \<times> string) list \<Rightarrow> (string \<times> string) list option \<Rightarrow> (string \<times> string) list option option" where
  "set_annotations new old =
     (case old of
        None \<Rightarrow> (if new = [] then Some None else None)
      | Some m \<Rightarrow> Some (Some (fold (\<lambda>(k, v). AList.update k v) new m)))"

definition nil_map :: string where
  "nil_map = ''assignment to entry in nil map''"

definition update_node_attempt :: "env \<Rightarrow> nodeDeploySpec \<Rightarrow> node attempt" where
  "update_node_attempt env spec node = (let lib = e_kube env in
     bindM (ask (GetNode (spec_NodeName spec)) (client_GetNode lib)) (\<lambda>r. case r of
       Inl e \<Rightarrow> ret (Some e, node)
     | Inr node \<Rightarrow>
         (let node = node\<lparr>node_Labels := labels_Merge lib (node_Labels node) (spec_Labels spec)\<rparr>;
              node = node\<lparr>node_Taints := add_taints lib (spec_Taints spec) (node_Taints node)\<rparr> in
          case set_annotations (spec_Annotations spec) (node_Annotations node) of
            None \<Rightarrow> crash nil_map
          | Some annotations \<Rightarrow>
              (let node = node\<lparr>node_Annotations := annotations\<rparr> in
               bindM (ask (UpdateNode node) (client_UpdateNode lib)) (\<lambda>err. ret (err, node))))))"

definition empty_node :: node where
  "empty_node = \<lparr>node_Name = [], node_Labels = [], node_Annotations = None, node_Taints = [],
     node_Conditions = []\<rparr>"

definition launchNode :: "env \<Rightarrow> nodeDeploy \<Rightarrow> nodeInfo \<Rightarrow> (bool \<times> goerr option) prog" where
  "launchNode env nd nodeInfo =
     bindM (LaunchByCmd env (New nd nodeInfo)) (\<lambda>err. case err of
       Some e \<Rightarrow> ret (False, Some e)
     | None \<Rightarrow>
         bindM (watchNode env (Minute * 5) (spec_NodeName (nd_Spec nd)) True) (\<lambda>r. case r of
           (_, Some e) \<Rightarrow>
             thenM (crEvent nd EventTypeWarning EventLaunchNode ''node status is not as expected'')
               (ret (False, Some e))
         | (success, None) \<Rightarrow>
             (if success then
                bindM (retry_OnConflict (e_kube env) (update_node_attempt env (nd_Spec nd)) empty_node)
                  (\<lambda>r. case r of
                     (Some e, _) \<Rightarrow> ret (False, Some e)
                   | (None, _) \<Rightarrow> ret (success, None))
              else ret (success, None))))"

section \<open>Taking a node out\<close>

definition remove_node :: "env \<Rightarrow> nodeDeploy \<Rightarrow> nodeInfo \<Rightarrow> node \<Rightarrow> (bool \<times> goerr option) prog" where
  "remove_node env nd nodeInfo node =
     bindM (Deprecate env (New nd nodeInfo)) (\<lambda>err. case err of
       Some e \<Rightarrow> ret (False, Some e)
     | None \<Rightarrow>
         bindM (ask (DeleteNode (node_Name node)) (client_DeleteNode (e_kube env))) (\<lambda>err. case err of
           Some e \<Rightarrow>
             thenM (crEvent nd EventTypeWarning EventDeprecateNode ''failed to delete node'')
               (ret (False, Some e))
         | None \<Rightarrow>
             thenM (crEvent nd EventTypeNormal EventDeprecateNode ''node deleted successfully'')
               (ret (True, None))))"

definition deprecateNode :: "env \<Rightarrow> nodeDeploy \<Rightarrow> nodeInfo \<Rightarrow> (bool \<times> goerr option) prog" where
  "deprecateNode env nd nodeInfo = (let lib = e_kube env in
     bindM (ask (GetNode (info_NodeName nodeInfo)) (client_GetNode lib)) (\<lambda>r. case r of
       Inl err \<Rightarrow>
         (if \<not> api_IsNotFound lib err then ret (False, Some err)
          else ret (False, Some (NewErr ''try to deprecate a non-existent node'')))
     | Inr node \<Rightarrow>
         (if spec_IsEvicted (nd_Spec nd) then
            bindM (drainNode lib node) (\<lambda>err. case err of
              Some e \<Rightarrow>
                thenM (crEvent nd EventTypeWarning EventDeprecateNode (''failed to drain node, err: '' @ err_text e))
                  (ret (False, None))
            | None \<Rightarrow> remove_node env nd nodeInfo node)
          else remove_node env nd nodeInfo node)))"

section \<open>Reconcile\<close>

text \<open>\<^verbatim>\<open>uint(nodeDeploy.Spec.MaxRetry)\<close>: a signed 32-bit value as a 64-bit \<^verbatim>\<open>uint\<close>.\<close>

definition attempts_of :: "32 word \<Rightarrow> 64 word" where
  "attempts_of maxRetry = word_of_int (sint maxRetry)"

definition node_info_of :: "nodeDeploy \<Rightarrow> nodeInfo" where
  "node_info_of nd = (let spec = nd_Spec nd in
     \<lparr>info_NodeName = spec_NodeName spec,
      info_NodeIP = spec_NodeIP spec,
      info_NodeType = NodeType_String (spec_NodeType spec),
      info_NodePort = spec_NodePort spec,
      info_NodeUser = spec_NodeUser spec,
      info_NodePwd = spec_NodePwd spec,
      info_HarborEndpoint = spec_HarborEndpoint spec,
      info_HarborUser = spec_HarborUser spec,
      info_HarborPwd = spec_HarborPwd spec\<rparr>)"

text \<open>The closures given to the retry library; their variables are the object, \<^verbatim>\<open>success\<close> and \<^verbatim>\<open>status\<close>.\<close>

definition launch_attempt :: "env \<Rightarrow> nodeInfo \<Rightarrow> retryVars attempt" where
  "launch_attempt env nodeInfo vars = (case vars of (nd, success, status) \<Rightarrow>
     bindM (prepare env nd NodeLaunching) (\<lambda>r. case r of
       (Some e, nd) \<Rightarrow> ret (Some e, (nd, success, status))
     | (None, nd) \<Rightarrow>
         bindM (launchNode env nd nodeInfo) (\<lambda>r. case r of (success, err) \<Rightarrow>
           (let status = (if \<not> success then NodeLaunchFail else NodeActive) in
            ret (map_option (\<lambda>e. NewErr (''LaunchNode failed,err:'' @ err_text e)) err,
                 (nd, success, status))))))"

definition deprecate_attempt :: "env \<Rightarrow> nodeInfo \<Rightarrow> retryVars attempt" where
  "deprecate_attempt env nodeInfo vars = (case vars of (nd, success, status) \<Rightarrow>
     bindM (prepare env nd NodeDeprecating) (\<lambda>r. case r of
       (Some e, nd) \<Rightarrow> ret (Some e, (nd, success, status))
     | (None, nd) \<Rightarrow>
         bindM (deprecateNode env nd nodeInfo) (\<lambda>r. case r of (success, err) \<Rightarrow>
           (let status = (if success then NodeInactive else NodeDeprecateFail) in
            ret (map_option (\<lambda>e. NewErr (''DeprecateNode failed,err:'' @ err_text e)) err,
                 (nd, success, status))))))"

text \<open>Retry the closure from \<^verbatim>\<open>var status nodev1.NodeStatus\<close> (the empty status), then finalize.\<close>

definition retry_and_finalize :: "env \<Rightarrow> retryVars attempt \<Rightarrow> nodeDeploy \<Rightarrow> (result \<times> goerr option) prog" where
  "retry_and_finalize env attempt nd =
     bindM (retry_Do (e_kube env) (attempts_of (spec_MaxRetry (nd_Spec nd))) attempt (nd, True, NodeUnknown))
       (\<lambda>r. case r of (_, (nd, _, status)) \<Rightarrow>
          bindM (finalize env nd status) (\<lambda>r. ret (no_result, fst r)))"

definition drive :: "env \<Rightarrow> nodeDeploy \<Rightarrow> nodeInfo \<Rightarrow> (result \<times> goerr option) prog" where
  "drive env nd nodeInfo =
     (if specStatus nd = NodeActive then
        retry_and_finalize env (launch_attempt env nodeInfo) nd
      else if specStatus nd = NodeInactive then
        (if curStatus nd = NodeInit then
           thenM (crEvent nd EventTypeWarning EventInvalidStatus ''ignore init to inactive'')
             (ret (no_result, None))
         else retry_and_finalize env (deprecate_attempt env nodeInfo) nd)
      else ret (no_result, None))"

text \<open>A failed preflight: the status the code derives from it, written back.\<close>

definition preflight_failed :: "env \<Rightarrow> nodeDeploy \<Rightarrow> (result \<times> goerr option) prog" where
  "preflight_failed env nd =
     (let nd = (if curStatus nd = NodeInactive then setStatus NodeDeprecateFail nd
                else if specStatus nd = NodeActive then setStatus NodeLaunchFail nd
                else nd) in
      bindM (status_update env nd) (\<lambda>r. ret (no_result, fst r)))"

text \<open>A launch or deprecation that is in progress, or was when the controller stopped.\<close>

definition check_deadline :: "env \<Rightarrow> nodeDeploy \<Rightarrow> (result \<times> goerr option) prog" where
  "check_deadline env nd =
     (case deadlineOf nd of
        None \<Rightarrow> ret (no_result, None)
      | Some deadline \<Rightarrow>
          bindM (ask TimeNow (e_now env)) (\<lambda>now.
            if \<not> time_After now deadline then ret (no_result, None)
            else
              (let beforeStatus = getBeforeStatus (curStatus nd) in
               thenM (crEvent nd EventTypeWarning EventChangeStatus
                   (''exec timeout, fallback: '' @ statusChange (curStatus nd) beforeStatus))
                 (bindM (status_update env (setStatus beforeStatus nd)) (\<lambda>r. case r of
                    (Some e, _) \<Rightarrow> ret (no_result, Some e)
                  | (None, nd) \<Rightarrow>
                      (case deadlineOf nd of
                         None \<Rightarrow> crash nil_deref
                       | Some deadline \<Rightarrow>
                           bindM (ask TimeNow (e_now env)) (\<lambda>now.
                             ret (\<lparr>res_RequeueAfter = time_Sub deadline now\<rparr>, None))))))))"

definition Reconcile :: "env \<Rightarrow> string \<Rightarrow> string \<Rightarrow> (result \<times> goerr option) prog" where
  "Reconcile env ns name = (let lib = e_kube env in
     bindM (ask (GetCR ns name) (client_GetCR lib)) (\<lambda>r. case r of
       Inl err \<Rightarrow> ret (no_result, client_IgnoreNotFound lib err)
     | Inr nd \<Rightarrow>
         (if curStatus nd = NodeUnknown then
            thenM (crEvent nd EventTypeNormal EventChangeStatus ''init status'')
              (bindM (status_update env (setStatus NodeInit nd)) (\<lambda>r. ret (no_result, fst r)))
          else if specStatus nd = curStatus nd then ret (no_result, None)
          else if curStatus nd = NodeLaunching \<or> curStatus nd = NodeDeprecating then check_deadline env nd
          else if specStatus nd = NodeActive \<and> curStatus nd = NodeLaunchFail then ret (no_result, None)
          else if specStatus nd = NodeInactive \<and> curStatus nd = NodeDeprecateFail then ret (no_result, None)
          else
            (let nodeInfo = node_info_of nd in
             bindM (preflight env nd nodeInfo) (\<lambda>r. case r of
               (_, Some err) \<Rightarrow>
                 thenM (crEvent nd EventTypeWarning EventPreflight (''Preflight err:'' @ err_text err))
                   (ret (no_result, Some err))
             | (success, None) \<Rightarrow>
                 (if \<not> success then preflight_failed env nd
                  else drive env nd nodeInfo))))))"

text \<open>\<^verbatim>\<open>getNodeInfoFormSecret\<close>, which \<^verbatim>\<open>Reconcile\<close> no longer calls.\<close>

definition getNodeInfoFormSecret :: "env \<Rightarrow> nodeDeploy \<Rightarrow> (goerr + nodeInfo) prog" where
  "getNodeInfoFormSecret env nd = (let lib = e_kube env in
     bindM (ask (GetSecret (nd_Namespace nd) (getSecretName nd)) (client_GetSecret lib)) (\<lambda>r. case r of
       Inl err \<Rightarrow> ret (Inl err)
     | Inr s \<Rightarrow> ret (json_Unmarshal lib (map_get (secret_Data s) ''nodeInfo''))))"

end
