(* ===== verification/NodeOps.thy ===== *)
theory NodeOps
  imports Reconciler
begin

text \<open>
  What the reconciler does to the node object: watching it, merging labels, annotations and taints
  into it, draining and deleting it. The lemmas say which calls these operations make and what
  their answers mean; \<open>Lifecycle\<close> builds the status machine on them.
\<close>

section \<open>Watching a node\<close>

fun is_watch :: "action \<Rightarrow> bool" where
  "is_watch (GetNode _) = True"
| "is_watch NewRetryWatcher = True"
| "is_watch (NewTimer _) = True"
| "is_watch WatchSelect = True"
| "is_watch WatcherStop = True"
| "is_watch (Event _ _ _ _) = True"
| "is_watch _ = False"

text \<open>\<open>seen_ready lib name ready h\<close>: the last call of \<open>h\<close> showed the node in the wanted readiness.\<close>

definition seen_ready :: "kubeLib \<Rightarrow> string \<Rightarrow> bool \<Rightarrow> hist \<Rightarrow> bool" where
  "seen_ready lib name ready h \<longleftrightarrow>
     (\<exists>node. nodeIsReady lib node = ready
        \<and> (hd h = GetNode name \<and> client_GetNode lib h = Inr node
           \<or> hd h = WatchSelect \<and> node_Name node = name
              \<and> (\<exists>t \<in> {Added, Modified}. watch_Select lib h = WatchEvent t (Some node))))"

text \<open>How a watch loop ends: it saw the node in the wanted readiness, or it gave up.\<close>

definition watch_ended :: "kubeLib \<Rightarrow> string \<Rightarrow> bool \<Rightarrow> hist \<Rightarrow> (action, bool \<times> goerr option) outcome \<Rightarrow> bool" where
  "watch_ended lib name ready h out \<longleftrightarrow>
     (\<exists>b h1 h'. out = Ret (b, None) h' \<and> grows is_watch h h1 \<and> grows is_watch h1 h'
        \<and> (b \<longrightarrow> seen_ready lib name ready h1))"

lemma watch_ended_later: "watch_ended lib name ready (WatchSelect # h) out \<Longrightarrow> watch_ended lib name ready h out"
proof -
  have "grows is_watch h (WatchSelect # h)" by (rule grows_step) simp_all
  then show "watch_ended lib name ready (WatchSelect # h) out \<Longrightarrow> ?thesis"
    unfolding watch_ended_def by (blast intro: grows_trans)
qed

lemma watch_gave_up:
  "watch_ended lib name ready h (Ret (False, None) (WatcherStop # WatchSelect # h))"
  unfolding watch_ended_def
  by (intro exI [of _ False] exI [of _ "WatcherStop # WatchSelect # h"]) (simp add: grows_step)

lemma watch_saw:
  assumes "watch_Select lib (WatchSelect # h) = WatchEvent t (Some node)" "t = Added \<or> t = Modified"
    and "node_Name node = name" "nodeIsReady lib node = ready"
  shows "watch_ended lib name ready h (Ret (True, None) (Event r et why text # WatcherStop # WatchSelect # h))"
  unfolding watch_ended_def
proof (intro exI conjI impI)
  show "grows is_watch h (WatchSelect # h)"
    by (rule grows_step [OF _ grows_refl]) simp
  show "grows is_watch (WatchSelect # h) (Event r et why text # WatcherStop # WatchSelect # h)"
    by (rule grows_step [OF _ grows_step [OF _ grows_refl]]) simp_all
  show "seen_ready lib name ready (WatchSelect # h)"
    using assms by (auto simp: seen_ready_def)
qed simp_all

lemma watch_loop_ends:
  assumes "watch_loop lib name ready h = Some out"
  shows "watch_ended lib name ready h out"
proof (rule watch_loop.raw_induct [where P = "watch_ended", OF _ assms])
  fix loop lib name ready h out
  assume IH: "\<And>lib name ready h out. loop lib name ready h = Some out \<Longrightarrow> watch_ended lib name ready h out"
    and body: "(case watch_Select lib (WatchSelect # h) of
        CtxDone \<Rightarrow> Some (Ret (False, None) (WatcherStop # WatchSelect # h))
      | TimerFired \<Rightarrow> Some (Ret (False, None) (WatcherStop # WatchSelect # h))
      | ChanClosed \<Rightarrow> loop lib name ready (WatchSelect # h)
      | WatchEvent etype obj \<Rightarrow>
          (if etype = Added \<or> etype = Modified then
             (case obj of
                None \<Rightarrow> loop lib name ready (WatchSelect # h)
              | Some node \<Rightarrow>
                  (if node_Name node \<noteq> name then loop lib name ready (WatchSelect # h)
                   else if nodeIsReady lib node = ready then
                     Some (Ret (True, None) (Event (NodeObj (node_Name node)) EventTypeNormal EventLaunchNode
                        (''node '' @ name @ '' ready: '' @ (if nodeIsReady lib node then ''true'' else ''false''))
                        # WatcherStop # WatchSelect # h))
                   else loop lib name ready (WatchSelect # h)))
           else loop lib name ready (WatchSelect # h))) = Some out"
  have again: "watch_ended lib name ready h out" if "loop lib name ready (WatchSelect # h) = Some out" for name ready
    using IH [OF that] by (rule watch_ended_later)
  from body show "watch_ended lib name ready h out"
    by (auto split: watchResult.splits if_splits option.splits intro: again watch_gave_up watch_saw)
qed

text \<open>The loop ends when one of the coming answers stops it.\<close>

lemma watch_loop_stops:
  assumes "watch_Select lib (replicate (Suc k) WatchSelect @ h) \<in> {CtxDone, TimerFired}"
  shows "watch_loop lib name ready h \<noteq> None"
  using assms
proof (induction k arbitrary: h)
  case 0
  then show ?case by (subst watch_loop.simps) auto
next
  case (Suc k)
  from Suc.prems have "watch_loop lib name ready (WatchSelect # h) \<noteq> None"
    by (intro Suc.IH) (simp add: replicate_app_Cons_same)
  then show ?case
    by (subst watch_loop.simps) (auto split: watchResult.split option.split)
qed

lemma confined_watch_loop: "confined is_watch (watch_loop lib name ready)"
proof -
  have "wp (watch_loop lib name ready) (\<lambda>_. grows is_watch h) (\<lambda>_. grows is_watch h) h" for h
  proof (cases "watch_loop lib name ready h")
    case (Some out)
    from watch_loop_ends [OF Some] Some show ?thesis
      by (auto simp: wp_def watch_ended_def intro: grows_trans)
  qed (simp add: wp_def)
  then show ?thesis by (simp add: confined_def)
qed

lemma confined_start_watch: "confined is_watch (start_watch env timeout name ready)"
  unfolding start_watch_def by (intro confined_rules confined_watch_loop) simp_all

lemma confined_watchNode: "confined is_watch (watchNode env timeout name ready)"
  unfolding watchNode_def Let_def by (intro confined_rules confined_start_watch) simp_all

lemma watch_loop_True:
  assumes "watch_loop lib name ready h = Some (Ret (True, e) h')"
  shows "\<exists>h1. seen_ready lib name ready h1 \<and> grows is_watch h h1 \<and> grows is_watch h1 h'"
  using watch_loop_ends [OF assms] by (auto simp: watch_ended_def)

text \<open>\<^verbatim>\<open>watchNode\<close> only reports success after an answer that showed it.\<close>

lemma watchNode_True:
  assumes "watchNode env timeout name ready h = Some (Ret (True, e) h')"
  shows "\<exists>h1. seen_ready (e_kube env) name ready h1 \<and> grows is_watch h h1 \<and> grows is_watch h1 h'"
proof -
  have get: "grows is_watch h (GetNode name # h)" by (rule grows_step [OF _ grows_refl]) simp
  have start: "\<exists>h1. seen_ready (e_kube env) name ready h1 \<and> grows is_watch h h1 \<and> grows is_watch h1 h'"
    if run: "start_watch env timeout name ready (GetNode name # h) = Some (Ret (True, e) h')"
  proof -
    from run have loop: "watch_loop (e_kube env) name ready (NewTimer timeout # NewRetryWatcher # GetNode name # h)
        = Some (Ret (True, e) h')"
      by (auto simp: start_watch_def run_simps)
    have "grows is_watch h (NewTimer timeout # NewRetryWatcher # GetNode name # h)"
      by (intro grows_step get) simp_all
    with watch_loop_True [OF loop] show ?thesis by (blast intro: grows_trans)
  qed
  from assms consider
      "start_watch env timeout name ready (GetNode name # h) = Some (Ret (True, e) h')"
    | node r et why tx where "client_GetNode (e_kube env) (GetNode name # h) = Inr node"
        "nodeIsReady (e_kube env) node = ready" "h' = Event r et why tx # GetNode name # h"
    by (auto simp: watchNode_def Let_def run_simps)
  then show ?thesis
  proof cases
    case 2
    then have "seen_ready (e_kube env) name ready (GetNode name # h)" by (auto simp: seen_ready_def)
    moreover have "grows is_watch (GetNode name # h) h'"
      unfolding 2 by (rule grows_step [OF _ grows_refl]) simp
    ultimately show ?thesis using get by blast
  qed (rule start)
qed

lemma watchNode_error: "watchNode env timeout name ready h = Some (Ret (b, Some e) h') \<Longrightarrow> \<not> b"
  using watch_loop_ends by (fastforce simp: watchNode_def start_watch_def Let_def run_simps watch_ended_def)

section \<open>Labels, annotations and taints\<close>

lemma taint_existed_iff: "taint_existed lib t ts \<longleftrightarrow> (\<exists>u \<in> set ts. core_MatchTaint lib t u)"
  by (induction lib t ts rule: taint_existed.induct) auto

lemma add_taints_prefix: "\<exists>new. add_taints lib ts have = have @ new \<and> set new \<subseteq> set ts \<and> (distinct ts \<longrightarrow> distinct new)"
proof (induction lib ts "have" rule: add_taints.induct)
  case (2 lib t ts "have")
  then obtain new where "add_taints lib ts (if taint_existed lib t have then have else have @ [t])
      = (if taint_existed lib t have then have else have @ [t]) @ new"
    "set new \<subseteq> set ts" "distinct ts \<longrightarrow> distinct new" by blast
  then show ?case
    by (cases "taint_existed lib t have") (auto intro!: exI [of _ "t # new"])
qed simp

text \<open>What the library documents of \<^verbatim>\<open>MatchTaint\<close>: same key and same effect.\<close>

definition match_documented :: "kubeLib \<Rightarrow> bool" where
  "match_documented lib \<longleftrightarrow>
     (\<forall>a b. core_MatchTaint lib a b \<longleftrightarrow> taint_Key a = taint_Key b \<and> taint_Effect a = taint_Effect b)"

lemma add_taints_keeps: "set have \<subseteq> set (add_taints lib ts have)"
  by (metis Un_upper1 add_taints_prefix set_append)

lemma add_taints_covers:
  assumes "match_documented lib" "t \<in> set ts"
  shows "\<exists>u \<in> set (add_taints lib ts have). core_MatchTaint lib t u"
  using assms
proof (induction lib ts "have" rule: add_taints.induct)
  case (2 lib t1 ts "have")
  show ?case
  proof (cases "t = t1")
    case True
    let ?have = "if taint_existed lib t1 have then have else have @ [t1]"
    have "\<exists>u \<in> set ?have. core_MatchTaint lib t u"
      using True 2(2) by (auto simp: taint_existed_iff match_documented_def)
    with add_taints_keeps [of ?have lib ts] show ?thesis by (simp only: add_taints.simps) blast
  qed (use 2 in auto)
qed simp

lemma add_taints_covered:
  assumes "\<And>t. t \<in> set ts \<Longrightarrow> \<exists>u \<in> set have. core_MatchTaint lib t u"
  shows "add_taints lib ts have = have"
  using assms by (induction lib ts "have" rule: add_taints.induct) (auto simp: taint_existed_iff)

lemma add_taints_step:
  assumes "add_taints lib (t # ts) have = have @ new" "\<not> taint_existed lib t have"
  obtains new' where "new = t # new'" "add_taints lib ts (have @ [t]) = (have @ [t]) @ new'"
proof -
  from add_taints_prefix [of lib ts "have @ [t]"] obtain new' where
    new': "add_taints lib ts (have @ [t]) = (have @ [t]) @ new'" by blast
  with assms have "new = t # new'" by simp
  with new' that show thesis by blast
qed

lemma add_taints_new:
  assumes "add_taints lib ts have = have @ new"
  shows "\<forall>t \<in> set new. \<forall>u \<in> set have. \<not> core_MatchTaint lib t u"
  using assms
proof (induction ts arbitrary: "have" new)
  case (Cons t ts)
  show ?case
  proof (cases "taint_existed lib t have")
    case True
    with Cons.prems have "add_taints lib ts have = have @ new" by simp
    then show ?thesis by (rule Cons.IH)
  next
    case False
    with Cons.prems obtain new' where
      new': "new = t # new'" "add_taints lib ts (have @ [t]) = (have @ [t]) @ new'" by (rule add_taints_step)
    from Cons.IH [OF new'(2)] new'(1) False show ?thesis by (auto simp: taint_existed_iff)
  qed
qed simp

text \<open>The added taints differ in key or effect.\<close>

lemma add_taints_distinct:
  assumes "match_documented lib" "add_taints lib ts have = have @ new"
  shows "distinct (map (\<lambda>t. (taint_Key t, taint_Effect t)) new)"
  using assms(2)
proof (induction ts arbitrary: "have" new)
  case (Cons t ts)
  show ?case
  proof (cases "taint_existed lib t have")
    case True
    with Cons.prems have "add_taints lib ts have = have @ new" by simp
    then show ?thesis by (rule Cons.IH)
  next
    case False
    with Cons.prems obtain new' where
      new': "new = t # new'" "add_taints lib ts (have @ [t]) = (have @ [t]) @ new'" by (rule add_taints_step)
    from add_taints_new [OF new'(2)] have "\<forall>u \<in> set new'. \<not> core_MatchTaint lib u t" by simp
    with Cons.IH [OF new'(2)] new'(1) assms(1) show ?thesis by (auto simp: match_documented_def)
  qed
qed simp

text \<open>The node that an attempt writes: labels merged, taints added, annotations set.\<close>

definition configured :: "kubeLib \<Rightarrow> nodeDeploySpec \<Rightarrow> node \<Rightarrow> node \<Rightarrow> bool" where
  "configured lib spec node node' \<longleftrightarrow>
     node_Name node' = node_Name node \<and> node_Conditions node' = node_Conditions node
     \<and> node_Labels node' = labels_Merge lib (node_Labels node) (spec_Labels spec)
     \<and> node_Taints node' = add_taints lib (spec_Taints spec) (node_Taints node)
     \<and> set_annotations (spec_Annotations spec) (node_Annotations node) = Some (node_Annotations node')"

text \<open>\<open>node_updated lib spec h\<close>: the last two calls of \<open>h\<close> read a node and wrote it configured, without an error.\<close>

definition node_updated :: "kubeLib \<Rightarrow> nodeDeploySpec \<Rightarrow> hist \<Rightarrow> bool" where
  "node_updated lib spec h \<longleftrightarrow>
     (\<exists>node node' h0. h = UpdateNode node' # GetNode (spec_NodeName spec) # h0
        \<and> client_GetNode lib (tl h) = Inr node \<and> client_UpdateNode lib h = None \<and> configured lib spec node node')"

lemma update_node_attempt_ok:
  assumes "update_node_attempt env spec v h = Some (Ret (None, v') h')"
  shows "node_updated (e_kube env) spec h'"
  using assms by (auto simp: update_node_attempt_def Let_def run_simps node_updated_def configured_def)

lemma set_annotations_lookup:
  assumes "set_annotations new old = Some m" "distinct (map fst new)"
  shows "(case m of None \<Rightarrow> Map.empty | Some es \<Rightarrow> map_of es)
    = (case old of None \<Rightarrow> Map.empty | Some es \<Rightarrow> map_of es) ++ map_of new"
  using assms by (auto simp: set_annotations_def map_of_fold_update map_of_rev_distinct split: option.splits if_splits)

fun is_node_update :: "action \<Rightarrow> bool" where
  "is_node_update (GetNode _) = True"
| "is_node_update (UpdateNode _) = True"
| "is_node_update _ = False"

lemma confined_update_node: "confined is_node_update (update_node_attempt env spec v)"
  unfolding update_node_attempt_def Let_def by (intro confined_rules) simp_all

section \<open>The status of a NodeDeploy\<close>

fun status_write :: "action \<Rightarrow> nodeStatus option" where
  "status_write (StatusUpdate nd) = Some (curStatus nd)"
| "status_write _ = None"

text \<open>The statuses a history wrote, oldest first; a write may have been refused.\<close>

abbreviation status_writes :: "hist \<Rightarrow> nodeStatus list" where
  "status_writes \<equiv> proj status_write"

definition no_status :: "action \<Rightarrow> bool" where
  "no_status e \<longleftrightarrow> status_write e = None"

lemma no_statusI:
  "is_manager e \<Longrightarrow> no_status e" "is_watch e \<Longrightarrow> no_status e" "is_node_update e \<Longrightarrow> no_status e"
  by (cases e; simp add: no_status_def is_manager_def is_host_def)+

lemmas no_status_confined = confined_mono [OF _ no_statusI(1)] confined_mono [OF _ no_statusI(2)]
  confined_mono [OF _ no_statusI(3)]

lemma confined_crEvent: "confined no_status (crEvent nd et reason message)"
  unfolding crEvent_def by (rule confined_tell) (simp add: no_status_def)

section \<open>Launching a node\<close>

lemma confined_launchNode:
  assumes "conflict_documented (retry_OnConflict (e_kube env))"
  shows "confined no_status (launchNode env nd info)"
  unfolding launchNode_def
  by (intro confined_rules confined_crEvent no_status_confined [OF LaunchByCmd_confined]
      no_status_confined [OF confined_watchNode] confined_conflict [OF assms]
      no_status_confined [OF confined_update_node])

lemma launchNode_error: "launchNode env nd info h = Some (Ret (b, Some e) h') \<Longrightarrow> \<not> b"
  by (auto simp: launchNode_def run_simps dest: watchNode_error)

text \<open>What a successful launch of a node rests on.\<close>

definition launched :: "env \<Rightarrow> nodeDeploy \<Rightarrow> nodeInfo \<Rightarrow> hist \<Rightarrow> hist \<Rightarrow> bool" where
  "launched env nd info h h' \<longleftrightarrow> (let spec = nd_Spec nd in
     \<exists>h1 h2 h3. LaunchByCmd env (New nd info) h = Some (Ret None h1)
        \<and> seen_ready (e_kube env) (spec_NodeName spec) True h2 \<and> grows is_watch h1 h2 \<and> grows is_watch h2 h3
        \<and> grows is_node_update h3 h' \<and> node_updated (e_kube env) spec h')"

lemma launchNode_success:
  assumes doc: "conflict_documented (retry_OnConflict (e_kube env))"
    and run: "launchNode env nd info h = Some (Ret (True, None) h')"
  shows "launched env nd info h h'"
proof -
  from run obtain h1 h2 v where
    launch: "LaunchByCmd env (New nd info) h = Some (Ret None h1)"
    and watch: "watchNode env (Minute * 5) (spec_NodeName (nd_Spec nd)) True h1 = Some (Ret (True, None) h2)"
    and upd: "retry_OnConflict (e_kube env) (update_node_attempt env (nd_Spec nd)) empty_node h2
      = Some (Ret (None, v) h')"
    by (auto simp: launchNode_def run_simps)
  from conflict_retried_success [OF conflict_documentedD [OF doc upd] refl] have
    "node_updated (e_kube env) (nd_Spec nd) h'" by (blast dest: update_node_attempt_ok)
  moreover from confined_grows [OF confined_conflict [OF doc confined_update_node] upd] have "grows is_node_update h2 h'" .
  ultimately show ?thesis
    unfolding launched_def Let_def using launch watchNode_True [OF watch] by blast
qed

section \<open>Taking a node out\<close>

fun is_drain :: "action \<Rightarrow> bool" where
  "is_drain (Cordon _) = True"
| "is_drain (GetPodsForDeletion _) = True"
| "is_drain (DeleteOrEvictPods _) = True"
| "is_drain _ = False"

lemma confined_drainNode: "confined is_drain (drainNode lib node)"
  unfolding drainNode_def by (intro confined_rules) simp_all

lemma drain_no_status: "is_drain e \<Longrightarrow> no_status e"
  by (cases e) (simp_all add: no_status_def)

lemma confined_remove_node: "confined no_status (remove_node env nd info node)"
  unfolding remove_node_def
  by (intro confined_rules no_status_confined [OF Deprecate_confined] confined_crEvent)
    (simp_all add: no_status_def)

lemma confined_deprecateNode: "confined no_status (deprecateNode env nd info)"
  unfolding deprecateNode_def Let_def
  by (intro confined_rules confined_crEvent confined_remove_node confined_mono [OF confined_drainNode drain_no_status])
    (simp add: no_status_def)

fun node_delete :: "action \<Rightarrow> string option" where
  "node_delete (DeleteNode name) = Some name"
| "node_delete _ = None"

abbreviation node_deletes :: "hist \<Rightarrow> string list" where
  "node_deletes \<equiv> proj node_delete"

text \<open>A drain that reported no error cordoned the node and evicted the pods the library selected.\<close>

lemma drainNode_ok:
  assumes "drainNode lib node h = Some (Ret None h')"
  shows "(\<exists>pods. h' = DeleteOrEvictPods pods # GetPodsForDeletion (node_Name node) # Cordon (node_Name node) # h
        \<and> drain_GetPods lib (tl h') = (pods, None) \<and> drain_DeleteOrEvict lib h' = None)
     \<or> (\<exists>pods es. h' = GetPodsForDeletion (node_Name node) # Cordon (node_Name node) # h
        \<and> drain_GetPods lib h' = (pods, Some es) \<and> errors_NewAggregate lib es = None)"
  using assms by (auto simp: drainNode_def run_simps)

lemma manager_no_delete: "is_manager e \<Longrightarrow> node_delete e = None"
  by (cases e) (simp_all add: is_manager_def is_host_def)

lemma Deprecate_deletes: "Deprecate env n h = Some (Ret r h') \<Longrightarrow> node_deletes h' = node_deletes h"
  by (rule grows_proj [OF confined_grows [OF Deprecate_confined] manager_no_delete])

text \<open>A node is only deleted after its deprecation returned no error.\<close>

lemma remove_node_cases:
  assumes "remove_node env nd info node h = Some (Ret (b, e) h')"
  shows "(\<exists>err. Deprecate env (New nd info) h = Some (Ret (Some err) h') \<and> b = False \<and> e = Some err)
    \<or> (\<exists>h1 r. Deprecate env (New nd info) h = Some (Ret None h1) \<and> b = (e = None)
        \<and> e = client_DeleteNode (e_kube env) (DeleteNode (node_Name node) # h1)
        \<and> h' = Event (crRef nd) (if b then EventTypeNormal else EventTypeWarning) EventDeprecateNode r
            # DeleteNode (node_Name node) # h1)"
  using assms by (auto simp: remove_node_def run_simps crEvent_def)

text \<open>What a successful removal rests on.\<close>

definition removed :: "env \<Rightarrow> nodeDeploy \<Rightarrow> nodeInfo \<Rightarrow> hist \<Rightarrow> hist \<Rightarrow> bool" where
  "removed env nd info h h' \<longleftrightarrow>
     (\<exists>node h1 h2 r. client_GetNode (e_kube env) (GetNode (info_NodeName info) # h) = Inr node
        \<and> (if spec_IsEvicted (nd_Spec nd)
           then drainNode (e_kube env) node (GetNode (info_NodeName info) # h) = Some (Ret None h1)
           else h1 = GetNode (info_NodeName info) # h)
        \<and> Deprecate env (New nd info) h1 = Some (Ret None h2)
        \<and> client_DeleteNode (e_kube env) (DeleteNode (node_Name node) # h2) = None
        \<and> h' = Event (crRef nd) EventTypeNormal EventDeprecateNode r # DeleteNode (node_Name node) # h2)"

lemma deprecateNode_success:
  assumes "deprecateNode env nd info h = Some (Ret (True, e) h')"
  shows "e = None \<and> removed env nd info h h'"
proof -
  from assms obtain node h1 where
    get: "client_GetNode (e_kube env) (GetNode (info_NodeName info) # h) = Inr node"
    and drain: "if spec_IsEvicted (nd_Spec nd)
           then drainNode (e_kube env) node (GetNode (info_NodeName info) # h) = Some (Ret None h1)
           else h1 = GetNode (info_NodeName info) # h"
    and rem: "remove_node env nd info node h1 = Some (Ret (True, e) h')"
    by (auto simp: deprecateNode_def Let_def run_simps split: if_splits)
  from remove_node_cases [OF rem] get drain show ?thesis
    unfolding removed_def by auto
qed

lemma deprecateNode_error: "deprecateNode env nd info h = Some (Ret (b, Some e) h') \<Longrightarrow> \<not> b"
  using deprecateNode_success [of env nd info h "Some e" h'] by (cases b) auto

text \<open>Whatever happens, at most one node is deleted, by a run that got past the drain.\<close>

lemma deprecateNode_deletes:
  assumes "deprecateNode env nd info h = Some (Ret (b, e) h')"
  shows "node_deletes h' = node_deletes h \<or>
    (\<exists>node h1 h2. client_GetNode (e_kube env) (GetNode (info_NodeName info) # h) = Inr node
        \<and> (if spec_IsEvicted (nd_Spec nd)
           then drainNode (e_kube env) node (GetNode (info_NodeName info) # h) = Some (Ret None h1)
           else h1 = GetNode (info_NodeName info) # h)
        \<and> Deprecate env (New nd info) h1 = Some (Ret None h2)
        \<and> node_deletes h' = node_deletes h @ [node_Name node])"
proof -
  have drained: "node_deletes h1 = node_deletes h" if "drainNode (e_kube env) node (GetNode x # h) = Some (Ret r h1)" for node x r h1
  proof -
    have "is_drain e \<Longrightarrow> node_delete e = None" for e by (cases e) simp_all
    from grows_proj [OF confined_grows [OF confined_drainNode that] this] show ?thesis by simp
  qed
  consider (early) "node_deletes h' = node_deletes h"
    | (late) node h1 where "client_GetNode (e_kube env) (GetNode (info_NodeName info) # h) = Inr node"
      "if spec_IsEvicted (nd_Spec nd)
           then drainNode (e_kube env) node (GetNode (info_NodeName info) # h) = Some (Ret None h1)
           else h1 = GetNode (info_NodeName info) # h"
      "remove_node env nd info node h1 = Some (Ret (b, e) h')" "node_deletes h1 = node_deletes h"
    using assms drained
    by (fastforce simp: deprecateNode_def Let_def run_simps crEvent_def split: if_splits)
  then show ?thesis
  proof cases
    case late
    from remove_node_cases [OF late(3)] show ?thesis
    proof (elim disjE exE conjE)
      fix err assume "Deprecate env (New nd info) h1 = Some (Ret (Some err) h')"
      from Deprecate_deletes [OF this] late(4) show ?thesis by simp
    next
      fix h2 r
      assume dep: "Deprecate env (New nd info) h1 = Some (Ret None h2)"
        and h': "h' = Event (crRef nd) (if b then EventTypeNormal else EventTypeWarning) EventDeprecateNode r
            # DeleteNode (node_Name node) # h2"
      from Deprecate_deletes [OF dep] late(4) h' have "node_deletes h' = node_deletes h @ [node_Name node]" by simp
      with late dep show ?thesis by blast
    qed
  qed simp
qed

section \<open>On a healthy host and in a healthy cluster\<close>

text \<open>The node is there and ready, has a map of annotations, and takes updates.\<close>

definition node_ready :: "kubeLib \<Rightarrow> string \<Rightarrow> bool" where
  "node_ready lib name \<longleftrightarrow>
     (\<forall>h. \<exists>node. client_GetNode lib (GetNode name # h) = Inr node \<and> nodeIsReady lib node \<and> node_Annotations node \<noteq> None)
     \<and> (\<forall>node h. client_UpdateNode lib (UpdateNode node # h) = None)"

definition node_removable :: "kubeLib \<Rightarrow> string \<Rightarrow> bool" where
  "node_removable lib name \<longleftrightarrow> (\<forall>h. \<exists>node. client_GetNode lib (GetNode name # h) = Inr node)
     \<and> (\<forall>h. drain_PatchOrReplace lib h = (None, None) \<and> snd (drain_GetPods lib h) = None \<and> drain_DeleteOrEvict lib h = None)
     \<and> (\<forall>h. client_DeleteNode lib h = None)"

text \<open>The join information of the node type can be had.\<close>

definition joinable :: "tokenLib \<Rightarrow> string \<Rightarrow> bool" where
  "joinable lib t \<longleftrightarrow> t = NodeWork \<and> certs_documented lib \<or> t = NodeKubeedge \<and> healthy_cloudcore lib"

lemma gives_conflict:
  assumes "conflict_documented Do" "\<And>v. gives (f v) (\<lambda>x. fst x = None)"
  shows "gives (Do f v) (\<lambda>x. fst x = None)"
  unfolding gives_def
proof
  fix h
  have ok: "\<exists>v' h'. f v h = Some (Ret (None, v') h')" for v h
    using givesD [OF assms(2)] by (metis prod.collapse)
  then have "Do f v h \<noteq> None"
    using assms(1) unfolding conflict_documented_def by (metis option.distinct(1))
  then obtain r where Do: "Do f v h = Some r" by blast
  from conflict_documentedD [OF assms(1) Do] ok [of v h] have "\<exists>v' h'. r = Ret (None, v') h'"
    by (cases rule: conflict_retried.cases) auto
  with Do show "\<exists>x h'. Do f v h = Some (Ret x h') \<and> fst x = None" by auto
qed

lemma gives_launchNode:
  assumes doc: "conflict_documented (retry_OnConflict (e_kube env))" and host: "healthy_host (e_ssh env)"
    and join: "joinable (e_tok env) (info_NodeType info)"
    and v: "semver_NewVersion (e_kube env) (spec_NodeVersion (nd_Spec nd)) = Inr (major, minor)"
    and ready: "node_ready (e_kube env) (spec_NodeName (nd_Spec nd))"
  shows "gives (launchNode env nd info) (\<lambda>x. x = (True, None))"
proof -
  let ?lib = "e_kube env" and ?name = "spec_NodeName (nd_Spec nd)"
  have get: "\<exists>node. client_GetNode ?lib (GetNode ?name # h) = Inr node \<and> nodeIsReady ?lib node \<and> node_Annotations node \<noteq> None" for h
    using ready by (simp add: node_ready_def)
  from join obtain ops where "select_join env (info_NodeType info) = Some ops" "ready_ops ops"
    "\<exists>w. nj_CheckNodeVersion ops (spec_NodeVersion (nd_Spec nd)) = Inr w"
    using work_ready [OF host] edge_ready [OF host]
    by (auto simp: joinable_def WorkNode_ops_def KubEdgeNode_ops_def WorkNode_CheckNodeVersion_def
        KubEdgeNode_CheckNodeVersion_def getKubernetesVersionStr_def v)
  then have launch: "succeeds (LaunchByCmd env (New nd info))"
    by (auto simp: New_def intro!: gives_LaunchByCmd [OF host])
  have watch: "gives (watchNode env t ?name True) (\<lambda>x. x = (True, None))" for t
    unfolding gives_def
  proof
    fix h
    from get [of h] show "\<exists>x h'. watchNode env t ?name True h = Some (Ret x h') \<and> x = (True, None)"
      by (auto simp: watchNode_def Let_def bindM_ask io_defs)
  qed
  have update: "gives (update_node_attempt env (nd_Spec nd) node) (\<lambda>x. fst x = None)" for node
    unfolding gives_def
  proof
    fix h
    from get [of h] obtain found m where "client_GetNode ?lib (GetNode ?name # h) = Inr found" "node_Annotations found = Some m"
      by blast
    moreover have "client_UpdateNode ?lib (UpdateNode u # g) = None" for u g
      using ready by (simp add: node_ready_def)
    ultimately show "\<exists>x h'. update_node_attempt env (nd_Spec nd) node h = Some (Ret x h') \<and> fst x = None"
      by (simp add: update_node_attempt_def Let_def bindM_ask set_annotations_def ret_def)
  qed
  show ?thesis
    unfolding launchNode_def
    by (rule gives_bindM [OF launch], simp, rule gives_bindM [OF watch], simp, rule gives_bindM [OF gives_conflict [OF doc update]])
      (auto intro: gives_ret split: prod.split)
qed

lemma gives_deprecateNode:
  assumes host: "healthy_host (e_ssh env)" and t: "info_NodeType info \<in> {NodeWork, NodeKubeedge}"
    and ready: "node_removable (e_kube env) (info_NodeName info)"
  shows "gives (deprecateNode env nd info) (\<lambda>x. x = (True, None))"
proof -
  let ?lib = "e_kube env"
  have drain: "succeeds (drainNode ?lib node)" for node
    unfolding gives_def
  proof
    fix h
    let ?h = "GetPodsForDeletion (node_Name node) # Cordon (node_Name node) # h"
    have "drain_GetPods ?lib ?h = (fst (drain_GetPods ?lib ?h), None)"
      using ready by (metis node_removable_def prod.collapse)
    then show "\<exists>x h'. drainNode ?lib node h = Some (Ret x h') \<and> x = None"
      using ready by (cases "drain_GetPods ?lib ?h") (simp add: drainNode_def bindM_ask node_removable_def, simp add: ask_def)
  qed
  have dep: "succeeds (Deprecate env (New nd info))"
    by (rule gives_Deprecate [OF host]) (use t in \<open>simp add: New_def\<close>)
  have remove: "gives (remove_node env nd info node) (\<lambda>x. x = (True, None))" for node
    unfolding remove_node_def crEvent_def
    by (rule gives_bindM [OF dep]) (use ready in \<open>auto simp: node_removable_def intro!: gives_rules\<close>)
  have out: "gives (if spec_IsEvicted (nd_Spec nd) then bindM (drainNode ?lib node) k else remove_node env nd info node)
      (\<lambda>x. x = (True, None))" if "k None = remove_node env nd info node" for k node
    using remove [of node] drain [of node] that by (auto intro!: gives_bindM [where P = "\<lambda>r. r = None"])
  have get: "\<exists>node. client_GetNode ?lib (GetNode (info_NodeName info) # h) = Inr node" for h
    using ready by (simp add: node_removable_def)
  show ?thesis
    unfolding deprecateNode_def Let_def
  proof (rule gives_asked)
    fix h
    from get [of h] obtain node where "client_GetNode ?lib (GetNode (info_NodeName info) # h) = Inr node" by blast
    then show "gives (case client_GetNode ?lib (GetNode (info_NodeName info) # h) of
        Inl err \<Rightarrow> if \<not> api_IsNotFound ?lib err then ret (False, Some err)
          else ret (False, Some (NewErr ''try to deprecate a non-existent node''))
      | Inr node \<Rightarrow> if spec_IsEvicted (nd_Spec nd) then bindM (drainNode ?lib node) (\<lambda>err. case err of
              None \<Rightarrow> remove_node env nd info node
            | Some e \<Rightarrow> thenM (crEvent nd EventTypeWarning EventDeprecateNode (''failed to drain node, err: '' @ err_text e))
                (ret (False, None)))
          else remove_node env nd info node) (\<lambda>x. x = (True, None))"
      by (simp add: out)
  qed
qed

section \<open>Properties\<close>

text \<open>C14: \<^verbatim>\<open>watchNode\<close> does not make a success up: it only reports one after an answer of the API server
  that was about this node and showed it in the wanted readiness, and everything it did before and
  after that answer was reading, watching and reporting.\<close>

theorem watch_success_was_seen:
  assumes "watchNode env timeout name ready h = Some (Ret (True, e) h')"
  shows "\<exists>h1. seen_ready (e_kube env) name ready h1 \<and> grows is_watch h h1 \<and> grows is_watch h1 h'"
  by (rule watchNode_True [OF assms])

theorem watch_success_was_seen_witness:
  "\<exists>h'. watchNode ex_env (Minute * 5) ''n1'' True [] = Some (Ret (True, None) h')
    \<and> (\<exists>h1. seen_ready ex_kube ''n1'' True h1 \<and> grows is_watch h1 h')"
proof -
  obtain h' where run: "watchNode ex_env (Minute * 5) ''n1'' True [] = Some (Ret (True, None) h')"
    by (simp add: watchNode_def Let_def io_defs nodeIsReady_def ex_node_def)
  from watch_success_was_seen [OF run] run show ?thesis by auto
qed

text \<open>C15: \<^verbatim>\<open>watchNode\<close> comes back when its timer does: if from every history some later \<^verbatim>\<open>select\<close> is answered
  by the timer or by the end of the context, the call returns, however many events, bookmarks and
  closed channels come before.\<close>

theorem watch_terminates:
  assumes "\<And>h. \<exists>k. watch_Select (e_kube env) (replicate (Suc k) WatchSelect @ h) \<in> {CtxDone, TimerFired}"
  shows "\<exists>r h'. watchNode env timeout name ready h = Some (Ret r h')"
proof -
  have loop: "returns (watch_loop (e_kube env) name ready) h" for ready h
  proof -
    from assms obtain k where "watch_Select (e_kube env) (replicate (Suc k) WatchSelect @ h) \<in> {CtxDone, TimerFired}"
      by blast
    from watch_loop_stops [OF this] obtain out where out: "watch_loop (e_kube env) name ready h = Some out" by blast
    from watch_loop_ends [OF out] out show ?thesis by (auto simp: returns_def watch_ended_def)
  qed
  have start: "returns (start_watch env timeout name ready) h" for ready h
    unfolding start_watch_def thenM_def
    by (intro returns_bindM returns_ask) (auto intro!: total_rules loop split: option.split)
  have "returns (watchNode env timeout name ready) h"
    unfolding watchNode_def Let_def thenM_def
    by (intro returns_bindM returns_ask) (auto intro!: total_rules start split: sum.split)
  then show ?thesis by (simp add: returns_def)
qed

text \<open>An API server that answers the third \<^verbatim>\<open>select\<close> of a watch with the timer.\<close>

definition ex_waiting :: env where
  "ex_waiting = ex_env\<lparr>e_kube := ex_kube\<lparr>client_GetNode := \<lambda>_. Inl (ExtErr ''not found''),
     watch_Select := \<lambda>h. if take 3 h = replicate 3 WatchSelect then TimerFired else ChanClosed\<rparr>\<rparr>"

theorem watch_terminates_witness: "\<exists>r h'. watchNode ex_waiting (Minute * 5) ''n1'' True [] = Some (Ret r h')"
proof (rule watch_terminates)
  fix h
  show "\<exists>k. watch_Select (e_kube ex_waiting) (replicate (Suc k) WatchSelect @ h) \<in> {CtxDone, TimerFired}"
    by (rule exI [of _ 2]) (simp add: ex_waiting_def numeral_eq_Suc)
qed

text \<open>A node counts as ready when it has a condition of type Ready, whatever the status of that
  condition: a node whose Ready condition is False or Unknown is taken for a ready one.\<close>

theorem ready_ignores_condition_status:
  "(nodeIsReady lib node \<longleftrightarrow> (\<exists>c \<in> set (node_Conditions node). cond_Type c = core_NodeReady lib))
    \<and> nodeIsReady lib (node\<lparr>node_Conditions := map (\<lambda>c. c\<lparr>cond_Status := s\<rparr>) (node_Conditions node)\<rparr>)
      = nodeIsReady lib node"
  by (auto simp: nodeIsReady_iff)

text \<open>C25: Adding the wanted taints keeps the taints of the node, in their order, adds only wanted ones,
  covers each wanted taint by one of the same key and effect, never gives the node two new taints
  that match, and changes nothing when it is done a second time.\<close>

theorem taints_merged:
  assumes "match_documented lib"
  shows "\<exists>new. add_taints lib ts have = have @ new \<and> set new \<subseteq> set ts
    \<and> (\<forall>t \<in> set ts. \<exists>u \<in> set (have @ new). taint_Key t = taint_Key u \<and> taint_Effect t = taint_Effect u)
    \<and> distinct (map (\<lambda>t. (taint_Key t, taint_Effect t)) new)
    \<and> add_taints lib ts (add_taints lib ts have) = add_taints lib ts have"
proof -
  from add_taints_prefix obtain new where new: "add_taints lib ts have = have @ new" "set new \<subseteq> set ts" by blast
  have covered: "\<exists>u \<in> set (add_taints lib ts have). core_MatchTaint lib t u" if "t \<in> set ts" for t
    by (rule add_taints_covers [OF assms that])
  from add_taints_covered [of ts "add_taints lib ts have"] covered have
    "add_taints lib ts (add_taints lib ts have) = add_taints lib ts have" by blast
  moreover from covered new(1) assms have
    "\<forall>t \<in> set ts. \<exists>u \<in> set (have @ new). taint_Key t = taint_Key u \<and> taint_Effect t = taint_Effect u"
    by (metis match_documented_def)
  ultimately show ?thesis using new add_taints_distinct [OF assms new(1)] by blast
qed

theorem taints_merged_witness:
  "add_taints ex_kube [ex_taint, ex_taint] [] = [ex_taint]
    \<and> add_taints ex_kube [ex_taint, ex_taint] (add_taints ex_kube [ex_taint, ex_taint] []) = [ex_taint]"
proof -
  have "match_documented ex_kube" by (simp add: match_documented_def)
  moreover have "add_taints ex_kube [ex_taint, ex_taint] [] = [ex_taint]" by simp
  ultimately show ?thesis using taints_merged [of ex_kube "[ex_taint, ex_taint]" "[]"] by simp
qed

text \<open>C24: An update of the node that reports no error wrote, as its last call, the node it had just read
  with only its labels, taints and annotations changed: the labels are the library's merge, the
  taints the merged ones, and each annotation is the wanted one where there is one and the old one
  elsewhere.\<close>

theorem node_update_configures:
  assumes "update_node_attempt env spec v h = Some (Ret (None, v') h')"
    and "distinct (map fst (spec_Annotations spec))"
  shows "\<exists>node node'. h' = UpdateNode node' # GetNode (spec_NodeName spec) # h
    \<and> client_GetNode (e_kube env) (tl h') = Inr node \<and> client_UpdateNode (e_kube env) h' = None
    \<and> node_Name node' = node_Name node \<and> node_Conditions node' = node_Conditions node
    \<and> node_Labels node' = labels_Merge (e_kube env) (node_Labels node) (spec_Labels spec)
    \<and> node_Taints node' = add_taints (e_kube env) (spec_Taints spec) (node_Taints node)
    \<and> (\<forall>k. (case node_Annotations node' of None \<Rightarrow> None | Some m \<Rightarrow> map_of m k)
        = (case map_of (spec_Annotations spec) k of Some w \<Rightarrow> Some w
           | None \<Rightarrow> (case node_Annotations node of None \<Rightarrow> None | Some m \<Rightarrow> map_of m k)))"
proof -
  from assms(1) obtain node node' where
    h': "h' = UpdateNode node' # GetNode (spec_NodeName spec) # h"
      "client_GetNode (e_kube env) (tl h') = Inr node" "client_UpdateNode (e_kube env) h' = None"
    and conf: "configured (e_kube env) spec node node'"
    by (auto simp: update_node_attempt_def Let_def run_simps configured_def)
  from conf have ann: "set_annotations (spec_Annotations spec) (node_Annotations node) = Some (node_Annotations node')"
    by (simp add: configured_def)
  have "(case node_Annotations node' of None \<Rightarrow> None | Some m \<Rightarrow> map_of m k)
      = (case map_of (spec_Annotations spec) k of Some w \<Rightarrow> Some w
         | None \<Rightarrow> (case node_Annotations node of None \<Rightarrow> None | Some m \<Rightarrow> map_of m k))" for k
    using fun_cong [OF set_annotations_lookup [OF ann assms(2)], of k]
    by (simp add: map_add_def split: option.splits)
  with h' conf show ?thesis by (auto simp: configured_def)
qed

theorem node_update_configures_witness:
  "\<exists>h' node'. update_node_attempt ex_env ex_spec empty_node [] = Some (Ret (None, node') h')
    \<and> (\<exists>n. h' = [UpdateNode n, GetNode ''n1''] \<and> node_Taints n = [ex_taint])"
proof -
  obtain h' node' where run: "update_node_attempt ex_env ex_spec empty_node [] = Some (Ret (None, node') h')"
    by (simp add: update_node_attempt_def Let_def io_defs ex_node_def ex_spec_def set_annotations_def)
  from node_update_configures [OF run] run show ?thesis
    by (auto simp: ex_spec_def ex_node_def)
qed

text \<open>C33: A node without annotations cannot be given any: the write to its nil map panics, after the node
  was read and before anything is written.\<close>

theorem nil_annotations_panic:
  assumes "client_GetNode (e_kube env) (GetNode (spec_NodeName spec) # h) = Inr node"
    and "node_Annotations node = None"
  shows "update_node_attempt env spec v h =
    (if spec_Annotations spec \<noteq> [] then Some (Crash nil_map (GetNode (spec_NodeName spec) # h))
     else (let node' = node\<lparr>node_Labels := labels_Merge (e_kube env) (node_Labels node) (spec_Labels spec),
                node_Taints := add_taints (e_kube env) (spec_Taints spec) (node_Taints node)\<rparr>;
              h' = UpdateNode node' # GetNode (spec_NodeName spec) # h
           in Some (Ret (client_UpdateNode (e_kube env) h', node') h')))"
proof -
  have same: "node\<lparr>node_Labels := l, node_Taints := t, node_Annotations := None\<rparr> = node\<lparr>node_Labels := l, node_Taints := t\<rparr>" for l t
    using assms(2) by (cases node) simp
  show ?thesis
    using assms by (simp add: update_node_attempt_def Let_def io_defs set_annotations_def same)
qed

theorem nil_annotations_panic_witness:
  "update_node_attempt (ex_env\<lparr>e_kube := ex_kube\<lparr>client_GetNode := \<lambda>_. Inr empty_node\<rparr>\<rparr>) ex_spec empty_node []
    = Some (Crash nil_map [GetNode ''n1''])"
  using nil_annotations_panic [of "ex_env\<lparr>e_kube := ex_kube\<lparr>client_GetNode := \<lambda>_. Inr empty_node\<rparr>\<rparr>" ex_spec "[]" empty_node]
  by (simp add: empty_node_def ex_spec_def)

text \<open>C8: The reconciler deletes at most one node object, the one it read, and only after the eviction,
  where one was asked for, and the deprecation of the host had reported no error; it reports success
  only when that deletion succeeded too.\<close>

theorem node_deleted_last:
  assumes "deprecateNode env nd info h = Some (Ret (success, err) h')"
  shows "(success \<longrightarrow> err = None \<and> removed env nd info h h')
    \<and> (node_deletes h' = node_deletes h \<or>
      (\<exists>node h1 h2. client_GetNode (e_kube env) (GetNode (info_NodeName info) # h) = Inr node
        \<and> (if spec_IsEvicted (nd_Spec nd)
           then drainNode (e_kube env) node (GetNode (info_NodeName info) # h) = Some (Ret None h1)
           else h1 = GetNode (info_NodeName info) # h)
        \<and> Deprecate env (New nd info) h1 = Some (Ret None h2)
        \<and> node_deletes h' = node_deletes h @ [node_Name node]))"
  using deprecateNode_success [of env nd info h err h'] deprecateNode_deletes [OF assms] assms by auto

theorem node_deleted_last_witness:
  "\<exists>h'. deprecateNode ex_env ex_deploy (ex_info NodeWork) [] = Some (Ret (True, None) h')
    \<and> removed ex_env ex_deploy (ex_info NodeWork) [] h'"
proof -
  have "node_removable ex_kube ''n1''" by (simp add: node_removable_def)
  then obtain h' where
    run: "deprecateNode ex_env ex_deploy (ex_info NodeWork) [] = Some (Ret (True, None) h')"
    using gives_exactly [OF gives_deprecateNode [of ex_env "ex_info NodeWork" ex_deploy]]
    by (auto simp: healthy_ex_ssh ex_info_def)
  from node_deleted_last [OF run] run show ?thesis by blast
qed

text \<open>C28: A node whose host cannot be dialled is deleted all the same: without an eviction, a readable node
  and a deletion the API server accepts are enough for a reported success, and no command has been
  run on the host.\<close>

theorem offline_node_deleted:
  assumes "client_GetNode (e_kube env) (GetNode (info_NodeName info) # h) = Inr node"
    and "\<not> spec_IsEvicted (nd_Spec nd)" and "info_NodeType info \<in> {NodeWork, NodeKubeedge}"
    and "\<And>h. ssh_Dial (e_ssh env) (dial_of info # h) \<noteq> None"
    and "\<And>h. client_DeleteNode (e_kube env) (DeleteNode (node_Name node) # h) = None"
  shows "\<exists>h'. deprecateNode env nd info h = Some (Ret (True, None) h')
    \<and> node_deletes h' = node_deletes h @ [node_Name node] \<and> remote_cmds h' = remote_cmds h"
proof -
  let ?h1 = "GetNode (info_NodeName info) # h"
  from Deprecate_nil [of "New nd info" env ?h1] assms(3,4) obtain h2 where
    dep: "Deprecate env (New nd info) ?h1 = Some (Ret None h2)" and cmds: "remote_cmds h2 = remote_cmds h"
    by (auto simp: New_def)
  have "deprecateNode env nd info h = Some (Ret (True, None)
      (Event (crRef nd) EventTypeNormal EventDeprecateNode ''node deleted successfully'' # DeleteNode (node_Name node) # h2))"
    using assms(1,2,5) dep by (simp add: deprecateNode_def remove_node_def Let_def io_defs crEvent_def)
  moreover from Deprecate_deletes [OF dep] have "node_deletes h2 = node_deletes h" by simp
  ultimately show ?thesis using cmds by auto
qed

theorem offline_node_deleted_witness:
  "\<exists>h'. deprecateNode ex_offline (ex_deploy\<lparr>nd_Spec := ex_spec\<lparr>spec_IsEvicted := False\<rparr>\<rparr>) (ex_info NodeWork) []
      = Some (Ret (True, None) h') \<and> node_deletes h' = [''n1''] \<and> remote_cmds h' = []"
  using offline_node_deleted [of ex_offline "ex_info NodeWork" "[]" ex_node "ex_deploy\<lparr>nd_Spec := ex_spec\<lparr>spec_IsEvicted := False\<rparr>\<rparr>"]
  by (auto simp: ex_offline_def ex_info_def ex_node_def)

end
