(* ===== verification/Lifecycle.thy ===== *)
theory Lifecycle
  imports NodeOps
begin

text \<open>
  The life of a NodeDeploy: the abstract machine of its phases, the contract that launching and
  deprecating a node share, the refinement of the machine by \<^verbatim>\<open>Reconcile\<close>, and what stands behind
  each final status it writes.
\<close>

section \<open>Phases\<close>

text \<open>One phase per status of the code; \<open>POther\<close> stands for every other string.\<close>

datatype phase = PUnknown | PInit | PInactive | PActive | PLaunching | PLaunchFail | PDeprecating
  | PDeprecateFail | POther

definition phase_of :: "nodeStatus \<Rightarrow> phase" where
  "phase_of s =
     (if s = NodeUnknown then PUnknown else if s = NodeInit then PInit
      else if s = NodeInactive then PInactive else if s = NodeActive then PActive
      else if s = NodeLaunching then PLaunching else if s = NodeLaunchFail then PLaunchFail
      else if s = NodeDeprecating then PDeprecating else if s = NodeDeprecateFail then PDeprecateFail
      else POther)"

lemma phase_of_simps [simp]:
  "phase_of NodeUnknown = PUnknown" "phase_of NodeInit = PInit" "phase_of NodeInactive = PInactive"
  "phase_of NodeActive = PActive" "phase_of NodeLaunching = PLaunching" "phase_of NodeLaunchFail = PLaunchFail"
  "phase_of NodeDeprecating = PDeprecating" "phase_of NodeDeprecateFail = PDeprecateFail"
  by (simp_all add: phase_of_def)

lemma phase_of_eq [simp]:
  "phase_of s = PUnknown \<longleftrightarrow> s = NodeUnknown" "phase_of s = PInit \<longleftrightarrow> s = NodeInit"
  "phase_of s = PInactive \<longleftrightarrow> s = NodeInactive" "phase_of s = PActive \<longleftrightarrow> s = NodeActive"
  "phase_of s = PLaunching \<longleftrightarrow> s = NodeLaunching" "phase_of s = PLaunchFail \<longleftrightarrow> s = NodeLaunchFail"
  "phase_of s = PDeprecating \<longleftrightarrow> s = NodeDeprecating" "phase_of s = PDeprecateFail \<longleftrightarrow> s = NodeDeprecateFail"
  by (auto simp: phase_of_def)

text \<open>The phases in the order in which a node passes through them.\<close>

fun phase_rank :: "phase \<Rightarrow> nat" where
  "phase_rank PUnknown = 0" | "phase_rank PInit = 1" | "phase_rank PLaunching = 2"
| "phase_rank PLaunchFail = 3" | "phase_rank PActive = 4" | "phase_rank PDeprecating = 5"
| "phase_rank PDeprecateFail = 6" | "phase_rank PInactive = 7" | "phase_rank POther = 8"

lemma phase_rank_inject: "phase_rank p = phase_rank q \<longleftrightarrow> p = q"
  by (cases p; cases q) simp_all

instantiation phase :: linorder
begin

definition less_eq_phase :: "phase \<Rightarrow> phase \<Rightarrow> bool" where
  "p \<le> q \<longleftrightarrow> phase_rank p \<le> phase_rank q"

definition less_phase :: "phase \<Rightarrow> phase \<Rightarrow> bool" where
  "p < q \<longleftrightarrow> phase_rank p < phase_rank q"

instance
  by standard (auto simp: less_eq_phase_def less_phase_def phase_rank_inject)

end

text \<open>A desired phase \<open>d\<close> asks for work in the phase \<open>s\<close>: it is not reached, not failed for good and
  not under way.\<close>

definition pending :: "phase \<Rightarrow> phase \<Rightarrow> bool" where
  "pending d s \<longleftrightarrow> s \<notin> {PUnknown, PLaunching, PDeprecating} \<and> (d \<noteq> s \<or> s = POther)
     \<and> \<not> (d = PActive \<and> s = PLaunchFail) \<and> \<not> (d = PInactive \<and> s = PDeprecateFail)"

text \<open>The machine: the writes that a desired phase allows in a phase.\<close>

inductive lifecycle :: "phase \<Rightarrow> phase \<Rightarrow> phase \<Rightarrow> bool" for d :: phase where
  created: "lifecycle d PUnknown PInit"
| launch: "d = PActive \<Longrightarrow> pending d s \<Longrightarrow> lifecycle d s PLaunching"
| relaunch: "d = PActive \<Longrightarrow> lifecycle d PLaunching PLaunching"
| launch_ended: "d = PActive \<Longrightarrow> t \<in> {PActive, PLaunchFail, PUnknown} \<Longrightarrow> lifecycle d PLaunching t"
| deprecate: "d = PInactive \<Longrightarrow> pending d s \<Longrightarrow> s \<noteq> PInit \<Longrightarrow> lifecycle d s PDeprecating"
| redeprecate: "d = PInactive \<Longrightarrow> lifecycle d PDeprecating PDeprecating"
| deprecate_ended: "d = PInactive \<Longrightarrow> t \<in> {PInactive, PDeprecateFail, PUnknown} \<Longrightarrow> lifecycle d PDeprecating t"
| launch_timeout: "d \<noteq> PLaunching \<Longrightarrow> lifecycle d PLaunching PInactive"
| deprecate_timeout: "d \<noteq> PDeprecating \<Longrightarrow> lifecycle d PDeprecating PActive"
| invalid_inactive: "pending d PInactive \<Longrightarrow> lifecycle d PInactive PDeprecateFail"
| invalid_launch: "d = PActive \<Longrightarrow> pending d s \<Longrightarrow> s \<noteq> PInactive \<Longrightarrow> lifecycle d s PLaunchFail"
| invalid_kept: "d \<noteq> PActive \<Longrightarrow> pending d s \<Longrightarrow> s \<noteq> PInactive \<Longrightarrow> lifecycle d s s"

inductive_cases lifecycle_from_activeE: "lifecycle PActive PActive t"
inductive_simps lifecycle_from_launching: "lifecycle d PLaunching t"
inductive_simps lifecycle_from_deprecating: "lifecycle d PDeprecating t"
inductive_simps lifecycle_to_active: "lifecycle d s PActive"
inductive_simps lifecycle_to_inactive: "lifecycle d s PInactive"

lemma lifecycle_into_final:
  assumes "lifecycle d p t" "t \<in> {PActive, PInactive}"
  shows "p \<in> {PLaunching, PDeprecating} \<or> t = PActive \<and> p = PActive \<and> d \<noteq> PActive"
  using assms by (auto simp: lifecycle_to_active lifecycle_to_inactive pending_def)

fun path :: "phase \<Rightarrow> phase \<Rightarrow> phase list \<Rightarrow> bool" where
  "path d s [] \<longleftrightarrow> True"
| "path d s (t # ts) \<longleftrightarrow> lifecycle d s t \<and> path d t ts"

lemma path_append: "path d s (ts @ us) \<longleftrightarrow> path d s ts \<and> path d (last (s # ts)) us"
  by (induction ts arbitrary: s) auto

lemma path_busy:
  assumes "lifecycle d s busy" "lifecycle d busy busy" "0 < k"
  shows "path d s (replicate k busy)"
proof -
  have "path d busy (replicate j busy)" for j using assms(2) by (induction j) auto
  then show ?thesis using assms(1,3) by (cases k) auto
qed

lemma path_change:
  assumes "lifecycle d s busy" "lifecycle d busy busy" "lifecycle d busy t" "0 < k"
  shows "path d s (replicate k busy @ [t])"
proof -
  have "last (s # replicate k busy) = busy" using assms(4) by (cases k) (auto simp: last_replicate)
  with path_busy [OF assms(1,2,4)] assms(3) show ?thesis by (simp add: path_append)
qed

section \<open>The contract of an attempt\<close>

text \<open>What the two retry libraries promise the reconciler.\<close>

definition kube_documented :: "kubeLib \<Rightarrow> bool" where
  "kube_documented lib \<longleftrightarrow> retry_documented (retry_Do lib) \<and> conflict_documented (retry_OnConflict lib)"

abbreviation later :: "hist \<Rightarrow> hist \<Rightarrow> bool" where
  "later \<equiv> grows (\<lambda>_. True)"

text \<open>
  The answer to an accepted status update is the object that was sent, with the identity and the
  specification it has on the server: an update of an object that was edited meanwhile is refused as
  a conflict, and the status subresource changes nothing else.
\<close>

definition same_deploy :: "nodeDeploy \<Rightarrow> nodeDeploy \<Rightarrow> bool" where
  "same_deploy nd nd' \<longleftrightarrow> nd_Name nd' = nd_Name nd \<and> nd_Namespace nd' = nd_Namespace nd \<and> nd_Spec nd' = nd_Spec nd"

definition updates_documented :: "kubeLib \<Rightarrow> bool" where
  "updates_documented lib \<longleftrightarrow>
     (\<forall>nd nd' h. client_StatusUpdate lib (StatusUpdate nd # h) = Inr nd' \<longrightarrow> same_deploy nd nd')"

text \<open>The attempts work on the object that was read, as long as the server answers as documented.\<close>

definition kept :: "env \<Rightarrow> nodeDeploy \<Rightarrow> nodeDeploy \<Rightarrow> bool" where
  "kept env nd nd' \<longleftrightarrow> (updates_documented (e_kube env) \<longrightarrow> same_deploy nd nd')"

lemma kept_refl [simp]: "kept env nd nd"
  by (simp add: kept_def same_deploy_def)

lemma kept_set [simp]:
  "kept env nd (setStatus s nd') = kept env nd nd'" "kept env nd (setDeadline d nd') = kept env nd nd'"
  by (simp_all add: kept_def same_deploy_def)

lemma kept_answer:
  "client_StatusUpdate (e_kube env) (StatusUpdate nd1 # h) = Inr nd2 \<Longrightarrow> kept env nd nd1 \<Longrightarrow> kept env nd nd2"
  unfolding kept_def updates_documented_def same_deploy_def by metis

lemma kept_prepared:
  "client_StatusUpdate (e_kube env) (StatusUpdate (setStatus s (setDeadline d nd1)) # h) = Inr nd2 \<Longrightarrow>
   kept env nd nd1 \<Longrightarrow> kept env nd nd2"
  by (erule kept_answer) simp

definition refused :: "kubeLib \<Rightarrow> hist \<Rightarrow> bool" where
  "refused lib h \<longleftrightarrow> (\<exists>nd h0 e. h = StatusUpdate nd # h0 \<and> client_StatusUpdate lib h = Inl e)"

text \<open>A status write keeps the deadline rule: the two statuses of work in progress come with a deadline.\<close>

definition idle :: "nodeStatus \<Rightarrow> bool" where
  "idle s \<longleftrightarrow> s \<notin> {NodeLaunching, NodeDeprecating}"

fun deadline_kept :: "action \<Rightarrow> bool" where
  "deadline_kept (StatusUpdate nd) \<longleftrightarrow> idle (curStatus nd) \<or> deadlineOf nd \<noteq> None"
| "deadline_kept _ = True"

lemma no_status_deadline: "no_status e \<Longrightarrow> deadline_kept e"
  by (cases e) (simp_all add: no_status_def)

text \<open>
  An attempt to bring a node in or out writes the status \<open>busy\<close>, once, before anything else. It ends
  with the status \<open>ok\<close> and the evidence for it, with \<open>failed\<close>, or, when the API server refused the
  write, with the status it had before. The objects it works on are all the \<open>same\<close>.
\<close>

locale node_change =
  fixes env :: env and attempt :: "retryVars attempt" and busy ok failed :: nodeStatus
    and same :: "nodeDeploy \<Rightarrow> bool" and evidence :: "hist \<Rightarrow> hist \<Rightarrow> bool"
  assumes attempt_law: "kube_documented (e_kube env) \<Longrightarrow> same nd \<Longrightarrow>
      wp (attempt (nd, success, status))
        (\<lambda>x h'. status_writes h' = status_writes h @ [busy] \<and> later h h'
           \<and> (case x of (e, nd', success', status') \<Rightarrow> same nd' \<and>
                (if e = None then status' = ok \<and> evidence h h' \<or> status' = failed
                 else status' = status \<and> refused (e_kube env) h' \<or> status' = failed)))
        (\<lambda>_ h'. status_writes h' = status_writes h @ [busy]) h"
    and attempt_deadline: "kube_documented (e_kube env) \<Longrightarrow> confined deadline_kept (attempt vars)"
    and idle_ends: "idle ok" "idle failed"
    and same_set: "same nd \<Longrightarrow> same (setDeadline None (setStatus s nd))"
    and evidence_later: "later h0 h \<Longrightarrow> evidence h h' \<Longrightarrow> evidence h0 h'"

text \<open>How a change ends: after \<open>k\<close> attempts, within the limit, the last call writes the final status
  without a deadline.\<close>

definition change_ended ::
  "env \<Rightarrow> 64 word \<Rightarrow> nodeStatus \<Rightarrow> nodeStatus \<Rightarrow> nodeStatus \<Rightarrow> (nodeDeploy \<Rightarrow> bool) \<Rightarrow> (hist \<Rightarrow> hist \<Rightarrow> bool)
    \<Rightarrow> hist \<Rightarrow> goerr option \<Rightarrow> hist \<Rightarrow> bool" where
  "change_ended env n busy ok failed same evidence h err h' \<longleftrightarrow>
     (\<exists>k h1 h2 nd. 0 < k \<and> (n = 0 \<or> k \<le> unat n)
        \<and> status_writes h1 = status_writes h @ replicate k busy \<and> h' = StatusUpdate nd # h2 # h1
        \<and> deadlineOf nd = None \<and> same nd
        \<and> err = (case client_StatusUpdate (e_kube env) h' of Inl e \<Rightarrow> Some e | Inr _ \<Rightarrow> None)
        \<and> status_writes h' = status_writes h @ replicate k busy @ [curStatus nd]
        \<and> (curStatus nd = ok \<and> evidence h h1 \<or> curStatus nd = failed
           \<or> curStatus nd = NodeUnknown \<and> refused (e_kube env) h1 \<and> n \<noteq> 0))"

lemma wp_status_update:
  "wp (status_update env nd) Q R h =
     Q (case client_StatusUpdate (e_kube env) (StatusUpdate nd # h) of Inl e \<Rightarrow> (Some e, nd) | Inr nd' \<Rightarrow> (None, nd'))
       (StatusUpdate nd # h)"
  by (simp add: status_update_def wp_rules split: sum.split)

lemma wp_finalize:
  "wp (finalize env nd status) Q R h =
     (let e = Event (crRef nd) EventTypeNormal EventChangeStatus (statusChange (curStatus nd) status);
          nd' = setDeadline None (setStatus status nd) in
      Q (case client_StatusUpdate (e_kube env) (StatusUpdate nd' # e # h) of Inl e \<Rightarrow> (Some e, nd') | Inr nd'' \<Rightarrow> (None, nd''))
        (StatusUpdate nd' # e # h))"
  by (simp add: finalize_def crEvent_def wp_rules wp_status_update Let_def)

lemma wp_prepare:
  "wp (prepare env nd status) Q R h =
     (let nd1 = setDeadline (Some (time_Add (e_now env (TimeNow # h)) DeadlineDuration)) nd;
          e = Event (crRef nd1) EventTypeNormal EventChangeStatus (statusChange (curStatus nd1) status);
          nd2 = setStatus status nd1; h' = StatusUpdate nd2 # e # TimeNow # h in
      Q (case client_StatusUpdate (e_kube env) h' of Inl e \<Rightarrow> (Some e, nd2) | Inr nd' \<Rightarrow> (None, nd')) h')"
  by (simp add: prepare_def crEvent_def wp_rules wp_status_update Let_def)

context node_change begin

lemma retries:
  assumes doc: "kube_documented (e_kube env)" and same: "same nd"
  shows "wp (retry_Do (e_kube env) n attempt (nd, True, NodeUnknown))
    (\<lambda>x h'. \<exists>k. 0 < k \<and> (n = 0 \<or> k \<le> unat n) \<and> status_writes h' = status_writes h @ replicate k busy
       \<and> (case x of (e, nd', success', status') \<Rightarrow> same nd' \<and>
           (status' = ok \<and> evidence h h' \<or> status' = failed
           \<or> status' = NodeUnknown \<and> refused (e_kube env) h' \<and> n \<noteq> 0)))
    (\<lambda>_ h'. \<exists>k. 0 < k \<and> (n = 0 \<or> k \<le> unat n) \<and> status_writes h' = status_writes h @ replicate k busy) h"
proof -
  let ?W = "\<lambda>k h'. status_writes h' = status_writes h @ replicate k busy \<and> later h h'"
  let ?I = "\<lambda>k (v :: retryVars) h'. ?W k h' \<and> same (fst v) \<and> (snd (snd v) = NodeUnknown \<or> snd (snd v) = failed)"
  let ?Q = "\<lambda>k (e :: goerr option) (v :: retryVars) h'. ?W k h' \<and> same (fst v)
     \<and> (if e = None then snd (snd v) = ok \<and> evidence h h' \<or> snd (snd v) = failed
        else snd (snd v) = NodeUnknown \<and> refused (e_kube env) h' \<or> snd (snd v) = failed)"
  have doc_Do: "retry_documented (retry_Do (e_kube env))" using doc by (simp add: kube_documented_def)
  have step: "wp (attempt v)
      (\<lambda>x h'. if fst x = None then ?Q (Suc k) None (snd x) h'
         else ?I (Suc k) (snd x) h' \<and> (\<forall>e. ?Q (Suc k) (Some e) (snd x) h'))
      (\<lambda>_ h'. status_writes h' = status_writes h @ replicate (Suc k) busy) h1"
    if I: "?I k v h1" for k v h1
  proof -
    obtain nd1 s1 st1 where v: "v = (nd1, s1, st1)" by (cases v)
    from I have "same nd1" by (simp add: v)
    show ?thesis
      unfolding v
    proof (rule wp_mono [OF attempt_law [OF doc \<open>same nd1\<close>]], goal_cases)
      case (1 x h')
      then show ?case
        using I v by (cases x) (auto simp: replicate_append_same intro: grows_trans evidence_later)
    next
      case (2 msg h')
      then show ?case using I v by (simp add: replicate_append_same)
    qed
  qed
  have "wp (retry_Do (e_kube env) n attempt (nd, True, NodeUnknown))
    (\<lambda>x h'. \<exists>k. 0 < k \<and> (n = 0 \<or> k \<le> unat n) \<and> (n = 0 \<longrightarrow> fst x = None) \<and> ?Q k (fst x) (snd x) h')
    (\<lambda>_ h'. \<exists>k. 0 < k \<and> (n = 0 \<or> k \<le> unat n) \<and> status_writes h' = status_writes h @ replicate k busy) h"
    by (rule retry_wp [where I = ?I and J = "\<lambda>k h'. status_writes h' = status_writes h @ replicate k busy", OF doc_Do])
      (simp add: same, rule step)
  then show ?thesis
    by (rule wp_mono) (auto split: if_splits)
qed

lemma change_ends:
  assumes doc: "kube_documented (e_kube env)" and same: "same nd"
  shows "wp (retry_and_finalize env attempt nd)
    (\<lambda>r h'. fst r = no_result
       \<and> change_ended env (attempts_of (spec_MaxRetry (nd_Spec nd))) busy ok failed same evidence h (snd r) h')
    (\<lambda>_ h'. \<exists>k. 0 < k \<and> status_writes h' = status_writes h @ replicate k busy) h"
  unfolding retry_and_finalize_def wp_bindM
proof (rule wp_mono [OF retries [OF doc same]], goal_cases)
  case (1 x h1)
  obtain e nd' su st where x: "x = (e, nd', su, st)" by (cases x) auto
  from 1 obtain k where k: "0 < k" "attempts_of (spec_MaxRetry (nd_Spec nd)) = 0 \<or> k \<le> unat (attempts_of (spec_MaxRetry (nd_Spec nd)))"
    "status_writes h1 = status_writes h @ replicate k busy" "same nd'"
    "st = ok \<and> evidence h h1 \<or> st = failed \<or> st = NodeUnknown \<and> refused (e_kube env) h1
      \<and> attempts_of (spec_MaxRetry (nd_Spec nd)) \<noteq> 0"
    by (auto simp: x)
  show ?case
    unfolding x prod.case wp_bindM wp_finalize wp_ret Let_def change_ended_def
    using k same_set [OF k(4), of st]
    by (intro conjI exI [of _ k] exI [of _ h1] exI [of _ "setDeadline None (setStatus st nd')"] exI [of _ "Event _ _ _ _"])
      (simp_all split: sum.split)
next
  case (2 msg h1)
  then show ?case by blast
qed

end

context node_change begin

lemma change_deadline:
  assumes doc: "kube_documented (e_kube env)" and same: "same nd"
  shows "wp (retry_and_finalize env attempt nd) (\<lambda>_. grows deadline_kept h) (\<lambda>_. grows deadline_kept h) h"
proof -
  let ?do = "retry_Do (e_kube env) (attempts_of (spec_MaxRetry (nd_Spec nd))) attempt (nd, True, NodeUnknown)"
  have "retry_documented (retry_Do (e_kube env))" using doc by (simp add: kube_documented_def)
  from confined_retry [OF this attempt_deadline [OF doc]]
  have grows: "wp ?do (\<lambda>_. grows deadline_kept h) (\<lambda>_. grows deadline_kept h) h"
    by (simp add: confined_def)
  have "wp ?do (\<lambda>x h'. grows deadline_kept h h' \<and> idle (snd (snd (snd x)))) (\<lambda>_. grows deadline_kept h) h"
    using grows retries [OF doc same, where n = "attempts_of (spec_MaxRetry (nd_Spec nd))" and h = h] idle_ends
    by (auto simp: wp_def idle_def split: option.splits outcome.splits)
  then show ?thesis
    unfolding retry_and_finalize_def wp_bindM
    by (rule wp_mono) (auto simp: wp_bindM wp_finalize wp_ret Let_def intro!: grows_step split: prod.split)
qed

end

section \<open>Launching and deprecating keep the contract\<close>

lemma wp_no_status:
  assumes "confined no_status m"
  shows "wp m (\<lambda>_ h'. status_writes h' = status_writes h \<and> later h h') (\<lambda>_ h'. status_writes h' = status_writes h) h"
proof -
  from assms have "wp m (\<lambda>_. grows no_status h) (\<lambda>_. grows no_status h) h" by (simp add: confined_def)
  then show ?thesis
    by (rule wp_mono) (auto intro: grows_proj simp: no_status_def elim: grows_mono)
qed

lemma wp_result: "wp m Q R h \<Longrightarrow> (\<And>x h'. m h = Some (Ret x h') \<Longrightarrow> Q' x h') \<Longrightarrow>
    wp m (\<lambda>x h'. Q x h' \<and> Q' x h') R h"
  by (auto simp: wp_def split: option.splits outcome.splits)

lemma launchNode_True:
  assumes "conflict_documented (retry_OnConflict (e_kube env))"
    and "launchNode env nd info h = Some (Ret (True, e) h')"
  shows "e = None \<and> launched env nd info h h'"
  using launchNode_error [of env nd info h True] launchNode_success [OF assms(1)] assms(2) by (cases e) blast+

lemma wp_launchNode:
  assumes "conflict_documented (retry_OnConflict (e_kube env))"
  shows "wp (launchNode env nd info)
    (\<lambda>x h'. (status_writes h' = status_writes h \<and> later h h') \<and> (fst x \<longrightarrow> snd x = None \<and> launched env nd info h h'))
    (\<lambda>_ h'. status_writes h' = status_writes h) h"
  by (rule wp_result [OF wp_no_status [OF confined_launchNode [OF assms]]])
    (auto dest: launchNode_True [OF assms])

lemma wp_deprecateNode:
  "wp (deprecateNode env nd info)
    (\<lambda>x h'. (status_writes h' = status_writes h \<and> later h h') \<and> (fst x \<longrightarrow> snd x = None \<and> removed env nd info h h'))
    (\<lambda>_ h'. status_writes h' = status_writes h) h"
  by (rule wp_result [OF wp_no_status [OF confined_deprecateNode]])
    (auto dest: deprecateNode_success)

text \<open>
  The evidence for a change of the object \<open>nd\<close> between two histories: the API server accepted a write of
  the busy status of this very object, and the whole work on the object it answered, which has the
  name, the namespace and the specification of \<open>nd\<close>, followed that write and ends in the second history.
\<close>

definition busy_written :: "env \<Rightarrow> nodeDeploy \<Rightarrow> nodeStatus \<Rightarrow> nodeDeploy \<Rightarrow> hist \<Rightarrow> bool" where
  "busy_written env nd busy nd1 h1 \<longleftrightarrow> (\<exists>nd0 h0. h1 = StatusUpdate nd0 # h0 \<and> curStatus nd0 = busy
     \<and> kept env nd nd0 \<and> client_StatusUpdate (e_kube env) h1 = Inr nd1)"

definition launch_evidence :: "env \<Rightarrow> nodeDeploy \<Rightarrow> nodeInfo \<Rightarrow> hist \<Rightarrow> hist \<Rightarrow> bool" where
  "launch_evidence env nd info h h' \<longleftrightarrow> (\<exists>nd1 h1. later h h1 \<and> busy_written env nd NodeLaunching nd1 h1
     \<and> kept env nd nd1 \<and> launched env nd1 info h1 h')"

definition removal_evidence :: "env \<Rightarrow> nodeDeploy \<Rightarrow> nodeInfo \<Rightarrow> hist \<Rightarrow> hist \<Rightarrow> bool" where
  "removal_evidence env nd info h h' \<longleftrightarrow> (\<exists>nd1 h1. later h h1 \<and> busy_written env nd NodeDeprecating nd1 h1
     \<and> kept env nd nd1 \<and> removed env nd1 info h1 h')"

lemma later_Cons [intro]: "later h h' \<Longrightarrow> later h (e # h')"
  by (rule grows_step) simp_all

lemma later_prepared [simp]: "later h (a # b # c # h)"
  by (intro later_Cons grows_refl)

lemma later_ConsD: "later (e # h) h' \<Longrightarrow> later h h'"
  by (rule grows_trans [of _ _ "e # h"]) auto

lemma busy_writtenI:
  "client_StatusUpdate (e_kube env) (StatusUpdate nd0 # h0) = Inr nd1 \<Longrightarrow> curStatus nd0 = busy \<Longrightarrow> kept env nd nd0 \<Longrightarrow>
   busy_written env nd busy nd1 (StatusUpdate nd0 # h0)"
  by (simp add: busy_written_def)

lemma launch_evidenceI:
  "launched env nd1 info h1 h' \<Longrightarrow> later h h1 \<Longrightarrow> busy_written env nd NodeLaunching nd1 h1 \<Longrightarrow> kept env nd nd1 \<Longrightarrow>
   launch_evidence env nd info h h'"
  by (auto simp: launch_evidence_def)

lemma removal_evidenceI:
  "removed env nd1 info h1 h' \<Longrightarrow> later h h1 \<Longrightarrow> busy_written env nd NodeDeprecating nd1 h1 \<Longrightarrow> kept env nd nd1 \<Longrightarrow>
   removal_evidence env nd info h h'"
  by (auto simp: removal_evidence_def)

lemma launch_attempt_law:
  assumes "kube_documented (e_kube env)" and "kept env nd0 nd"
  shows "wp (launch_attempt env info (nd, success, status))
        (\<lambda>x h'. status_writes h' = status_writes h @ [NodeLaunching] \<and> later h h'
           \<and> (case x of (e, nd', success', status') \<Rightarrow> kept env nd0 nd' \<and>
                (if e = None then status' = NodeActive \<and> launch_evidence env nd0 info h h' \<or> status' = NodeLaunchFail
                 else status' = status \<and> refused (e_kube env) h' \<or> status' = NodeLaunchFail)))
        (\<lambda>_ h'. status_writes h' = status_writes h @ [NodeLaunching]) h"
proof -
  from assms have doc: "conflict_documented (retry_OnConflict (e_kube env))" by (simp add: kube_documented_def)
  show ?thesis
    unfolding launch_attempt_def prod.case wp_bindM wp_prepare Let_def
    using assms(2)
    by (auto simp: wp_rules refused_def split: sum.split
        intro!: wp_mono [OF wp_launchNode [OF doc]] launch_evidenceI busy_writtenI dest!: later_ConsD
        intro: kept_prepared)
qed

lemma deprecate_attempt_law:
  assumes "kept env nd0 nd"
  shows "wp (deprecate_attempt env info (nd, success, status))
        (\<lambda>x h'. status_writes h' = status_writes h @ [NodeDeprecating] \<and> later h h'
           \<and> (case x of (e, nd', success', status') \<Rightarrow> kept env nd0 nd' \<and>
                (if e = None then status' = NodeInactive \<and> removal_evidence env nd0 info h h' \<or> status' = NodeDeprecateFail
                 else status' = status \<and> refused (e_kube env) h' \<or> status' = NodeDeprecateFail)))
        (\<lambda>_ h'. status_writes h' = status_writes h @ [NodeDeprecating]) h"
  unfolding deprecate_attempt_def prod.case wp_bindM wp_prepare Let_def
  using assms
  by (auto simp: wp_rules refused_def split: sum.split
        intro!: wp_mono [OF wp_deprecateNode] removal_evidenceI busy_writtenI dest!: later_ConsD
        intro: kept_prepared)

lemma prepare_deadline: "confined deadline_kept (prepare env nd status)"
  unfolding prepare_def status_update_def crEvent_def Let_def by (intro confined_rules) simp_all

lemma attempt_deadlines:
  "kube_documented (e_kube env) \<Longrightarrow> confined deadline_kept (launch_attempt env info vars)"
  "confined deadline_kept (deprecate_attempt env info vars)"
  unfolding launch_attempt_def deprecate_attempt_def kube_documented_def
  by (intro confined_rules prepare_deadline confined_mono [OF confined_launchNode no_status_deadline]
      confined_mono [OF confined_deprecateNode no_status_deadline]; simp add: Let_def confined_ret)+

interpretation launching: node_change env "launch_attempt env info" NodeLaunching NodeActive NodeLaunchFail
    "kept env nd0" "launch_evidence env nd0 info" for env nd0 info
  by unfold_locales (rule launch_attempt_law, assumption+, simp_all add: attempt_deadlines idle_def,
      auto simp: launch_evidence_def intro: grows_trans)

interpretation deprecating: node_change env "deprecate_attempt env info" NodeDeprecating NodeInactive NodeDeprecateFail
    "kept env nd0" "removal_evidence env nd0 info" for env nd0 info
  by unfold_locales (rule deprecate_attempt_law, assumption, simp_all add: attempt_deadlines idle_def,
      auto simp: removal_evidence_def intro: grows_trans)

text \<open>
  The same evidence where the API server answers as documented, for the information the reconciler
  collects about its node: the work was done for the object \<open>nd\<close> as it had been read.
\<close>

definition brought_in :: "env \<Rightarrow> nodeDeploy \<Rightarrow> hist \<Rightarrow> hist \<Rightarrow> bool" where
  "brought_in env nd h h' \<longleftrightarrow> (\<exists>nd0 nd1 h0. later h h0
     \<and> curStatus nd0 = NodeLaunching \<and> same_deploy nd nd0
     \<and> client_StatusUpdate (e_kube env) (StatusUpdate nd0 # h0) = Inr nd1 \<and> same_deploy nd nd1
     \<and> launched env nd1 (node_info_of nd) (StatusUpdate nd0 # h0) h')"

definition taken_out :: "env \<Rightarrow> nodeDeploy \<Rightarrow> hist \<Rightarrow> hist \<Rightarrow> bool" where
  "taken_out env nd h h' \<longleftrightarrow> (\<exists>nd0 nd1 h0. later h h0
     \<and> curStatus nd0 = NodeDeprecating \<and> same_deploy nd nd0
     \<and> client_StatusUpdate (e_kube env) (StatusUpdate nd0 # h0) = Inr nd1 \<and> same_deploy nd nd1
     \<and> removed env nd1 (node_info_of nd) (StatusUpdate nd0 # h0) h')"

lemma later_Cons_iff: "later h (e # h') \<longleftrightarrow> h = e # h' \<or> later h h'"
  by (auto simp: grows_def Cons_eq_append_conv)

lemma later_sent:
  assumes "later (GetCR ns name # h) (StatusUpdate nd0 # h0)"
  shows "later (GetCR ns name # h) h0"
  using assms by (simp add: later_Cons_iff)

lemma launch_evidence_brought_in:
  assumes "updates_documented (e_kube env)" "launch_evidence env nd (node_info_of nd) (GetCR ns name # h) h'"
  shows "brought_in env nd (GetCR ns name # h) h'"
  using assms later_sent unfolding launch_evidence_def busy_written_def brought_in_def kept_def by blast

lemma removal_evidence_taken_out:
  assumes "updates_documented (e_kube env)" "removal_evidence env nd (node_info_of nd) (GetCR ns name # h) h'"
  shows "taken_out env nd (GetCR ns name # h) h'"
  using assms later_sent unfolding removal_evidence_def busy_written_def taken_out_def kept_def by blast

lemma change_ended_kept:
  assumes "change_ended env n busy ok failed (kept env nd) ev h err h'" "updates_documented (e_kube env)"
    and "\<And>h1. ev h h1 \<Longrightarrow> ev' h1"
  shows "\<exists>k h1 e nd'. 0 < k \<and> (n = 0 \<or> k \<le> unat n)
    \<and> status_writes h' = status_writes h @ replicate k busy @ [curStatus nd']
    \<and> h' = StatusUpdate nd' # e # h1 \<and> deadlineOf nd' = None \<and> same_deploy nd nd'
    \<and> err = (case client_StatusUpdate (e_kube env) h' of Inl e \<Rightarrow> Some e | Inr _ \<Rightarrow> None)
    \<and> (curStatus nd' = ok \<and> ev' h1 \<or> curStatus nd' = failed \<or> curStatus nd' = NodeUnknown \<and> refused (e_kube env) h1)"
  using assms unfolding change_ended_def kept_def by blast

section \<open>Reconcile follows the machine\<close>

lemma phase_of_inject: "phase_of a = phase_of b \<Longrightarrow> a \<noteq> b \<Longrightarrow> phase_of a = POther"
  by (auto simp: phase_of_def split: if_splits)

lemma pending_guards:
  assumes "curStatus nd \<noteq> NodeUnknown" "specStatus nd \<noteq> curStatus nd"
    "\<not> (curStatus nd = NodeLaunching \<or> curStatus nd = NodeDeprecating)"
    "\<not> (specStatus nd = NodeActive \<and> curStatus nd = NodeLaunchFail)"
    "\<not> (specStatus nd = NodeInactive \<and> curStatus nd = NodeDeprecateFail)"
  shows "pending (phase_of (specStatus nd)) (phase_of (curStatus nd))"
  using assms phase_of_inject [of "curStatus nd" "specStatus nd"] by (auto simp: pending_def)

text \<open>\<open>walked nd h h'\<close>: the statuses written between the two histories are a path of the machine.\<close>

definition walked :: "nodeDeploy \<Rightarrow> hist \<Rightarrow> hist \<Rightarrow> bool" where
  "walked nd h h' \<longleftrightarrow> (\<exists>ws. status_writes h' = status_writes h @ ws
     \<and> path (phase_of (specStatus nd)) (phase_of (curStatus nd)) (map phase_of ws))"

lemma walked_refl [simp]: "walked nd h h"
  by (simp add: walked_def)

lemma walked_skip [simp]: "status_write e = None \<Longrightarrow> walked nd h (e # h') = walked nd h h'"
  by (simp add: walked_def)

lemma walked_one [simp]:
  "status_writes h' = status_writes h \<Longrightarrow> walked nd h (StatusUpdate nd' # h')
     = lifecycle (phase_of (specStatus nd)) (phase_of (curStatus nd)) (phase_of (curStatus nd'))"
  by (auto simp: walked_def)

lemma walked_later: "walked nd (e # h) h' \<Longrightarrow> status_write e = None \<Longrightarrow> walked nd h h'"
  by (simp add: walked_def)

lemmas lifecycle_single [simp] = lifecycle.created

lemmas lifecycle_single_intros = lifecycle.launch_timeout lifecycle.deprecate_timeout
  lifecycle.invalid_inactive lifecycle.invalid_launch lifecycle.invalid_kept

lemma walked_change:
  assumes "lifecycle (phase_of (specStatus nd)) (phase_of (curStatus nd)) (phase_of busy)"
    "lifecycle (phase_of (specStatus nd)) (phase_of busy) (phase_of busy)"
  shows "0 < k \<Longrightarrow> status_writes h' = status_writes h @ replicate k busy \<Longrightarrow> walked nd h h'"
    and "0 < k \<Longrightarrow> status_writes h' = status_writes h @ replicate k busy @ [t] \<Longrightarrow>
      lifecycle (phase_of (specStatus nd)) (phase_of busy) (phase_of t) \<Longrightarrow> walked nd h h'"
  using path_change [OF assms] path_busy [OF assms] by (auto simp: walked_def)

lemma wp_change_walked:
  assumes law: "wp m (\<lambda>r h'. fst r = no_result \<and> change_ended env n busy ok failed same ev h (snd r) h')
    (\<lambda>_ h'. \<exists>k. 0 < k \<and> status_writes h' = status_writes h @ replicate k busy) h"
    and steps: "lifecycle (phase_of (specStatus nd)) (phase_of (curStatus nd)) (phase_of busy)"
    "lifecycle (phase_of (specStatus nd)) (phase_of busy) (phase_of busy)"
    "\<And>t. t \<in> {ok, failed, NodeUnknown} \<Longrightarrow> lifecycle (phase_of (specStatus nd)) (phase_of busy) (phase_of t)"
  shows "wp m (\<lambda>_. walked nd h) (\<lambda>_. walked nd h) h"
  using law
proof (rule wp_mono, goal_cases)
  case (1 r h')
  then obtain k nd' where "0 < k" "status_writes h' = status_writes h @ replicate k busy @ [curStatus nd']"
    "curStatus nd' \<in> {ok, failed, NodeUnknown}"
    by (auto simp: change_ended_def)
  with walked_change(2) [OF steps(1,2)] steps(3) show ?case by blast
next
  case (2 msg h')
  with walked_change(1) [OF steps(1,2)] show ?case by blast
qed

lemma wp_drive_walked:
  assumes doc: "kube_documented (e_kube env)"
    and pend: "pending (phase_of (specStatus nd)) (phase_of (curStatus nd))"
  shows "wp (drive env nd info) (\<lambda>_. walked nd h) (\<lambda>_. walked nd h) h"
proof -
  have launch: "wp (retry_and_finalize env (launch_attempt env info) nd) (\<lambda>_. walked nd h) (\<lambda>_. walked nd h) h"
    if "specStatus nd = NodeActive"
    using pend that
    by (intro wp_change_walked [OF launching.change_ends [OF doc kept_refl]]) (auto intro: lifecycle.intros)
  have remove: "wp (retry_and_finalize env (deprecate_attempt env info) nd) (\<lambda>_. walked nd h) (\<lambda>_. walked nd h) h"
    if "specStatus nd = NodeInactive" "curStatus nd \<noteq> NodeInit"
    using pend that
    by (intro wp_change_walked [OF deprecating.change_ends [OF doc kept_refl]]) (auto intro: lifecycle.intros)
  show ?thesis
    using launch remove
    by (auto simp: drive_def wp_rules crEvent_def)
qed

lemma wp_preflight_failed_walked:
  assumes "pending (phase_of (specStatus nd)) (phase_of (curStatus nd))"
  shows "wp (preflight_failed env nd) (\<lambda>_. walked nd h) (\<lambda>_. walked nd h) h"
  using assms
  by (auto simp: preflight_failed_def wp_rules wp_status_update Let_def split: sum.split
      intro!: lifecycle_single_intros)

lemma wp_check_deadline_walked:
  assumes "curStatus nd = NodeLaunching \<or> curStatus nd = NodeDeprecating" "specStatus nd \<noteq> curStatus nd"
  shows "wp (check_deadline env nd) (\<lambda>_. walked nd h) (\<lambda>_. walked nd h) h"
  using assms
  by (auto simp: check_deadline_def wp_rules wp_status_update Let_def crEvent_def split: sum.split option.split
      intro!: lifecycle_single_intros)

lemma wp_Reconcile_walked:
  assumes doc: "kube_documented (e_kube env)"
    and get: "client_GetCR (e_kube env) (GetCR ns name # h) = Inr nd"
  shows "wp (Reconcile env ns name) (\<lambda>_. walked nd h) (\<lambda>_. walked nd h) h"
proof -
  have step: "wp m (\<lambda>_. walked nd h1) (\<lambda>_. walked nd h1) (e # h1)"
    if "wp m (\<lambda>_. walked nd (e # h1)) (\<lambda>_. walked nd (e # h1)) (e # h1)" "status_write e = None"
    for m :: "(result \<times> goerr option) prog" and e h1
    using that by (auto intro: wp_mono walked_later)
  let ?h = "GetCR ns name # h"
  have go: "wp (bindM (preflight env nd (node_info_of nd)) (\<lambda>r. case r of
               (_, Some err) \<Rightarrow>
                 thenM (crEvent nd EventTypeWarning EventPreflight (''Preflight err:'' @ err_text err))
                   (ret (no_result, Some err))
             | (success, None) \<Rightarrow>
                 (if \<not> success then preflight_failed env nd
                  else drive env nd (node_info_of nd)))) (\<lambda>_. walked nd ?h) (\<lambda>_. walked nd ?h) ?h"
    if pend: "pending (phase_of (specStatus nd)) (phase_of (curStatus nd))"
    using wp_drive_walked [OF doc pend] wp_preflight_failed_walked [OF pend]
    by (auto simp: preflight_def wp_rules crEvent_def split: option.split intro!: step)
  have "wp (Reconcile env ns name) (\<lambda>_. walked nd ?h) (\<lambda>_. walked nd ?h) h"
    unfolding Reconcile_def Let_def wp_bindM wp_ask get sum.case
    using go [OF pending_guards [of nd]] wp_check_deadline_walked [of nd env ?h]
    by (auto simp: wp_rules wp_status_update crEvent_def split: sum.split)
  then show ?thesis
    by (rule wp_mono) (auto intro: walked_later)
qed

section \<open>Every branch of Reconcile\<close>

lemma prepare_returns: "\<exists>e nd' h'. prepare env nd status h = Some (Ret (e, nd') h')"
proof -
  have "returns (prepare env nd status) h"
    unfolding prepare_def status_update_def crEvent_def thenM_def Let_def
    by (auto intro!: total_rules split: sum.split)
  then show ?thesis by (auto simp: returns_def)
qed

lemma Reconcile_found:
  assumes "client_GetCR (e_kube env) (GetCR ns name # h) = Inr nd"
  shows "Reconcile env ns name h =
    (if curStatus nd = NodeUnknown then
            thenM (crEvent nd EventTypeNormal EventChangeStatus ''init status'')
              (bindM (status_update env (setStatus NodeInit nd)) (\<lambda>r. ret (no_result, fst r)))
          else if specStatus nd = curStatus nd then ret (no_result, None)
          else if curStatus nd = NodeLaunching \<or> curStatus nd = NodeDeprecating then check_deadline env nd
          else if specStatus nd = NodeActive \<and> curStatus nd = NodeLaunchFail then ret (no_result, None)
          else if specStatus nd = NodeInactive \<and> curStatus nd = NodeDeprecateFail then ret (no_result, None)
          else (case preflight_reason (e_kube env) nd (node_info_of nd) of
              None \<Rightarrow> drive env nd (node_info_of nd)
            | Some reason \<Rightarrow> thenM (crEvent nd EventTypeWarning EventStatusMessage (StatusMessage_String
                \<lparr>msg_Phase = ''Parameter validate'', msg_Message = reason, msg_Progress = ''1/1''\<rparr>))
                (preflight_failed env nd))) (GetCR ns name # h)"
  unfolding Reconcile_def Let_def bindM_ask assms sum.case
  by (simp add: preflight_def thenM_def bindM_assoc split: option.split)

text \<open>The object asks for work: no guard of \<^verbatim>\<open>Reconcile\<close> returns early.\<close>

definition wants_work :: "nodeDeploy \<Rightarrow> bool" where
  "wants_work nd \<longleftrightarrow> curStatus nd \<notin> {NodeUnknown, NodeLaunching, NodeDeprecating} \<and> specStatus nd \<noteq> curStatus nd
     \<and> \<not> (specStatus nd = NodeActive \<and> curStatus nd = NodeLaunchFail)
     \<and> \<not> (specStatus nd = NodeInactive \<and> curStatus nd = NodeDeprecateFail)"

lemma Reconcile_drives:
  assumes "client_GetCR (e_kube env) (GetCR ns name # h) = Inr nd" "wants_work nd"
    and "preflight_reason (e_kube env) nd (node_info_of nd) = None"
  shows "Reconcile env ns name h = drive env nd (node_info_of nd) (GetCR ns name # h)"
  unfolding Reconcile_found [OF assms(1)] using assms(2,3) by (auto simp: wants_work_def)

lemma status_writes_get: "status_writes (GetCR ns name # h) = status_writes h"
  by simp

text \<open>Work in progress: the deadline decides.\<close>

lemma Reconcile_in_progress:
  assumes "client_GetCR (e_kube env) (GetCR ns name # h) = Inr nd"
    and "curStatus nd \<in> {NodeLaunching, NodeDeprecating}" "specStatus nd \<noteq> curStatus nd" "deadlineOf nd = Some d"
  shows "Reconcile env ns name h =
    (let h1 = TimeNow # GetCR ns name # h; before = getBeforeStatus (curStatus nd);
         h2 = StatusUpdate (setStatus before nd) # Event (crRef nd) EventTypeWarning EventChangeStatus
           (''exec timeout, fallback: '' @ statusChange (curStatus nd) before) # h1 in
     if e_now env h1 \<le> d then Some (Ret (no_result, None) h1)
     else (case client_StatusUpdate (e_kube env) h2 of
         Inl e \<Rightarrow> Some (Ret (no_result, Some e) h2)
       | Inr nd' \<Rightarrow> (case deadlineOf nd' of
           None \<Rightarrow> Some (Crash nil_deref h2)
         | Some d' \<Rightarrow> Some (Ret (\<lparr>res_RequeueAfter = time_Sub d' (e_now env (TimeNow # h2))\<rparr>, None) (TimeNow # h2)))))"
proof -
  have "Reconcile env ns name h = check_deadline env nd (GetCR ns name # h)"
    unfolding Reconcile_found [OF assms(1)] using assms(2,3) by auto
  then show ?thesis
    using assms(4)
    by (simp add: check_deadline_def bindM_ask time_After_def status_update_def crEvent_def thenM_tell
        io_defs Let_def split: sum.split option.split)
qed

text \<open>The deadline rule and the named statuses, for a whole reconciliation.\<close>

lemma wp_drive_deadline:
  assumes "kube_documented (e_kube env)"
  shows "wp (drive env nd info) (\<lambda>_. grows deadline_kept h) (\<lambda>_. grows deadline_kept h) h"
  using launching.change_deadline [OF assms kept_refl, where h = h] deprecating.change_deadline [OF assms kept_refl, where h = h]
  by (auto simp: drive_def wp_rules crEvent_def intro!: grows_step)

lemma wp_Reconcile_deadline:
  assumes doc: "kube_documented (e_kube env)"
  shows "wp (Reconcile env ns name) (\<lambda>_. grows deadline_kept h) (\<lambda>_. grows deadline_kept h) h"
proof (cases "client_GetCR (e_kube env) (GetCR ns name # h)")
  case (Inl err)
  then show ?thesis by (auto simp: Reconcile_def Let_def wp_rules intro!: grows_step)
next
  case (Inr nd)
  let ?h = "GetCR ns name # h"
  have "grows deadline_kept h ?h" by (rule grows_step) simp_all
  then have later: "wp m (\<lambda>_. grows deadline_kept h) (\<lambda>_. grows deadline_kept h) ?h"
    if "wp m (\<lambda>_. grows deadline_kept ?h) (\<lambda>_. grows deadline_kept ?h) ?h" for m :: "(result \<times> goerr option) prog"
    using that by (auto elim!: wp_mono intro: grows_trans)
  have failed: "wp (preflight_failed env nd) (\<lambda>_. grows deadline_kept h) (\<lambda>_. grows deadline_kept h) h1"
    if "grows deadline_kept h h1" "idle (curStatus nd)" for h1
    using that by (auto simp: preflight_failed_def wp_rules wp_status_update Let_def idle_def intro!: grows_step split: sum.split)
  have deadline: "wp (check_deadline env nd) (\<lambda>_. grows deadline_kept h) (\<lambda>_. grows deadline_kept h) ?h"
    if "curStatus nd = NodeLaunching \<or> curStatus nd = NodeDeprecating"
    using that by (auto simp: check_deadline_def wp_rules wp_status_update Let_def crEvent_def idle_def
        intro!: grows_step split: sum.split option.split)
  show ?thesis
    using later [OF wp_drive_deadline [OF doc]] deadline
    unfolding wp_def [of "Reconcile env ns name"] Reconcile_found [OF Inr] wp_def [symmetric]
    by (auto simp: wp_rules wp_status_update crEvent_def idle_def intro!: failed grows_step split: sum.split option.split)
qed

lemma lifecycle_named:
  assumes "lifecycle d s t" "s \<noteq> POther"
  shows "t \<noteq> POther"
  using assms by (cases rule: lifecycle.cases) auto

lemma path_named:
  assumes "path d s ts" "s \<noteq> POther"
  shows "\<forall>t \<in> set ts. t \<noteq> POther"
  using assms
proof (induction ts arbitrary: s)
  case (Cons t ts)
  then have "lifecycle d s t" "path d t ts" by simp_all
  moreover from lifecycle_named [OF this(1) Cons.prems(2)] have "t \<noteq> POther" .
  ultimately show ?case using Cons.IH [of t] by simp
qed simp

section \<open>What stands behind a write\<close>

text \<open>\<open>backed Q h h'\<close>: every status write between the two histories satisfies \<open>Q\<close>, with the calls before it.\<close>

definition backed :: "(nodeDeploy \<Rightarrow> hist \<Rightarrow> bool) \<Rightarrow> hist \<Rightarrow> hist \<Rightarrow> bool" where
  "backed Q h h' \<longleftrightarrow> (\<forall>nd' h1. later h h1 \<and> later (StatusUpdate nd' # h1) h' \<longrightarrow> Q nd' h1)"

lemma later_length: "later h h' \<Longrightarrow> length h \<le> length h'"
  by (auto simp: grows_def)

lemma backed_refl [simp]: "backed Q h h"
  by (auto simp: backed_def dest!: later_length)

lemma backed_Cons:
  assumes "later h h'"
  shows "backed Q h (e # h') \<longleftrightarrow> (\<forall>nd'. e = StatusUpdate nd' \<longrightarrow> Q nd' h') \<and> backed Q h h'"
  using assms unfolding backed_def later_Cons_iff by blast

lemma backed_mono: "backed Q h h' \<Longrightarrow> (\<And>nd' h1. later h h1 \<Longrightarrow> Q nd' h1 \<Longrightarrow> Q' nd' h1) \<Longrightarrow> backed Q' h h'"
  by (auto simp: backed_def)

lemma later_writes: "later h h' \<Longrightarrow> \<exists>ws. status_writes h' = status_writes h @ ws"
  by (auto simp: grows_def proj_append)

lemma backed_writes:
  assumes "status_writes h' = status_writes h @ ws" "\<And>nd' h1. curStatus nd' \<in> set ws \<Longrightarrow> Q nd' h1"
  shows "backed Q h h'"
  unfolding backed_def
proof (intro allI impI, elim conjE)
  fix nd' h1
  assume "later h h1" "later (StatusUpdate nd' # h1) h'"
  then obtain us vs where "status_writes h1 = status_writes h @ us" "status_writes h' = status_writes (StatusUpdate nd' # h1) @ vs"
    using later_writes by metis
  then show "Q nd' h1" using assms by auto
qed

lemma wp_change_backed:
  assumes law: "wp m (\<lambda>r h'. fst r = no_result \<and> change_ended env n busy ok failed same ev h (snd r) h')
      (\<lambda>_ h'. \<exists>k. 0 < k \<and> status_writes h' = status_writes h @ replicate k busy) h"
    and grown: "wp m (\<lambda>_. grows deadline_kept h) (\<lambda>_. grows deadline_kept h) h"
    and busy: "\<And>nd' h1. curStatus nd' = busy \<Longrightarrow> Q nd' h1"
    and final: "\<And>nd' e h1. same nd' \<Longrightarrow> curStatus nd' = ok \<and> ev h h1 \<or> curStatus nd' = failed \<or> curStatus nd' = NodeUnknown
        \<Longrightarrow> Q nd' (e # h1)"
  shows "wp m (\<lambda>_. backed Q h) (\<lambda>_. backed Q h) h"
proof (cases "m h")
  case (Some out)
  show ?thesis
  proof (cases out)
    case (Ret r h')
    with Some law grown have ended: "change_ended env n busy ok failed same ev h (snd r) h'" and "grows deadline_kept h h'"
      by (simp_all add: wp_def)
    from this(2) have "later h h'" by (rule grows_mono) simp
    with ended obtain k h1 e nd where h': "h' = StatusUpdate nd # e # h1" "later h h'"
      and writes: "status_writes h' = status_writes h @ replicate k busy @ [curStatus nd]" and "same nd"
      and "curStatus nd = ok \<and> ev h h1 \<or> curStatus nd = failed \<or> curStatus nd = NodeUnknown"
      unfolding change_ended_def by blast
    then have "Q nd (e # h1)" using final by simp
    moreover from h' writes have "later h (e # h1)" by (auto simp: later_Cons_iff)
    moreover have "status_writes (e # h1) = status_writes h @ replicate k busy"
      using writes by (simp add: h'(1))
    then have "backed Q h (e # h1)" by (rule backed_writes) (simp add: busy)
    ultimately have "backed Q h h'" by (simp add: h'(1) backed_Cons)
    with Some Ret show ?thesis by (simp add: wp_def)
  next
    case (Crash msg h')
    with Some law obtain k where "status_writes h' = status_writes h @ replicate k busy" by (auto simp: wp_def)
    then have "backed Q h h'" by (rule backed_writes) (simp add: busy)
    with Some Crash show ?thesis by (simp add: wp_def)
  qed
qed (simp add: wp_def)

text \<open>
  The reasons for a final status: the work for it, the timeout of the opposite work, or, for
  \<^verbatim>\<open>active\<close> only, a failed preflight, which writes the object back as it was read.
\<close>

definition timed_out :: "env \<Rightarrow> nodeDeploy \<Rightarrow> hist \<Rightarrow> nodeStatus \<Rightarrow> nodeDeploy \<Rightarrow> hist \<Rightarrow> bool" where
  "timed_out env nd h busy nd' h1 \<longleftrightarrow> curStatus nd = busy \<and> nd' = setStatus (getBeforeStatus busy) nd
     \<and> (\<exists>d e. deadlineOf nd = Some d \<and> d < e_now env (TimeNow # h) \<and> h1 = e # TimeNow # h)"

definition final_backed :: "env \<Rightarrow> nodeDeploy \<Rightarrow> hist \<Rightarrow> nodeDeploy \<Rightarrow> hist \<Rightarrow> bool" where
  "final_backed env nd h nd' h1 \<longleftrightarrow>
     (curStatus nd' = NodeActive \<longrightarrow>
        specStatus nd = NodeActive \<and> same_deploy nd nd' \<and> (\<exists>e h2. h1 = e # h2 \<and> brought_in env nd h h2)
        \<or> timed_out env nd h NodeDeprecating nd' h1
        \<or> nd' = nd \<and> specStatus nd \<noteq> NodeActive \<and> preflight_reason (e_kube env) nd (node_info_of nd) \<noteq> None)
   \<and> (curStatus nd' = NodeInactive \<longrightarrow>
        specStatus nd = NodeInactive \<and> same_deploy nd nd' \<and> (\<exists>e h2. h1 = e # h2 \<and> taken_out env nd h h2)
        \<or> timed_out env nd h NodeLaunching nd' h1)"

lemma wp_drive_backed:
  fixes ns name :: string and h0 :: hist
  assumes doc: "kube_documented (e_kube env)" "updates_documented (e_kube env)"
  defines "h \<equiv> GetCR ns name # h0"
  shows "wp (drive env nd (node_info_of nd)) (\<lambda>_. backed (final_backed env nd h) h) (\<lambda>_. backed (final_backed env nd h) h) h"
proof -
  have launch: "wp (retry_and_finalize env (launch_attempt env (node_info_of nd)) nd)
      (\<lambda>_. backed (final_backed env nd h) h) (\<lambda>_. backed (final_backed env nd h) h) h" if "specStatus nd = NodeActive"
    using that doc(2)
    by (intro wp_change_backed [OF launching.change_ends [OF doc(1) kept_refl] launching.change_deadline [OF doc(1) kept_refl]])
      (auto simp: final_backed_def kept_def h_def dest: launch_evidence_brought_in)
  have remove: "wp (retry_and_finalize env (deprecate_attempt env (node_info_of nd)) nd)
      (\<lambda>_. backed (final_backed env nd h) h) (\<lambda>_. backed (final_backed env nd h) h) h" if "specStatus nd = NodeInactive"
    using that doc(2)
    by (intro wp_change_backed [OF deprecating.change_ends [OF doc(1) kept_refl] deprecating.change_deadline [OF doc(1) kept_refl]])
      (auto simp: final_backed_def kept_def h_def dest: removal_evidence_taken_out)
  show ?thesis
    using launch remove by (auto simp: drive_def wp_rules crEvent_def backed_Cons)
qed

lemma wp_Reconcile_backed:
  assumes doc: "kube_documented (e_kube env)" "updates_documented (e_kube env)"
    and get: "client_GetCR (e_kube env) (GetCR ns name # h) = Inr nd"
  defines "Q \<equiv> final_backed env nd (GetCR ns name # h)"
  shows "wp (Reconcile env ns name) (\<lambda>_. backed Q (GetCR ns name # h)) (\<lambda>_. backed Q (GetCR ns name # h)) h"
proof -
  let ?h = "GetCR ns name # h"
  have failed: "wp (preflight_failed env nd) (\<lambda>_. backed Q ?h) (\<lambda>_. backed Q ?h) (e # ?h)"
    if "\<And>nd'. e \<noteq> StatusUpdate nd'" "preflight_reason (e_kube env) nd (node_info_of nd) \<noteq> None" "wants_work nd" for e
    using that by (auto simp: preflight_failed_def wp_rules wp_status_update Let_def backed_Cons later_Cons_iff
        Q_def final_backed_def wants_work_def split: sum.split)
  have deadline: "wp (check_deadline env nd) (\<lambda>_. backed Q ?h) (\<lambda>_. backed Q ?h) ?h"
    if "curStatus nd = NodeLaunching \<or> curStatus nd = NodeDeprecating"
    using that by (auto simp: check_deadline_def wp_rules wp_status_update Let_def crEvent_def backed_Cons later_Cons_iff
        Q_def final_backed_def timed_out_def time_After_def split: sum.split option.split)
  show ?thesis
    using wp_drive_backed [OF doc, of nd ns name h] deadline
    unfolding wp_def [of "Reconcile env ns name"] Reconcile_found [OF get] wp_def [symmetric]
    by (auto simp: wp_rules wp_status_update crEvent_def backed_Cons later_Cons_iff Q_def [symmetric] wants_work_def
        intro!: failed split: sum.split option.split) (auto simp: Q_def final_backed_def)
qed

end
