(* ===== verification/Convergence.thy ===== *)
theory Convergence
  imports Lifecycle
begin

text \<open>
  What a reconciliation achieves where nothing goes wrong: on a healthy host, with an API server
  that stores what it is given, one attempt brings a node in or takes it out. The example runs of
  the witnesses are instances.
\<close>

section \<open>A healthy cluster\<close>

text \<open>The server answers a status update with the object stored, of a new resource version perhaps.\<close>

definition stores_status :: "kubeLib \<Rightarrow> bool" where
  "stores_status lib \<longleftrightarrow> (\<forall>nd h. \<exists>nd'. client_StatusUpdate lib (StatusUpdate nd # h) = Inr nd'
     \<and> nd_Spec nd' = nd_Spec nd \<and> nd_Status nd' = nd_Status nd)"

definition launch_ready :: "env \<Rightarrow> nodeInfo \<Rightarrow> nodeDeploy \<Rightarrow> bool" where
  "launch_ready env info nd \<longleftrightarrow> kube_documented (e_kube env) \<and> stores_status (e_kube env)
     \<and> healthy_host (e_ssh env) \<and> joinable (e_tok env) (info_NodeType info)
     \<and> (\<exists>v. semver_NewVersion (e_kube env) (spec_NodeVersion (nd_Spec nd)) = Inr v)
     \<and> node_ready (e_kube env) (spec_NodeName (nd_Spec nd))"

definition removal_ready :: "env \<Rightarrow> nodeInfo \<Rightarrow> nodeDeploy \<Rightarrow> bool" where
  "removal_ready env info nd \<longleftrightarrow> kube_documented (e_kube env) \<and> stores_status (e_kube env)
     \<and> healthy_host (e_ssh env) \<and> info_NodeType info \<in> {NodeWork, NodeKubeedge}
     \<and> node_removable (e_kube env) (info_NodeName info)"

section \<open>One attempt is enough\<close>

text \<open>
  A change of a node that is \<open>ready\<close>: where the object allows the change to succeed, the first attempt
  ends it with the status \<open>ok\<close>.
\<close>

locale ready_change = node_change +
  fixes ready :: "nodeDeploy \<Rightarrow> bool"
  assumes ready_attempt: "ready nd \<Longrightarrow>
      \<exists>nd' h'. attempt (nd, True, NodeUnknown) h = Some (Ret (None, (nd', True, ok)) h')"
    and ready_documented: "ready nd \<Longrightarrow> kube_documented (e_kube env) \<and> stores_status (e_kube env)"

context ready_change begin

lemma succeeds_at_once:
  assumes "ready nd" and same: "same nd"
  shows "\<exists>h'. retry_and_finalize env attempt nd h = Some (Ret (no_result, None) h')
    \<and> status_writes h' = status_writes h @ [busy, ok]"
proof -
  from ready_documented [OF assms(1)] have doc: "kube_documented (e_kube env)" and store: "stores_status (e_kube env)" by auto
  from ready_attempt [OF assms(1)] obtain nd' h1 where run: "attempt (nd, True, NodeUnknown) h = Some (Ret (None, (nd', True, ok)) h1)"
    by blast
  from wp_RetD [OF attempt_law [OF doc same] run] have busy: "status_writes h1 = status_writes h @ [busy]" by simp
  have "retry_documented (retry_Do (e_kube env))" using doc by (simp add: kube_documented_def)
  note first = retry_first [where f = attempt and v = "(nd, True, NodeUnknown)", OF this run]
  let ?h2 = "StatusUpdate (setDeadline None (setStatus ok nd'))
    # Event (crRef nd') EventTypeNormal EventChangeStatus (statusChange (curStatus nd') ok) # h1"
  from store obtain nd2 where "client_StatusUpdate (e_kube env) ?h2 = Inr nd2" unfolding stores_status_def by blast
  then have "finalize env nd' ok h1 = Some (Ret (None, nd2) ?h2)"
    by (simp add: finalize_def crEvent_def status_update_def thenM_tell bindM_ask ret_def)
  then have "retry_and_finalize env attempt nd h = Some (Ret (no_result, None) ?h2)"
    by (simp add: retry_and_finalize_def bindM_def first ret_def)
  with busy show ?thesis by simp
qed

end

text \<open>The status write before the work: the object keeps what the work reads of it.\<close>

lemma prepare_stored:
  assumes "stores_status (e_kube env)"
  shows "\<exists>nd' h'. prepare env nd s h = Some (Ret (None, nd') h') \<and> nd_Spec nd' = nd_Spec nd"
proof -
  let ?nd = "setDeadline (Some (time_Add (e_now env (TimeNow # h)) DeadlineDuration)) nd"
  let ?h = "StatusUpdate (setStatus s ?nd) # Event (crRef ?nd) EventTypeNormal EventChangeStatus (statusChange (curStatus ?nd) s)
    # TimeNow # h"
  from assms obtain nd' where "client_StatusUpdate (e_kube env) ?h = Inr nd'" "nd_Spec nd' = nd_Spec nd"
    unfolding stores_status_def by (metis set_fields(3) set_fields(8))
  then show ?thesis
    by (simp add: prepare_def crEvent_def status_update_def thenM_tell bindM_ask Let_def ret_def)
qed

lemma ready_launch_attempt:
  assumes "launch_ready env info nd"
  shows "\<exists>nd' h'. launch_attempt env info (nd, True, NodeUnknown) h = Some (Ret (None, (nd', True, NodeActive)) h')"
proof -
  from assms have ready: "kube_documented (e_kube env)" "stores_status (e_kube env)" "healthy_host (e_ssh env)"
    "joinable (e_tok env) (info_NodeType info)" "node_ready (e_kube env) (spec_NodeName (nd_Spec nd))"
    by (simp_all add: launch_ready_def)
  from assms obtain major minor where v: "semver_NewVersion (e_kube env) (spec_NodeVersion (nd_Spec nd)) = Inr (major, minor)"
    by (auto simp: launch_ready_def)
  from prepare_stored [OF ready(2)] obtain nd1 h1 where
    prep: "prepare env nd NodeLaunching h = Some (Ret (None, nd1) h1)" and spec: "nd_Spec nd1 = nd_Spec nd" by blast
  have "gives (launchNode env nd1 info) (\<lambda>x. x = (True, None))"
    using ready v by (intro gives_launchNode) (simp_all add: kube_documented_def spec)
  from gives_exactly [OF this] obtain h2 where "launchNode env nd1 info h1 = Some (Ret (True, None) h2)" by blast
  with prep show ?thesis by (simp add: launch_attempt_def bindM_run ret_def)
qed

lemma ready_deprecate_attempt:
  assumes "removal_ready env info nd"
  shows "\<exists>nd' h'. deprecate_attempt env info (nd, True, NodeUnknown) h = Some (Ret (None, (nd', True, NodeInactive)) h')"
proof -
  from assms have ready: "stores_status (e_kube env)" "healthy_host (e_ssh env)"
    "info_NodeType info \<in> {NodeWork, NodeKubeedge}" "node_removable (e_kube env) (info_NodeName info)"
    by (simp_all add: removal_ready_def)
  from prepare_stored [OF ready(1)] obtain nd1 h1 where
    prep: "prepare env nd NodeDeprecating h = Some (Ret (None, nd1) h1)" by blast
  from gives_exactly [OF gives_deprecateNode [OF ready(2-4)]] obtain h2 where
    "deprecateNode env nd1 info h1 = Some (Ret (True, None) h2)" by blast
  with prep show ?thesis by (simp add: deprecate_attempt_def bindM_run ret_def)
qed

interpretation ready_launch: ready_change env "launch_attempt env info" NodeLaunching NodeActive NodeLaunchFail
    "kept env nd0" "launch_evidence env nd0 info" "launch_ready env info" for env nd0 info
  by unfold_locales (simp_all add: ready_launch_attempt launch_ready_def)

interpretation ready_removal: ready_change env "deprecate_attempt env info" NodeDeprecating NodeInactive NodeDeprecateFail
    "kept env nd0" "removal_evidence env nd0 info" "removal_ready env info" for env nd0 info
  by unfold_locales (simp_all add: ready_deprecate_attempt removal_ready_def)

lemma healthy_launch:
  assumes "client_GetCR (e_kube env) (GetCR ns name # h) = Inr nd" "wants_work nd" "specStatus nd = NodeActive"
    and "preflight_reason (e_kube env) nd (node_info_of nd) = None" "launch_ready env (node_info_of nd) nd"
  shows "\<exists>h'. Reconcile env ns name h = Some (Ret (no_result, None) h')
    \<and> status_writes h' = status_writes h @ [NodeLaunching, NodeActive]"
  using ready_launch.succeeds_at_once [OF assms(5) kept_refl, of "GetCR ns name # h"] assms(3)
  unfolding Reconcile_drives [OF assms(1,2,4)] by (simp add: drive_def)

lemma healthy_removal:
  assumes "client_GetCR (e_kube env) (GetCR ns name # h) = Inr nd" "wants_work nd" "specStatus nd = NodeInactive"
    and "curStatus nd \<noteq> NodeInit"
    and "preflight_reason (e_kube env) nd (node_info_of nd) = None" "removal_ready env (node_info_of nd) nd"
  shows "\<exists>h'. Reconcile env ns name h = Some (Ret (no_result, None) h')
    \<and> status_writes h' = status_writes h @ [NodeDeprecating, NodeInactive]"
  using ready_removal.succeeds_at_once [OF assms(6) kept_refl, of "GetCR ns name # h"] assms(3,4)
  unfolding Reconcile_drives [OF assms(1,2,5)] by (simp add: drive_def)

section \<open>Example runs\<close>

lemma updates_documented_echo:
  "(\<And>nd h. client_StatusUpdate lib (StatusUpdate nd # h) = Inr nd) \<Longrightarrow> updates_documented lib"
  by (simp add: updates_documented_def same_deploy_def)

lemma kube_documented_ex: "kube_documented ex_kube"
  by (simp add: kube_documented_def retry_Do_loop_documented once_documented)

lemma ex_kube_healthy:
  "stores_status ex_kube" "node_ready ex_kube ''n1''" "node_removable ex_kube ''n1''"
  by (simp_all add: stores_status_def echo_def node_ready_def node_removable_def nodeIsReady_def ex_node_def)

lemma preflight_ex: "preflight_reason ex_kube ex_deploy (node_info_of ex_deploy) = None"
proof -
  have "net_ParseIP ''10.0.0.9''" by code_simp
  then show ?thesis
    by (simp add: preflight_reason_def node_info_of_def Let_def ex_deploy_def ex_spec_def)
qed

lemma wants_work_ex: "wants_work ex_deploy"
  by (simp add: wants_work_def ex_deploy_def ex_spec_def)

lemma launch_ready_ex: "launch_ready ex_env (node_info_of ex_deploy) ex_deploy"
  by (simp add: launch_ready_def kube_documented_ex ex_kube_healthy healthy_ex_ssh joinable_def certs_documented_ex
      node_info_of_def Let_def)

lemma reconcile_ex: "\<exists>h'. Reconcile ex_env ''ns'' ''d1'' h = Some (Ret (no_result, None) h')"
  using healthy_launch [of ex_env "''ns''" "''d1''" h ex_deploy] wants_work_ex preflight_ex launch_ready_ex by auto

text \<open>The last call of this run writes \<^verbatim>\<open>active\<close>.\<close>

lemma reconcile_active_ex:
  "\<exists>h' nd' h1. Reconcile ex_env ''ns'' ''d1'' [] = Some (Ret (no_result, None) h')
    \<and> h' = StatusUpdate nd' # h1 \<and> later [GetCR ''ns'' ''d1''] h1 \<and> curStatus nd' = NodeActive"
proof -
  have get: "client_GetCR (e_kube ex_env) (GetCR ''ns'' ''d1'' # []) = Inr ex_deploy"
    and pre: "preflight_reason (e_kube ex_env) ex_deploy (node_info_of ex_deploy) = None"
    and doc: "kube_documented (e_kube ex_env)" and spec: "specStatus ex_deploy = NodeActive"
    using preflight_ex by (simp_all add: kube_documented_ex)
  from healthy_launch [OF get wants_work_ex spec pre launch_ready_ex] obtain h' where
    run: "Reconcile ex_env ''ns'' ''d1'' [] = Some (Ret (no_result, None) h')"
    and writes: "status_writes h' = [NodeLaunching, NodeActive]" by auto
  from run spec have "retry_and_finalize ex_env (launch_attempt ex_env (node_info_of ex_deploy)) ex_deploy [GetCR ''ns'' ''d1'']
      = Some (Ret (no_result, None) h')"
    unfolding Reconcile_drives [OF get wants_work_ex pre] by (simp add: drive_def)
  from wp_RetD [OF launching.change_ends [OF doc kept_refl] this] wp_RetD [OF launching.change_deadline [OF doc kept_refl] this]
  obtain nd' e h1 where h': "h' = StatusUpdate nd' # e # h1" and "grows deadline_kept [GetCR ''ns'' ''d1''] h'"
    by (auto simp: change_ended_def)
  from this(2) have "later [GetCR ''ns'' ''d1''] h'" by (rule grows_mono) simp
  with h' have "later [GetCR ''ns'' ''d1''] (e # h1)" by (simp add: later_Cons_iff)
  with run h' writes show ?thesis by auto
qed

text \<open>The same object when its active node is to be taken out.\<close>

definition ex_retire :: nodeDeploy where
  "ex_retire = ex_deploy\<lparr>nd_Spec := ex_spec\<lparr>spec_NodeStatus := NodeInactive\<rparr>,
     nd_Status := \<lparr>st_NodeStatus = NodeActive, st_Deadline = None\<rparr>\<rparr>"

definition ex_retire_env :: env where
  "ex_retire_env = ex_env\<lparr>e_kube := ex_kube\<lparr>client_GetCR := \<lambda>_. Inr ex_retire\<rparr>\<rparr>"

lemma ex_retire_simps [simp]:
  "specStatus ex_retire = NodeInactive" "curStatus ex_retire = NodeActive" "spec_MaxRetry (nd_Spec ex_retire) = 3"
  "e_ssh ex_retire_env = ex_ssh" "e_tok ex_retire_env = ex_tok" "e_now ex_retire_env = (\<lambda>_. 0)"
  "e_kube ex_retire_env = ex_kube\<lparr>client_GetCR := \<lambda>_. Inr ex_retire\<rparr>"
  by (simp_all add: ex_retire_def ex_retire_env_def)

lemma ex_retire_read: "client_GetCR (e_kube ex_retire_env) (GetCR ns name # h) = Inr ex_retire"
  by simp

lemma wants_work_retire: "wants_work ex_retire"
  by (simp add: wants_work_def)

lemma preflight_retire: "preflight_reason (e_kube ex_retire_env) ex_retire (node_info_of ex_retire) = None"
  using preflight_ex by (simp add: preflight_reason_def node_info_of_def Let_def ex_retire_def split: if_splits)

lemma removal_ready_retire: "removal_ready ex_retire_env (node_info_of ex_retire) ex_retire"
  using kube_documented_ex ex_kube_healthy
  by (simp add: removal_ready_def healthy_ex_ssh kube_documented_def stores_status_def node_removable_def
      node_info_of_def Let_def ex_retire_def)

lemma retire_ex: "\<exists>h'. Reconcile ex_retire_env ''ns'' ''d1'' h = Some (Ret (no_result, None) h')"
  using healthy_removal [OF ex_retire_read wants_work_retire _ _ preflight_retire removal_ready_retire] by simp blast

end
