(* ===== verification/Controller.thy ===== *)
theory Controller
  imports Convergence
begin

text \<open>
  The controller over time: which NodeDeploys its reconciliations and the edits of a user can leave
  in the API server, and where repeated reconciliations take them.
\<close>

section \<open>Stored objects\<close>

text \<open>The run of \<open>m\<close> from \<open>h\<close> has ended, by a return or by a panic, with the history \<open>h'\<close>.\<close>

definition ended :: "(action, 'a) io \<Rightarrow> hist \<Rightarrow> hist \<Rightarrow> bool" where
  "ended m h h' \<longleftrightarrow> (\<exists>x. m h = Some (Ret x h')) \<or> (\<exists>msg. m h = Some (Crash msg h'))"

lemma wp_ended: "wp m (\<lambda>_. Q) (\<lambda>_. Q) h \<Longrightarrow> ended m h h' \<Longrightarrow> Q h'"
  by (auto simp: ended_def wp_def)

text \<open>
  An object is created without a status; its owner may edit its spec at any time; and any
  status that a reconciliation of it writes may be the one that stays, be it that the controller
  is killed right after it, that later writes are refused, or that the run goes on. The outside
  may be another one in each reconciliation.
\<close>

inductive stored :: "nodeDeploy \<Rightarrow> bool" where
  created: "curStatus nd = NodeUnknown \<Longrightarrow> deadlineOf nd = None \<Longrightarrow> stored nd"
| edited: "stored nd \<Longrightarrow> stored (nd\<lparr>nd_Spec := spec\<rparr>)"
| reconciled: "stored nd \<Longrightarrow> kube_documented (e_kube env) \<Longrightarrow> client_GetCR (e_kube env) (GetCR ns name # h) = Inr nd
    \<Longrightarrow> ended (Reconcile env ns name) h (new @ h) \<Longrightarrow> StatusUpdate nd' \<in> set new
    \<Longrightarrow> stored (nd\<lparr>nd_Status := nd_Status nd'\<rparr>)"

definition status_sound :: "nodeDeploy \<Rightarrow> bool" where
  "status_sound nd \<longleftrightarrow> phase_of (curStatus nd) \<noteq> POther
     \<and> (curStatus nd \<in> {NodeLaunching, NodeDeprecating} \<longrightarrow> deadlineOf nd \<noteq> None)"

lemma written_sound:
  assumes doc: "kube_documented (e_kube env)" and get: "client_GetCR (e_kube env) (GetCR ns name # h) = Inr nd"
    and "phase_of (curStatus nd) \<noteq> POther" and run: "ended (Reconcile env ns name) h (new @ h)"
    and "StatusUpdate nd' \<in> set new"
  shows "status_sound nd'"
proof -
  from wp_ended [OF wp_Reconcile_deadline [OF doc] run] assms(5) have deadline: "deadline_kept (StatusUpdate nd')"
    by (auto simp: grows_def)
  from wp_ended [OF wp_Reconcile_walked [OF doc get] run] obtain ws where
    ws: "proj status_write new = ws" "path (phase_of (specStatus nd)) (phase_of (curStatus nd)) (map phase_of ws)"
    by (auto simp: walked_def proj_append)
  from assms(5) have "curStatus nd' \<in> set ws"
    unfolding ws(1) [symmetric] set_proj by force
  with path_named [OF ws(2) assms(3)] deadline show ?thesis by (auto simp: status_sound_def idle_def)
qed

lemma stored_sound: "stored nd \<Longrightarrow> status_sound nd"
proof (induction rule: stored.induct)
  case (reconciled nd env ns name h new nd')
  then have "phase_of (curStatus nd) \<noteq> POther" by (simp add: status_sound_def)
  from written_sound [OF reconciled.hyps(2,3) this reconciled.hyps(4,5)] show ?case
    by (simp add: status_sound_def)
qed (simp_all add: status_sound_def)

section \<open>Recovery\<close>

text \<open>The calls of a reconciliation that does no work.\<close>

fun is_bookkeeping :: "action \<Rightarrow> bool" where
  "is_bookkeeping (GetCR _ _) = True"
| "is_bookkeeping TimeNow = True"
| "is_bookkeeping (Event _ _ _ _) = True"
| "is_bookkeeping (StatusUpdate _) = True"
| "is_bookkeeping _ = False"

lemma overdue_falls_back:
  assumes "client_GetCR (e_kube env) (GetCR ns name # h) = Inr nd"
    and "curStatus nd \<in> {NodeLaunching, NodeDeprecating}" "specStatus nd \<noteq> curStatus nd"
    and "deadlineOf nd = Some d" "d < e_now env (TimeNow # GetCR ns name # h)"
  shows "\<exists>h'. ended (Reconcile env ns name) h h' \<and> grows is_bookkeeping h h'
    \<and> status_writes h' = status_writes h @ [getBeforeStatus (curStatus nd)]"
proof -
  have late: "\<not> e_now env (TimeNow # GetCR ns name # h) \<le> d" using assms(5) by simp
  show ?thesis
    unfolding ended_def Reconcile_in_progress [OF assms(1-4)] Let_def if_not_P [OF late]
    by (auto split: sum.split option.split intro!: grows_step)
qed

section \<open>Repeated reconciliations\<close>

text \<open>The API server holds one NodeDeploy and serves it; its status is the last one written.\<close>

definition serving :: "nodeDeploy \<Rightarrow> env \<Rightarrow> env" where
  "serving nd env = env\<lparr>e_kube := (e_kube env)\<lparr>client_GetCR := \<lambda>_. Inr nd\<rparr>\<rparr>"

fun last_status :: "nodeDeployStatus \<Rightarrow> hist \<Rightarrow> nodeDeployStatus" where
  "last_status s [] = s"
| "last_status s (StatusUpdate nd # h) = nd_Status nd"
| "last_status s (_ # h) = last_status s h"

text \<open>The object after one reconciliation that returns, and after \<open>n\<close> of them.\<close>

definition after :: "env \<Rightarrow> nodeDeploy \<Rightarrow> nodeDeploy option" where
  "after env nd = (case Reconcile (serving nd env) (nd_Namespace nd) (nd_Name nd) [] of
      Some (Ret _ h) \<Rightarrow> Some (nd\<lparr>nd_Status := last_status (nd_Status nd) h\<rparr>)
    | _ \<Rightarrow> None)"

fun after_n :: "env \<Rightarrow> nat \<Rightarrow> nodeDeploy \<Rightarrow> nodeDeploy option" where
  "after_n env 0 nd = Some nd"
| "after_n env (Suc n) nd = (case after env nd of None \<Rightarrow> None | Some nd' \<Rightarrow> after_n env n nd')"

lemma serving_simps [simp]:
  "e_now (serving nd env) = e_now env" "e_ssh (serving nd env) = e_ssh env" "e_tok (serving nd env) = e_tok env"
  "client_GetCR (e_kube (serving nd env)) h = Inr nd"
  "retry_Do (e_kube (serving nd env)) = retry_Do (e_kube env)"
  "retry_OnConflict (e_kube (serving nd env)) = retry_OnConflict (e_kube env)"
  "client_StatusUpdate (e_kube (serving nd env)) = client_StatusUpdate (e_kube env)"
  by (simp_all add: serving_def)

text \<open>What work needs does not depend on the stored object.\<close>

lemma serving_ready [simp]:
  "launch_ready (serving nd' env) info nd \<longleftrightarrow> launch_ready env info nd"
  "removal_ready (serving nd' env) info nd \<longleftrightarrow> removal_ready env info nd"
  "preflight_reason (e_kube (serving nd' env)) nd info = preflight_reason (e_kube env) nd info"
  by (simp_all add: serving_def launch_ready_def removal_ready_def preflight_reason_def kube_documented_def
      stores_status_def node_ready_def node_removable_def nodeIsReady_iff Let_def split: option.split sum.split)

text \<open>The statuses after \<open>n\<close> reconciliations of a node that is to be brought in or taken out.\<close>

lemma last_status_writes:
  "status_writes h \<noteq> [] \<Longrightarrow> st_NodeStatus (last_status s h) = last (status_writes h)"
  "status_writes h = [] \<Longrightarrow> last_status s h = s"
  by (induction s h rule: last_status.induct) auto

lemma after_writes:
  assumes "Reconcile (serving nd env) (nd_Namespace nd) (nd_Name nd) [] = Some (Ret r h)" "status_writes h = ws @ [t]"
  shows "\<exists>nd'. after env nd = Some nd' \<and> curStatus nd' = t \<and> nd_Spec nd' = nd_Spec nd
    \<and> nd_Name nd' = nd_Name nd \<and> nd_Namespace nd' = nd_Namespace nd"
  using assms by (simp add: after_def last_status_writes(1))

lemma after_settled:
  assumes "curStatus nd \<noteq> NodeUnknown" "specStatus nd = curStatus nd"
  shows "after env nd = Some nd"
  using assms by (simp add: after_def Reconcile_found ret_def)

lemma after_new:
  assumes "curStatus nd = NodeUnknown" "stores_status (e_kube env)"
  shows "\<exists>nd'. after env nd = Some nd' \<and> curStatus nd' = NodeInit \<and> nd_Spec nd' = nd_Spec nd
    \<and> nd_Name nd' = nd_Name nd \<and> nd_Namespace nd' = nd_Namespace nd"
proof -
  let ?h = "StatusUpdate (setStatus NodeInit nd) # Event (crRef nd) EventTypeNormal EventChangeStatus ''init status''
    # [GetCR (nd_Namespace nd) (nd_Name nd)]"
  from assms(2) obtain nd' where "client_StatusUpdate (e_kube env) ?h = Inr nd'" unfolding stores_status_def by blast
  with assms(1) have "Reconcile (serving nd env) (nd_Namespace nd) (nd_Name nd) [] = Some (Ret (no_result, None) ?h)"
    by (simp add: Reconcile_found crEvent_def status_update_def thenM_tell bindM_assoc bindM_ask) (simp add: ret_def)
  from after_writes [OF this, of "[]" NodeInit] show ?thesis by simp
qed

lemma after_overdue:
  assumes "curStatus nd \<in> {NodeLaunching, NodeDeprecating}" "specStatus nd \<noteq> curStatus nd"
    and "deadlineOf nd = Some d" "\<And>h. d < e_now env h" "stores_status (e_kube env)"
  shows "\<exists>nd'. after env nd = Some nd' \<and> curStatus nd' = getBeforeStatus (curStatus nd) \<and> nd_Spec nd' = nd_Spec nd
    \<and> nd_Name nd' = nd_Name nd \<and> nd_Namespace nd' = nd_Namespace nd"
proof -
  let ?s = "getBeforeStatus (curStatus nd)"
  let ?h = "StatusUpdate (setStatus ?s nd) # Event (crRef nd) EventTypeWarning EventChangeStatus
      (''exec timeout, fallback: '' @ statusChange (curStatus nd) ?s) # TimeNow # [GetCR (nd_Namespace nd) (nd_Name nd)]"
  have late: "\<not> e_now env h \<le> d" for h using assms(4) [of h] by simp
  from assms(5) obtain nd' where nd': "client_StatusUpdate (e_kube env) ?h = Inr nd'" "nd_Status nd' = nd_Status (setStatus ?s nd)"
    unfolding stores_status_def by blast
  then have "deadlineOf nd' = Some d" using assms(3) by simp
  with nd'(1) late have "\<exists>r. Reconcile (serving nd env) (nd_Namespace nd) (nd_Name nd) [] = Some (Ret r (TimeNow # ?h))"
    by (simp add: Reconcile_in_progress [OF _ assms(1-3)] Let_def)
  then obtain r where "Reconcile (serving nd env) (nd_Namespace nd) (nd_Name nd) [] = Some (Ret r (TimeNow # ?h))" by blast
  from after_writes [OF this, of "[]" ?s] show ?thesis by simp
qed

lemma after_launch:
  assumes "wants_work nd" "specStatus nd = NodeActive"
    and "preflight_reason (e_kube env) nd (node_info_of nd) = None" "launch_ready env (node_info_of nd) nd"
  shows "\<exists>nd'. after env nd = Some nd' \<and> curStatus nd' = NodeActive \<and> nd_Spec nd' = nd_Spec nd"
proof -
  from healthy_launch [of "serving nd env" "nd_Namespace nd" "nd_Name nd" "[]" nd] assms obtain h where
    "Reconcile (serving nd env) (nd_Namespace nd) (nd_Name nd) [] = Some (Ret (no_result, None) h)"
    "status_writes h = [NodeLaunching] @ [NodeActive]" by auto
  from after_writes [OF this] show ?thesis by blast
qed

lemma after_removal:
  assumes "wants_work nd" "specStatus nd = NodeInactive" "curStatus nd \<noteq> NodeInit"
    and "preflight_reason (e_kube env) nd (node_info_of nd) = None" "removal_ready env (node_info_of nd) nd"
  shows "\<exists>nd'. after env nd = Some nd' \<and> curStatus nd' = NodeInactive \<and> nd_Spec nd' = nd_Spec nd"
proof -
  from healthy_removal [of "serving nd env" "nd_Namespace nd" "nd_Name nd" "[]" nd] assms obtain h where
    "Reconcile (serving nd env) (nd_Namespace nd) (nd_Name nd) [] = Some (Ret (no_result, None) h)"
    "status_writes h = [NodeDeprecating] @ [NodeInactive]" by auto
  from after_writes [OF this] show ?thesis by blast
qed

text \<open>The work depends on the spec alone.\<close>

lemma same_spec:
  assumes "nd_Spec nd' = nd_Spec nd"
  shows "node_info_of nd' = node_info_of nd" "launch_ready env info nd' \<longleftrightarrow> launch_ready env info nd"
    "removal_ready env info nd' \<longleftrightarrow> removal_ready env info nd"
    "preflight_reason lib nd' info = None \<longleftrightarrow> preflight_reason lib nd info = None"
  using assms
  by (simp_all add: node_info_of_def launch_ready_def removal_ready_def preflight_reason_def Let_def split: option.split sum.split)

text \<open>An object in which work that is under way is overdue, for every clock reading.\<close>

definition overdue :: "env \<Rightarrow> nodeDeploy \<Rightarrow> bool" where
  "overdue env nd \<longleftrightarrow> (\<forall>d h. deadlineOf nd = Some d \<longrightarrow> d < e_now env h)"

lemma stored_overdue:
  assumes "stored nd" "overdue env nd" "curStatus nd \<in> {NodeLaunching, NodeDeprecating}" "specStatus nd \<noteq> curStatus nd"
    and "stores_status (e_kube env)"
  shows "\<exists>nd'. after env nd = Some nd' \<and> curStatus nd' = getBeforeStatus (curStatus nd) \<and> nd_Spec nd' = nd_Spec nd"
proof -
  from stored_sound [OF assms(1)] assms(3) obtain d where "deadlineOf nd = Some d" by (auto simp: status_sound_def)
  with after_overdue [OF assms(3,4) this _ assms(5)] assms(2) show ?thesis by (auto simp: overdue_def)
qed

lemma status_cases:
  assumes "status_sound nd"
  obtains "curStatus nd = NodeUnknown" | "curStatus nd = NodeInit" | "curStatus nd = NodeInactive"
    | "curStatus nd = NodeActive" | "curStatus nd = NodeLaunching" | "curStatus nd = NodeLaunchFail"
    | "curStatus nd = NodeDeprecating" | "curStatus nd = NodeDeprecateFail"
  using assms by (auto simp: status_sound_def phase_of_def split: if_splits)

lemma after_n_step:
  "after env nd = Some nd' \<Longrightarrow> after_n env n nd' = Some nd'' \<Longrightarrow> after_n env (Suc n) nd = Some nd''"
  by simp

lemma converge_active:
  assumes "stored nd" "specStatus nd = NodeActive" "curStatus nd \<noteq> NodeLaunchFail"
    and "preflight_reason (e_kube env) nd (node_info_of nd) = None" "launch_ready env (node_info_of nd) nd" "overdue env nd"
  shows "\<exists>n \<le> 2. \<exists>nd'. after_n env n nd = Some nd' \<and> curStatus nd' = NodeActive \<and> nd_Spec nd' = nd_Spec nd"
proof -
  have store: "stores_status (e_kube env)" using assms(5) by (simp add: launch_ready_def)
  have launch: "\<exists>nd2. after_n env 1 nd1 = Some nd2 \<and> curStatus nd2 = NodeActive \<and> nd_Spec nd2 = nd_Spec nd"
    if "wants_work nd1" "nd_Spec nd1 = nd_Spec nd" for nd1
    using after_launch [of nd1 env] that assms(2,4,5) same_spec [OF that(2)] by auto
  have first: "\<exists>n \<le> 2. \<exists>nd'. after_n env n nd = Some nd' \<and> curStatus nd' = NodeActive \<and> nd_Spec nd' = nd_Spec nd"
    if "after env nd = Some nd1" "wants_work nd1 \<or> curStatus nd1 = NodeActive" "nd_Spec nd1 = nd_Spec nd" for nd1
    using that(2)
  proof
    assume "wants_work nd1"
    with launch [OF this that(3)] that(1) show ?thesis by (intro exI [of _ 2]) (simp add: numeral_2_eq_2)
  next
    assume "curStatus nd1 = NodeActive"
    with that(1,3) show ?thesis by (intro exI [of _ 1]) simp
  qed
  from stored_sound [OF assms(1)] show ?thesis
  proof (cases rule: status_cases)
    case 1
    with after_new [OF 1 store] assms(2) show ?thesis by (auto intro!: first simp: wants_work_def)
  next
    case 4
    then show ?thesis by (intro exI [of _ 0]) simp
  next
    case 5
    with stored_overdue [OF assms(1,6) _ _ store] assms(2) show ?thesis by (auto intro!: first simp: wants_work_def)
  next
    case 7
    with stored_overdue [OF assms(1,6) _ _ store] assms(2) show ?thesis by (auto intro!: first)
  qed (use assms(2,3) launch [of nd] in \<open>auto simp: wants_work_def intro!: exI [of _ 1]\<close>)
qed

lemma converge_inactive:
  assumes "stored nd" "specStatus nd = NodeInactive" "curStatus nd \<notin> {NodeUnknown, NodeInit, NodeDeprecateFail}"
    and "preflight_reason (e_kube env) nd (node_info_of nd) = None" "removal_ready env (node_info_of nd) nd" "overdue env nd"
  shows "\<exists>n \<le> 2. \<exists>nd'. after_n env n nd = Some nd' \<and> curStatus nd' = NodeInactive \<and> nd_Spec nd' = nd_Spec nd"
proof -
  have store: "stores_status (e_kube env)" using assms(5) by (simp add: removal_ready_def)
  have remove: "\<exists>nd2. after_n env 1 nd1 = Some nd2 \<and> curStatus nd2 = NodeInactive \<and> nd_Spec nd2 = nd_Spec nd"
    if "wants_work nd1" "curStatus nd1 \<noteq> NodeInit" "nd_Spec nd1 = nd_Spec nd" for nd1
    using after_removal [of nd1 env] that assms(2,4,5) same_spec [OF that(3)] by auto
  from stored_sound [OF assms(1)] show ?thesis
  proof (cases rule: status_cases)
    case 3
    then show ?thesis by (intro exI [of _ 0]) simp
  next
    case 5
    with stored_overdue [OF assms(1,6) _ _ store] assms(2) show ?thesis by (auto intro!: exI [of _ 1])
  next
    case 7
    with stored_overdue [OF assms(1,6) _ _ store] assms(2) obtain nd1 where
      nd1: "after env nd = Some nd1" "curStatus nd1 = NodeActive" "nd_Spec nd1 = nd_Spec nd" by auto
    moreover from nd1 assms(2) have "wants_work nd1" by (simp add: wants_work_def)
    with remove [OF this _ nd1(3)] nd1 show ?thesis by (intro exI [of _ 2]) (simp add: numeral_2_eq_2)
  qed (use assms(2,3) remove [of nd] in \<open>auto simp: wants_work_def intro!: exI [of _ 1]\<close>)
qed

text \<open>What a reconciliation stores is a stored object again.\<close>

lemma last_status_written: "last_status s h = s \<or> (\<exists>nd. StatusUpdate nd \<in> set h \<and> last_status s h = nd_Status nd)"
  by (induction s h rule: last_status.induct) auto

lemma after_stored:
  assumes "stored nd" "kube_documented (e_kube env)" "after env nd = Some nd'"
  shows "stored nd'"
proof -
  from assms(3) obtain r h where run: "Reconcile (serving nd env) (nd_Namespace nd) (nd_Name nd) [] = Some (Ret r h)"
    and nd': "nd' = nd\<lparr>nd_Status := last_status (nd_Status nd) h\<rparr>"
    by (auto simp: after_def split: option.splits outcome.splits)
  from last_status_written [of "nd_Status nd" h] show ?thesis
  proof
    assume "last_status (nd_Status nd) h = nd_Status nd"
    with nd' assms(1) show ?thesis by simp
  next
    assume "\<exists>nd1. StatusUpdate nd1 \<in> set h \<and> last_status (nd_Status nd) h = nd_Status nd1"
    then obtain nd1 where "StatusUpdate nd1 \<in> set h" "last_status (nd_Status nd) h = nd_Status nd1" by blast
    moreover have "kube_documented (e_kube (serving nd env))" using assms(2) by (simp add: kube_documented_def serving_def)
    ultimately show ?thesis
      using stored.reconciled [OF assms(1), of "serving nd env" "nd_Namespace nd" "nd_Name nd" "[]" h nd1] run nd'
      by (auto simp: ended_def)
  qed
qed

lemma after_n_stored:
  "stored nd \<Longrightarrow> kube_documented (e_kube env) \<Longrightarrow> after_n env n nd = Some nd' \<Longrightarrow> stored nd'"
  by (induction n arbitrary: nd) (auto intro: after_stored split: option.splits)

section \<open>Properties\<close>

text \<open>C6: Whatever the users edit, the host and the cluster answer and however often the controller is
  killed, the status of a stored NodeDeploy is one of the eight of the API, and work in progress has
  a deadline.\<close>

theorem stored_statuses_sound:
  assumes "stored nd"
  shows "curStatus nd \<in> {NodeUnknown, NodeInit, NodeInactive, NodeActive, NodeLaunching, NodeLaunchFail,
      NodeDeprecating, NodeDeprecateFail}
    \<and> (curStatus nd \<in> {NodeLaunching, NodeDeprecating} \<longrightarrow> deadlineOf nd \<noteq> None)"
proof -
  note sound = stored_sound [OF assms]
  then have deadline: "curStatus nd \<in> {NodeLaunching, NodeDeprecating} \<longrightarrow> deadlineOf nd \<noteq> None"
    by (simp add: status_sound_def)
  from sound show ?thesis by (cases rule: status_cases) (use deadline in simp_all)
qed

definition ex_new :: nodeDeploy where
  "ex_new = setStatus NodeUnknown ex_deploy"

lemma stored_ex_new: "stored ex_new"
  by (rule stored.created) (simp_all add: ex_new_def ex_deploy_def setStatus_def)

lemma ex_new_work:
  "specStatus ex_new = NodeActive" "curStatus ex_new = NodeUnknown" "overdue ex_env ex_new"
  "preflight_reason ex_kube ex_new (node_info_of ex_new) = None" "launch_ready ex_env (node_info_of ex_new) ex_new"
proof -
  have spec: "nd_Spec ex_new = nd_Spec ex_deploy" by (simp add: ex_new_def)
  from same_spec [OF spec] preflight_ex launch_ready_ex
  show "preflight_reason ex_kube ex_new (node_info_of ex_new) = None" "launch_ready ex_env (node_info_of ex_new) ex_new"
    by simp_all
qed (simp_all add: ex_new_def overdue_def ex_deploy_def setStatus_def)

lemma ex_new_active:
  "\<exists>n nd. after_n ex_env n ex_new = Some nd \<and> stored nd \<and> curStatus nd = NodeActive \<and> nd_Spec nd = ex_spec"
proof -
  have doc: "kube_documented (e_kube ex_env)" by (simp add: kube_documented_ex)
  have spec: "nd_Spec ex_new = ex_spec" by (simp add: ex_new_def)
  from converge_active [OF stored_ex_new ex_new_work(1) _ _ ex_new_work(5,3)] ex_new_work obtain n nd where
    "after_n ex_env n ex_new = Some nd" "curStatus nd = NodeActive" "nd_Spec nd = nd_Spec ex_new" by auto
  with after_n_stored [OF stored_ex_new doc this(1)] spec show ?thesis by auto
qed

theorem stored_statuses_sound_witness:
  "\<exists>n nd. after_n ex_env n ex_new = Some nd \<and> curStatus nd = NodeActive
    \<and> (curStatus nd \<in> {NodeLaunching, NodeDeprecating} \<longrightarrow> deadlineOf nd \<noteq> None)"
proof -
  from ex_new_active obtain n nd where "after_n ex_env n ex_new = Some nd" "stored nd" "curStatus nd = NodeActive" by blast
  with stored_statuses_sound [OF this(2)] show ?thesis by blast
qed

text \<open>C7: Work that was interrupted does not stay interrupted: a stored NodeDeploy in \<^verbatim>\<open>launching\<close> or
  \<^verbatim>\<open>deprecating\<close>, whose specification does not ask for this very status, has a deadline, and any
  reconciliation after it writes one status, without touching the host or a node: always \<^verbatim>\<open>inactive\<close>
  after \<^verbatim>\<open>launching\<close> and \<^verbatim>\<open>active\<close> after \<^verbatim>\<open>deprecating\<close>. This is not always the status from before the
  work, which is not recorded: a launch may have started from \<^verbatim>\<open>init\<close>, a removal from \<^verbatim>\<open>launchFail\<close>.\<close>

theorem interrupted_work_recovers:
  assumes "stored nd" "curStatus nd \<in> {NodeLaunching, NodeDeprecating}" "specStatus nd \<noteq> curStatus nd"
  shows "\<exists>d. deadlineOf nd = Some d \<and> (\<forall>env ns name h. client_GetCR (e_kube env) (GetCR ns name # h) = Inr nd
        \<and> d < e_now env (TimeNow # GetCR ns name # h) \<longrightarrow>
      (\<exists>h'. ended (Reconcile env ns name) h h' \<and> grows is_bookkeeping h h'
        \<and> status_writes h' = status_writes h @ [if curStatus nd = NodeLaunching then NodeInactive else NodeActive]))"
proof -
  from stored_sound [OF assms(1)] assms(2) obtain d where d: "deadlineOf nd = Some d" by (auto simp: status_sound_def)
  have before: "getBeforeStatus (curStatus nd) = (if curStatus nd = NodeLaunching then NodeInactive else NodeActive)"
    using assms(2) by auto
  show ?thesis
    using overdue_falls_back [OF _ assms(2,3) d] d unfolding before by blast
qed

text \<open>The example object, killed right after its launch began.\<close>

lemma ex_launching: "\<exists>nd. stored nd \<and> curStatus nd = NodeLaunching \<and> nd_Spec nd = ex_spec"
proof -
  have doc: "kube_documented (e_kube ex_env)" by (simp add: kube_documented_ex)
  from after_new [of ex_new ex_env] ex_kube_healthy ex_new_work obtain nd0 where
    nd0: "after ex_env ex_new = Some nd0" "curStatus nd0 = NodeInit" "nd_Spec nd0 = nd_Spec ex_deploy"
    by (auto simp: ex_new_def)
  from after_stored [OF stored_ex_new doc nd0(1)] have "stored nd0" .
  let ?env = "serving nd0 ex_env"
  have "launch_ready ex_env (node_info_of nd0) nd0" "preflight_reason ex_kube nd0 (node_info_of nd0) = None" "wants_work nd0"
    using same_spec [OF nd0(3)] launch_ready_ex preflight_ex nd0 by (simp_all add: wants_work_def)
  then obtain h where run: "Reconcile ?env ''ns'' ''d1'' [] = Some (Ret (no_result, None) h)"
    and "status_writes h = [NodeLaunching, NodeActive]"
    using healthy_launch [of ?env "''ns''" "''d1''" "[]" nd0] nd0 by auto
  then have "NodeLaunching \<in> set (status_writes h)" by simp
  then obtain nd1 where nd1: "StatusUpdate nd1 \<in> set h" "curStatus nd1 = NodeLaunching"
    unfolding set_proj by (auto elim!: status_write.elims)
  have "kube_documented (e_kube ?env)" using doc by (simp add: kube_documented_def)
  from stored.reconciled [OF \<open>stored nd0\<close> this, of "''ns''" "''d1''" "[]" h nd1] run nd1 nd0(3) show ?thesis
    by (intro exI [of _ "nd0\<lparr>nd_Status := nd_Status nd1\<rparr>"]) (auto simp: ended_def)
qed

theorem interrupted_work_recovers_witness:
  "\<exists>nd h'. stored nd \<and> curStatus nd = NodeLaunching
    \<and> ended (Reconcile (serving nd (ex_env\<lparr>e_now := \<lambda>_. the (deadlineOf nd) + 1\<rparr>)) ''ns'' ''d1'') [] h'
    \<and> status_writes h' = [NodeInactive]"
proof -
  from ex_launching obtain nd where nd: "stored nd" "curStatus nd = NodeLaunching" "nd_Spec nd = ex_spec" by blast
  let ?env = "serving nd (ex_env\<lparr>e_now := \<lambda>_. the (deadlineOf nd) + 1\<rparr>)" and ?h = "GetCR ''ns'' ''d1'' # []"
  from interrupted_work_recovers [OF nd(1)] nd(2,3) obtain d where d: "deadlineOf nd = Some d"
    and rec: "\<forall>env ns name h. client_GetCR (e_kube env) (GetCR ns name # h) = Inr nd
        \<and> d < e_now env (TimeNow # GetCR ns name # h) \<longrightarrow>
      (\<exists>h'. ended (Reconcile env ns name) h h' \<and> grows is_bookkeeping h h' \<and> status_writes h' = status_writes h @ [NodeInactive])"
    by auto
  have "client_GetCR (e_kube ?env) ?h = Inr nd \<and> d < e_now ?env (TimeNow # ?h)" using d by simp
  with rec obtain h' where "ended (Reconcile ?env ''ns'' ''d1'') [] h'" "status_writes h' = status_writes [] @ [NodeInactive]"
    by blast
  with nd show ?thesis by auto
qed

text \<open>C4: Reconciling converges: a stored NodeDeploy that is desired active, and has not failed for good,
  is active after at most two reconciliations when its parameters are valid, its host is healthy,
  the cluster answers, and the clock has passed the deadline of any interrupted work; from then on
  reconciling changes nothing.\<close>

theorem converges_to_active:
  assumes "stored nd" "specStatus nd = NodeActive" "curStatus nd \<noteq> NodeLaunchFail"
    and "preflight_reason (e_kube env) nd (node_info_of nd) = None" "launch_ready env (node_info_of nd) nd" "overdue env nd"
  shows "\<exists>n \<le> 2. \<exists>nd'. after_n env n nd = Some nd' \<and> curStatus nd' = NodeActive \<and> after env nd' = Some nd'"
  using converge_active [OF assms] assms(2) after_settled by fastforce

theorem converges_to_active_witness:
  "\<exists>n nd'. after_n ex_env n ex_new = Some nd' \<and> curStatus nd' = NodeActive \<and> n \<le> 2"
  using converges_to_active [OF stored_ex_new ex_new_work(1) _ _ ex_new_work(5,3)] ex_new_work by auto

text \<open>C5: The same holds for a NodeDeploy that is desired inactive, except that one that was never brought in
  stays as it is: from every other stored status that is not a failure for good, at most two
  reconciliations take the node out.\<close>

theorem converges_to_inactive:
  assumes "stored nd" "specStatus nd = NodeInactive" "curStatus nd \<notin> {NodeUnknown, NodeInit, NodeDeprecateFail}"
    and "preflight_reason (e_kube env) nd (node_info_of nd) = None" "removal_ready env (node_info_of nd) nd" "overdue env nd"
  shows "\<exists>n \<le> 2. \<exists>nd'. after_n env n nd = Some nd' \<and> curStatus nd' = NodeInactive \<and> after env nd' = Some nd'"
  using converge_inactive [OF assms] assms(2) after_settled by fastforce

theorem converges_to_inactive_witness:
  "\<exists>nd n nd'. stored nd \<and> curStatus nd = NodeActive \<and> after_n (ex_env\<lparr>e_now := \<lambda>_. the (deadlineOf nd) + 1\<rparr>) n nd = Some nd'
    \<and> curStatus nd' = NodeInactive"
proof -
  from ex_new_active obtain nd1 where nd1: "stored nd1" "curStatus nd1 = NodeActive" "nd_Spec nd1 = ex_spec" by blast
  let ?nd = "nd1\<lparr>nd_Spec := nd_Spec ex_retire\<rparr>" and ?env = "ex_env\<lparr>e_now := \<lambda>_. the (deadlineOf nd1) + 1\<rparr>"
  have spec: "nd_Spec ?nd = nd_Spec ex_retire" by simp
  have st: "stored ?nd" by (rule stored.edited [OF nd1(1)])
  have late: "overdue ?env ?nd" by (simp add: overdue_def)
  have pre: "preflight_reason (e_kube ?env) ?nd (node_info_of ?nd) = None"
    using preflight_retire same_spec(1,4) [OF spec] by (simp add: preflight_reason_def Let_def split: if_splits)
  have ready: "removal_ready ?env (node_info_of ?nd) ?nd"
    by (simp add: removal_ready_def kube_documented_ex ex_kube_healthy healthy_ex_ssh node_info_of_def Let_def ex_retire_def)
  from converges_to_inactive [OF st _ _ pre ready late] nd1(2) st show ?thesis
    by (intro exI [of _ ?nd]) auto
qed

end
