(* ===== verification/Termination.thy ===== *)
theory Termination
  imports Convergence
begin

text \<open>
  When a reconciliation ends: everything the reconciler calls ends, whatever is answered, except
  for the watch of a node and the two retry loops. So a limit on the retries and a timer that fires
  are enough for the whole.
\<close>

named_theorems halts_rules \<open>effectful code that ends from every history\<close>

definition halts :: "('e, 'a) io \<Rightarrow> bool" where
  "halts m \<longleftrightarrow> (\<forall>h. m h \<noteq> None)"

lemma haltsD: "halts m \<Longrightarrow> \<exists>out. m h = Some out"
  by (auto simp: halts_def)

lemma halts_basic [halts_rules]: "halts (ret x)" "halts (crash msg)" "halts (ask e f)" "halts (tell e)"
  by (simp_all add: halts_def io_defs)

lemma halts_bindM [halts_rules]: "halts m \<Longrightarrow> (\<And>x. halts (k x)) \<Longrightarrow> halts (bindM m k)"
  by (fastforce simp: halts_def bindM_def split: option.splits outcome.splits)

lemma halts_thenM [halts_rules]: "halts m \<Longrightarrow> halts n \<Longrightarrow> halts (thenM m n)"
  by (simp add: thenM_def halts_bindM)

lemma halts_wrapped [halts_rules]: "halts m \<Longrightarrow> halts (deferM e m)" "halts m \<Longrightarrow> halts (recoverM z m)"
  by (fastforce simp: halts_def io_defs split: option.splits outcome.splits)+

lemma halts_if [halts_rules]: "(b \<Longrightarrow> halts m) \<Longrightarrow> (\<not> b \<Longrightarrow> halts n) \<Longrightarrow> halts (if b then m else n)"
  by simp

lemma halts_option [halts_rules]:
  "(x = None \<Longrightarrow> halts m) \<Longrightarrow> (\<And>y. x = Some y \<Longrightarrow> halts (k y)) \<Longrightarrow> halts (case x of None \<Rightarrow> m | Some y \<Rightarrow> k y)"
  by (cases x) simp_all

lemma halts_sum [halts_rules]:
  "(\<And>e. x = Inl e \<Longrightarrow> halts (m e)) \<Longrightarrow> (\<And>y. x = Inr y \<Longrightarrow> halts (k y)) \<Longrightarrow> halts (case x of Inl e \<Rightarrow> m e | Inr y \<Rightarrow> k y)"
  by (cases x) simp_all

lemma halts_prod [halts_rules]: "(\<And>a b. x = (a, b) \<Longrightarrow> halts (k a b)) \<Longrightarrow> halts (case x of (a, b) \<Rightarrow> k a b)"
  by (cases x) simp

lemma halts_list [halts_rules]:
  "(v = [] \<Longrightarrow> halts m) \<Longrightarrow> (\<And>x xs. v = x # xs \<Longrightarrow> halts (k x xs)) \<Longrightarrow> halts (case v of [] \<Rightarrow> m | x # xs \<Rightarrow> k x xs)"
  by (cases v) simp_all

lemma halts_answers [halts_rules]:
  "(\<And>out eo e. halts (m out eo e)) \<Longrightarrow> (\<And>e. halts (k e)) \<Longrightarrow>
    halts (case r of RunDone out eo e \<Rightarrow> m out eo e | RunCancelled e \<Rightarrow> k e)"
  "(\<And>e. halts (m' e)) \<Longrightarrow> (\<And>e. halts (k e)) \<Longrightarrow> halts (case c of CopyDone e \<Rightarrow> m' e | CopyCancelled e \<Rightarrow> k e)"
  by (cases r; simp) (cases c; simp)

section \<open>The host and the join information\<close>

lemma Exec_halts [halts_rules]: "halts (Exec lib c cmd)"
  unfolding Exec_def by (intro halts_rules)

lemma script_step_halts [halts_rules]: "halts (script_step (Exec lib) c cmd wrap)"
  unfolding script_step_def by (intro halts_rules)

lemma Upload_halts [halts_rules]: "halts (Upload lib c src dest)"
  unfolding Upload_def Let_def by (intro halts_rules)

lemma NewClient_halts [halts_rules]: "halts (NewClient lib host port user pw)"
  unfolding NewClient_def Let_def by (intro halts_rules)

lemma GetToken_halts [halts_rules]: "halts (GetToken env)"
  unfolding GetToken_def BootstrapTokenToSecret_def CreateOrUpdateSecret_def Let_def by (intro halts_rules)

lemma join_info_halts [halts_rules]: "halts (GetWorkJoinInfo env)" "halts (GetKubeEdgeJoinInfo env)"
  unfolding GetWorkJoinInfo_def GetKubeEdgeJoinInfo_def pins_and_token_def Let_def by (intro halts_rules)+

section \<open>The node manager\<close>

lemma logMessage_halts [halts_rules]: "halts (logMessage n phase message p)"
  unfolding logMessage_def by (intro halts_rules)

lemma launch_step_halts [halts_rules]:
  "halts run \<Longrightarrow> (\<And>x p. halts (next x p)) \<Longrightarrow> halts (launch_step n p phase message run failPhase failMessage next)"
  unfolding launch_step_def by (intro halts_rules)

lemma checked_halts [halts_rules]: "halts m \<Longrightarrow> halts (checked m)"
  unfolding checked_def by (intro halts_rules)

lemmas ops_defs = WorkNode_ops_def KubEdgeNode_ops_def nodeJoin.simps
  WorkNode_CheckArch_def WorkNode_PrepareSetupPkg_def WorkNode_StopFirewalld_def WorkNode_InstallDocker_def
  WorkNode_SetDockerConf_def WorkNode_SetHostName_def WorkNode_LoadImage_def WorkNode_SetNodeComponents_def WorkNode_Join_def
  KubEdgeNode_CheckArch_def KubEdgeNode_PrepareSetupPkg_def KubEdgeNode_StopFirewalld_def KubEdgeNode_InstallDocker_def
  KubEdgeNode_SetDockerConf_def KubEdgeNode_SetHostName_def KubEdgeNode_LoadImage_def KubEdgeNode_SetNodeComponents_def
  KubEdgeNode_Join_def

lemma launch_steps_halts:
  assumes "ops = WorkNode_ops env \<or> ops = KubEdgeNode_ops env"
  shows "halts (launch_steps n ops c)"
  using assms unfolding launch_steps_def Let_def
  by (elim disjE; simp only: ops_defs Let_def; intro halts_rules)

lemma LaunchByCmd_halts [halts_rules]: "halts (LaunchByCmd env n)"
  unfolding LaunchByCmd_def Let_def
  by (intro halts_rules) (auto dest!: select_join_cases intro: launch_steps_halts)

lemma Deprecate_halts [halts_rules]: "halts (Deprecate env n)"
  unfolding Deprecate_def Let_def WorkNode_DisJoin_def KubEdgeNode_DisJoin_def select_disjoin_def
  by (intro halts_rules) (auto split: if_splits intro!: halts_rules)

section \<open>The reconciler\<close>

text \<open>From every history, some later \<^verbatim>\<open>select\<close> of a watch is answered by the timer or the end of the context.\<close>

definition timer_fires :: "kubeLib \<Rightarrow> bool" where
  "timer_fires lib \<longleftrightarrow> (\<forall>h. \<exists>k. watch_Select lib (replicate (Suc k) WatchSelect @ h) \<in> {CtxDone, TimerFired})"

lemma watch_loop_halts: "timer_fires lib \<Longrightarrow> halts (watch_loop lib name ready)"
  unfolding halts_def timer_fires_def using watch_loop_stops by (metis option.distinct(1))

lemma watchNode_halts: "timer_fires (e_kube env) \<Longrightarrow> halts (watchNode env timeout name ready)"
  unfolding watchNode_def start_watch_def Let_def by (intro halts_rules watch_loop_halts)

lemma conflict_halts: "conflict_documented Do \<Longrightarrow> (\<And>v. halts (f v)) \<Longrightarrow> halts (Do f v)"
  unfolding conflict_documented_def halts_def by blast

lemma retried_ends:
  assumes "\<And>v. halts (f v)"
  shows "0 < n \<Longrightarrow> \<exists>r. retried n f v h r"
proof (induction n arbitrary: v h)
  case (Suc n)
  from assms obtain out where out: "f v h = Some out" using haltsD by blast
  show ?case
  proof (cases out)
    case (Crash msg h')
    with out show ?thesis by (auto intro: retried.panic)
  next
    case (Ret r h')
    then obtain e v' where run: "f v h = Some (Ret (e, v') h')" using out by (cases r) auto
    show ?thesis
    proof (cases e)
      case None
      with run show ?thesis by (auto intro: retried.success)
    next
      case (Some err)
      with run have err: "f v h = Some (Ret (Some err, v') h')" by simp
      show ?thesis
      proof (cases "n = 0")
        case True
        then show ?thesis using retried.last [of f v h err v' h', OF err] by auto
      next
        case False
        with Suc.IH obtain r' where "retried n f v' h' r'" by blast
        with False retried.again [of f v h err v' h' "Suc n", OF err] show ?thesis by auto
      qed
    qed
  qed
qed simp

lemma retry_halts:
  assumes "retry_documented Do" "n \<noteq> 0" "\<And>v. halts (f v)"
  shows "halts (Do n f v)"
proof -
  from assms(2) have "0 < unat n" by (simp add: unat_gt_0)
  with retried_ends [of f, OF assms(3)] assms(1) show ?thesis unfolding halts_def retry_documented_def by blast
qed

lemma attempts_of_eq_0: "attempts_of m = 0 \<longleftrightarrow> m = 0"
proof
  assume "attempts_of m = 0"
  then have "(2::int) ^ LENGTH(64) dvd sint m" unfolding attempts_of_def word_of_int_eq_0_iff .
  then have dvd: "(18446744073709551616::int) dvd sint m" by simp
  have "- 2147483648 \<le> sint m" "sint m < 2147483648" using sint_ge [of m] sint_lt [of m] by simp_all
  then have "\<bar>sint m\<bar> < 18446744073709551616" by linarith
  with dvd_imp_le_int [OF _ dvd] have "sint m = 0" by fastforce
  then show "m = 0" by (simp add: signed_eq_0_iff)
qed (simp add: attempts_of_def)

lemma status_update_halts [halts_rules]: "halts (status_update env nd)"
  unfolding status_update_def by (intro halts_rules)

lemma status_steps_halt [halts_rules]:
  "halts (crEvent nd t reason msg)" "halts (prepare env nd status)" "halts (finalize env nd status)"
  "halts (preflight env nd info)" "halts (preflight_failed env nd)" "halts (check_deadline env nd)"
  unfolding crEvent_def prepare_def finalize_def preflight_def preflight_failed_def check_deadline_def Let_def
  by (intro halts_rules)+

lemma launchNode_halts:
  assumes "kube_documented (e_kube env)" "timer_fires (e_kube env)"
  shows "halts (launchNode env nd info)"
proof -
  have "halts (update_node_attempt env spec v)" for spec v
    unfolding update_node_attempt_def Let_def by (intro halts_rules)
  moreover have "conflict_documented (retry_OnConflict (e_kube env))" using assms(1) by (simp add: kube_documented_def)
  ultimately have "halts (retry_OnConflict (e_kube env) (update_node_attempt env (nd_Spec nd)) empty_node)"
    by (metis conflict_halts)
  then show ?thesis unfolding launchNode_def by (intro halts_rules watchNode_halts assms(2))
qed

lemma deprecateNode_halts: "halts (deprecateNode env nd info)"
  unfolding deprecateNode_def remove_node_def drainNode_def Let_def by (intro halts_rules)

lemma attempts_halt:
  assumes "kube_documented (e_kube env)" "timer_fires (e_kube env)"
  shows "halts (launch_attempt env info v)" "halts (deprecate_attempt env info v)"
  unfolding launch_attempt_def deprecate_attempt_def Let_def
  by (intro halts_rules launchNode_halts [OF assms] deprecateNode_halts)+

lemma drive_halts:
  assumes "kube_documented (e_kube env)" "timer_fires (e_kube env)" "attempts_of (spec_MaxRetry (nd_Spec nd)) \<noteq> 0"
  shows "halts (drive env nd info)"
proof -
  from assms(1) have doc: "retry_documented (retry_Do (e_kube env))" by (simp add: kube_documented_def)
  show ?thesis unfolding drive_def retry_and_finalize_def
    by (intro halts_rules retry_halts [OF doc assms(3)] attempts_halt [OF assms(1,2)])
qed

section \<open>Property\<close>

text \<open>C18: A limit on the retries is all a reconciliation needs to end: if the NodeDeploy it reads has a MaxRetry
  other than 0 and the timers of the node watches fire, it ends, by a return or a panic, whatever the
  host, the cluster and the user do, a negative MaxRetry included.\<close>

theorem limited_retry_ends:
  assumes "kube_documented (e_kube env)"
    and "\<And>h. \<exists>k. watch_Select (e_kube env) (replicate (Suc k) WatchSelect @ h) \<in> {CtxDone, TimerFired}"
    and "\<And>nd. client_GetCR (e_kube env) (GetCR ns name # h) = Inr nd \<Longrightarrow> spec_MaxRetry (nd_Spec nd) \<noteq> 0"
  shows "\<exists>out. Reconcile env ns name h = Some out"
proof -
  from assms(2) have timer: "timer_fires (e_kube env)" by (simp add: timer_fires_def)
  show ?thesis
  proof (cases "client_GetCR (e_kube env) (GetCR ns name # h)")
    case (Inl err)
    then show ?thesis by (simp add: Reconcile_def Let_def bindM_ask ret_def)
  next
    case (Inr nd)
    with assms(3) have limit: "attempts_of (spec_MaxRetry (nd_Spec nd)) \<noteq> 0" by (simp add: attempts_of_eq_0)
    show ?thesis
      unfolding Reconcile_def Let_def bindM_ask Inr sum.case
      by (rule haltsD) (intro halts_rules drive_halts [OF assms(1) timer limit])
  qed
qed

text \<open>A host that cannot be reached, and a limit on the attempts.\<close>

definition ex_limited :: env where
  "ex_limited = ex_env\<lparr>e_ssh := ex_ssh\<lparr>ssh_Dial := \<lambda>_. Some (ExtErr ''no route to host'')\<rparr>,
     e_kube := ex_kube\<lparr>watch_Select := \<lambda>_. TimerFired\<rparr>\<rparr>"

theorem limited_retry_ends_witness: "\<exists>out. Reconcile ex_limited ''ns'' ''d1'' [] = Some out"
proof (rule limited_retry_ends)
  show "\<exists>k. watch_Select (e_kube ex_limited) (replicate (Suc k) WatchSelect @ h) \<in> {CtxDone, TimerFired}" for h
    by (simp add: ex_limited_def)
  show "kube_documented (e_kube ex_limited)"
    using kube_documented_ex by (simp add: ex_limited_def kube_documented_def)
qed (simp_all add: ex_limited_def ex_deploy_def ex_spec_def)

end
