(* ===== verification/Startup.thy ===== *)
theory Startup
  imports World
begin

text \<open>
  The start of the controller: the registration of the API types (\<^verbatim>\<open>groupversion_info.go\<close> and the
  \<^verbatim>\<open>init\<close> of \<^verbatim>\<open>nodedeploy_types.go\<close>), \<^verbatim>\<open>main.go\<close> and \<^verbatim>\<open>SetupWithManager\<close>. The calls are those of the
  libraries, as actions of their own. What the libraries do by themselves is a parameter: \<^verbatim>\<open>Must\<close>
  may panic, and \<^verbatim>\<open>flag.Parse\<close> and \<^verbatim>\<open>GetConfigOrDie\<close> may end the process with a code of their own. Log
  lines, the options of the logger and the usage texts of the flags are left out.
\<close>

record flags =
  fl_metricsAddr :: string
  fl_probeAddr :: string
  fl_enableLeaderElection :: bool

text \<open>A declared flag: its name and its default.\<close>

datatype flagDecl = StringVar string string | BoolVar string bool

definition flag_decls :: "flagDecl list" where
  "flag_decls =
     [StringVar ''metrics-bind-address'' '':8080'', StringVar ''health-probe-bind-address'' '':8081'',
      BoolVar ''leader-elect'' False]"

record managerOptions =
  mo_MetricsBindAddress :: string
  mo_Port :: int
  mo_HealthProbeBindAddress :: string
  mo_LeaderElection :: bool
  mo_LeaderElectionID :: string

record groupVersion =
  gv_Group :: string
  gv_Version :: string

definition GroupVersion :: groupVersion where
  "GroupVersion = \<lparr>gv_Group = ''node.nodedeploy'', gv_Version = ''v1''\<rparr>"

text \<open>Whose types a scheme learns: those of client-go, or those registered with the builder of a group version.\<close>

datatype schemeBuilder = ClientGoScheme | SchemeBuilder groupVersion

datatype startAction =
    RegisterTypes schemeBuilder "string list"
  | AddToScheme schemeBuilder
  | ParseFlags "flagDecl list"
  | SetLogger
  | GetConfigOrDie
  | NewManager managerOptions
  | NewClientset
  | GetEventRecorderFor string
  | CompleteController string
  | AddHealthzCheck string
  | AddReadyzCheck string
  | SetupSignalHandler
  | StartManager
  | OsExit int







definition manager_options :: "flags \<Rightarrow> managerOptions" where
  "manager_options fl =
     \<lparr>mo_MetricsBindAddress = fl_metricsAddr fl, mo_Port = 9443, mo_HealthProbeBindAddress = fl_probeAddr fl,
      mo_LeaderElection = fl_enableLeaderElection fl, mo_LeaderElectionID = ''cc991a2d.nodedeploy''\<rparr>"




section \<open>Properties\<close>

text \<open>The calls of a start that works, in order, for the flags \<open>fl\<close>.\<close>

definition start_calls :: "flags \<Rightarrow> startAction list" where
  "start_calls fl =
     [RegisterTypes (SchemeBuilder GroupVersion) [''NodeDeploy'', ''NodeDeployList''],
      AddToScheme ClientGoScheme, AddToScheme (SchemeBuilder GroupVersion), ParseFlags flag_decls, SetLogger,
      GetConfigOrDie, NewManager (manager_options fl), NewClientset, GetEventRecorderFor ''NodeDeploy'',
      CompleteController ''NodeDeploy'', AddHealthzCheck ''healthz'', AddReadyzCheck ''readyz'',
      SetupSignalHandler, StartManager]"













lemma length_start_calls [simp]: "length (start_calls fl) = 14"
  by (simp add: start_calls_def)















end
