(* ===== verification/DeepCopy.thy ===== *)
theory DeepCopy
  imports Api Prelude
begin

text \<open>
  \<^verbatim>\<open>api/v1/zz_generated.deepcopy.go\<close>: the deep copies of the API types, on an explicit heap. The rest of
  the development works with the values of these objects; this theory has the pointers: maps,
  slices and times live in heap cells, and a struct holds their addresses. What is proved is that a
  copy has the same value, and that a later write to one of the two objects is not seen in the other.
\<close>

section \<open>Heap\<close>

type_synonym addr = nat

text \<open>A slice of the array at an address; \<open>None\<close> is the nil slice, as it is the nil map and the nil pointer.\<close>

record slice =
  sl_array :: addr
  sl_off :: nat
  sl_len :: nat

record ptaint =
  pt_Key :: string
  pt_Value :: string
  pt_Effect :: string
  pt_TimeAdded :: "addr option"

record pspec =
  ps_NodeName :: string
  ps_NodeIP :: string
  ps_NodeType :: nodeType
  ps_NodePort :: string
  ps_NodeUser :: string
  ps_NodePwd :: string
  ps_HarborEndpoint :: string
  ps_HarborUser :: string
  ps_HarborPwd :: string
  ps_Labels :: "addr option"
  ps_Annotations :: "addr option"
  ps_Taints :: "slice option"
  ps_NodeVersion :: string
  ps_IsEvicted :: bool
  ps_NodeStatus :: nodeStatus
  ps_MaxRetry :: "32 word"

record pstatus =
  pst_NodeStatus :: nodeStatus
  pst_Deadline :: "addr option"

text \<open>\<^verbatim>\<open>TypeMeta\<close> is two strings; \<^verbatim>\<open>ObjectMeta\<close> and \<^verbatim>\<open>ListMeta\<close> are types of the library, \<open>'m\<close> and \<open>'l\<close>.\<close>

record typeMeta =
  tm_Kind :: string
  tm_APIVersion :: string

record 'm pnodeDeploy =
  pn_TypeMeta :: typeMeta
  pn_ObjectMeta :: 'm
  pn_Spec :: pspec
  pn_Status :: pstatus

record 'l pnodeDeployList =
  pl_TypeMeta :: typeMeta
  pl_ListMeta :: 'l
  pl_Items :: "slice option"

datatype 'm cell =
    MapCell "(string \<times> string) list"
  | TimeCell instant
  | TaintArray "ptaint list"
  | NodeArray "'m pnodeDeploy list"

text \<open>The next free address, and what the cells hold.\<close>

record 'm heap =
  hp_next :: addr
  hp_cells :: "addr \<Rightarrow> 'm cell option"

text \<open>Code on the heap; \<open>None\<close> is an access that the types of the program rule out, or an index panic.\<close>

type_synonym ('m, 'a) mem = "'m heap \<Rightarrow> ('a \<times> 'm heap) option"

definition retH :: "'a \<Rightarrow> ('m, 'a) mem" where
  "retH x h = Some (x, h)"

definition bindH :: "('m, 'a) mem \<Rightarrow> ('a \<Rightarrow> ('m, 'b) mem) \<Rightarrow> ('m, 'b) mem" where
  "bindH m k h = (case m h of None \<Rightarrow> None | Some (x, h') \<Rightarrow> k x h')"

definition newH :: "'m cell \<Rightarrow> ('m, addr) mem" where
  "newH c h = Some (hp_next h, h\<lparr>hp_next := Suc (hp_next h), hp_cells := (hp_cells h)(hp_next h \<mapsto> c)\<rparr>)"

definition loadH :: "('m cell \<Rightarrow> 'a option) \<Rightarrow> addr \<Rightarrow> ('m, 'a) mem" where
  "loadH get a h = (case hp_cells h a of None \<Rightarrow> None | Some c \<Rightarrow> map_option (\<lambda>x. (x, h)) (get c))"

definition storeH :: "addr \<Rightarrow> 'm cell \<Rightarrow> ('m, unit) mem" where
  "storeH a c h = (if hp_cells h a = None then None else Some ((), h\<lparr>hp_cells := (hp_cells h)(a \<mapsto> c)\<rparr>))"

fun get_map :: "'m cell \<Rightarrow> (string \<times> string) list option" where
  "get_map (MapCell es) = Some es"
| "get_map _ = None"

fun get_time :: "'m cell \<Rightarrow> instant option" where
  "get_time (TimeCell t) = Some t"
| "get_time _ = None"

fun get_taints :: "'m cell \<Rightarrow> ptaint list option" where
  "get_taints (TaintArray ts) = Some ts"
| "get_taints _ = None"

fun get_nodes :: "'m cell \<Rightarrow> 'm pnodeDeploy list option" where
  "get_nodes (NodeArray ns) = Some ns"
| "get_nodes _ = None"

lemma bindH_retH [simp]: "bindH (retH x) k = k x" "bindH m retH = m"
  by (auto simp: bindH_def retH_def fun_eq_iff split: option.split)

lemma bindH_assoc: "bindH (bindH m k) l = bindH m (\<lambda>x. bindH (k x) l)"
  by (auto simp: bindH_def fun_eq_iff split: option.split)

lemma bindH_run: "m h = Some (x, h1) \<Longrightarrow> bindH m k h = k x h1"
  by (simp add: bindH_def)

section \<open>The copies\<close>

text \<open>The deep copies of the library's types, which the generated code calls.\<close>

record ('m, 'l) copyLib =
  time_DeepCopy :: "addr \<Rightarrow> ('m, addr) mem"
  taint_DeepCopyInto :: "ptaint \<Rightarrow> ('m, ptaint) mem"
  objectMeta_DeepCopyInto :: "'m \<Rightarrow> ('m, 'm) mem"
  listMeta_DeepCopyInto :: "'l \<Rightarrow> ('m, 'l) mem"
  zero_ObjectMeta :: 'm

text \<open>\<^verbatim>\<open>for key, val := range *in { (*out)[key] = val }\<close> into the map at \<open>b\<close>.\<close>

fun copy_entries :: "(string \<times> string) list \<Rightarrow> addr \<Rightarrow> ('m, unit) mem" where
  "copy_entries [] b = retH ()"
| "copy_entries ((key, val) # es) b =
     bindH (loadH get_map b) (\<lambda>m. bindH (storeH b (MapCell (AList.update key val m))) (\<lambda>_. copy_entries es b))"

definition copy_map :: "addr option \<Rightarrow> ('m, addr option) mem" where
  "copy_map m = (case m of
      None \<Rightarrow> retH None
    | Some a \<Rightarrow> bindH (newH (MapCell [])) (\<lambda>b. bindH (loadH get_map a) (\<lambda>es.
        bindH (copy_entries es b) (\<lambda>_. retH (Some b)))))"

text \<open>
  \<^verbatim>\<open>for i := range *in { (*in)[i].DeepCopyInto(&(*out)[i]) }\<close> from index \<open>i\<close> on, \<open>k\<close> times, for arrays read
  by \<open>get\<close> and written by \<open>put\<close>.
\<close>

fun copy_items ::
  "('m cell \<Rightarrow> 'x list option) \<Rightarrow> ('x list \<Rightarrow> 'm cell) \<Rightarrow> ('x \<Rightarrow> ('m, 'x) mem) \<Rightarrow> slice \<Rightarrow> addr \<Rightarrow> nat \<Rightarrow> nat
     \<Rightarrow> ('m, unit) mem" where
  "copy_items get put cp s b i 0 = retH ()"
| "copy_items get put cp s b i (Suc k) =
     bindH (loadH get (sl_array s)) (\<lambda>xs.
       if sl_off s + i < length xs then
         bindH (cp (xs ! (sl_off s + i))) (\<lambda>y.
         bindH (loadH get b) (\<lambda>ys.
         bindH (storeH b (put (ys[i := y]))) (\<lambda>_. copy_items get put cp s b (Suc i) k)))
       else (\<lambda>_. None))"

definition copy_slice ::
  "('m cell \<Rightarrow> 'x list option) \<Rightarrow> ('x list \<Rightarrow> 'm cell) \<Rightarrow> 'x \<Rightarrow> ('x \<Rightarrow> ('m, 'x) mem) \<Rightarrow> slice option
     \<Rightarrow> ('m, slice option) mem" where
  "copy_slice get put zero cp sl = (case sl of
      None \<Rightarrow> retH None
    | Some s \<Rightarrow> bindH (newH (put (replicate (sl_len s) zero))) (\<lambda>b.
        bindH (copy_items get put cp s b 0 (sl_len s)) (\<lambda>_.
        retH (Some \<lparr>sl_array = b, sl_off = 0, sl_len = sl_len s\<rparr>))))"

definition zero_taint :: ptaint where
  "zero_taint = \<lparr>pt_Key = [], pt_Value = [], pt_Effect = [], pt_TimeAdded = None\<rparr>"

definition Spec_DeepCopyInto :: "('m, 'l) copyLib \<Rightarrow> pspec \<Rightarrow> ('m, pspec) mem" where
  "Spec_DeepCopyInto lib spec =
     (let out = spec in
      bindH (copy_map (ps_Labels spec)) (\<lambda>labels. let out = out\<lparr>ps_Labels := labels\<rparr> in
      bindH (copy_map (ps_Annotations spec)) (\<lambda>annotations. let out = out\<lparr>ps_Annotations := annotations\<rparr> in
      bindH (copy_slice get_taints TaintArray zero_taint (taint_DeepCopyInto lib) (ps_Taints spec)) (\<lambda>taints.
        retH (out\<lparr>ps_Taints := taints\<rparr>)))))"

definition Status_DeepCopyInto :: "('m, 'l) copyLib \<Rightarrow> pstatus \<Rightarrow> ('m, pstatus) mem" where
  "Status_DeepCopyInto lib status =
     (let out = status in
      case pst_Deadline status of
        None \<Rightarrow> retH out
      | Some deadline \<Rightarrow> bindH (time_DeepCopy lib deadline) (\<lambda>t. retH (out\<lparr>pst_Deadline := Some t\<rparr>)))"

definition NodeDeploy_DeepCopyInto :: "('m, 'l) copyLib \<Rightarrow> 'm pnodeDeploy \<Rightarrow> ('m, 'm pnodeDeploy) mem" where
  "NodeDeploy_DeepCopyInto lib nd =
     (let out = nd; out = out\<lparr>pn_TypeMeta := pn_TypeMeta nd\<rparr> in
      bindH (objectMeta_DeepCopyInto lib (pn_ObjectMeta nd)) (\<lambda>meta. let out = out\<lparr>pn_ObjectMeta := meta\<rparr> in
      bindH (Spec_DeepCopyInto lib (pn_Spec nd)) (\<lambda>spec. let out = out\<lparr>pn_Spec := spec\<rparr> in
      bindH (Status_DeepCopyInto lib (pn_Status nd)) (\<lambda>status. retH (out\<lparr>pn_Status := status\<rparr>)))))"

definition zero_node :: "('m, 'l) copyLib \<Rightarrow> 'm pnodeDeploy" where
  "zero_node lib =
     \<lparr>pn_TypeMeta = \<lparr>tm_Kind = [], tm_APIVersion = []\<rparr>, pn_ObjectMeta = zero_ObjectMeta lib,
      pn_Spec = \<lparr>ps_NodeName = [], ps_NodeIP = [], ps_NodeType = [], ps_NodePort = [], ps_NodeUser = [], ps_NodePwd = [],
        ps_HarborEndpoint = [], ps_HarborUser = [], ps_HarborPwd = [], ps_Labels = None, ps_Annotations = None,
        ps_Taints = None, ps_NodeVersion = [], ps_IsEvicted = False, ps_NodeStatus = [], ps_MaxRetry = 0\<rparr>,
      pn_Status = \<lparr>pst_NodeStatus = [], pst_Deadline = None\<rparr>\<rparr>"

definition List_DeepCopyInto :: "('m, 'l) copyLib \<Rightarrow> 'l pnodeDeployList \<Rightarrow> ('m, 'l pnodeDeployList) mem" where
  "List_DeepCopyInto lib l =
     (let out = l; out = out\<lparr>pl_TypeMeta := pl_TypeMeta l\<rparr> in
      bindH (listMeta_DeepCopyInto lib (pl_ListMeta l)) (\<lambda>meta. let out = out\<lparr>pl_ListMeta := meta\<rparr> in
      bindH (copy_slice get_nodes NodeArray (zero_node lib) (NodeDeploy_DeepCopyInto lib) (pl_Items l)) (\<lambda>items.
        retH (out\<lparr>pl_Items := items\<rparr>))))"

text \<open>\<^verbatim>\<open>DeepCopy\<close> of a pointer to a struct, given by the struct it points to; the result is a new struct.\<close>

definition copy_ptr :: "('x \<Rightarrow> ('m, 'x) mem) \<Rightarrow> 'x option \<Rightarrow> ('m, 'x option) mem" where
  "copy_ptr cp p = (case p of
      None \<Rightarrow> retH None
    | Some x \<Rightarrow> bindH (cp x) (\<lambda>out. retH (Some out)))"

definition Spec_DeepCopy :: "('m, 'l) copyLib \<Rightarrow> pspec option \<Rightarrow> ('m, pspec option) mem" where
  "Spec_DeepCopy lib = copy_ptr (Spec_DeepCopyInto lib)"

definition Status_DeepCopy :: "('m, 'l) copyLib \<Rightarrow> pstatus option \<Rightarrow> ('m, pstatus option) mem" where
  "Status_DeepCopy lib = copy_ptr (Status_DeepCopyInto lib)"

definition NodeDeploy_DeepCopy :: "('m, 'l) copyLib \<Rightarrow> 'm pnodeDeploy option \<Rightarrow> ('m, 'm pnodeDeploy option) mem" where
  "NodeDeploy_DeepCopy lib = copy_ptr (NodeDeploy_DeepCopyInto lib)"

definition List_DeepCopy :: "('m, 'l) copyLib \<Rightarrow> 'l pnodeDeployList option \<Rightarrow> ('m, 'l pnodeDeployList option) mem" where
  "List_DeepCopy lib = copy_ptr (List_DeepCopyInto lib)"

definition NodeDeploy_DeepCopyObject :: "('m, 'l) copyLib \<Rightarrow> 'm pnodeDeploy option \<Rightarrow> ('m, 'm pnodeDeploy option) mem" where
  "NodeDeploy_DeepCopyObject lib p = bindH (NodeDeploy_DeepCopy lib p) (\<lambda>c. case c of
      Some c \<Rightarrow> retH (Some c)
    | None \<Rightarrow> retH None)"

definition List_DeepCopyObject :: "('m, 'l) copyLib \<Rightarrow> 'l pnodeDeployList option \<Rightarrow> ('m, 'l pnodeDeployList option) mem" where
  "List_DeepCopyObject lib p = bindH (List_DeepCopy lib p) (\<lambda>c. case c of
      Some c \<Rightarrow> retH (Some c)
    | None \<Rightarrow> retH None)"

section \<open>What a deep copy promises\<close>

text \<open>Only cells below the next address are in use, and a map has one entry per key.\<close>

definition heap_ok :: "'m heap \<Rightarrow> bool" where
  "heap_ok h \<longleftrightarrow> (\<forall>a. hp_cells h a \<noteq> None \<longrightarrow> a < hp_next h)
     \<and> (\<forall>a es. hp_cells h a = Some (MapCell es) \<longrightarrow> distinct (map fst es))"

text \<open>The two heaps agree on the addresses \<open>A\<close>; nothing that was in use has changed.\<close>

definition agree :: "addr set \<Rightarrow> 'm heap \<Rightarrow> 'm heap \<Rightarrow> bool" where
  "agree A h h' \<longleftrightarrow> (\<forall>a \<in> A. hp_cells h' a = hp_cells h a)"

abbreviation used :: "'m heap \<Rightarrow> addr set" where
  "used h \<equiv> dom (hp_cells h)"

text \<open>
  \<open>view h x\<close> is the value of \<open>x\<close> on the heap, \<open>None\<close> for a dangling or ill-typed \<open>x\<close>, and \<open>reach h x\<close> the
  addresses the value depends on.
\<close>

definition framed :: "('m heap \<Rightarrow> 'x \<Rightarrow> 'v option) \<Rightarrow> ('m heap \<Rightarrow> 'x \<Rightarrow> addr set) \<Rightarrow> bool" where
  "framed view reach \<longleftrightarrow> (\<forall>h x v. view h x = Some v \<longrightarrow> reach h x \<subseteq> used h
     \<and> (\<forall>h'. agree (reach h x) h h' \<longrightarrow> view h' x = Some v \<and> reach h' x = reach h x))"

definition deep_copies ::
  "('x \<Rightarrow> ('m, 'x) mem) \<Rightarrow> ('m heap \<Rightarrow> 'x \<Rightarrow> 'v option) \<Rightarrow> ('m heap \<Rightarrow> 'x \<Rightarrow> addr set) \<Rightarrow> bool" where
  "deep_copies cp view reach \<longleftrightarrow> framed view reach
     \<and> (\<forall>h x v. heap_ok h \<and> view h x = Some v \<longrightarrow>
          (\<exists>y h'. cp x h = Some (y, h') \<and> heap_ok h' \<and> agree (used h) h h'
             \<and> view h' y = Some v \<and> reach h' y \<inter> used h = {}))"

lemma framedD:
  assumes "framed view reach" "view h x = Some v"
  shows "reach h x \<subseteq> used h" "agree (reach h x) h h' \<Longrightarrow> view h' x = Some v" "agree (reach h x) h h' \<Longrightarrow> reach h' x = reach h x"
  using assms unfolding framed_def by blast+

lemma framedI:
  assumes "\<And>h x v. view h x = Some v \<Longrightarrow> reach h x \<subseteq> used h"
    and "\<And>h x v h'. view h x = Some v \<Longrightarrow> agree (reach h x) h h' \<Longrightarrow> view h' x = Some v \<and> reach h' x = reach h x"
  shows "framed view reach"
  using assms unfolding framed_def by blast

lemma agree_mono: "agree A h h' \<Longrightarrow> B \<subseteq> A \<Longrightarrow> agree B h h'"
  by (auto simp: agree_def)

lemma agree_used: "agree (used h) h h' \<Longrightarrow> used h \<subseteq> used h'"
  by (auto simp: agree_def dom_def)

lemma agree_cell: "agree (used h) h h' \<Longrightarrow> hp_cells h a = Some c \<Longrightarrow> hp_cells h' a = Some c"
  by (metis agree_def domI)

lemma agree_trans: "agree A h h1 \<Longrightarrow> agree A h1 h2 \<Longrightarrow> agree A h h2"
  by (simp add: agree_def)

lemma agree_used_trans: "agree (used h) h h1 \<Longrightarrow> agree (used h1) h1 h2 \<Longrightarrow> agree (used h) h h2"
  using agree_used [of h h1] unfolding agree_def by (metis subsetD)

lemma framed_kept:
  assumes "framed view reach" "view h x = Some v" "agree (used h) h h'"
  shows "view h' x = Some v" "reach h' x = reach h x"
  using framedD [OF assms(1,2)] agree_mono [OF assms(3)] by (simp_all only:)

lemma deep_copiesE:
  assumes "deep_copies cp view reach" "heap_ok h" "view h x = Some v"
  obtains y h' where "cp x h = Some (y, h')" "heap_ok h'" "agree (used h) h h'" "view h' y = Some v"
    "reach h' y \<inter> used h = {}" "reach h' y \<subseteq> used h'"
proof -
  from assms(1) have f: "framed view reach" by (simp add: deep_copies_def)
  from assms obtain y h' where c: "cp x h = Some (y, h')" "heap_ok h'" "agree (used h) h h'" "view h' y = Some v"
    "reach h' y \<inter> used h = {}" unfolding deep_copies_def by blast
  show ?thesis by (rule that [OF c framedD(1) [OF f c(4)]])
qed

lemma deep_copies_framed: "deep_copies cp view reach \<Longrightarrow> framed view reach"
  by (simp add: deep_copies_def)

text \<open>What the two objects owe each other: writes to the one are not seen in the other.\<close>

lemma copy_independent:
  assumes dc: "deep_copies cp view reach" and "heap_ok h" "view h x = Some v"
  shows "\<exists>y h1. cp x h = Some (y, h1) \<and> agree (used h) h h1 \<and> view h1 y = Some v \<and> view h1 x = Some v
    \<and> (\<forall>h2. agree (- reach h1 y) h1 h2 \<longrightarrow> view h2 x = Some v)
    \<and> (\<forall>h2. agree (- reach h1 x) h1 h2 \<longrightarrow> view h2 y = Some v)"
proof -
  from deep_copiesE [OF assms] obtain y h1 where c: "cp x h = Some (y, h1)" "agree (used h) h h1" "view h1 y = Some v"
    "reach h1 y \<inter> used h = {}" by metis
  note f = deep_copies_framed [OF dc]
  from framed_kept [OF f assms(3) c(2)] have x: "view h1 x = Some v" "reach h1 x = reach h x" .
  with framedD(1) [OF f assms(3)] c(4) have apart: "reach h1 x \<subseteq> - reach h1 y" "reach h1 y \<subseteq> - reach h1 x" by auto
  with c x(1) show ?thesis
    using framedD(2) [OF f x(1)] framedD(2) [OF f c(3)] agree_mono by blast
qed

section \<open>Structs\<close>

text \<open>Two parts copied one after the other.\<close>

definition pair_copy :: "('x \<Rightarrow> ('m, 'x) mem) \<Rightarrow> ('y \<Rightarrow> ('m, 'y) mem) \<Rightarrow> 'x \<times> 'y \<Rightarrow> ('m, 'x \<times> 'y) mem" where
  "pair_copy cp1 cp2 p = bindH (cp1 (fst p)) (\<lambda>x. bindH (cp2 (snd p)) (\<lambda>y. retH (x, y)))"

definition pair_view ::
  "('m heap \<Rightarrow> 'x \<Rightarrow> 'v option) \<Rightarrow> ('m heap \<Rightarrow> 'y \<Rightarrow> 'w option) \<Rightarrow> 'm heap \<Rightarrow> 'x \<times> 'y \<Rightarrow> ('v \<times> 'w) option" where
  "pair_view v1 v2 h p = (case v1 h (fst p) of None \<Rightarrow> None | Some a \<Rightarrow> map_option (Pair a) (v2 h (snd p)))"

definition pair_reach ::
  "('m heap \<Rightarrow> 'x \<Rightarrow> addr set) \<Rightarrow> ('m heap \<Rightarrow> 'y \<Rightarrow> addr set) \<Rightarrow> 'm heap \<Rightarrow> 'x \<times> 'y \<Rightarrow> addr set" where
  "pair_reach r1 r2 h p = r1 h (fst p) \<union> r2 h (snd p)"

lemma pair_view_Some: "pair_view v1 v2 h p = Some w \<longleftrightarrow> v1 h (fst p) = Some (fst w) \<and> v2 h (snd p) = Some (snd w)"
  by (cases w) (auto simp: pair_view_def split: option.splits)

lemma framed_pair:
  assumes "framed v1 r1" "framed v2 r2"
  shows "framed (pair_view v1 v2) (pair_reach r1 r2)"
  unfolding framed_def pair_view_Some pair_reach_def
  using framedD [OF assms(1)] framedD [OF assms(2)] agree_mono [of "r1 _ _ \<union> r2 _ _"]
  by (metis Un_upper1 Un_upper2 Un_least)

lemma deep_copies_pair:
  assumes dc1: "deep_copies cp1 v1 r1" and dc2: "deep_copies cp2 v2 r2"
  shows "deep_copies (pair_copy cp1 cp2) (pair_view v1 v2) (pair_reach r1 r2)"
  unfolding deep_copies_def
proof (intro conjI allI impI)
  note f1 = deep_copies_framed [OF dc1] and f2 = deep_copies_framed [OF dc2]
  show "framed (pair_view v1 v2) (pair_reach r1 r2)" by (rule framed_pair [OF f1 f2])
  fix h p w
  assume "heap_ok h \<and> pair_view v1 v2 h p = Some w"
  then have ok: "heap_ok h" and v: "v1 h (fst p) = Some (fst w)" "v2 h (snd p) = Some (snd w)"
    by (simp_all add: pair_view_Some)
  from deep_copiesE [OF dc1 ok v(1)] obtain x h1 where x: "cp1 (fst p) h = Some (x, h1)" "heap_ok h1" "agree (used h) h h1"
    "v1 h1 x = Some (fst w)" "r1 h1 x \<inter> used h = {}" "r1 h1 x \<subseteq> used h1" .
  from framed_kept(1) [OF f2 v(2) x(3)] have "v2 h1 (snd p) = Some (snd w)" .
  from deep_copiesE [OF dc2 x(2) this] obtain y h2 where y: "cp2 (snd p) h1 = Some (y, h2)" "heap_ok h2" "agree (used h1) h1 h2"
    "v2 h2 y = Some (snd w)" "r2 h2 y \<inter> used h1 = {}" .
  from framed_kept [OF f1 x(4) y(3)] have x': "v1 h2 x = Some (fst w)" "r1 h2 x = r1 h1 x" .
  have fresh: "(r1 h2 x \<union> r2 h2 y) \<inter> used h = {}"
    using agree_used [OF x(3)] x(5) x'(2) y(5) by blast
  have "pair_copy cp1 cp2 p h = Some ((x, y), h2)"
    by (simp add: pair_copy_def bindH_run [of "cp1 (fst p)", OF x(1)] bindH_run [of "cp2 (snd p)", OF y(1)] retH_def)
  with x'(1) y(2,4) agree_used_trans [OF x(3) y(3)] fresh show "\<exists>q h'. pair_copy cp1 cp2 p h = Some (q, h') \<and> heap_ok h'
      \<and> agree (used h) h h' \<and> pair_view v1 v2 h' q = Some w \<and> pair_reach r1 r2 h' q \<inter> used h = {}"
    by (intro exI [of _ "(x, y)"] exI [of _ h2]) (simp add: pair_reach_def pair_view_Some)
qed

text \<open>A struct with a part \<open>get x\<close> that is copied and put back, and values beside it that are only assigned.\<close>

lemma deep_copies_via:
  assumes dc: "deep_copies cp view reach"
    and "\<And>x. cp' x = bindH (cp (get x)) (\<lambda>y. retH (put x y))"
    and view': "\<And>h x. view' h x = map_option (f x) (view h (get x))" and reach': "\<And>h x. reach' h x = reach h (get x)"
    and put: "\<And>x y. get (put x y) = y" "\<And>x y. f (put x y) = f x"
  shows "deep_copies cp' view' reach'"
  unfolding deep_copies_def
proof (intro conjI allI impI)
  note f = deep_copies_framed [OF dc]
  show "framed view' reach'"
    unfolding framed_def view' reach' map_option_eq_Some using framedD [OF f] by blast
  fix h x v
  assume "heap_ok h \<and> view' h x = Some v"
  then obtain w where "heap_ok h" "view h (get x) = Some w" "v = f x w" by (auto simp: view')
  with deep_copiesE [OF dc this(1,2)] obtain y h1 where "cp (get x) h = Some (y, h1)" "heap_ok h1" "agree (used h) h h1"
    "view h1 y = Some w" "reach h1 y \<inter> used h = {}" by metis
  with \<open>v = f x w\<close> show "\<exists>y h'. cp' x h = Some (y, h') \<and> heap_ok h' \<and> agree (used h) h h' \<and> view' h' y = Some v
      \<and> reach' h' y \<inter> used h = {}"
    by (intro exI [of _ "put x y"] exI [of _ h1]) (simp add: assms bindH_run [of "cp (get x)"] retH_def)
qed

text \<open>A pointer that may be nil.\<close>

definition opt_view :: "('m heap \<Rightarrow> 'x \<Rightarrow> 'v option) \<Rightarrow> 'm heap \<Rightarrow> 'x option \<Rightarrow> 'v option option" where
  "opt_view view h p = (case p of None \<Rightarrow> Some None | Some x \<Rightarrow> map_option Some (view h x))"

definition opt_reach :: "('m heap \<Rightarrow> 'x \<Rightarrow> addr set) \<Rightarrow> 'm heap \<Rightarrow> 'x option \<Rightarrow> addr set" where
  "opt_reach reach h p = (case p of None \<Rightarrow> {} | Some x \<Rightarrow> reach h x)"

lemma agree_refl [simp]: "agree A h h"
  by (simp add: agree_def)

lemma deep_copies_ptr:
  assumes dc: "deep_copies cp view reach"
  shows "deep_copies (copy_ptr cp) (opt_view view) (opt_reach reach)"
  unfolding deep_copies_def
proof (intro conjI allI impI)
  note f = deep_copies_framed [OF dc]
  show "framed (opt_view view) (opt_reach reach)"
  proof (rule framedI)
    fix h p v assume "opt_view view h p = Some v"
    then show "opt_reach reach h p \<subseteq> used h"
      by (cases p) (auto simp: opt_view_def opt_reach_def dest: framedD(1) [OF f, THEN subsetD])
  next
    fix h p v h' assume "opt_view view h p = Some v" "agree (opt_reach reach h p) h h'"
    then show "opt_view view h' p = Some v \<and> opt_reach reach h' p = opt_reach reach h p"
      by (cases p) (auto simp: opt_view_def opt_reach_def dest: framedD(2) [OF f] framedD(3) [OF f])
  qed
  fix h p v
  assume h: "heap_ok h \<and> opt_view view h p = Some v"
  show "\<exists>y h'. copy_ptr cp p h = Some (y, h') \<and> heap_ok h' \<and> agree (used h) h h' \<and> opt_view view h' y = Some v
      \<and> opt_reach reach h' y \<inter> used h = {}"
  proof (cases p)
    case None
    with h show ?thesis by (auto simp: copy_ptr_def retH_def opt_view_def opt_reach_def)
  next
    case (Some x)
    with h obtain w where "heap_ok h" "view h x = Some w" "v = Some w" by (auto simp: opt_view_def)
    with deep_copiesE [OF dc this(1,2)] obtain y h1 where "cp x h = Some (y, h1)" "heap_ok h1" "agree (used h) h h1"
      "view h1 y = Some w" "reach h1 y \<inter> used h = {}" by metis
    with Some \<open>v = Some w\<close> show ?thesis
      by (intro exI [of _ "Some y"] exI [of _ h1]) (simp add: copy_ptr_def bindH_run [of "cp x"] retH_def opt_view_def opt_reach_def)
  qed
qed


section \<open>Cells: times, maps and slices\<close>

definition time_view :: "'m heap \<Rightarrow> addr \<Rightarrow> instant option" where
  "time_view h a = Option.bind (hp_cells h a) get_time"

definition cell_reach :: "'m heap \<Rightarrow> addr \<Rightarrow> addr set" where
  "cell_reach h a = {a}"

text \<open>The value of a map is the function from keys to values, whatever the order of its entries.\<close>

definition map_view :: "'m heap \<Rightarrow> addr \<Rightarrow> (string \<rightharpoonup> string) option" where
  "map_view h a = map_option map_of (Option.bind (hp_cells h a) get_map)"

text \<open>The elements of a slice, and their values.\<close>

definition elems :: "('m cell \<Rightarrow> 'x list option) \<Rightarrow> 'm heap \<Rightarrow> slice \<Rightarrow> 'x list option" where
  "elems get h s = Option.bind (Option.bind (hp_cells h (sl_array s)) get) (\<lambda>xs.
     if sl_off s + sl_len s \<le> length xs then Some (take (sl_len s) (drop (sl_off s) xs)) else None)"

definition slice_view ::
  "('m cell \<Rightarrow> 'x list option) \<Rightarrow> ('m heap \<Rightarrow> 'x \<Rightarrow> 'v option) \<Rightarrow> 'm heap \<Rightarrow> slice \<Rightarrow> 'v list option" where
  "slice_view get view h s = Option.bind (elems get h s) (\<lambda>xs. those (map (view h) xs))"

definition slice_reach ::
  "('m cell \<Rightarrow> 'x list option) \<Rightarrow> ('m heap \<Rightarrow> 'x \<Rightarrow> addr set) \<Rightarrow> 'm heap \<Rightarrow> slice \<Rightarrow> addr set" where
  "slice_reach get reach h s = insert (sl_array s) (\<Union>x \<in> (case elems get h s of None \<Rightarrow> {} | Some xs \<Rightarrow> set xs). reach h x)"

lemma those_Some: "those xs = Some ys \<longleftrightarrow> xs = map Some ys"
  by (induction xs arbitrary: ys) (auto split: option.splits)

lemma framed_cell:
  assumes "\<And>h a. view h a = Option.bind (hp_cells h a) g"
  shows "framed view cell_reach"
  by (rule framedI) (auto simp: assms cell_reach_def agree_def bind_eq_Some_conv)

lemma framed_map_view: "framed map_view cell_reach"
  by (rule framedI) (auto simp: map_view_def cell_reach_def agree_def bind_eq_Some_conv)

lemma elems_agree: "hp_cells h' (sl_array s) = hp_cells h (sl_array s) \<Longrightarrow> elems get h' s = elems get h s"
  by (simp add: elems_def)

lemma slice_view_Some:
  "slice_view get view h s = Some vs \<longleftrightarrow> (\<exists>xs. elems get h s = Some xs \<and> map (view h) xs = map Some vs)"
  by (auto simp: slice_view_def bind_eq_Some_conv those_Some)

lemma framed_slice:
  assumes f: "framed view reach"
  shows "framed (slice_view get view) (slice_reach get reach)"
proof (rule framedI)
  fix h s vs assume "slice_view get view h s = Some vs"
  then obtain xs where xs: "elems get h s = Some xs" "map (view h) xs = map Some vs" by (auto simp: slice_view_Some)
  have el: "\<exists>v. view h x = Some v" if "x \<in> set xs" for x
    using that arg_cong [OF xs(2), of set] by auto
  show "slice_reach get reach h s \<subseteq> used h"
  proof -
    have "sl_array s \<in> used h" using xs(1) by (auto simp: elems_def bind_eq_Some_conv)
    moreover have "reach h x \<subseteq> used h" if "x \<in> set xs" for x using el [OF that] framedD(1) [OF f] by blast
    ultimately show ?thesis using xs(1) by (simp add: slice_reach_def UN_subset_iff)
  qed
next
  fix h s vs h' assume "slice_view get view h s = Some vs" and ag: "agree (slice_reach get reach h s) h h'"
  then obtain xs where xs: "elems get h s = Some xs" "map (view h) xs = map Some vs" by (auto simp: slice_view_Some)
  have el: "\<exists>v. view h x = Some v" if "x \<in> set xs" for x
    using that arg_cong [OF xs(2), of set] by auto
  have same: "view h' x = view h x \<and> reach h' x = reach h x" if "x \<in> set xs" for x
  proof -
    from el [OF that] obtain v where v: "view h x = Some v" by blast
    have "agree (reach h x) h h'" by (rule agree_mono [OF ag]) (use that xs(1) in \<open>auto simp: slice_reach_def\<close>)
    with framedD(2,3) [OF f v this] v show ?thesis by simp
  qed
  have "elems get h' s = elems get h s"
    by (rule elems_agree) (use ag in \<open>simp add: slice_reach_def agree_def\<close>)
  then have "elems get h' s = Some xs" by (simp add: xs(1))
  moreover have "map (view h') xs = map Some vs" unfolding xs(2) [symmetric] by (rule map_cong) (simp_all add: same)
  moreover have "(\<Union>x \<in> set xs. reach h' x) = (\<Union>x \<in> set xs. reach h x)" by (rule SUP_cong) (simp_all add: same)
  ultimately show "slice_view get view h' s = Some vs \<and> slice_reach get reach h' s = slice_reach get reach h s"
    by (simp add: slice_view_Some slice_reach_def xs(1))
qed

section \<open>Maps\<close>

lemma newH_run:
  assumes "heap_ok h" "\<And>es. c = MapCell es \<Longrightarrow> distinct (map fst es)"
  obtains b h1 where "newH c h = Some (b, h1)" "heap_ok h1" "agree (used h) h h1" "hp_cells h1 b = Some c" "b \<notin> used h"
    "used h1 = insert b (used h)"
proof -
  have "hp_next h \<notin> used h" using assms(1) by (auto simp: heap_ok_def)
  with assms show thesis
    by (intro that [of "hp_next h" "h\<lparr>hp_next := Suc (hp_next h), hp_cells := (hp_cells h)(hp_next h \<mapsto> c)\<rparr>"])
      (auto simp: newH_def heap_ok_def agree_def less_Suc_eq)
qed

lemma loadH_run: "hp_cells h a = Some c \<Longrightarrow> get c = Some x \<Longrightarrow> loadH get a h = Some (x, h)"
  by (simp add: loadH_def)

lemma storeH_run:
  assumes "hp_cells h b = Some c0" "heap_ok h" "\<And>es. c = MapCell es \<Longrightarrow> distinct (map fst es)"
  obtains h1 where "storeH b c h = Some ((), h1)" "heap_ok h1" "agree (- {b}) h h1" "hp_cells h1 b = Some c" "used h1 = used h"
  using assms by (intro that [of "h\<lparr>hp_cells := (hp_cells h)(b \<mapsto> c)\<rparr>"]) (auto simp: storeH_def heap_ok_def agree_def)

lemma agree_store: "agree A h h1 \<Longrightarrow> agree (- {b}) h1 h2 \<Longrightarrow> b \<notin> A \<Longrightarrow> agree A h h2"
  unfolding agree_def by (metis ComplI singletonD)

lemma copy_entries_run:
  assumes "heap_ok h" "hp_cells h b = Some (MapCell m)" "distinct (map fst (m @ es))"
  shows "\<exists>h1 m1. copy_entries es b h = Some ((), h1) \<and> heap_ok h1 \<and> agree (- {b}) h h1 \<and> used h1 = used h
    \<and> hp_cells h1 b = Some (MapCell m1) \<and> map_of m1 = map_of m ++ map_of es"
  using assms
proof (induction es arbitrary: h m)
  case Nil
  then show ?case by (auto simp: retH_def)
next
  case (Cons e es)
  obtain key val where e: "e = (key, val)" by force
  have upd: "AList.update key val m = m @ [(key, val)]" if "key \<notin> fst ` set m" for m :: "(string \<times> string) list"
    using that by (induction m) auto
  from Cons.prems e have key: "AList.update key val m = m @ [(key, val)]" by (intro upd) auto
  from Cons.prems(3) e have d: "distinct (map fst ((m @ [(key, val)]) @ es))" by auto
  from storeH_run [OF Cons.prems(2,1), of "MapCell (m @ [(key, val)])"] d obtain h1 where
    h1: "storeH b (MapCell (m @ [(key, val)])) h = Some ((), h1)" "heap_ok h1" "agree (- {b}) h h1"
      "hp_cells h1 b = Some (MapCell (m @ [(key, val)]))" "used h1 = used h" by auto
  from Cons.IH [OF h1(2,4) d] obtain h2 m1 where
    h2: "copy_entries es b h1 = Some ((), h2)" "heap_ok h2" "agree (- {b}) h1 h2" "used h2 = used h1"
      "hp_cells h2 b = Some (MapCell m1)" "map_of m1 = map_of (m @ [(key, val)]) ++ map_of es" by blast
  have run: "copy_entries (e # es) b h = Some ((), h2)"
    by (simp add: e bindH_def loadH_def Cons.prems(2) key h1(1) h2(1))
  have "map_of m key = None" "map_of es key = None" using Cons.prems(3) by (auto simp: e map_of_eq_None_iff)
  then have "map_of m1 = map_of m ++ map_of (e # es)"
    unfolding h2(6) by (auto simp: e map_add_def fun_eq_iff split: option.split)
  with run h2(2-5) agree_trans [OF h1(3) h2(3)] show ?case unfolding h1(5) by blast
qed

lemma deep_copies_map:
  "deep_copies (copy_map :: addr option \<Rightarrow> ('m, addr option) mem) (opt_view map_view) (opt_reach cell_reach)"
proof -
  have "deep_copies (\<lambda>a. bindH (newH (MapCell []) :: ('m, addr) mem) (\<lambda>b. bindH (loadH get_map a) (\<lambda>es. bindH (copy_entries es b) (\<lambda>_. retH b))))
      map_view cell_reach" (is "deep_copies ?cp _ _")
    unfolding deep_copies_def
  proof (intro conjI allI impI framed_map_view)
    fix h :: "'m heap" and a v
    assume "heap_ok h \<and> map_view h a = Some v"
    then obtain es where es: "heap_ok h" "hp_cells h a = Some (MapCell es)" "v = map_of es"
      by (auto simp: map_view_def bind_eq_Some_conv elim!: get_map.elims)
    obtain b h1 where h1: "newH (MapCell []) h = Some (b, h1)" "heap_ok h1" "agree (used h) h h1" "hp_cells h1 b = Some (MapCell [])"
      "b \<notin> used h" "used h1 = insert b (used h)" using newH_run [OF es(1), of "MapCell []"] by auto
    have a: "hp_cells h1 a = Some (MapCell es)" by (rule agree_cell [OF h1(3) es(2)])
    from es have "distinct (map fst ([] @ es))" by (auto simp: heap_ok_def)
    from copy_entries_run [OF h1(2,4) this] obtain h2 m1 where
      h2: "copy_entries es b h1 = Some ((), h2)" "heap_ok h2" "agree (- {b}) h1 h2" "hp_cells h2 b = Some (MapCell m1)"
        "map_of m1 = map_of es" by auto
    have "?cp a h = Some (b, h2)"
      by (simp add: bindH_def loadH_def h1(1) a h2(1) retH_def)
    with es h2 agree_store [OF h1(3) h2(3) h1(5)] h1(5)
    show "\<exists>y h'. ?cp a h = Some (y, h') \<and> heap_ok h' \<and> agree (used h) h h' \<and> map_view h' y = Some v \<and> cell_reach h' y \<inter> used h = {}"
      by (intro exI [of _ b] exI [of _ h2]) (simp add: map_view_def cell_reach_def)
  qed
  from deep_copies_ptr [OF this] show ?thesis
    by (rule back_subst [of "\<lambda>cp. deep_copies cp _ _"]) (auto simp: copy_ptr_def copy_map_def fun_eq_iff bindH_assoc split: option.split)
qed

section \<open>Slices\<close>

text \<open>The loop invariant: the first \<open>i\<close> elements of the new array are copies, apart from all that was there before.\<close>

definition copied_upto ::
  "('m cell \<Rightarrow> 'x list option) \<Rightarrow> ('m heap \<Rightarrow> 'x \<Rightarrow> 'v option) \<Rightarrow> ('m heap \<Rightarrow> 'x \<Rightarrow> addr set) \<Rightarrow> 'm heap \<Rightarrow> addr \<Rightarrow> 'v list
     \<Rightarrow> nat \<Rightarrow> 'm heap \<Rightarrow> bool" where
  "copied_upto get view reach h0 b vs i h \<longleftrightarrow> heap_ok h \<and> agree (used h0) h0 h \<and> b \<in> used h
     \<and> (\<exists>ys. Option.bind (hp_cells h b) get = Some ys \<and> length ys = length vs
          \<and> (\<forall>j < i. view h (ys ! j) = Some (vs ! j) \<and> reach h (ys ! j) \<inter> insert b (used h0) = {}))"

lemma copied_step:
  assumes dc: "deep_copies cp view reach" and get: "\<And>xs. get (put xs) = Some xs" "\<And>xs es. put xs \<noteq> MapCell es"
    and inv: "copied_upto get view reach h0 b vs i h" and b: "b \<notin> used h0" and i: "i < length vs" and v: "view h x = Some (vs ! i)"
  shows "\<exists>y h1 ys h2. cp x h = Some (y, h1) \<and> loadH get b h1 = Some (ys, h1)
    \<and> storeH b (put (ys[i := y])) h1 = Some ((), h2) \<and> copied_upto get view reach h0 b vs (Suc i) h2"
proof -
  note f = deep_copies_framed [OF dc]
  from inv obtain ys c where ok: "heap_ok h" "agree (used h0) h0 h" and ys: "hp_cells h b = Some c" "get c = Some ys" "length ys = length vs"
    and old: "\<And>j. j < i \<Longrightarrow> view h (ys ! j) = Some (vs ! j)" "\<And>j. j < i \<Longrightarrow> reach h (ys ! j) \<inter> insert b (used h0) = {}"
    by (auto simp: copied_upto_def bind_eq_Some_conv)
  from deep_copiesE [OF dc ok(1) v] obtain y h1 where y: "cp x h = Some (y, h1)" "heap_ok h1" "agree (used h) h h1"
    "view h1 y = Some (vs ! i)" "reach h1 y \<inter> used h = {}" by metis
  have c: "hp_cells h1 b = Some c" by (rule agree_cell [OF y(3) ys(1)])
  from storeH_run [OF c y(2), of "put (ys[i := y])"] get(2) obtain h2 where
    h2: "storeH b (put (ys[i := y])) h1 = Some ((), h2)" "heap_ok h2" "agree (- {b}) h1 h2" "hp_cells h2 b = Some (put (ys[i := y]))" by metis
  have h0: "agree (used h0) h0 h2" by (rule agree_store [OF agree_used_trans [OF ok(2)] h2(3) b]) (rule y(3))
  have kept: "view h2 z = Some w \<and> reach h2 z = reach h1 z" if "view h1 z = Some w" "b \<notin> reach h1 z" for z w
    using framedD(2,3) [OF f that(1) agree_mono [OF h2(3)]] that(2) by blast
  have new: "view h2 y = Some (vs ! i) \<and> reach h2 y \<inter> insert b (used h0) = {}"
    using kept [OF y(4)] y(5) ys(1) agree_used [OF ok(2)] by blast
  have before: "view h2 (ys ! j) = Some (vs ! j) \<and> reach h2 (ys ! j) \<inter> insert b (used h0) = {}" if j: "j < i" for j
  proof -
    note framed_kept [OF f old(1) [OF j] y(3)]
    with kept [of "ys ! j"] old(2) [OF j] show ?thesis by auto
  qed
  have all: "view h2 (ys[i := y] ! j) = Some (vs ! j) \<and> reach h2 (ys[i := y] ! j) \<inter> insert b (used h0) = {}" if "j < Suc i" for j
    using that new before [of j] i ys(3) by (cases "j = i") auto
  have "copied_upto get view reach h0 b vs (Suc i) h2"
    unfolding copied_upto_def using h2(2,4) h0 all ys(3) get(1) by (intro conjI exI [of _ "ys[i := y]"]) auto
  with y(1) h2(1) loadH_run [of h1 b c get, OF c ys(2)] show ?thesis by blast
qed

lemma copy_items_run:
  assumes dc: "deep_copies cp view reach" and get: "\<And>xs. get (put xs) = Some xs" "\<And>xs es. put xs \<noteq> MapCell es"
    and el: "elems get h0 s = Some xs" "map (view h0) xs = map Some vs" and b: "b \<notin> used h0"
  shows "copied_upto get view reach h0 b vs i h \<Longrightarrow> i + k = length vs \<Longrightarrow>
    \<exists>h'. copy_items get put cp s b i k h = Some ((), h') \<and> copied_upto get view reach h0 b vs (length vs) h'"
proof (induction k arbitrary: i h)
  case 0
  then show ?case by (simp add: retH_def)
next
  case (Suc k)
  from el(1) obtain c zs where zs: "hp_cells h0 (sl_array s) = Some c" "get c = Some zs" "sl_off s + sl_len s \<le> length zs"
    "xs = take (sl_len s) (drop (sl_off s) zs)" by (auto simp: elems_def bind_eq_Some_conv split: if_splits)
  from arg_cong [OF el(2), of length] have len: "length xs = length vs" by simp
  with Suc.prems zs have i: "i < length vs" "sl_off s + i < length zs" "zs ! (sl_off s + i) = xs ! i" by auto
  from Suc.prems(1) have kept: "agree (used h0) h0 h" by (simp add: copied_upto_def)
  have "view h0 (xs ! i) = Some (vs ! i)" using arg_cong [OF el(2), of "\<lambda>l. l ! i"] i(1) len by simp
  then have "view h (xs ! i) = Some (vs ! i)" by (rule framed_kept [OF deep_copies_framed [OF dc] _ kept])
  from copied_step [OF dc get Suc.prems(1) b i(1) this] obtain y h1 ys h2 where
    st: "cp (xs ! i) h = Some (y, h1)" "loadH get b h1 = Some (ys, h1)" "storeH b (put (ys[i := y])) h1 = Some ((), h2)"
      "copied_upto get view reach h0 b vs (Suc i) h2" by blast
  from Suc.IH [OF st(4)] Suc.prems(2) obtain h' where
    h': "copy_items get put cp s b (Suc i) k h2 = Some ((), h')" "copied_upto get view reach h0 b vs (length vs) h'" by auto
  have "copy_items get put cp s b i (Suc k) h = Some ((), h')"
    using i by (simp add: bindH_def loadH_run [of h _ c get, OF agree_cell [OF kept zs(1)] zs(2)] st(1-3) h'(1))
  with h'(2) show ?case by blast
qed

lemma deep_copies_slice:
  assumes dc: "deep_copies cp view reach" and get: "\<And>xs. get (put xs) = Some xs" "\<And>xs es. put xs \<noteq> MapCell es"
  shows "deep_copies (copy_slice get put zero cp) (opt_view (slice_view get view)) (opt_reach (slice_reach get reach))"
proof -
  let ?cp = "\<lambda>s. bindH (newH (put (replicate (sl_len s) zero))) (\<lambda>b. bindH (copy_items get put cp s b 0 (sl_len s)) (\<lambda>_.
    retH \<lparr>sl_array = b, sl_off = 0, sl_len = sl_len s\<rparr>))"
  have "deep_copies ?cp (slice_view get view) (slice_reach get reach)"
    unfolding deep_copies_def
  proof (intro conjI allI impI framed_slice deep_copies_framed [OF dc])
    fix h s vs
    assume "heap_ok h \<and> slice_view get view h s = Some vs"
    then obtain xs where ok: "heap_ok h" and xs: "elems get h s = Some xs" "map (view h) xs = map Some vs"
      by (auto simp: slice_view_Some)
    have len: "sl_len s = length vs"
      using xs(1) arg_cong [OF xs(2), of length] by (auto simp: elems_def bind_eq_Some_conv split: if_splits)
    from newH_run [OF ok, of "put (replicate (sl_len s) zero)"] get(2) obtain b h1 where
      h1: "newH (put (replicate (sl_len s) zero)) h = Some (b, h1)" "heap_ok h1" "agree (used h) h h1"
        "hp_cells h1 b = Some (put (replicate (sl_len s) zero))" "b \<notin> used h" by metis
    have "copied_upto get view reach h b vs 0 h1" using h1 get(1) len by (auto simp: copied_upto_def)
    from copy_items_run [OF dc get xs h1(5) this] len obtain h2 where
      h2: "copy_items get put cp s b 0 (sl_len s) h1 = Some ((), h2)" "copied_upto get view reach h b vs (length vs) h2" by auto
    let ?s = "\<lparr>sl_array = b, sl_off = 0, sl_len = sl_len s\<rparr>"
    have run: "?cp s h = Some (?s, h2)" by (simp add: bindH_def h1(1) h2(1) retH_def)
    from h2(2) obtain ys where ys: "elems get h2 ?s = Some ys" "length ys = length vs"
      and all: "\<And>j. j < length vs \<Longrightarrow> view h2 (ys ! j) = Some (vs ! j) \<and> reach h2 (ys ! j) \<inter> insert b (used h) = {}"
      by (auto simp: copied_upto_def elems_def len)
    have "map (view h2) ys = map Some vs" by (rule nth_equalityI) (simp_all add: ys(2) all)
    moreover have "reach h2 y \<inter> used h = {}" if "y \<in> set ys" for y
      using that all ys(2) by (auto simp: in_set_conv_nth)
    ultimately show "\<exists>t h'. ?cp s h = Some (t, h') \<and> heap_ok h' \<and> agree (used h) h h' \<and> slice_view get view h' t = Some vs
        \<and> slice_reach get reach h' t \<inter> used h = {}"
      using run h2(2) ys(1) h1(5)
      by (intro exI [of _ ?s] exI [of _ h2]) (auto simp: copied_upto_def slice_view_Some slice_reach_def)
  qed
  from deep_copies_ptr [OF this] show ?thesis
    by (rule back_subst [of "\<lambda>cp. deep_copies cp _ _"]) (auto simp: copy_ptr_def copy_slice_def fun_eq_iff bindH_assoc split: option.split)
qed

section \<open>The types of the API\<close>

text \<open>The value of a struct: the struct without its pointers, and the values they stand for.\<close>

definition taint_view :: "'m heap \<Rightarrow> ptaint \<Rightarrow> (ptaint \<times> instant option) option" where
  "taint_view h t = map_option (Pair (t\<lparr>pt_TimeAdded := None\<rparr>)) (opt_view time_view h (pt_TimeAdded t))"

definition taint_reach :: "'m heap \<Rightarrow> ptaint \<Rightarrow> addr set" where
  "taint_reach h t = opt_reach cell_reach h (pt_TimeAdded t)"

type_synonym pspec_value = "pspec \<times> (string \<rightharpoonup> string) option \<times> (string \<rightharpoonup> string) option \<times> (ptaint \<times> instant option) list option"

definition spec_view :: "'m heap \<Rightarrow> pspec \<Rightarrow> pspec_value option" where
  "spec_view h s = map_option (Pair (s\<lparr>ps_Labels := None, ps_Annotations := None, ps_Taints := None\<rparr>))
     (pair_view (opt_view map_view) (pair_view (opt_view map_view) (opt_view (slice_view get_taints taint_view))) h
       (ps_Labels s, ps_Annotations s, ps_Taints s))"

definition spec_reach :: "'m heap \<Rightarrow> pspec \<Rightarrow> addr set" where
  "spec_reach h s = pair_reach (opt_reach cell_reach) (pair_reach (opt_reach cell_reach)
     (opt_reach (slice_reach get_taints taint_reach))) h (ps_Labels s, ps_Annotations s, ps_Taints s)"

definition status_view :: "'m heap \<Rightarrow> pstatus \<Rightarrow> (pstatus \<times> instant option) option" where
  "status_view h s = map_option (Pair (s\<lparr>pst_Deadline := None\<rparr>)) (opt_view time_view h (pst_Deadline s))"

definition status_reach :: "'m heap \<Rightarrow> pstatus \<Rightarrow> addr set" where
  "status_reach h s = opt_reach cell_reach h (pst_Deadline s)"

type_synonym 'v node_value = "typeMeta \<times> 'v \<times> pspec_value \<times> pstatus \<times> instant option"

definition node_view :: "('m heap \<Rightarrow> 'm \<Rightarrow> 'v option) \<Rightarrow> 'm heap \<Rightarrow> 'm pnodeDeploy \<Rightarrow> 'v node_value option" where
  "node_view mview h nd = map_option (Pair (pn_TypeMeta nd))
     (pair_view mview (pair_view spec_view status_view) h (pn_ObjectMeta nd, pn_Spec nd, pn_Status nd))"

definition node_reach :: "('m heap \<Rightarrow> 'm \<Rightarrow> addr set) \<Rightarrow> 'm heap \<Rightarrow> 'm pnodeDeploy \<Rightarrow> addr set" where
  "node_reach mreach h nd =
     pair_reach mreach (pair_reach spec_reach status_reach) h (pn_ObjectMeta nd, pn_Spec nd, pn_Status nd)"

definition list_view ::
  "('m heap \<Rightarrow> 'm \<Rightarrow> 'v option) \<Rightarrow> ('m heap \<Rightarrow> 'l \<Rightarrow> 'w option) \<Rightarrow> 'm heap \<Rightarrow> 'l pnodeDeployList
     \<Rightarrow> (typeMeta \<times> 'w \<times> 'v node_value list option) option" where
  "list_view mview lview h l = map_option (Pair (pl_TypeMeta l))
     (pair_view lview (opt_view (slice_view get_nodes (node_view mview))) h (pl_ListMeta l, pl_Items l))"

definition list_reach ::
  "('m heap \<Rightarrow> 'm \<Rightarrow> addr set) \<Rightarrow> ('m heap \<Rightarrow> 'l \<Rightarrow> addr set) \<Rightarrow> 'm heap \<Rightarrow> 'l pnodeDeployList \<Rightarrow> addr set" where
  "list_reach mreach lreach h l =
     pair_reach lreach (opt_reach (slice_reach get_nodes (node_reach mreach))) h (pl_ListMeta l, pl_Items l)"

text \<open>The library's copies are deep copies too; the values of its metadata types are \<open>mview\<close> and \<open>lview\<close>.\<close>

definition copies_documented ::
  "('m, 'l) copyLib \<Rightarrow> ('m heap \<Rightarrow> 'm \<Rightarrow> 'v option) \<Rightarrow> ('m heap \<Rightarrow> 'm \<Rightarrow> addr set) \<Rightarrow> ('m heap \<Rightarrow> 'l \<Rightarrow> 'w option)
     \<Rightarrow> ('m heap \<Rightarrow> 'l \<Rightarrow> addr set) \<Rightarrow> bool" where
  "copies_documented lib mview mreach lview lreach \<longleftrightarrow>
     deep_copies (time_DeepCopy lib) time_view cell_reach \<and> deep_copies (taint_DeepCopyInto lib) taint_view taint_reach
     \<and> deep_copies (objectMeta_DeepCopyInto lib) mview mreach \<and> deep_copies (listMeta_DeepCopyInto lib) lview lreach"

lemma copies_documentedD:
  assumes "copies_documented lib mview mreach lview lreach"
  shows "deep_copies (time_DeepCopy lib) time_view cell_reach" "deep_copies (taint_DeepCopyInto lib) taint_view taint_reach"
    "deep_copies (objectMeta_DeepCopyInto lib) mview mreach" "deep_copies (listMeta_DeepCopyInto lib) lview lreach"
  using assms by (simp_all add: copies_documented_def)

lemma deep_copies_Spec:
  assumes "copies_documented lib mview mreach lview lreach"
  shows "deep_copies (Spec_DeepCopyInto lib) spec_view spec_reach"
proof (rule deep_copies_via [where get = "\<lambda>s. (ps_Labels s, ps_Annotations s, ps_Taints s)"
      and put = "\<lambda>s q. s\<lparr>ps_Labels := fst q, ps_Annotations := fst (snd q), ps_Taints := snd (snd q)\<rparr>"
      and f = "\<lambda>s. Pair (s\<lparr>ps_Labels := None, ps_Annotations := None, ps_Taints := None\<rparr>)"])
  show "deep_copies (pair_copy copy_map (pair_copy copy_map (copy_slice get_taints TaintArray zero_taint (taint_DeepCopyInto lib))))
      (pair_view (opt_view map_view) (pair_view (opt_view map_view) (opt_view (slice_view get_taints taint_view))))
      (pair_reach (opt_reach cell_reach) (pair_reach (opt_reach cell_reach) (opt_reach (slice_reach get_taints taint_reach))))"
    by (intro deep_copies_pair deep_copies_map deep_copies_slice copies_documentedD [OF assms]) simp_all
qed (simp_all add: Spec_DeepCopyInto_def pair_copy_def bindH_assoc spec_view_def spec_reach_def Let_def)

lemma deep_copies_Status:
  assumes "copies_documented lib mview mreach lview lreach"
  shows "deep_copies (Status_DeepCopyInto lib) status_view status_reach"
proof (rule deep_copies_via [where get = pst_Deadline and put = "\<lambda>s d. s\<lparr>pst_Deadline := d\<rparr>" and f = "\<lambda>s. Pair (s\<lparr>pst_Deadline := None\<rparr>)"])
  fix st :: pstatus
  show "Status_DeepCopyInto lib st = bindH (copy_ptr (time_DeepCopy lib) (pst_Deadline st)) (\<lambda>d. retH (st\<lparr>pst_Deadline := d\<rparr>))"
    by (cases st; cases "pst_Deadline st") (simp_all add: Status_DeepCopyInto_def copy_ptr_def bindH_assoc)
next
  show "deep_copies (copy_ptr (time_DeepCopy lib)) (opt_view time_view) (opt_reach cell_reach)"
    by (rule deep_copies_ptr [OF copies_documentedD(1) [OF assms]])
qed (simp_all add: status_view_def status_reach_def)

lemma deep_copies_NodeDeploy:
  assumes "copies_documented lib mview mreach lview lreach"
  shows "deep_copies (NodeDeploy_DeepCopyInto lib) (node_view mview) (node_reach mreach)"
proof (rule deep_copies_via [where get = "\<lambda>nd. (pn_ObjectMeta nd, pn_Spec nd, pn_Status nd)"
      and put = "\<lambda>nd q. nd\<lparr>pn_ObjectMeta := fst q, pn_Spec := fst (snd q), pn_Status := snd (snd q)\<rparr>"
      and f = "\<lambda>nd. Pair (pn_TypeMeta nd)"])
  show "deep_copies (pair_copy (objectMeta_DeepCopyInto lib) (pair_copy (Spec_DeepCopyInto lib) (Status_DeepCopyInto lib)))
      (pair_view mview (pair_view spec_view status_view)) (pair_reach mreach (pair_reach spec_reach status_reach))"
    by (intro deep_copies_pair deep_copies_Spec [OF assms] deep_copies_Status [OF assms] copies_documentedD(3) [OF assms])
qed (simp_all add: NodeDeploy_DeepCopyInto_def pair_copy_def bindH_assoc node_view_def node_reach_def Let_def)

lemma deep_copies_List:
  assumes "copies_documented lib mview mreach lview lreach"
  shows "deep_copies (List_DeepCopyInto lib) (list_view mview lview) (list_reach mreach lreach)"
proof (rule deep_copies_via [where get = "\<lambda>l. (pl_ListMeta l, pl_Items l)" and put = "\<lambda>l q. l\<lparr>pl_ListMeta := fst q, pl_Items := snd q\<rparr>" and f = "\<lambda>l. Pair (pl_TypeMeta l)"])
  show "deep_copies (pair_copy (listMeta_DeepCopyInto lib) (copy_slice get_nodes NodeArray (zero_node lib) (NodeDeploy_DeepCopyInto lib)))
      (pair_view lview (opt_view (slice_view get_nodes (node_view mview))))
      (pair_reach lreach (opt_reach (slice_reach get_nodes (node_reach mreach))))"
    by (intro deep_copies_pair deep_copies_slice deep_copies_NodeDeploy [OF assms] copies_documentedD(4) [OF assms]) simp_all
qed (simp_all add: List_DeepCopyInto_def pair_copy_def bindH_assoc list_view_def list_reach_def Let_def)

lemma copy_ptr_independent:
  assumes "deep_copies cp view reach" "heap_ok h" "view h x = Some v"
  shows "\<exists>y h1. copy_ptr cp (Some x) h = Some (Some y, h1) \<and> agree (used h) h h1 \<and> view h1 y = Some v \<and> view h1 x = Some v
    \<and> (\<forall>h2. agree (- reach h1 y) h1 h2 \<longrightarrow> view h2 x = Some v)
    \<and> (\<forall>h2. agree (- reach h1 x) h1 h2 \<longrightarrow> view h2 y = Some v)"
proof -
  from copy_independent [OF assms] obtain y h1 where c: "cp x h = Some (y, h1)" "agree (used h) h h1 \<and> view h1 y = Some v \<and> view h1 x = Some v
    \<and> (\<forall>h2. agree (- reach h1 y) h1 h2 \<longrightarrow> view h2 x = Some v) \<and> (\<forall>h2. agree (- reach h1 x) h1 h2 \<longrightarrow> view h2 y = Some v)" by blast
  from c(1) have "copy_ptr cp (Some x) h = Some (Some y, h1)" by (simp add: copy_ptr_def bindH_def retH_def)
  with c(2) show ?thesis by blast
qed

lemma retH_option: "(\<lambda>c. case c of None \<Rightarrow> retH None | Some c \<Rightarrow> retH (Some c)) = retH"
  by (simp add: fun_eq_iff split: option.split)

lemma DeepCopyObject_simps:
  "NodeDeploy_DeepCopyObject lib p = copy_ptr (NodeDeploy_DeepCopyInto lib) p"
  "List_DeepCopyObject lib l = copy_ptr (List_DeepCopyInto lib) l"
  by (simp_all add: NodeDeploy_DeepCopyObject_def List_DeepCopyObject_def NodeDeploy_DeepCopy_def List_DeepCopy_def retH_option)

section \<open>Example\<close>

text \<open>A library that meets its documentation: object metadata is a map of labels, list metadata a string.\<close>

definition ex_time :: "addr \<Rightarrow> ('m, addr) mem" where
  "ex_time a = bindH (loadH get_time a) (\<lambda>t. newH (TimeCell t))"

definition ex_copyLib :: "(addr option, string) copyLib" where
  "ex_copyLib = \<lparr>time_DeepCopy = ex_time,
     taint_DeepCopyInto = (\<lambda>t. bindH (copy_ptr ex_time (pt_TimeAdded t)) (\<lambda>d. retH (t\<lparr>pt_TimeAdded := d\<rparr>))),
     objectMeta_DeepCopyInto = copy_map, listMeta_DeepCopyInto = retH, zero_ObjectMeta = None\<rparr>"

abbreviation "ex_mview \<equiv> opt_view map_view"
abbreviation "ex_mreach \<equiv> opt_reach cell_reach"
abbreviation "ex_lview \<equiv> \<lambda>h. Some"
abbreviation "ex_lreach \<equiv> \<lambda>h x. {}"

definition ex_pnode :: "addr option pnodeDeploy" where
  "ex_pnode = \<lparr>pn_TypeMeta = \<lparr>tm_Kind = ''NodeDeploy'', tm_APIVersion = ''api.ecnu.cn/v1''\<rparr>, pn_ObjectMeta = Some 4,
     pn_Spec = (pn_Spec (zero_node ex_copyLib))\<lparr>ps_NodeName := ''w1'', ps_Labels := Some 0,
       ps_Taints := Some \<lparr>sl_array = 1, sl_off = 1, sl_len = 1\<rparr>\<rparr>,
     pn_Status = \<lparr>pst_NodeStatus = NodeLaunching, pst_Deadline = Some 3\<rparr>\<rparr>"

definition ex_plist :: "string pnodeDeployList" where
  "ex_plist = \<lparr>pl_TypeMeta = \<lparr>tm_Kind = ''NodeDeployList'', tm_APIVersion = ''api.ecnu.cn/v1''\<rparr>, pl_ListMeta = ''42'',
     pl_Items = Some \<lparr>sl_array = 5, sl_off = 0, sl_len = 2\<rparr>\<rparr>"

definition ex_heap :: "addr option heap" where
  "ex_heap = \<lparr>hp_next = 6, hp_cells = [
     0 \<mapsto> MapCell [(''zone'', ''a''), (''rack'', ''7'')],
     1 \<mapsto> TaintArray [zero_taint, \<lparr>pt_Key = ''k'', pt_Value = ''v'', pt_Effect = ''NoSchedule'', pt_TimeAdded = Some 2\<rparr>],
     2 \<mapsto> TimeCell 7, 3 \<mapsto> TimeCell 600, 4 \<mapsto> MapCell [], 5 \<mapsto> NodeArray [ex_pnode, zero_node ex_copyLib]]\<rparr>"

lemma framed_time: "framed time_view cell_reach"
  by (rule framed_cell) (simp add: time_view_def)

lemma deep_copies_retH: "deep_copies retH (\<lambda>h. Some) (\<lambda>h x. {})"
  by (simp add: deep_copies_def framed_def retH_def)

lemma deep_copies_ex_time: "deep_copies (ex_time :: addr \<Rightarrow> ('m, addr) mem) time_view cell_reach"
  unfolding deep_copies_def
proof (intro conjI allI impI framed_time)
  fix h :: "'m heap" and a v
  assume "heap_ok h \<and> time_view h a = Some v"
  then obtain c where h: "heap_ok h" "hp_cells h a = Some c" "get_time c = Some v" by (auto simp: time_view_def bind_eq_Some_conv)
  from newH_run [OF h(1), of "TimeCell v"] obtain b h1 where n: "newH (TimeCell v) h = Some (b, h1)" "heap_ok h1"
    "agree (used h) h h1" "hp_cells h1 b = Some (TimeCell v)" "b \<notin> used h" by (metis cell.distinct(1))
  have "ex_time a h = Some (b, h1)" by (simp add: ex_time_def bindH_def loadH_def h(2,3) n(1))
  moreover have "time_view h1 b = Some v" "cell_reach h1 b \<inter> used h = {}" using n(4,5) by (simp_all add: time_view_def cell_reach_def)
  ultimately show "\<exists>y h'. ex_time a h = Some (y, h') \<and> heap_ok h' \<and> agree (used h) h h' \<and> time_view h' y = Some v
      \<and> cell_reach h' y \<inter> used h = {}" using n(2,3) by blast
qed

lemma copies_documented_ex: "copies_documented ex_copyLib ex_mview ex_mreach ex_lview ex_lreach"
proof -
  have "deep_copies (taint_DeepCopyInto ex_copyLib) taint_view taint_reach"
    by (rule deep_copies_via [OF deep_copies_ptr [OF deep_copies_ex_time], where get = pt_TimeAdded
          and put = "\<lambda>t d. t\<lparr>pt_TimeAdded := d\<rparr>" and f = "\<lambda>t. Pair (t\<lparr>pt_TimeAdded := None\<rparr>)"])
      (simp_all add: ex_copyLib_def taint_view_def taint_reach_def)
  then show ?thesis
    by (simp add: copies_documented_def ex_copyLib_def deep_copies_ex_time deep_copies_map deep_copies_retH)
qed

lemma heap_ok_ex: "heap_ok ex_heap"
  by (auto simp: heap_ok_def ex_heap_def)

lemma node_view_ex: "\<exists>v. node_view ex_mview ex_heap ex_pnode = Some v"
  by (simp add: node_view_def pair_view_def spec_view_def status_view_def opt_view_def map_view_def time_view_def taint_view_def
      slice_view_def elems_def ex_heap_def ex_pnode_def zero_node_def)

lemma list_view_ex: "\<exists>v. list_view ex_mview ex_lview ex_heap ex_plist = Some v"
proof -
  obtain v where v: "node_view ex_mview ex_heap ex_pnode = Some v" using node_view_ex by blast
  moreover obtain w where "node_view ex_mview ex_heap (zero_node ex_copyLib) = Some w"
    by (simp add: node_view_def pair_view_def spec_view_def status_view_def opt_view_def zero_node_def ex_copyLib_def)
  moreover have "elems get_nodes ex_heap \<lparr>sl_array = 5, sl_off = 0, sl_len = 2\<rparr> = Some [ex_pnode, zero_node ex_copyLib]"
    by (simp add: elems_def ex_heap_def)
  ultimately show ?thesis by (simp add: list_view_def pair_view_def ex_plist_def opt_view_def slice_view_def)
qed

section \<open>Properties\<close>

text \<open>C36: On any heap where a NodeDeploy has a value, its generated deep copy exists, returns a new object with the same value
  (labels, annotations, taints and deadline followed through their pointers), leaves everything that was on the heap as it was,
  and from then on a write to anything the copy reaches does not change the original, nor the other way round.
\<close>

theorem NodeDeploy_copy_independent:
  assumes "copies_documented lib mview mreach lview lreach" "heap_ok h" "node_view mview h nd = Some v"
  shows "\<exists>out h1. NodeDeploy_DeepCopyObject lib (Some nd) h = Some (Some out, h1) \<and> agree (used h) h h1
    \<and> node_view mview h1 out = Some v \<and> node_view mview h1 nd = Some v
    \<and> (\<forall>h2. agree (- node_reach mreach h1 out) h1 h2 \<longrightarrow> node_view mview h2 nd = Some v)
    \<and> (\<forall>h2. agree (- node_reach mreach h1 nd) h1 h2 \<longrightarrow> node_view mview h2 out = Some v)"
  unfolding DeepCopyObject_simps by (rule copy_ptr_independent [OF deep_copies_NodeDeploy [OF assms(1)] assms(2,3)])

theorem NodeDeploy_copy_independent_witness:
  "\<exists>v out h1. NodeDeploy_DeepCopyObject ex_copyLib (Some ex_pnode) ex_heap = Some (Some out, h1)
    \<and> node_view ex_mview h1 out = Some v \<and> node_view ex_mview h1 ex_pnode = Some v"
proof -
  obtain v where v: "node_view ex_mview ex_heap ex_pnode = Some v" using node_view_ex by blast
  from NodeDeploy_copy_independent [OF copies_documented_ex heap_ok_ex v] show ?thesis by blast
qed

text \<open>C35: The same of a NodeDeployList: its copy has a new array whose elements are deep copies in the same order, a nil list stays nil,
  and neither the list nor any element of the one is changed by writes to the other.
\<close>

theorem NodeDeployList_copy_independent:
  assumes "copies_documented lib mview mreach lview lreach" "heap_ok h" "list_view mview lview h l = Some v"
  shows "\<exists>out h1. List_DeepCopyObject lib (Some l) h = Some (Some out, h1) \<and> agree (used h) h h1
    \<and> list_view mview lview h1 out = Some v \<and> list_view mview lview h1 l = Some v
    \<and> (\<forall>h2. agree (- list_reach mreach lreach h1 out) h1 h2 \<longrightarrow> list_view mview lview h2 l = Some v)
    \<and> (\<forall>h2. agree (- list_reach mreach lreach h1 l) h1 h2 \<longrightarrow> list_view mview lview h2 out = Some v)"
  unfolding DeepCopyObject_simps by (rule copy_ptr_independent [OF deep_copies_List [OF assms(1)] assms(2,3)])

theorem NodeDeployList_copy_independent_witness:
  "\<exists>v out h1. List_DeepCopyObject ex_copyLib (Some ex_plist) ex_heap = Some (Some out, h1)
    \<and> list_view ex_mview ex_lview h1 out = Some v \<and> list_view ex_mview ex_lview h1 ex_plist = Some v"
proof -
  obtain v where v: "list_view ex_mview ex_lview ex_heap ex_plist = Some v" using list_view_ex by blast
  from NodeDeployList_copy_independent [OF copies_documented_ex heap_ok_ex v] show ?thesis by blast
qed

end
