(* ===== verification/Spec2Isabelle.thy ===== *)
theory Spec2Isabelle
  imports Controller Termination Startup DeepCopy
begin

text \<open>
  A verification development for nodedeploy-controller, a Kubernetes controller in Go that brings
  hosts into a cluster and takes them out again. A user writes a NodeDeploy, which names a host, how
  to reach it over SSH and whether it is to be \<^verbatim>\<open>active\<close> or \<^verbatim>\<open>inactive\<close>; the controller reconciles
  the status of the object with that wish.

  \<^bold>\<open>The program.\<close>
  \<^verbatim>\<open>main.go\<close> registers the types and starts the manager of controller-runtime. For each change it
  calls \<^verbatim>\<open>Reconcile\<close> (\<^verbatim>\<open>controllers/nodedeploy_controller.go\<close>), which reads the object, handles
  deadlines and parameters, and runs a launch or a deprecation under the retry library. A launch
  goes through \<^verbatim>\<open>pkg/nodemanager/manager.go\<close>: ten steps on the host, each an operation of the node
  type (\<^verbatim>\<open>join.go\<close>, \<^verbatim>\<open>disjoin.go\<close>) that runs a script over \<^verbatim>\<open>utils/ssh/ssh.go\<close>; the last one needs the
  join information and a fresh bootstrap token from \<^verbatim>\<open>token.go\<close>. The reconciler then waits for the
  node object, configures it, and writes the status. A deprecation drains the node, runs the
  disjoin script and deletes the node object.

  \<^bold>\<open>Theories.\<close>
    \<^item> \<open>Prelude\<close>: effectful code as functions over the history of external calls, with the calculi
      used throughout: \<open>wp\<close> (weakest preconditions over return and panic), \<open>returns\<close>, \<open>confined\<close>
      (which calls can be made) and \<open>grows\<close>. \<open>None\<close> is a run that does not return. An answer
      depends on the whole history, so a theorem covers every behaviour of the outside.
    \<^item> \<open>GoStrings\<close>, \<open>GoJson\<close>, \<open>GoNet\<close>, \<open>GoTime\<close>, \<open>GoSha256\<close>: what the program uses of Go's standard
      library (strings, integer verbs, hex, JSON strings and objects, \<^verbatim>\<open>net.ParseIP\<close>, RFC 3339, SHA-256).
    \<^item> \<open>Api\<close>: the types of \<^verbatim>\<open>api/v1/nodedeploy_types.go\<close> and \<^verbatim>\<open>pkg/types\<close> as values.
    \<^item> \<open>DeepCopy\<close>: \<^verbatim>\<open>api/v1/zz_generated.deepcopy.go\<close>, the one place where pointers matter, on an
      explicit heap.
    \<^item> \<open>World\<close>: the calls (\<open>action\<close>) and the libraries (\<open>sshLib\<close>, \<open>tokenLib\<close>, \<open>kubeLib\<close>, together
      \<open>env\<close>) that the definitions take as arguments.
    \<^item> \<open>Retry\<close>: the documented behaviour of retry-go and of \<^verbatim>\<open>RetryOnConflict\<close>, and loops that have it.
    \<^item> \<open>Examples\<close>: one concrete outside, from which the witnesses start.
    \<^item> \<open>NodeUtils\<close> (\<^verbatim>\<open>progress.go\<close>, \<^verbatim>\<open>utils.go\<close>, the JSON of a status message), \<open>Ssh\<close> (\<^verbatim>\<open>ssh.go\<close>),
      \<open>Token\<close> (\<^verbatim>\<open>token.go\<close>), \<open>Join\<close> (\<^verbatim>\<open>join.go\<close>, \<^verbatim>\<open>disjoin.go\<close>), \<open>Manager\<close> (\<^verbatim>\<open>manager.go\<close>), \<open>CtrlUtils\<close>
      (\<^verbatim>\<open>controllers/utils.go\<close>), \<open>Reconciler\<close> (\<^verbatim>\<open>nodedeploy_controller.go\<close>) and \<open>Startup\<close> (\<^verbatim>\<open>main.go\<close>,
      \<^verbatim>\<open>groupversion_info.go\<close>): one definition per function, under the name it has in Go.
    \<^item> \<open>Healthy\<close>: hosts on which the operations succeed. \<open>NodeOps\<close>: what the reconciler does to the
      node object. \<open>Lifecycle\<close>: the abstract machine of phases and its refinement. \<open>Convergence\<close>: a
      healthy attempt succeeds. \<open>Termination\<close>: what ends, and why. \<open>Controller\<close>: the controller over many
      reconciliations.

  \<^bold>\<open>What is shown.\<close>
    \<^item> \<open>lifecycle\<close> is the abstract specification of the status: a relation between phases. The locale
      \<open>node_change\<close> states what a launch and a deprecation have in common, an attempt that writes the
      busy status with a deadline and then works; it is interpreted on both, and \<open>Reconcile\<close> refines
      the machine. \<open>brought_in\<close> and \<open>taken_out\<close> say what an \<^verbatim>\<open>active\<close> and an \<^verbatim>\<open>inactive\<close> rest on: an
      accepted write of the busy status to the object that was read, and then the whole work for its
      own specification; \<open>backed\<close> says it of every write of a run. Every branch of \<open>Reconcile\<close> is described (settled, in progress, failed preflight,
      launch, deprecation), the branches that panic or hang included.
    \<^item> \<open>stored\<close> is the reachability relation of the whole system: users edit, reconciliations end by
      return or by panic. Stored objects satisfy \<open>status_sound\<close>, interrupted work falls back after
      its deadline, and on a healthy host repeated reconciliations converge.
    \<^item> Locales \<open>remote_shell\<close> (what \<open>Exec\<close> owes its callers) and \<open>node_join\<close> (what a node type owes the
      manager) carry the transcripts of a launch, its log, the calls it may make and its termination;
      both are interpreted on the models of the code, \<open>node_join\<close> for both node types.
    \<^item> Tokens: the data of a token secret, the order of the writes, errors that leave nothing behind.
    \<^item> SSH: the handles of each kind are balanced on every path; an upload makes one sequence of calls,
      each without an error, or reports one.
    \<^item> Progress counters are 64-bit words: they count to their sum and wrap around only at the largest
      \<^verbatim>\<open>int\<close>. The start of the process is one sequence of calls that ends at the first failure.
    \<^item> Deep copies: \<open>deep_copies\<close> is the contract (same value, old cells untouched, nothing shared);
      it is closed under pairs, pointers, maps and slices, and so holds for the API types.

  \<^bold>\<open>Bounds and loops.\<close> No fuel is used in the code's model. Loops over data are structural; the
  watch loop is a \<open>partial_function\<close> whose termination is a theorem under a condition on the answers,
  and the two retry loops are parameters whose predicates say when they return; nothing else can run
  forever, so a reconciliation with a limit on its attempts ends. \<^verbatim>\<open>MaxRetry\<close> is a
  32-bit word and the number of attempts a 64-bit word, converted as Go does; 0 means no limit, and
  then a reconciliation may not return, which is proved.

  \<^bold>\<open>Assumptions.\<close> Code that is not in the repository is an argument. Its documented behaviour is
  stated where it is needed: \<open>retry_documented\<close> and \<open>conflict_documented\<close> (together
  \<open>kube_documented\<close>), \<open>match_documented\<close> (taints match by key and effect), \<open>certs_documented\<close> (a
  certificate parser reports an error rather than an empty list), \<open>token_keys_ok\<close> (the data keys of
  a token secret differ), \<open>copies_documented\<close> (the library's own deep copies), \<open>updates_documented\<close>
  (an accepted status update answers with the name, namespace and specification that were sent: an
  object edited meanwhile is refused as a conflict), \<open>stores_status\<close> (the API server accepts every
  status update and returns the status it stored), \<open>must_documented\<close> (\<^verbatim>\<open>utilruntime.Must\<close> panics on an
  error and only then). \<open>launch_ready\<close> and \<open>removal_ready\<close> describe a
  healthy host and cluster and are used for convergence only. Each has an instance in the witnesses.

  \<^bold>\<open>Not modelled.\<close> Log lines; most of the object metadata (name, namespace and resource version are
  kept); how \<^verbatim>\<open>flag.Parse\<close> reads the command line and \<^verbatim>\<open>GetConfigOrDie\<close> its configuration (both are
  parameters, with the exits they may take), the logger's options and what the signal handler does
  later; the delays of the retries; caches of the
  API client and the concurrency of several workers, since every call sees one history and may be
  answered by anything; the shell scripts of the install packages, which run on the host, and the
  deployment files. In \<open>Controller\<close> the API server serves the object that was last written and users
  edit between reconciliations.

  \<^bold>\<open>What the model shows of the code.\<close> A host that cannot be dialled counts as one that was left, and
  its node object is deleted; \<^verbatim>\<open>MaxRetry\<close> of 0 or less does not disable the retry, 0 makes it endless;
  an unknown node type and a node without annotations make the reconciler panic; a failed read of the
  join information does not stop the join; a Ready condition counts whatever its status; the requeue
  time after a timeout lies in the past, so the fallback waits for another event; a timeout does not
  restore the status from before the work but always writes \<^verbatim>\<open>inactive\<close> or \<^verbatim>\<open>active\<close>.
\<close>

section \<open>Properties of a reconciliation\<close>

text \<open>The statuses written from \<open>h\<close> to \<open>h'\<close> are a path of the machine for the object that was read.\<close>

definition on_path :: "env \<Rightarrow> string \<Rightarrow> string \<Rightarrow> hist \<Rightarrow> hist \<Rightarrow> bool" where
  "on_path env ns name h h' \<longleftrightarrow> (\<exists>ws. status_writes h' = status_writes h @ ws \<and>
    (case client_GetCR (e_kube env) (GetCR ns name # h) of
       Inl _ \<Rightarrow> ws = []
     | Inr nd \<Rightarrow> path (phase_of (specStatus nd)) (phase_of (curStatus nd)) (map phase_of ws)))"

text \<open>C1: Every reconciliation walks along the machine of the phases: whatever the host and the cluster
  answer, on return and on panic, the statuses it writes to the NodeDeploy it read form a path of
  \<open>lifecycle\<close> for the desired status, from the status that was read; without the object nothing is
  written.\<close>

theorem reconcile_follows_lifecycle:
  assumes "kube_documented (e_kube env)"
  shows "wp (Reconcile env ns name) (\<lambda>_. on_path env ns name h) (\<lambda>_. on_path env ns name h) h"
proof (cases "client_GetCR (e_kube env) (GetCR ns name # h)")
  case (Inl err)
  then show ?thesis by (simp add: on_path_def Reconcile_def Let_def wp_rules)
next
  case (Inr nd)
  have "on_path env ns name h = walked nd h"
    by (rule ext) (simp add: on_path_def walked_def Inr)
  with wp_Reconcile_walked [OF assms(1) Inr] show ?thesis by simp
qed

theorem reconcile_follows_lifecycle_witness:
  "\<exists>h'. Reconcile ex_env ''ns'' ''d1'' [] = Some (Ret (no_result, None) h')
    \<and> path PActive PInit (map phase_of (status_writes h'))"
proof -
  from reconcile_ex obtain h' where run: "Reconcile ex_env ''ns'' ''d1'' [] = Some (Ret (no_result, None) h')" by blast
  have "kube_documented (e_kube ex_env)" by (simp add: kube_documented_ex)
  from wp_RetD [OF reconcile_follows_lifecycle [OF this] run] run show ?thesis by (auto simp: on_path_def)
qed

text \<open>C2: What a reconciliation that wants to bring a node in has done when it returns: between one and
  MaxRetry attempts (any number for 0), each beginning with one write of \<^verbatim>\<open>launching\<close>, and then, as its
  last call, one write to this object of the final status without a deadline. \<^verbatim>\<open>active\<close> is only
  written right after an accepted write of \<^verbatim>\<open>launching\<close> to this object and then a launch for it that ran
  all its steps with the information read from it, saw the node it names ready and configured that
  node with its labels, taints and annotations; the empty status only when the API server refused
  the last \<^verbatim>\<open>launching\<close>; in all other cases it is \<^verbatim>\<open>launchFail\<close>. The only error it returns is that of
  the last write.\<close>

theorem launch_reconciliation:
  assumes "kube_documented (e_kube env)" "updates_documented (e_kube env)"
    and "client_GetCR (e_kube env) (GetCR ns name # h) = Inr nd"
    and "wants_work nd" "specStatus nd = NodeActive"
    and "preflight_reason (e_kube env) nd (node_info_of nd) = None"
    and "Reconcile env ns name h = Some (Ret (res, err) h')"
  shows "res = no_result \<and> (\<exists>k h1 e nd'. 0 < k
    \<and> (attempts_of (spec_MaxRetry (nd_Spec nd)) = 0 \<or> k \<le> unat (attempts_of (spec_MaxRetry (nd_Spec nd))))
    \<and> status_writes h' = status_writes h @ replicate k NodeLaunching @ [curStatus nd']
    \<and> h' = StatusUpdate nd' # e # h1 \<and> deadlineOf nd' = None \<and> same_deploy nd nd'
    \<and> err = (case client_StatusUpdate (e_kube env) h' of Inl e \<Rightarrow> Some e | Inr _ \<Rightarrow> None)
    \<and> (curStatus nd' = NodeActive \<and> brought_in env nd (GetCR ns name # h) h1
       \<or> curStatus nd' = NodeLaunchFail \<or> curStatus nd' = NodeUnknown \<and> refused (e_kube env) h1))"
proof -
  let ?h = "GetCR ns name # h"
  from assms(5) have drive: "drive env nd (node_info_of nd) = retry_and_finalize env (launch_attempt env (node_info_of nd)) nd"
    by (simp add: drive_def)
  from assms(7) Reconcile_drives [OF assms(3,4,6)] have
    "retry_and_finalize env (launch_attempt env (node_info_of nd)) nd ?h = Some (Ret (res, err) h')"
    by (simp add: drive)
  from wp_RetD [OF launching.change_ends [OF assms(1) kept_refl] this]
  have res: "res = no_result" and ended: "change_ended env (attempts_of (spec_MaxRetry (nd_Spec nd))) NodeLaunching NodeActive
      NodeLaunchFail (kept env nd) (launch_evidence env nd (node_info_of nd)) ?h err h'" by simp_all
  show ?thesis using res change_ended_kept [OF ended assms(2) launch_evidence_brought_in [OF assms(2)]] by simp
qed

theorem launch_reconciliation_witness:
  "\<exists>h' k. Reconcile ex_env ''ns'' ''d1'' [] = Some (Ret (no_result, None) h') \<and> 0 < k \<and> k \<le> (3::nat)
    \<and> (\<exists>final. status_writes h' = replicate k NodeLaunching @ [final])"
proof -
  from reconcile_ex obtain h' where run: "Reconcile ex_env ''ns'' ''d1'' [] = Some (Ret (no_result, None) h')" by blast
  have three: "attempts_of 3 = 3" by (simp add: attempts_of_def)
  have doc: "kube_documented (e_kube ex_env)" "updates_documented (e_kube ex_env)"
    and get: "client_GetCR (e_kube ex_env) (GetCR ''ns'' ''d1'' # []) = Inr ex_deploy" and st: "specStatus ex_deploy = NodeActive"
    and pre: "preflight_reason (e_kube ex_env) ex_deploy (node_info_of ex_deploy) = None"
    using preflight_ex by (simp_all add: kube_documented_ex updates_documented_echo echo_def)
  have max: "attempts_of (spec_MaxRetry (nd_Spec ex_deploy)) = 3" using three by (simp add: ex_deploy_def ex_spec_def)
  from launch_reconciliation [OF doc get wants_work_ex st pre run]
  obtain k nd' where "0 < k" "(3 :: 64 word) = 0 \<or> k \<le> unat (3 :: 64 word)"
    "status_writes h' = status_writes [] @ replicate k NodeLaunching @ [curStatus nd']"
    unfolding max by blast
  with run show ?thesis by (intro exI [of _ h'] exI [of _ k]) simp
qed

text \<open>C3: A reconciliation that wants to take a node out ends in the same way: one to MaxRetry writes of
  \<^verbatim>\<open>deprecating\<close>, then one final write to this object. \<^verbatim>\<open>inactive\<close> is only written right after an
  accepted write of \<^verbatim>\<open>deprecating\<close> to this object, and after the node of that name had been read and
  then drained, if this object asks for it, deprecated and deleted without an error; the empty status only when the API server refused the last \<^verbatim>\<open>deprecating\<close>; else \<^verbatim>\<open>deprecateFail\<close>.\<close>

theorem deprecate_reconciliation:
  assumes "kube_documented (e_kube env)" "updates_documented (e_kube env)"
    and "client_GetCR (e_kube env) (GetCR ns name # h) = Inr nd"
    and "wants_work nd" "specStatus nd = NodeInactive" "curStatus nd \<noteq> NodeInit"
    and "preflight_reason (e_kube env) nd (node_info_of nd) = None"
    and "Reconcile env ns name h = Some (Ret (res, err) h')"
  shows "res = no_result \<and> (\<exists>k h1 e nd'. 0 < k
    \<and> (attempts_of (spec_MaxRetry (nd_Spec nd)) = 0 \<or> k \<le> unat (attempts_of (spec_MaxRetry (nd_Spec nd))))
    \<and> status_writes h' = status_writes h @ replicate k NodeDeprecating @ [curStatus nd']
    \<and> h' = StatusUpdate nd' # e # h1 \<and> deadlineOf nd' = None \<and> same_deploy nd nd'
    \<and> err = (case client_StatusUpdate (e_kube env) h' of Inl e \<Rightarrow> Some e | Inr _ \<Rightarrow> None)
    \<and> (curStatus nd' = NodeInactive \<and> taken_out env nd (GetCR ns name # h) h1
       \<or> curStatus nd' = NodeDeprecateFail \<or> curStatus nd' = NodeUnknown \<and> refused (e_kube env) h1))"
proof -
  let ?h = "GetCR ns name # h"
  from assms(5,6) have drive: "drive env nd (node_info_of nd) = retry_and_finalize env (deprecate_attempt env (node_info_of nd)) nd"
    by (simp add: drive_def)
  from assms(8) Reconcile_drives [OF assms(3,4,7)] have
    "retry_and_finalize env (deprecate_attempt env (node_info_of nd)) nd ?h = Some (Ret (res, err) h')"
    by (simp add: drive)
  from wp_RetD [OF deprecating.change_ends [OF assms(1) kept_refl] this]
  have res: "res = no_result" and ended: "change_ended env (attempts_of (spec_MaxRetry (nd_Spec nd))) NodeDeprecating NodeInactive
      NodeDeprecateFail (kept env nd) (removal_evidence env nd (node_info_of nd)) ?h err h'" by simp_all
  show ?thesis using res change_ended_kept [OF ended assms(2) removal_evidence_taken_out [OF assms(2)]] by simp
qed

theorem deprecate_reconciliation_witness:
  "\<exists>h' k. Reconcile ex_retire_env ''ns'' ''d1'' [] = Some (Ret (no_result, None) h') \<and> 0 < k \<and> k \<le> (3::nat)
    \<and> (\<exists>final. status_writes h' = replicate k NodeDeprecating @ [final])"
proof -
  from retire_ex obtain h' where run: "Reconcile ex_retire_env ''ns'' ''d1'' [] = Some (Ret (no_result, None) h')" by blast
  have doc: "kube_documented (e_kube ex_retire_env)"
    using kube_documented_ex by (simp add: kube_documented_def)
  have upd: "updates_documented (e_kube ex_retire_env)" by (simp add: updates_documented_echo echo_def)
  have st: "specStatus ex_retire = NodeInactive" "curStatus ex_retire \<noteq> NodeInit" by simp_all
  have three: "attempts_of (spec_MaxRetry (nd_Spec ex_retire)) = 3" by (simp add: attempts_of_def)
  from deprecate_reconciliation [OF doc upd ex_retire_read wants_work_retire st preflight_retire run]
  obtain k nd' where "0 < k" "(3 :: 64 word) = 0 \<or> k \<le> unat (3 :: 64 word)"
    "status_writes h' = status_writes [] @ replicate k NodeDeprecating @ [curStatus nd']"
    unfolding three by blast
  with run show ?thesis by (intro exI [of _ h'] exI [of _ k]) simp
qed

text \<open>C31: A NodeDeploy that has reached its desired status, or has failed to for good, is left alone: the
  reconciliation reads it and returns, without a status write, an event or a requeue. The same holds
  for one that is being worked on and has no deadline.\<close>

theorem settled_untouched:
  assumes "client_GetCR (e_kube env) (GetCR ns name # h) = Inr nd" and "curStatus nd \<noteq> NodeUnknown"
    and "specStatus nd = curStatus nd \<or> specStatus nd = NodeActive \<and> curStatus nd = NodeLaunchFail
      \<or> specStatus nd = NodeInactive \<and> curStatus nd = NodeDeprecateFail
      \<or> curStatus nd \<in> {NodeLaunching, NodeDeprecating} \<and> deadlineOf nd = None"
  shows "Reconcile env ns name h = Some (Ret (no_result, None) (GetCR ns name # h))"
  unfolding Reconcile_found [OF assms(1)]
  using assms(2,3) by (auto simp: check_deadline_def ret_def)

theorem settled_untouched_witness:
  "Reconcile (ex_env\<lparr>e_kube := ex_kube\<lparr>client_GetCR := \<lambda>_. Inr (setStatus NodeLaunchFail ex_deploy)\<rparr>\<rparr>) ''ns'' ''d1'' []
    = Some (Ret (no_result, None) [GetCR ''ns'' ''d1''])"
  by (rule settled_untouched [where nd = "setStatus NodeLaunchFail ex_deploy"]) simp_all

text \<open>C12: A NodeDeploy that is being worked on and has a deadline falls back exactly when the clock is past
  it: \<^verbatim>\<open>launching\<close> becomes \<^verbatim>\<open>inactive\<close> and \<^verbatim>\<open>deprecating\<close> becomes \<^verbatim>\<open>active\<close>, in one write that keeps the
  deadline. The requeue time returned is then in the past when the API server keeps the deadline
  and the clock does not go back; before the deadline nothing is requeued at all.\<close>

theorem deadline_fallback:
  assumes "client_GetCR (e_kube env) (GetCR ns name # h) = Inr nd"
    and "curStatus nd \<in> {NodeLaunching, NodeDeprecating}" "specStatus nd \<noteq> curStatus nd"
    and "deadlineOf nd = Some d"
  defines "h1 \<equiv> TimeNow # GetCR ns name # h"
    and "before \<equiv> if curStatus nd = NodeLaunching then NodeInactive else NodeActive"
  shows "if e_now env h1 \<le> d then Reconcile env ns name h = Some (Ret (no_result, None) h1)
    else (let h2 = StatusUpdate (setStatus before nd) # Event (crRef nd) EventTypeWarning EventChangeStatus
              (''exec timeout, fallback: '' @ statusChange (curStatus nd) before) # h1 in
          (case client_StatusUpdate (e_kube env) h2 of
             Inl e \<Rightarrow> Reconcile env ns name h = Some (Ret (no_result, Some e) h2)
           | Inr nd' \<Rightarrow> deadlineOf nd' = Some d \<and> e_now env h1 \<le> e_now env (TimeNow # h2) \<longrightarrow>
               (\<exists>after < 0. Reconcile env ns name h = Some (Ret (\<lparr>res_RequeueAfter = after\<rparr>, None) (TimeNow # h2)))))"
proof -
  have before: "getBeforeStatus (curStatus nd) = before"
    using assms(2) by (auto simp: before_def)
  show ?thesis
    unfolding Reconcile_in_progress [OF assms(1-4)] Let_def before h1_def [symmetric]
    by (auto split: sum.split intro!: time_Sub_neg)
qed

definition ex_late_env :: env where
  "ex_late_env = ex_env\<lparr>e_now := \<lambda>_. 9, e_kube := ex_kube\<lparr>client_GetCR :=
      \<lambda>_. Inr (setStatus NodeLaunching (setDeadline (Some 5) ex_deploy))\<rparr>\<rparr>"

theorem deadline_fallback_witness:
  "\<exists>h' after. Reconcile ex_late_env ''ns'' ''d1'' [] = Some (Ret (\<lparr>res_RequeueAfter = after\<rparr>, None) h') \<and> after < 0"
proof -
  let ?nd = "setStatus NodeLaunching (setDeadline (Some 5) ex_deploy)"
  have "client_GetCR (e_kube ex_late_env) (GetCR ''ns'' ''d1'' # []) = Inr ?nd" by (simp add: ex_late_env_def)
  from deadline_fallback [OF this, of 5] show ?thesis
    by (auto simp: ex_late_env_def echo_def Let_def)
qed

text \<open>C30: A reconciliation whose parameters fail the preflight reports the reason and writes one status:
  \<^verbatim>\<open>deprecateFail\<close> for an inactive node, whatever is desired of it, else \<^verbatim>\<open>launchFail\<close> when the node is
  to be active, else the status it already had; nothing is launched or deprecated.\<close>

theorem preflight_failure:
  assumes "client_GetCR (e_kube env) (GetCR ns name # h) = Inr nd" "wants_work nd"
    and "preflight_reason (e_kube env) nd (node_info_of nd) = Some reason"
  shows "\<exists>e h'. let s = (if curStatus nd = NodeInactive then NodeDeprecateFail
        else if specStatus nd = NodeActive then NodeLaunchFail else curStatus nd);
      text = StatusMessage_String \<lparr>msg_Phase = ''Parameter validate'', msg_Message = reason, msg_Progress = ''1/1''\<rparr> in
    Reconcile env ns name h = Some (Ret (no_result, e) h')
    \<and> h' = [StatusUpdate (if s = curStatus nd then nd else setStatus s nd),
            Event (crRef nd) EventTypeWarning EventStatusMessage text, GetCR ns name] @ h"
proof -
  have "specStatus nd \<noteq> NodeActive \<or> curStatus nd \<noteq> NodeLaunchFail" "curStatus nd \<noteq> NodeUnknown"
    "specStatus nd \<noteq> curStatus nd" "\<not> (curStatus nd = NodeLaunching \<or> curStatus nd = NodeDeprecating)"
    "\<not> (specStatus nd = NodeInactive \<and> curStatus nd = NodeDeprecateFail)"
    using assms(2) by (auto simp: wants_work_def)
  then show ?thesis
    unfolding Reconcile_found [OF assms(1)] Let_def
    by (auto simp: assms(3) preflight_failed_def crEvent_def thenM_tell status_update_def io_defs Let_def
        split: sum.split)
qed

theorem preflight_failure_witness:
  "\<exists>e h'. Reconcile (ex_env\<lparr>e_kube := ex_kube\<lparr>semver_NewVersion := \<lambda>_. Inl (ExtErr ''bad'')\<rparr>\<rparr>) ''ns'' ''d1'' []
      = Some (Ret (no_result, e) h') \<and> status_writes h' = [NodeLaunchFail]"
proof -
  let ?env = "ex_env\<lparr>e_kube := ex_kube\<lparr>semver_NewVersion := \<lambda>_. Inl (ExtErr ''bad'')\<rparr>\<rparr>"
  have "preflight_reason (e_kube ?env) ex_deploy (node_info_of ex_deploy) = Some ''invalid NodeVersion, err: bad''"
    using preflight_ex by (simp add: preflight_reason_def Let_def split: if_splits)
  from preflight_failure [OF _ wants_work_ex this] show ?thesis
    by (fastforce simp: Let_def)
qed

text \<open>C20: \<^verbatim>\<open>uint(MaxRetry)\<close> gives a limit only for a positive MaxRetry: 0 gives 0, which the retry library
  takes for no limit, and a negative value gives at least 2 to the 63 attempts, although the comment
  at the field promises that a value of at most 0 disables the retry.\<close>

theorem max_retry_conversion:
  "unat (attempts_of m) = (if 0 \<le> sint m then nat (sint m) else 2 ^ 64 - nat (- sint m))
   \<and> (attempts_of m = 0 \<longleftrightarrow> m = 0) \<and> (sint m < 0 \<longrightarrow> 2 ^ 63 \<le> unat (attempts_of m))"
proof -
  have range: "- (2 ^ 31) \<le> sint m" "sint m < 2 ^ 31"
    using sint_ge [of m] sint_lt [of m] by simp_all
  have u: "uint (attempts_of m) = sint m mod 2 ^ 64"
    unfolding attempts_of_def uint_word_of_int by simp
  have pos: "unat (attempts_of m) = nat (sint m)" if "0 \<le> sint m"
    using u range that by (simp add: unat_eq_nat_uint)
  have neg: "unat (attempts_of m) = 2 ^ 64 - nat (- sint m)" if "sint m < 0"
  proof -
    have "sint m mod 2 ^ 64 = (sint m + 2 ^ 64) mod 2 ^ 64" by simp
    also have "\<dots> = sint m + 2 ^ 64"
      using that range by (intro mod_pos_pos_trivial) simp_all
    finally have "sint m mod 2 ^ 64 = sint m + 2 ^ 64" .
    with u that range show ?thesis by (simp add: unat_eq_nat_uint)
  qed
  from pos neg attempts_of_eq_0 range show ?thesis by (cases "0 \<le> sint m") auto
qed

theorem max_retry_conversion_witness:
  "unat (attempts_of 3) = 3 \<and> 2 ^ 63 \<le> unat (attempts_of (- 1))"
  using max_retry_conversion [of 3] max_retry_conversion [of "- 1"] by simp

text \<open>C19: A MaxRetry of 0 turns a host that cannot be reached into a reconciliation that never returns:
  every attempt fails at the dial, nothing limits the attempts, and the worker of the controller is
  kept for good, whatever the API server answers.\<close>

theorem unlimited_retry_hangs:
  assumes "kube_documented (e_kube env)" and "client_GetCR (e_kube env) (GetCR ns name # h) = Inr nd"
    and "wants_work nd" "specStatus nd = NodeActive" "spec_MaxRetry (nd_Spec nd) = 0"
    and "preflight_reason (e_kube env) nd (node_info_of nd) = None"
    and "\<And>h. ssh_Dial (e_ssh env) h \<noteq> None"
  shows "Reconcile env ns name h = None"
proof -
  let ?f = "launch_attempt env (node_info_of nd)"
  have dial: "\<exists>h'. LaunchByCmd env n h = Some (Ret (Some (NewErr ''Create ssh client failed'')) h')" for n h
    using assms(7) [of "dial_of (nm_nodeInfo n) # h"] by (auto simp: LaunchByCmd_run Let_def)
  have fail: "\<exists>e v' h'. ?f v h = Some (Ret (Some e, v') h')" for v h
  proof -
    obtain nd1 s st where v: "v = (nd1, s, st)" by (cases v)
    obtain e nd2 h1 where prep: "prepare env nd1 NodeLaunching h = Some (Ret (e, nd2) h1)"
      using prepare_returns by blast
    obtain h2 where "LaunchByCmd env (New nd2 (node_info_of nd)) h1 = Some (Ret (Some (NewErr ''Create ssh client failed'')) h2)"
      using dial by blast
    then have "launchNode env nd2 (node_info_of nd) h1 = Some (Ret (False, Some (NewErr ''Create ssh client failed'')) h2)"
      by (simp add: launchNode_def bindM_run ret_def)
    then show ?thesis
      unfolding v launch_attempt_def prod.case bindM_run [of "prepare env nd1 NodeLaunching", OF prep]
      by (cases e) (auto simp: bindM_run ret_def intro: exI [of _ False])
  qed
  have never: "\<not> retried 0 ?f v h r" for v h r
  proof
    assume "retried 0 ?f v h r"
    then show False
    proof (induction "0::nat" ?f v h r rule: retried.induct)
      case (success v h v' h')
      then show ?case using fail [of v h] by simp
    next
      case (panic v h msg h')
      then show ?case using fail [of v h] by simp
    qed simp_all
  qed
  have "retry_documented (retry_Do (e_kube env))" using assms(1) by (simp add: kube_documented_def)
  then have "retry_Do (e_kube env) 0 ?f v h = None" for v h
    using retry_documentedD [of "retry_Do (e_kube env)" 0 ?f v h] never by (cases "retry_Do (e_kube env) 0 ?f v h") auto
  then show ?thesis
    using assms(4,5) unfolding Reconcile_drives [OF assms(2,3,6)]
    by (simp add: drive_def retry_and_finalize_def attempts_of_def bindM_def)
qed

definition ex_hang_env :: env where
  "ex_hang_env = ex_env\<lparr>e_ssh := ex_ssh\<lparr>ssh_Dial := \<lambda>_. Some (ExtErr ''no route to host'')\<rparr>,
     e_kube := ex_kube\<lparr>client_GetCR := \<lambda>_. Inr (ex_deploy\<lparr>nd_Spec := ex_spec\<lparr>spec_MaxRetry := 0\<rparr>\<rparr>)\<rparr>\<rparr>"

theorem unlimited_retry_hangs_witness: "Reconcile ex_hang_env ''ns'' ''d1'' [] = None"
proof (rule unlimited_retry_hangs)
  let ?nd = "ex_deploy\<lparr>nd_Spec := ex_spec\<lparr>spec_MaxRetry := 0\<rparr>\<rparr>"
  show "client_GetCR (e_kube ex_hang_env) (GetCR ''ns'' ''d1'' # []) = Inr ?nd" by (simp add: ex_hang_env_def)
  show "kube_documented (e_kube ex_hang_env)"
    using kube_documented_ex by (simp add: ex_hang_env_def kube_documented_def)
  show "wants_work ?nd" using wants_work_ex by (simp add: wants_work_def)
  show "preflight_reason (e_kube ex_hang_env) ?nd (node_info_of ?nd) = None"
    using preflight_ex
    by (simp add: ex_hang_env_def preflight_reason_def node_info_of_def Let_def split: if_splits)
qed (simp_all add: ex_hang_env_def)

text \<open>C32: A NodeDeploy of an unknown node type takes the controller down: the first attempt writes
  \<^verbatim>\<open>launching\<close> and then panics on the nil interface, the panic is not recovered, and the status is
  never finalized.\<close>

theorem unknown_type_crashes_reconcile:
  assumes "kube_documented (e_kube env)" and "client_GetCR (e_kube env) (GetCR ns name # h) = Inr nd"
    and "wants_work nd" "specStatus nd = NodeActive" "spec_NodeType (nd_Spec nd) \<notin> {NodeWork, NodeKubeedge}"
    and "preflight_reason (e_kube env) nd (node_info_of nd) = None"
    and "\<And>h. ssh_Dial (e_ssh env) h = None" "\<And>nd h. client_StatusUpdate (e_kube env) (StatusUpdate nd # h) = Inr nd"
  shows "\<exists>h'. Reconcile env ns name h = Some (Crash nil_deref h')
    \<and> status_writes h' = status_writes h @ [NodeLaunching]"
proof -
  let ?f = "launch_attempt env (node_info_of nd)"
  have info: "info_NodeType (node_info_of nd) \<notin> {NodeWork, NodeKubeedge}"
    using assms(5) by (simp add: node_info_of_def Let_def)
  have launch: "\<exists>h'. launchNode env nd' (node_info_of nd) h = Some (Crash nil_deref h')" for nd' h
    using info assms(7) by (auto simp: launchNode_def bindM_def [of "LaunchByCmd _ _"] LaunchByCmd_run Let_def New_def
        select_join_def logMessage_def thenM_tell crash_def)
  have crash: "\<exists>h'. ?f (nd', s, st) h = Some (Crash nil_deref h')" for nd' s st h
  proof -
    obtain e nd2 h1 where prep: "prepare env nd' NodeLaunching h = Some (Ret (e, nd2) h1)"
      using prepare_returns by blast
    moreover from this assms(8) have "e = None"
      by (auto simp: prepare_def status_update_def crEvent_def run_simps Let_def)
    ultimately show ?thesis
      using launch [of nd2 h1] unfolding launch_attempt_def prod.case bindM_run [of "prepare env nd' NodeLaunching", OF prep]
      by (auto simp: bindM_def [of "launchNode _ _ _"])
  qed
  have doc: "retry_documented (retry_Do (e_kube env))" using assms(1) by (simp add: kube_documented_def)
  let ?n = "attempts_of (spec_MaxRetry (nd_Spec nd))" and ?h = "GetCR ns name # h"
  obtain h' where f: "?f (nd, True, NodeUnknown) ?h = Some (Crash nil_deref h')" using crash by blast
  then have "retried (unat ?n) ?f (nd, True, NodeUnknown) ?h (Crash nil_deref h')" by (rule retried.panic)
  with doc obtain r where Do: "retry_Do (e_kube env) ?n ?f (nd, True, NodeUnknown) ?h = Some r"
    unfolding retry_documented_def by blast
  from retry_documentedD [OF doc Do] f have r: "r = Crash nil_deref h'"
    by (cases rule: retried.cases) auto
  have "status_writes h' = status_writes ?h @ [NodeLaunching]"
    using wp_CrashD [OF launch_attempt_law [OF assms(1) kept_refl] f] .
  moreover have "Reconcile env ns name h = Some (Crash nil_deref h')"
    using Do assms(4) unfolding Reconcile_drives [OF assms(2,3,6)] r
    by (simp add: drive_def retry_and_finalize_def bindM_def [of "retry_Do _ _ _ _"])
  ultimately show ?thesis by simp
qed

definition ex_master_env :: env where
  "ex_master_env = ex_env\<lparr>e_kube := ex_kube\<lparr>client_GetCR := \<lambda>_. Inr (ex_deploy\<lparr>nd_Spec := ex_spec\<lparr>spec_NodeType := ''master''\<rparr>\<rparr>)\<rparr>\<rparr>"

theorem unknown_type_crashes_reconcile_witness:
  "\<exists>h'. Reconcile ex_master_env ''ns'' ''d1'' [] = Some (Crash nil_deref h') \<and> status_writes h' = [NodeLaunching]"
proof -
  let ?nd = "ex_deploy\<lparr>nd_Spec := ex_spec\<lparr>spec_NodeType := ''master''\<rparr>\<rparr>"
  have "kube_documented (e_kube ex_master_env)"
    using kube_documented_ex by (simp add: ex_master_env_def kube_documented_def)
  moreover have "client_GetCR (e_kube ex_master_env) (GetCR ''ns'' ''d1'' # []) = Inr ?nd" by (simp add: ex_master_env_def)
  moreover have "wants_work ?nd" using wants_work_ex by (simp add: wants_work_def)
  moreover have "preflight_reason (e_kube ex_master_env) ?nd (node_info_of ?nd) = None"
    using preflight_ex
    by (simp add: ex_master_env_def preflight_reason_def node_info_of_def Let_def split: if_splits)
  ultimately show ?thesis
    using unknown_type_crashes_reconcile [of ex_master_env "''ns''" "''d1''" "[]" ?nd]
    by (simp add: ex_master_env_def node_type_defs echo_def)
qed

text \<open>C13: No reconciliation writes a final status without a reason, in any of its writes, on return and on
  panic. Each \<^verbatim>\<open>active\<close> it writes follows, to the same object, a launch that the object asks for and
  that was carried out completely; or it is the timeout of a \<^verbatim>\<open>deprecating\<close> that was read, whose
  deadline has passed; or it rewrites the object as it was read, when that was not to be active and
  has failed the preflight. Each \<^verbatim>\<open>inactive\<close> follows a removal that the object asks for and that was
  carried out completely, or is the timeout of a \<^verbatim>\<open>launching\<close> that was read.\<close>

theorem final_status_after_work:
  assumes "kube_documented (e_kube env)" "updates_documented (e_kube env)"
    and "client_GetCR (e_kube env) (GetCR ns name # h) = Inr nd"
  defines "read \<equiv> GetCR ns name # h"
    and "expired \<equiv> \<lambda>busy h1. curStatus nd = busy
      \<and> (\<exists>d e. deadlineOf nd = Some d \<and> d < e_now env (TimeNow # GetCR ns name # h) \<and> h1 = e # TimeNow # GetCR ns name # h)"
  defines "reasons \<equiv> \<lambda>h'. \<forall>nd' h1. later read h1 \<and> later (StatusUpdate nd' # h1) h' \<longrightarrow>
      (curStatus nd' = NodeActive \<longrightarrow>
         specStatus nd = NodeActive \<and> same_deploy nd nd' \<and> (\<exists>e h2. h1 = e # h2 \<and> brought_in env nd read h2)
         \<or> expired NodeDeprecating h1 \<and> nd' = setStatus NodeActive nd
         \<or> nd' = nd \<and> specStatus nd \<noteq> NodeActive \<and> preflight_reason (e_kube env) nd (node_info_of nd) \<noteq> None)
      \<and> (curStatus nd' = NodeInactive \<longrightarrow>
         specStatus nd = NodeInactive \<and> same_deploy nd nd' \<and> (\<exists>e h2. h1 = e # h2 \<and> taken_out env nd read h2)
         \<or> expired NodeLaunching h1 \<and> nd' = setStatus NodeInactive nd)"
  shows "wp (Reconcile env ns name) (\<lambda>_. reasons) (\<lambda>_. reasons) h"
  using wp_Reconcile_backed [OF assms(1-3)]
  by (rule wp_mono)
    (auto simp: backed_def final_backed_def timed_out_def reasons_def read_def expired_def)

theorem final_status_after_work_witness:
  "\<exists>h' r. Reconcile ex_env ''ns'' ''d1'' [] = Some (Ret r h')
    \<and> (\<exists>nd' h2 e. h' = StatusUpdate nd' # e # h2 \<and> curStatus nd' = NodeActive
      \<and> brought_in ex_env ex_deploy [GetCR ''ns'' ''d1''] h2)"
proof -
  have doc: "kube_documented (e_kube ex_env)" "updates_documented (e_kube ex_env)"
    and get: "client_GetCR (e_kube ex_env) (GetCR ''ns'' ''d1'' # []) = Inr ex_deploy"
    by (simp_all add: kube_documented_ex updates_documented_echo echo_def)
  from reconcile_active_ex obtain h' nd' h1 where run: "Reconcile ex_env ''ns'' ''d1'' [] = Some (Ret (no_result, None) h')"
    and h': "h' = StatusUpdate nd' # h1" "later [GetCR ''ns'' ''d1''] h1" "curStatus nd' = NodeActive" by blast
  have "specStatus ex_deploy = NodeActive" by simp
  moreover have "curStatus ex_deploy \<noteq> NodeDeprecating" using wants_work_ex by (simp add: wants_work_def)
  moreover have "later (StatusUpdate nd' # h1) h'" by (simp add: h'(1))
  ultimately obtain e h2 where "h1 = e # h2" "brought_in ex_env ex_deploy [GetCR ''ns'' ''d1''] h2"
    using wp_RetD [OF final_status_after_work [OF doc get] run] h'(2,3) by blast
  with run h' show ?thesis by blast
qed

end
